(* ===== verification/Prelude.thy ===== *)
theory Prelude
  imports Main "HOL-Library.Word" "HOL-Library.Finite_Map" "HOL-Library.Sublist"
begin

text \<open>
  What the components share: the parts of Go's standard library the operator calls as pure
  functions (package \<open>strings\<close>: \<open>Join\<close>, \<open>Split\<close>; package \<open>strconv\<close>: \<open>Itoa\<close>, \<open>FormatBool\<close>; the
  constants of package \<open>time\<close>), the Go error value, and the general lemmas on strings and finite
  maps. A Go \<open>string\<close> is a \<open>string\<close> (a list of bytes), a \<open>map[string]T\<close> a finite map, a pointer an
  \<open>option\<close>, an \<open>int64\<close> or \<open>int\<close> a \<open>64 word\<close> and an \<open>int32\<close> a \<open>32 word\<close>, read as signed.
\<close>

section \<open>Collections of facts\<close>

named_theorems builder_defs \<open>definitions of the functions that build Kubernetes objects\<close>
named_theorems wp_simps \<open>weakest preconditions of the operations of the reconciler\<close>

section \<open>Machine integers, maps and errors\<close>

type_synonym int64 = "64 word"
type_synonym int32 = "32 word"
type_synonym 'v gomap = "(string, 'v) fmap"

text \<open>
  An error value is modelled by what the operator observes of it: its text, and the answer of
  \<open>errors.IsAlreadyExists\<close> (package \<open>k8s.io/apimachinery/pkg/api/errors\<close>).
\<close>

record goerror =
  err_text :: string
  IsAlreadyExists :: bool

text \<open>
  \<open>err != nil && !errors.IsAlreadyExists(err)\<close>, the test that follows every \<open>r.Create\<close>.
\<close>

fun create_failed :: "goerror option \<Rightarrow> bool" where
  "create_failed None = False"
| "create_failed (Some e) = (\<not> IsAlreadyExists e)"

text \<open>The zero value of a Go map read at a missing key is the zero value of its type.\<close>

definition gomap_get :: "string gomap \<Rightarrow> string \<Rightarrow> string" where
  "gomap_get m k = (case fmlookup m k of None \<Rightarrow> '''' | Some v \<Rightarrow> v)"

lemma gomap_get_literal [simp]:
  "gomap_get (fmap_of_list xs) k = (case map_of xs k of None \<Rightarrow> '''' | Some v \<Rightarrow> v)"
  by (simp add: gomap_get_def fmlookup_of_list)

lemma gomap_get_empty [simp]: "gomap_get fmempty k = ''''"
  by (simp add: gomap_get_def)

section \<open>Durations: nanoseconds\<close>

type_synonym Duration = int

definition Second :: Duration where "Second = 1000000000"
definition Minute :: Duration where "Minute = 60 * Second"

lemma Second_pos [simp]: "0 < Second" by (simp add: Second_def)
lemma Minute_pos [simp]: "0 < Minute" by (simp add: Minute_def)

section \<open>Package strconv\<close>

text \<open>Decimal digits of a natural number, most significant first.\<close>

definition digit_char :: "nat \<Rightarrow> char" where
  "digit_char d = char_of (48 + d)"

fun nat_digits :: "nat \<Rightarrow> string" where
  "nat_digits n = (if n < 10 then [digit_char n] else nat_digits (n div 10) @ [digit_char (n mod 10)])"

declare nat_digits.simps [simp del]

definition Itoa :: "int \<Rightarrow> string" where
  "Itoa i = (if i < 0 then ''-'' @ nat_digits (nat (- i)) else nat_digits (nat i))"

definition FormatBool :: "bool \<Rightarrow> string" where
  "FormatBool b = (if b then ''true'' else ''false'')"

text \<open>The reader that shows \<open>Itoa\<close> loses nothing.\<close>

definition digit_val :: "char \<Rightarrow> nat" where
  "digit_val c = of_char c - 48"

definition digits_val :: "string \<Rightarrow> nat" where
  "digits_val cs = foldl (\<lambda>a c. 10 * a + digit_val c) 0 cs"

lemma digit_val_digit_char: "d < 10 \<Longrightarrow> digit_val (digit_char d) = d"
  by (simp add: digit_val_def digit_char_def of_char_of)

lemma digits_val_nat_digits: "digits_val (nat_digits n) = n"
proof (induction n rule: nat_digits.induct)
  case (1 n)
  show ?case
  proof (cases "n < 10")
    case True
    then show ?thesis by (subst nat_digits.simps) (simp add: digits_val_def digit_val_digit_char)
  next
    case False
    with 1 have "digits_val (nat_digits (n div 10)) = n div 10" by simp
    with False show ?thesis
      by (subst nat_digits.simps) (simp add: digits_val_def digit_val_digit_char)
  qed
qed

lemma nat_digits_inj: "nat_digits m = nat_digits n \<longleftrightarrow> m = n"
  by (metis digits_val_nat_digits)

lemma nat_digits_set: "set (nat_digits n) \<subseteq> digit_char ` {..<10}"
proof (induction n rule: nat_digits.induct)
  case (1 n)
  then show ?case by (subst nat_digits.simps) auto
qed

lemma digit_char_neq_minus: "d < 10 \<Longrightarrow> digit_char d \<noteq> CHR ''-''"
proof
  assume "d < 10" and "digit_char d = CHR ''-''"
  then have "(of_char (digit_char d) :: nat) = 45" by simp
  with \<open>d < 10\<close> show False by (simp add: digit_char_def of_char_of)
qed

lemma nat_digits_no_minus: "CHR ''-'' \<notin> set (nat_digits n)"
  using nat_digits_set [of n] digit_char_neq_minus by force

lemma nat_digits_nonempty [simp]: "nat_digits n \<noteq> []"
  by (subst nat_digits.simps) simp

lemma Itoa_inj: "Itoa i = Itoa j \<longleftrightarrow> i = j"
proof
  assume eq: "Itoa i = Itoa j"
  have no_lead: "nat_digits n \<noteq> CHR ''-'' # xs" for n xs
    using nat_digits_no_minus [of n] by auto
  show "i = j"
    using eq no_lead no_lead [symmetric]
    by (auto simp: Itoa_def nat_digits_inj split: if_splits)
qed simp

section \<open>Package strings\<close>

fun strings_Join :: "string list \<Rightarrow> string \<Rightarrow> string" where
  "strings_Join [] sep = ''''"
| "strings_Join [x] sep = x"
| "strings_Join (x # y # xs) sep = x @ sep @ strings_Join (y # xs) sep"

text \<open>
  \<open>strings.Split\<close> with a non-empty separator: the pieces between its non-overlapping occurrences,
  left to right. \<open>acc\<close> holds the current piece in reverse. Go splits after every UTF-8 sequence
  when the separator is empty; the operator never does that, and the model then splits after every
  byte.
\<close>

function split_from :: "string \<Rightarrow> string \<Rightarrow> string \<Rightarrow> string list" where
  "split_from sep acc [] = [rev acc]"
| "split_from sep acc (c # cs) =
     (if sep \<noteq> [] \<and> prefix sep (c # cs)
      then rev acc # split_from sep [] (drop (length sep) (c # cs))
      else split_from sep (c # acc) cs)"
  by pat_completeness auto
termination
  by (relation "measure (\<lambda>(sep, acc, s). length s)") auto

definition strings_Split :: "string \<Rightarrow> string \<Rightarrow> string list" where
  "strings_Split s sep = (if sep = [] then map (\<lambda>c. [c]) s else split_from sep [] s)"

lemma split_from_nonempty [simp]: "split_from sep acc s \<noteq> []"
  by (induction sep acc s rule: split_from.induct) auto

lemma strings_Join_Cons: "xs \<noteq> [] \<Longrightarrow> strings_Join (x # xs) sep = x @ sep @ strings_Join xs sep"
  by (cases xs) auto

lemma join_split_from: "strings_Join (split_from sep acc s) sep = rev acc @ s"
proof (induction sep acc s rule: split_from.induct)
  case (2 sep acc c cs)
  then show ?case
    by (auto simp: strings_Join_Cons prefix_def)
qed simp

lemma Split_nonempty: "sep \<noteq> [] \<Longrightarrow> strings_Split s sep \<noteq> []"
  by (simp add: strings_Split_def)

lemma Join_Split: "sep \<noteq> [] \<Longrightarrow> strings_Join (strings_Split s sep) sep = s"
  by (simp add: strings_Split_def join_split_from)

text \<open>With a separator of one byte, no piece holds it: the pieces are the longest ones.\<close>

lemma split_from_char_pieces:
  "c \<notin> set acc \<Longrightarrow> \<forall>p \<in> set (split_from [c] acc s). c \<notin> set p"
  by (induction "[c]" acc s rule: split_from.induct) auto

lemma split_from_char_hd:
  "hd (split_from [c] acc s) = rev acc @ takeWhile (\<lambda>x. x \<noteq> c) s"
  by (induction "[c]" acc s rule: split_from.induct) auto

lemma split_from_char_last:
  "c \<notin> set t \<Longrightarrow> last (split_from [c] acc (s @ c # t)) = t"
proof (induction s arbitrary: acc)
  case Nil
  have "split_from [c] b t = [rev b @ t]" if "c \<notin> set t" for b
    using that by (induction t arbitrary: b) auto
  with Nil show ?case by simp
qed auto

lemma Split_char_hd: "hd (strings_Split s [c]) = takeWhile (\<lambda>x. x \<noteq> c) s"
  by (simp add: strings_Split_def split_from_char_hd)

end
