(* ===== verification/Jira_Types.thy ===== *)
theory Jira_Types
  imports Prelude
begin

text \<open>
  The custom resource of the operator (\<open>api/v1/jira_types.go\<close>), one record per struct with the
  fields in the order of the source, and the parts of the Kubernetes object metadata
  (\<open>metav1.TypeMeta\<close>, \<open>metav1.ObjectMeta\<close>, \<open>metav1.OwnerReference\<close>) that the operator reads or sets.
  A field whose Go name is used by several structs carries a prefix; the fields of \<open>ObjectMeta\<close>
  have none.
\<close>

section \<open>Object metadata\<close>

record TypeMeta =
  APIVersion :: string
  Kind :: string

record OwnerReference =
  or_APIVersion :: string
  or_Kind :: string
  or_Name :: string
  or_UID :: string
  BlockOwnerDeletion :: "bool option"
  Controller :: "bool option"

record ObjectMeta =
  Name :: string
  Namespace :: string
  UID :: string
  Labels :: "string gomap"
  Annotations :: "string gomap"
  OwnerReferences :: "OwnerReference list"

text \<open>\<open>metav1.ObjectMeta{}\<close> and \<open>metav1.ObjectMeta{Name: n, Namespace: ns}\<close>: the other fields are zero.\<close>

definition zero_ObjectMeta :: ObjectMeta where
  "zero_ObjectMeta = \<lparr>Name = '''', Namespace = '''', UID = '''', Labels = fmempty,
     Annotations = fmempty, OwnerReferences = []\<rparr>"

lemma zero_ObjectMeta_simps [simp]:
  "Name zero_ObjectMeta = ''''" "Namespace zero_ObjectMeta = ''''" "UID zero_ObjectMeta = ''''"
  "Labels zero_ObjectMeta = fmempty" "Annotations zero_ObjectMeta = fmempty"
  "OwnerReferences zero_ObjectMeta = []"
  by (simp_all add: zero_ObjectMeta_def)

section \<open>The specification\<close>

record DatabaseSpec =
  DBInstanceClass :: string
  AllocatedStorage :: int64
  Engine :: string
  EngineVersion :: string
  SnapshotID :: string

record FsxSpec =
  fsx_SnapshotId :: string
  FsxRestoreStorageClassName :: string
  FsxVolumeSnapshotClassName :: string
  FsxCsiDriverName :: string

record EfsSpec =
  EfsStorageClassName :: string
  EfsCsiDriverName :: string

record EbsSpec =
  EbsStorageClassName :: string
  EbsFsType :: string
  ebs_SnapshotId :: string
  AvailabilityZone :: string

record SharedFS =
  VolumeSize :: int64
  Ebs :: EbsSpec
  Efs :: EfsSpec
  Fsx :: FsxSpec

record HelmValues =
  GitRepo :: string
  GitRevision :: string
  HelmValuesFiles :: "string list"
  ValueOverrides :: string

record HelmChart =
  Version :: string
  RepoURL :: string

record SyncPolicy =
  AutoSync :: bool
  ApplyOutOfSyncOnly :: bool

record ArgoCDSpec =
  argo_HelmValues :: HelmValues
  argo_HelmChart :: HelmChart
  argo_Namespace :: string
  Project :: string
  argo_SyncPolicy :: SyncPolicy
  argo_RetainOnDelete :: bool

record Network =
  SubnetIDs :: "string list"
  SecurityGroupIds :: "string list"

record JiraSpec =
  AWSRegion :: string
  RetainOnDelete :: bool
  Database :: DatabaseSpec
  Hostname :: string
  CrossplaneAwsProviderName :: string
  ArgoCD :: ArgoCDSpec
  spec_SharedFS :: SharedFS
  spec_Network :: Network
  KMSKeyId :: string
  RdsRoleArn :: string

section \<open>The status\<close>

record RDSStatus =
  rds_Status :: string
  rds_Endpoint :: string
  LiquibaseJobStatus :: string
  ResetRdsCredsJobStatus :: string

record AppStatus =
  Health :: string
  Sync :: string

record SharedFilesystemStatus =
  EfsId :: string
  EbsId :: string
  FsxId :: string

record JiraStatus =
  RDS :: RDSStatus
  status_AppStatus :: AppStatus
  status_SharedFs :: SharedFilesystemStatus

record Jira =
  jira_TypeMeta :: TypeMeta
  jira_ObjectMeta :: ObjectMeta
  Spec :: JiraSpec
  Status :: JiraStatus

section \<open>Reading and assigning nested fields\<close>

text \<open>\<open>jira.Name\<close> and \<open>string(jira.UID)\<close> (the embedded \<open>ObjectMeta\<close>).\<close>

definition jira_Name :: "Jira \<Rightarrow> string" where
  "jira_Name jira = Name (jira_ObjectMeta jira)"

definition jira_UID :: "Jira \<Rightarrow> string" where
  "jira_UID jira = UID (jira_ObjectMeta jira)"

text \<open>The assignments \<open>jira.Status.RDS.Status = s\<close> and so on of the reconciler.\<close>

definition set_RDS :: "(RDSStatus \<Rightarrow> RDSStatus) \<Rightarrow> Jira \<Rightarrow> Jira" where
  "set_RDS f jira = jira\<lparr>Status := (Status jira)\<lparr>RDS := f (RDS (Status jira))\<rparr>\<rparr>"

definition set_AppStatus :: "(AppStatus \<Rightarrow> AppStatus) \<Rightarrow> Jira \<Rightarrow> Jira" where
  "set_AppStatus f jira =
     jira\<lparr>Status := (Status jira)\<lparr>status_AppStatus := f (status_AppStatus (Status jira))\<rparr>\<rparr>"

definition set_SharedFs :: "(SharedFilesystemStatus \<Rightarrow> SharedFilesystemStatus) \<Rightarrow> Jira \<Rightarrow> Jira" where
  "set_SharedFs f jira =
     jira\<lparr>Status := (Status jira)\<lparr>status_SharedFs := f (status_SharedFs (Status jira))\<rparr>\<rparr>"

text \<open>Assigning the status never touches what the object is or what was asked of it.\<close>

lemma set_status_frame [simp]:
  "jira_ObjectMeta (set_RDS f jira) = jira_ObjectMeta jira"
  "jira_ObjectMeta (set_AppStatus g jira) = jira_ObjectMeta jira"
  "jira_ObjectMeta (set_SharedFs h jira) = jira_ObjectMeta jira"
  "jira_TypeMeta (set_RDS f jira) = jira_TypeMeta jira"
  "jira_TypeMeta (set_AppStatus g jira) = jira_TypeMeta jira"
  "jira_TypeMeta (set_SharedFs h jira) = jira_TypeMeta jira"
  "Spec (set_RDS f jira) = Spec jira"
  "Spec (set_AppStatus g jira) = Spec jira"
  "Spec (set_SharedFs h jira) = Spec jira"
  by (simp_all add: set_RDS_def set_AppStatus_def set_SharedFs_def)

lemma jira_Name_frame [simp]:
  "jira_Name (set_RDS f jira) = jira_Name jira"
  "jira_Name (set_AppStatus g jira) = jira_Name jira"
  "jira_Name (set_SharedFs h jira) = jira_Name jira"
  "jira_UID (set_RDS f jira) = jira_UID jira"
  "jira_UID (set_AppStatus g jira) = jira_UID jira"
  "jira_UID (set_SharedFs h jira) = jira_UID jira"
  by (simp_all add: jira_Name_def jira_UID_def)

text \<open>
  Two states of the resource are the same request when they agree on everything but the status.
\<close>

definition same_request :: "Jira \<Rightarrow> Jira \<Rightarrow> bool" where
  "same_request a b \<longleftrightarrow> jira_TypeMeta a = jira_TypeMeta b \<and> jira_ObjectMeta a = jira_ObjectMeta b
     \<and> Spec a = Spec b"

lemma same_request_refl [simp]: "same_request a a"
  by (simp add: same_request_def)

lemma same_request_trans: "same_request a b \<Longrightarrow> same_request b c \<Longrightarrow> same_request a c"
  by (simp add: same_request_def)

lemma same_request_set [simp]:
  "same_request a (set_RDS f b) = same_request a b"
  "same_request a (set_AppStatus g b) = same_request a b"
  "same_request a (set_SharedFs h b) = same_request a b"
  "same_request (set_RDS f a) b = same_request a b"
  "same_request (set_AppStatus g a) b = same_request a b"
  "same_request (set_SharedFs h a) b = same_request a b"
  by (simp_all add: same_request_def)

lemma same_request_Name: "same_request a b \<Longrightarrow> jira_Name b = jira_Name a"
  by (simp add: same_request_def jira_Name_def)

lemma same_request_UID: "same_request a b \<Longrightarrow> jira_UID b = jira_UID a"
  by (simp add: same_request_def jira_UID_def)

lemma same_request_Spec: "same_request a b \<Longrightarrow> Spec b = Spec a"
  by (simp add: same_request_def)

end
