(* ===== verification/Kube_Types.thy ===== *)
theory Kube_Types
  imports Jira_Types
begin

text \<open>
  The Kubernetes and Crossplane objects the operator creates and reads: one record per Go struct,
  with the fields the operator sets or reads (all others keep their zero value and are left out),
  and their sum \<open>kobj\<close> with the key an object is stored under. The structs are declared in
  \<open>k8s.io/api\<close>, \<open>provider-aws\<close>, \<open>crossplane-runtime\<close> and \<open>external-snapshotter\<close>; the fields are
  the ones the composite literals in \<open>k8s/\<close> and \<open>crossplane/\<close> and the reads in
  \<open>controllers/status.go\<close> name. A \<open>resource.Quantity\<close> is its canonical text.
\<close>

section \<open>Core: scheduling\<close>

record NodeSelectorRequirement =
  Key :: string
  Operator :: string
  Values :: "string list"

record NodeSelectorTerm =
  MatchExpressions :: "NodeSelectorRequirement list"

record NodeSelector =
  NodeSelectorTerms :: "NodeSelectorTerm list"

record VolumeNodeAffinity =
  Required :: "NodeSelector option"

record NodeAffinity =
  RequiredDuringSchedulingIgnoredDuringExecution :: "NodeSelector option"

record Affinity =
  aff_NodeAffinity :: "NodeAffinity option"

section \<open>Core: pods\<close>

record SecretKeySelector =
  sks_Name :: string
  sks_Key :: string

record EnvVarSource =
  SecretKeyRef :: "SecretKeySelector option"

record EnvVar =
  env_Name :: string
  ValueFrom :: "EnvVarSource option"

record Capabilities =
  Add :: "string list"

record SecurityContext =
  sc_Capabilities :: "Capabilities option"

record ContainerPort =
  cport_Name :: string
  ContainerPort :: int32
  cport_Protocol :: string

record VolumeMount =
  vm_Name :: string
  MountPath :: string
  SubPath :: string

record ExecAction =
  exec_Command :: "string list"

record Probe =
  Exec :: "ExecAction option"
  InitialDelaySeconds :: int32
  PeriodSeconds :: int32
  FailureThreshold :: int32

record Container =
  ctr_Name :: string
  Image :: string
  Command :: "string list"
  Args :: "string list"
  Env :: "EnvVar list"
  ctr_SecurityContext :: "SecurityContext option"
  ctr_Ports :: "ContainerPort list"
  VolumeMounts :: "VolumeMount list"
  ReadinessProbe :: "Probe option"

record PersistentVolumeClaimVolumeSource =
  ClaimName :: string

record SecretVolumeSource =
  SecretName :: string

record ConfigMapVolumeSource =
  cmvs_Name :: string

record VolumeSource =
  vs_PersistentVolumeClaim :: "PersistentVolumeClaimVolumeSource option"
  vs_Secret :: "SecretVolumeSource option"
  vs_ConfigMap :: "ConfigMapVolumeSource option"

record Volume =
  vol_Name :: string
  vol_VolumeSource :: VolumeSource

record PodSpec =
  ServiceAccountName :: string
  TerminationGracePeriodSeconds :: "int64 option"
  pod_Affinity :: "Affinity option"
  Volumes :: "Volume list"
  Containers :: "Container list"
  RestartPolicy :: string

record PodTemplateSpec =
  tpl_ObjectMeta :: ObjectMeta
  tpl_Spec :: PodSpec

record PodStatus =
  pod_Phase :: string

record Pod =
  pod_ObjectMeta :: ObjectMeta
  pod_Status :: PodStatus

text \<open>Zero values of the structs whose literals leave most fields out.\<close>

definition zero_Container :: Container where
  "zero_Container = \<lparr>ctr_Name = '''', Image = '''', Command = [], Args = [], Env = [],
     ctr_SecurityContext = None, ctr_Ports = [], VolumeMounts = [], ReadinessProbe = None\<rparr>"

definition zero_VolumeSource :: VolumeSource where
  "zero_VolumeSource = \<lparr>vs_PersistentVolumeClaim = None, vs_Secret = None, vs_ConfigMap = None\<rparr>"

definition zero_PodSpec :: PodSpec where
  "zero_PodSpec = \<lparr>ServiceAccountName = '''', TerminationGracePeriodSeconds = None,
     pod_Affinity = None, Volumes = [], Containers = [], RestartPolicy = ''''\<rparr>"

section \<open>Core: configuration and workloads\<close>

record NamespaceObj =
  ns_ObjectMeta :: ObjectMeta

record Secret =
  secret_ObjectMeta :: ObjectMeta
  secret_Data :: "string gomap"

record ConfigMap =
  cm_ObjectMeta :: ObjectMeta
  cm_Data :: "string gomap"

record ServiceAccount =
  sa_ObjectMeta :: ObjectMeta

record JobSpec =
  BackoffLimit :: "int32 option"
  job_Template :: PodTemplateSpec

record JobStatus =
  Succeeded :: int32

record Job =
  job_ObjectMeta :: ObjectMeta
  job_Spec :: JobSpec
  job_Status :: JobStatus

record ServicePort =
  sport_Name :: string
  sport_Protocol :: string
  Port :: int32

record ServiceSpec =
  svc_Ports :: "ServicePort list"
  svc_Selector :: "string gomap"
  svc_Type :: string
  ClusterIP :: string

record Service =
  svc_ObjectMeta :: ObjectMeta
  svc_Spec :: ServiceSpec

record LabelSelector =
  MatchLabels :: "string gomap"

record StatefulSetSpec =
  UpdateStrategy :: string
  Replicas :: "int32 option"
  sts_Selector :: "LabelSelector option"
  sts_Template :: PodTemplateSpec
  ServiceName :: string

record StatefulSetStatus =
  ReadyReplicas :: int32

record StatefulSet =
  sts_ObjectMeta :: ObjectMeta
  sts_Spec :: StatefulSetSpec
  sts_Status :: StatefulSetStatus

section \<open>Core: storage\<close>

type_synonym Quantity = string

record ObjectReference =
  oref_Kind :: string
  oref_Namespace :: string
  oref_Name :: string

record NFSVolumeSource =
  Server :: string
  Path :: string

record CSIPersistentVolumeSource =
  csi_Driver :: string
  VolumeHandle :: string
  ReadOnly :: bool

record AWSElasticBlockStoreVolumeSource =
  VolumeID :: string
  FSType :: string

record PersistentVolumeSource =
  NFS :: "NFSVolumeSource option"
  CSI :: "CSIPersistentVolumeSource option"
  AWSElasticBlockStore :: "AWSElasticBlockStoreVolumeSource option"

record PersistentVolumeSpec =
  Capacity :: "Quantity gomap"
  pv_Source :: PersistentVolumeSource
  pv_AccessModes :: "string list"
  ClaimRef :: "ObjectReference option"
  PersistentVolumeReclaimPolicy :: string
  pv_StorageClassName :: string
  pv_NodeAffinity :: "VolumeNodeAffinity option"

record PersistentVolume =
  pv_ObjectMeta :: ObjectMeta
  pv_Spec :: PersistentVolumeSpec

record TypedLocalObjectReference =
  APIGroup :: "string option"
  tlor_Kind :: string
  tlor_Name :: string

record PersistentVolumeClaimSpec =
  pvc_AccessModes :: "string list"
  Requests :: "Quantity gomap"
  VolumeName :: string
  pvc_StorageClassName :: "string option"
  DataSource :: "TypedLocalObjectReference option"

record PersistentVolumeClaimStatus =
  Phase :: string

record PersistentVolumeClaim =
  pvc_ObjectMeta :: ObjectMeta
  pvc_Spec :: PersistentVolumeClaimSpec
  pvc_Status :: PersistentVolumeClaimStatus

definition zero_PersistentVolumeSource :: PersistentVolumeSource where
  "zero_PersistentVolumeSource = \<lparr>NFS = None, CSI = None, AWSElasticBlockStore = None\<rparr>"

section \<open>CSI snapshots\<close>

record VolumeSnapshotContentSpec =
  VolumeSnapshotRef :: ObjectReference
  vsc_Driver :: string
  vsc_VolumeSnapshotClassName :: "string option"
  SnapshotHandle :: "string option"
  vsc_DeletionPolicy :: string

record VolumeSnapshotContent =
  vsc_ObjectMeta :: ObjectMeta
  vsc_Spec :: VolumeSnapshotContentSpec

record VolumeSnapshotSpec =
  VolumeSnapshotContentName :: "string option"
  vsnap_VolumeSnapshotClassName :: "string option"

record VolumeSnapshot =
  vsnap_ObjectMeta :: ObjectMeta
  vsnap_Spec :: VolumeSnapshotSpec

section \<open>Crossplane: common\<close>

record SecretReference =
  secref_Name :: string
  secref_Namespace :: string

record xpv1_SecretKeySelector =
  xsks_SecretReference :: SecretReference
  xsks_Key :: string

text \<open>\<open>ProviderConfigReference\<close> is the name inside the \<open>v1.Reference\<close>; the zero
  \<open>DeletionPolicy\<close> is the empty string.\<close>

record ResourceSpec =
  WriteConnectionSecretToReference :: "SecretReference option"
  ProviderConfigReference :: "string option"
  DeletionPolicy :: string

text \<open>\<open>ec2.Tag\<close>, \<open>efs.Tag\<close> and \<open>rds.Tag\<close> hold pointers, \<open>database.Tag\<close> strings.\<close>

record PtrTag =
  ptag_Key :: "string option"
  ptag_Value :: "string option"

record DbTag =
  dtag_Key :: string
  dtag_Value :: string

section \<open>Crossplane: RDS\<close>

record SnapshotRestoreBackupConfiguration =
  SnapshotIdentifier :: "string option"

record RestoreBackupConfiguration =
  rbc_Snapshot :: "SnapshotRestoreBackupConfiguration option"
  rbc_Source :: "string option"

record RDSInstanceParameters =
  rdsp_Region :: "string option"
  rdsp_AllocatedStorage :: "int64 option"
  rdsp_DBInstanceClass :: string
  VPCSecurityGroupIDs :: "string list"
  DBParameterGroupName :: "string option"
  DBSubnetGroupName :: "string option"
  rdsp_Engine :: string
  rdsp_EngineVersion :: "string option"
  rdsp_KMSKeyID :: "string option"
  MasterUsername :: "string option"
  MasterPasswordSecretRef :: "xpv1_SecretKeySelector option"
  SkipFinalSnapshotBeforeDeletion :: "bool option"
  rdsp_Tags :: "DbTag list"
  ApplyModificationsImmediately :: "bool option"
  RestoreFrom :: "RestoreBackupConfiguration option"

record RDSInstanceSpec =
  rds_ResourceSpec :: ResourceSpec
  rds_ForProvider :: RDSInstanceParameters

record RDSInstanceObservation =
  DBInstanceStatus :: string
  Endpoint_Address :: string

record RDSInstance =
  rds_ObjectMeta :: ObjectMeta
  rds_Spec :: RDSInstanceSpec
  rds_AtProvider :: RDSInstanceObservation

record DBSubnetGroupParameters =
  dsg_Region :: "string option"
  dsg_Description :: string
  dsg_SubnetIDs :: "string list"
  dsg_Tags :: "DbTag list"

record DBSubnetGroup =
  dsg_ObjectMeta :: ObjectMeta
  dsg_ForProvider :: DBSubnetGroupParameters
  dsg_ResourceSpec :: ResourceSpec

record CustomParameter =
  ParameterName :: "string option"
  ParameterValue :: "string option"
  ApplyMethod :: "string option"

record DBParameterGroupParameters =
  dpg_Region :: string
  dpg_Description :: "string option"
  dpg_Tags :: "PtrTag list"
  Parameters :: "CustomParameter list"
  DBParameterGroupFamily :: "string option"

record DBParameterGroup =
  dpg_ObjectMeta :: ObjectMeta
  dpg_ResourceSpec :: ResourceSpec
  dpg_ForProvider :: DBParameterGroupParameters

section \<open>Crossplane: EBS and EFS\<close>

record TagSpecification =
  ResourceType :: "string option"
  ts_Tags :: "PtrTag list"

record VolumeParameters =
  ebs_Region :: string
  ebs_AvailabilityZone :: "string option"
  Encrypted :: "bool option"
  Size :: "int64 option"
  ebs_SnapshotID :: "string option"
  TagSpecifications :: "TagSpecification list"
  ebs_KMSKeyID :: "string option"

record EbsVolume =
  ebs_ObjectMeta :: ObjectMeta
  ebs_ResourceSpec :: ResourceSpec
  ebs_ForProvider :: VolumeParameters
  ebs_AtProvider_VolumeID :: "string option"

record FileSystemParameters =
  fs_Region :: string
  fs_KMSKeyID :: "string option"
  fs_Encrypted :: "bool option"
  fs_Tags :: "PtrTag list"

record FileSystem =
  fs_ObjectMeta :: ObjectMeta
  fs_ResourceSpec :: ResourceSpec
  fs_ForProvider :: FileSystemParameters
  fs_AtProvider_FileSystemID :: "string option"

record MountTargetParameters =
  mt_Region :: string
  SecurityGroups :: "string list"
  mt_FileSystemID :: "string option"
  SubnetID :: "string option"

record MountTarget =
  mt_ObjectMeta :: ObjectMeta
  mt_ResourceSpec :: ResourceSpec
  mt_ForProvider :: MountTargetParameters
  mt_AtProvider_LifeCycleState :: "string option"

end
