(* ===== verification/Kube_Objects.thy ===== *)
theory Kube_Objects
  imports Kube_Types
begin

text \<open>
  The objects as one sum, \<open>kobj\<close> (\<open>client.Object\<close> of controller-runtime), their kinds, the key the API
  server stores an object under, and what Kubernetes calls the controlling owner of an object.
\<close>

section \<open>Kinds and objects\<close>

datatype kind =
    Kind_Namespace
  | Kind_Secret
  | Kind_ConfigMap
  | Kind_ServiceAccount
  | Kind_Pod
  | Kind_Job
  | Kind_Service
  | Kind_StatefulSet
  | Kind_PersistentVolume
  | Kind_PersistentVolumeClaim
  | Kind_VolumeSnapshotContent
  | Kind_VolumeSnapshot
  | Kind_RDSInstance
  | Kind_DBSubnetGroup
  | Kind_DBParameterGroup
  | Kind_EbsVolume
  | Kind_FileSystem
  | Kind_MountTarget
  | Kind_Jira

datatype kobj =
    Obj_Namespace NamespaceObj
  | Obj_Secret Secret
  | Obj_ConfigMap ConfigMap
  | Obj_ServiceAccount ServiceAccount
  | Obj_Pod Pod
  | Obj_Job Job
  | Obj_Service Service
  | Obj_StatefulSet StatefulSet
  | Obj_PersistentVolume PersistentVolume
  | Obj_PersistentVolumeClaim PersistentVolumeClaim
  | Obj_VolumeSnapshotContent VolumeSnapshotContent
  | Obj_VolumeSnapshot VolumeSnapshot
  | Obj_RDSInstance RDSInstance
  | Obj_DBSubnetGroup DBSubnetGroup
  | Obj_DBParameterGroup DBParameterGroup
  | Obj_EbsVolume EbsVolume
  | Obj_FileSystem FileSystem
  | Obj_MountTarget MountTarget
  | Obj_Jira Jira

fun obj_kind :: "kobj \<Rightarrow> kind" where
  "obj_kind (Obj_Namespace x) = Kind_Namespace"
| "obj_kind (Obj_Secret x) = Kind_Secret"
| "obj_kind (Obj_ConfigMap x) = Kind_ConfigMap"
| "obj_kind (Obj_ServiceAccount x) = Kind_ServiceAccount"
| "obj_kind (Obj_Pod x) = Kind_Pod"
| "obj_kind (Obj_Job x) = Kind_Job"
| "obj_kind (Obj_Service x) = Kind_Service"
| "obj_kind (Obj_StatefulSet x) = Kind_StatefulSet"
| "obj_kind (Obj_PersistentVolume x) = Kind_PersistentVolume"
| "obj_kind (Obj_PersistentVolumeClaim x) = Kind_PersistentVolumeClaim"
| "obj_kind (Obj_VolumeSnapshotContent x) = Kind_VolumeSnapshotContent"
| "obj_kind (Obj_VolumeSnapshot x) = Kind_VolumeSnapshot"
| "obj_kind (Obj_RDSInstance x) = Kind_RDSInstance"
| "obj_kind (Obj_DBSubnetGroup x) = Kind_DBSubnetGroup"
| "obj_kind (Obj_DBParameterGroup x) = Kind_DBParameterGroup"
| "obj_kind (Obj_EbsVolume x) = Kind_EbsVolume"
| "obj_kind (Obj_FileSystem x) = Kind_FileSystem"
| "obj_kind (Obj_MountTarget x) = Kind_MountTarget"
| "obj_kind (Obj_Jira x) = Kind_Jira"

fun obj_meta :: "kobj \<Rightarrow> ObjectMeta" where
  "obj_meta (Obj_Namespace x) = ns_ObjectMeta x"
| "obj_meta (Obj_Secret x) = secret_ObjectMeta x"
| "obj_meta (Obj_ConfigMap x) = cm_ObjectMeta x"
| "obj_meta (Obj_ServiceAccount x) = sa_ObjectMeta x"
| "obj_meta (Obj_Pod x) = pod_ObjectMeta x"
| "obj_meta (Obj_Job x) = job_ObjectMeta x"
| "obj_meta (Obj_Service x) = svc_ObjectMeta x"
| "obj_meta (Obj_StatefulSet x) = sts_ObjectMeta x"
| "obj_meta (Obj_PersistentVolume x) = pv_ObjectMeta x"
| "obj_meta (Obj_PersistentVolumeClaim x) = pvc_ObjectMeta x"
| "obj_meta (Obj_VolumeSnapshotContent x) = vsc_ObjectMeta x"
| "obj_meta (Obj_VolumeSnapshot x) = vsnap_ObjectMeta x"
| "obj_meta (Obj_RDSInstance x) = rds_ObjectMeta x"
| "obj_meta (Obj_DBSubnetGroup x) = dsg_ObjectMeta x"
| "obj_meta (Obj_DBParameterGroup x) = dpg_ObjectMeta x"
| "obj_meta (Obj_EbsVolume x) = ebs_ObjectMeta x"
| "obj_meta (Obj_FileSystem x) = fs_ObjectMeta x"
| "obj_meta (Obj_MountTarget x) = mt_ObjectMeta x"
| "obj_meta (Obj_Jira x) = jira_ObjectMeta x"

text \<open>\<open>client.ObjectKey\<close>: a key of a cluster-scoped object has the empty namespace.\<close>

record ObjectKey =
  key_Namespace :: string
  key_Name :: string

definition ClusterKey :: "string \<Rightarrow> ObjectKey" where
  "ClusterKey n = \<lparr>key_Namespace = '''', key_Name = n\<rparr>"

definition NamespacedKey :: "string \<Rightarrow> string \<Rightarrow> ObjectKey" where
  "NamespacedKey n ns = \<lparr>key_Namespace = ns, key_Name = n\<rparr>"

text \<open>\<open>client.ObjectKey{Name: o.Name, Namespace: o.Namespace}\<close>.\<close>

definition meta_key :: "ObjectMeta \<Rightarrow> ObjectKey" where
  "meta_key m = NamespacedKey (Name m) (Namespace m)"

definition obj_key :: "kobj \<Rightarrow> ObjectKey" where
  "obj_key ob = meta_key (obj_meta ob)"

lemma key_eq_simps [simp]:
  "NamespacedKey n ns = NamespacedKey n' ns' \<longleftrightarrow> n = n' \<and> ns = ns'"
  "ClusterKey n = ClusterKey n' \<longleftrightarrow> n = n'"
  "NamespacedKey n ns = ClusterKey n' \<longleftrightarrow> n = n' \<and> ns = ''''"
  by (auto simp: NamespacedKey_def ClusterKey_def)

section \<open>Ownership\<close>

text \<open>
  An object is controlled by a resource when exactly one of its owner references is marked as the
  controller and that reference names the resource: what \<open>metav1.GetControllerOf\<close> looks for when a
  watch event of an owned object is turned into a reconcile request for its owner.
\<close>

definition controller_refs :: "kobj \<Rightarrow> OwnerReference list" where
  "controller_refs ob =
     filter (\<lambda>r. Controller r = Some True) (OwnerReferences (obj_meta ob))"

definition controlled_by :: "Jira \<Rightarrow> kobj \<Rightarrow> bool" where
  "controlled_by jira ob \<longleftrightarrow>
     (case controller_refs ob of
        [r] \<Rightarrow> or_UID r = jira_UID jira \<and> or_Name r = jira_Name jira
          \<and> or_APIVersion r = APIVersion (jira_TypeMeta jira)
          \<and> or_Kind r = Kind (jira_TypeMeta jira)
      | _ \<Rightarrow> False)"

end
