(* ===== verification/Go_Monad.thy ===== *)
theory Go_Monad
  imports Prelude
begin

text \<open>
  The effects of the reconciler as a state monad with early return and an event log. A step of
  type \<open>('e, 'w, 'a) go\<close> takes the outside world (the cluster, the file system, the clock, the random
  source), and gives an outcome, the list of the interactions it had with the outside, in order, and
  the new world. The outcome \<open>Next a\<close> carries on with the value \<open>a\<close>, \<open>Return r e\<close> is Go's
  \<open>return r, e\<close> out of \<open>Reconcile\<close>, and \<open>Panic m\<close> is a run-time panic. Early exits keep the effects that
  came before them.
\<close>

section \<open>Outcomes and the monad\<close>

text \<open>\<open>ctrl.Result\<close> of controller-runtime.\<close>

record ctrl_Result =
  Requeue :: bool
  RequeueAfter :: Duration

definition empty_Result :: ctrl_Result where
  "empty_Result = \<lparr>Requeue = False, RequeueAfter = 0\<rparr>"

definition after :: "Duration \<Rightarrow> ctrl_Result" where
  "after d = \<lparr>Requeue = False, RequeueAfter = d\<rparr>"

lemma RequeueAfter_after [simp]: "RequeueAfter (after d) = d"
  by (simp add: after_def)

datatype 'a outcome = Next 'a | Return ctrl_Result "goerror option" | Panic string

type_synonym ('e, 'w, 'a) go = "'w \<Rightarrow> 'a outcome \<times> 'e list \<times> 'w"

definition ret :: "'a \<Rightarrow> ('e, 'w, 'a) go" where
  "ret a w = (Next a, [], w)"

definition stop :: "ctrl_Result \<Rightarrow> goerror option \<Rightarrow> ('e, 'w, 'a) go" where
  "stop r e w = (Return r e, [], w)"

definition panic :: "string \<Rightarrow> ('e, 'w, 'a) go" where
  "panic m w = (Panic m, [], w)"

definition bind :: "('e, 'w, 'a) go \<Rightarrow> ('a \<Rightarrow> ('e, 'w, 'b) go) \<Rightarrow> ('e, 'w, 'b) go" where
  "bind m f w =
     (case m w of
        (Next a, es, w') \<Rightarrow> (case f a w' of (r, es', w'') \<Rightarrow> (r, es @ es', w''))
      | (Return x e, es, w') \<Rightarrow> (Return x e, es, w')
      | (Panic p, es, w') \<Rightarrow> (Panic p, es, w'))"

text \<open>An interaction with the outside: \<open>f\<close> answers it, \<open>ev\<close> says what is logged.\<close>

definition act :: "('w \<Rightarrow> 'a \<times> 'w) \<Rightarrow> ('a \<Rightarrow> 'e list) \<Rightarrow> ('e, 'w, 'a) go" where
  "act f ev w = (case f w of (a, w') \<Rightarrow> (Next a, ev a, w'))"

text \<open>The statement \<open>if c { return r, e }\<close>.\<close>

definition stop_if :: "bool \<Rightarrow> ctrl_Result \<Rightarrow> goerror option \<Rightarrow> ('e, 'w, unit) go" where
  "stop_if c r e = (if c then stop r e else ret ())"

text \<open>Running steps on closed arguments.\<close>

lemma run_ret: "ret a w = (Next a, [], w)" by (simp add: ret_def)
lemma run_stop: "stop r e w = (Return r e, [], w)" by (simp add: stop_def)
lemma run_panic: "panic p w = (Panic p, [], w)" by (simp add: panic_def)

lemma run_bind_Next: "m w = (Next a, es, w') \<Longrightarrow> f a w' = (r, es', w'') \<Longrightarrow>
    bind m f w = (r, es @ es', w'')"
  by (simp add: bind_def)

lemma run_bind_Return: "m w = (Return x e, es, w') \<Longrightarrow> bind m f w = (Return x e, es, w')"
  by (simp add: bind_def)

lemma run_act: "f w = (a, w') \<Longrightarrow> act f ev w = (Next a, ev a, w')"
  by (simp add: act_def)

lemma run_stop_if_False: "\<not> c \<Longrightarrow> stop_if c r e w = (Next (), [], w)"
  by (simp add: stop_if_def ret_def)

lemma run_stop_if_True: "c \<Longrightarrow> stop_if c r e w = (Return r e, [], w)"
  by (simp add: stop_if_def stop_def)

text \<open>The monad laws.\<close>

lemma bind_ret_left [simp]: "bind (ret a) f = f a"
  by (rule ext) (simp add: bind_def ret_def split: prod.splits)

lemma bind_ret_right [simp]: "bind m ret = m"
  by (rule ext) (auto simp: bind_def ret_def split: prod.splits outcome.splits)

lemma bind_stop [simp]: "bind (stop r e) f = stop r e"
  by (rule ext) (simp add: bind_def stop_def)

lemma bind_panic [simp]: "bind (panic p) f = panic p"
  by (rule ext) (simp add: bind_def panic_def)

lemma bind_assoc: "bind (bind m f) g = bind m (\<lambda>a. bind (f a) g)"
  by (rule ext) (auto simp: bind_def split: prod.splits outcome.splits)

lemma bind_if: "bind (if c then m else n) f = (if c then bind m f else bind n f)"
  by simp

section \<open>What every run of a step satisfies\<close>

text \<open>
  \<open>every m P\<close>: whatever world \<open>m\<close> starts in, its outcome \<open>r\<close> and the log \<open>es\<close> it writes satisfy
  \<open>P r es\<close>. The rules compute it backwards through a step, with the log of what ran before put in
  front: \<open>P\<close> may speak of the order of the events.
\<close>

definition every :: "('e, 'w, 'a) go \<Rightarrow> ('a outcome \<Rightarrow> 'e list \<Rightarrow> bool) \<Rightarrow> bool" where
  "every m P \<longleftrightarrow> (\<forall>w r es w'. m w = (r, es, w') \<longrightarrow> P r es)"

lemma everyI [intro?]: "(\<And>w r es w'. m w = (r, es, w') \<Longrightarrow> P r es) \<Longrightarrow> every m P"
  by (simp add: every_def)

lemma everyD: "every m P \<Longrightarrow> m w = (r, es, w') \<Longrightarrow> P r es"
  by (auto simp: every_def)

lemma every_mono: "every m P \<Longrightarrow> (\<And>r es. P r es \<Longrightarrow> Q r es) \<Longrightarrow> every m Q"
  by (auto simp: every_def)

lemma every_conj: "every m P \<Longrightarrow> every m Q \<Longrightarrow> every m (\<lambda>r es. P r es \<and> Q r es)"
  by (auto simp: every_def)

lemma every_ret [wp_simps]: "every (ret a) P = P (Next a) []"
  by (auto simp: every_def ret_def)

lemma every_stop [wp_simps]: "every (stop r e) P = P (Return r e) []"
  by (auto simp: every_def stop_def)

lemma every_panic [wp_simps]: "every (panic p) P = P (Panic p) []"
  by (auto simp: every_def panic_def)

lemma every_stop_if [wp_simps]:
  "every (stop_if c r e) P = (if c then P (Return r e) [] else P (Next ()) [])"
  by (simp add: stop_if_def wp_simps)

lemma every_if: "every (if c then m else n) P = (if c then every m P else every n P)"
  by simp

lemma every_bindI:
  assumes "every m (\<lambda>r es. case r of
      Next a \<Rightarrow> every (f a) (\<lambda>r' es'. P r' (es @ es'))
    | Return x e \<Rightarrow> P (Return x e) es
    | Panic p \<Rightarrow> P (Panic p) es)"
  shows "every (bind m f) P"
proof
  fix w r es w'
  assume run: "bind m f w = (r, es, w')"
  obtain q es1 w1 where m: "m w = (q, es1, w1)" by (metis prod_cases3)
  note q = everyD [OF assms m]
  show "P r es"
  proof (cases q)
    case (Next a)
    obtain r2 es2 w2 where f: "f a w1 = (r2, es2, w2)" by (metis prod_cases3)
    with run m Next have "r = r2" "es = es1 @ es2" by (simp_all add: bind_def)
    with q Next f show ?thesis by (auto dest: everyD)
  qed (use run m q in \<open>auto simp: bind_def\<close>)
qed

lemma every_actI: "(\<And>a. P (Next a) (ev a)) \<Longrightarrow> every (act f ev) P"
  by (auto simp: every_def act_def split: prod.splits)

text \<open>The form used when the world's answers obey a hypothesis.\<close>

lemma every_act_range: "(\<And>w. P (Next (fst (f w))) (ev (fst (f w)))) \<Longrightarrow> every (act f ev) P"
  by (auto simp: every_def act_def split: prod.splits) (metis fst_conv)

lemma every_bind_actI: "(\<And>a. every (k a) (\<lambda>r es. P r (ev a @ es))) \<Longrightarrow> every (bind (act f ev) k) P"
  by (rule every_bindI, rule every_actI) simp

lemma every_bind_stop_if:
  "(c \<Longrightarrow> P (Return r e) []) \<Longrightarrow> (\<not> c \<Longrightarrow> every (k ()) P) \<Longrightarrow> every (bind (stop_if c r e) k) P"
  by (simp add: stop_if_def wp_simps)

section \<open>What a step logs and what it gives\<close>

text \<open>
  \<open>logs E m Q\<close>: every event of \<open>m\<close> is in \<open>E\<close>, and the value it carries on with, if it does, is in \<open>Q\<close>.
\<close>

definition logs :: "('e \<Rightarrow> bool) \<Rightarrow> ('e, 'w, 'a) go \<Rightarrow> ('a \<Rightarrow> bool) \<Rightarrow> bool" where
  "logs E m Q \<longleftrightarrow> every m (\<lambda>r es. (\<forall>ev \<in> set es. E ev) \<and> (\<forall>a. r = Next a \<longrightarrow> Q a))"

lemma logs_mono:
  "logs E m Q \<Longrightarrow> (\<And>ev. E ev \<Longrightarrow> E' ev) \<Longrightarrow> (\<And>a. Q a \<Longrightarrow> Q' a) \<Longrightarrow> logs E' m Q'"
  unfolding logs_def by (erule every_mono) auto

lemma logs_weaken: "logs E m Q \<Longrightarrow> (\<And>a. Q a \<Longrightarrow> Q' a) \<Longrightarrow> logs E m Q'"
  by (rule logs_mono)

text \<open>What a step gives, known from one bound on its log, may be used with another.\<close>

lemma logs_value: "logs E m Q \<Longrightarrow> logs E' m Q' \<Longrightarrow> logs E m Q'"
  by (auto simp: logs_def every_def)

lemma logs_ret: "Q a \<Longrightarrow> logs E (ret a) Q"
  by (simp add: logs_def wp_simps)

lemma logs_stop [simp]: "logs E (stop r e) Q"
  by (simp add: logs_def wp_simps)

lemma logs_panic [simp]: "logs E (panic p) Q"
  by (simp add: logs_def wp_simps)

lemma logs_stop_if: "logs E (stop_if c r e) (\<lambda>_. \<not> c)"
  by (simp add: logs_def wp_simps)

lemma logs_act: "(\<And>a. \<forall>ev \<in> set (evs a). E ev) \<Longrightarrow> logs E (act f evs) (\<lambda>_. True)"
  by (simp add: logs_def every_actI)

lemma logs_act_range:
  assumes "\<And>w. (\<forall>ev \<in> set (evs (fst (f w))). E ev) \<and> Q (fst (f w))"
  shows "logs E (act f evs) Q"
  unfolding logs_def by (rule every_act_range) (use assms in auto)

lemma logs_bind:
  fixes m :: "('e, 'w, 'a) go"
  assumes "logs E m Q" and "\<And>a. Q a \<Longrightarrow> logs E (f a) R"
  shows "logs E (bind m f) R"
  unfolding logs_def
proof (rule every_bindI, rule every_mono [OF assms(1) [unfolded logs_def]])
  fix r :: "'a outcome" and es :: "'e list"
  assume *: "(\<forall>ev \<in> set es. E ev) \<and> (\<forall>a. r = Next a \<longrightarrow> Q a)"
  show "case r of
      Next a \<Rightarrow> every (f a) (\<lambda>r' es'. (\<forall>ev \<in> set (es @ es'). E ev) \<and> (\<forall>a. r' = Next a \<longrightarrow> R a))
    | Return x e \<Rightarrow> (\<forall>ev \<in> set es. E ev) \<and> (\<forall>a. Return x e = Next a \<longrightarrow> R a)
    | Panic p \<Rightarrow> (\<forall>ev \<in> set es. E ev) \<and> (\<forall>a. Panic p = Next a \<longrightarrow> R a)"
  proof (cases r)
    case (Next a)
    with * assms(2) [of a] have "logs E (f a) R" by simp
    then show ?thesis using Next * by (auto simp: logs_def elim!: every_mono)
  qed (use * in auto)
qed

lemma logs_if: "(c \<Longrightarrow> logs E m Q) \<Longrightarrow> (\<not> c \<Longrightarrow> logs E n Q) \<Longrightarrow> logs E (if c then m else n) Q"
  by simp

lemma logs_option:
  "(ob = None \<Longrightarrow> logs E m Q) \<Longrightarrow> (\<And>x. ob = Some x \<Longrightarrow> logs E (f x) Q) \<Longrightarrow>
   logs E (case ob of None \<Rightarrow> m | Some x \<Rightarrow> f x) Q"
  by (cases ob) auto

lemma logs_run: "logs E m Q \<Longrightarrow> m w = (r, es, w') \<Longrightarrow> ev \<in> set es \<Longrightarrow> E ev"
  unfolding logs_def by (auto dest: everyD)

section \<open>Order of events\<close>

text \<open>\<open>precedes A B es\<close>: in the log \<open>es\<close>, an event in \<open>B\<close> comes only after an event in \<open>A\<close>.\<close>

definition precedes :: "('e \<Rightarrow> bool) \<Rightarrow> ('e \<Rightarrow> bool) \<Rightarrow> 'e list \<Rightarrow> bool" where
  "precedes A B es \<longleftrightarrow> (\<forall>ys e zs. es = ys @ e # zs \<longrightarrow> B e \<longrightarrow> (\<exists>x \<in> set ys. A x))"

lemma precedes_none: "\<forall>e \<in> set es. \<not> B e \<Longrightarrow> precedes A B es"
  by (auto simp: precedes_def)

lemma precedes_Nil [simp]: "precedes A B []"
  by (simp add: precedes_def)

lemma precedes_after: "\<forall>e \<in> set xs. \<not> B e \<Longrightarrow> (\<exists>e \<in> set xs. A e) \<Longrightarrow> precedes A B (xs @ ys)"
proof (unfold precedes_def, intro allI impI)
  fix us e zs
  assume none: "\<forall>e \<in> set xs. \<not> B e" and some: "\<exists>e \<in> set xs. A e"
    and split: "xs @ ys = us @ e # zs" and "B e"
  from split consider vs where "xs = us @ vs" "vs @ ys = e # zs" | vs where "us = xs @ vs"
    by (auto simp: append_eq_append_conv2)
  then show "\<exists>x \<in> set us. A x"
  proof cases
    case 1
    with none \<open>B e\<close> have "vs = []" by (cases vs) auto
    with 1 some show ?thesis by simp
  next
    case 2
    with some show ?thesis by auto
  qed
qed

lemma precedes_skip: "\<forall>e \<in> set xs. \<not> B e \<Longrightarrow> precedes A B ys \<Longrightarrow> precedes A B (xs @ ys)"
proof (unfold precedes_def, intro allI impI)
  fix us e zs
  assume none: "\<forall>e \<in> set xs. \<not> B e"
    and ys: "\<forall>us e zs. ys = us @ e # zs \<longrightarrow> B e \<longrightarrow> (\<exists>x \<in> set us. A x)"
    and split: "xs @ ys = us @ e # zs" and "B e"
  from split consider vs where "xs = us @ vs" "vs @ ys = e # zs"
    | vs where "us = xs @ vs" "ys = vs @ e # zs"
    by (auto simp: append_eq_append_conv2)
  then show "\<exists>x \<in> set us. A x"
  proof cases
    case 1
    with none \<open>B e\<close> have "vs = []" by (cases vs) auto
    with 1 ys \<open>B e\<close> show ?thesis by (metis append_Nil empty_iff empty_set)
  next
    case 2
    with ys \<open>B e\<close> show ?thesis by auto
  qed
qed

text \<open>
  Gating: if \<open>m\<close> logs no event in \<open>B\<close> and goes on only after an event in \<open>A\<close>, then everything that
  follows \<open>m\<close> is preceded by \<open>A\<close>; a step with no event in \<open>B\<close> can be passed over.
\<close>

definition silent :: "('e \<Rightarrow> bool) \<Rightarrow> ('e, 'w, 'a) go \<Rightarrow> bool" where
  "silent B m \<longleftrightarrow> every m (\<lambda>r es. \<forall>e \<in> set es. \<not> B e)"

lemma silent_logs: "logs (\<lambda>e. \<not> B e) m Q \<Longrightarrow> silent B m"
  unfolding logs_def silent_def by (erule every_mono) simp

definition gates :: "('e \<Rightarrow> bool) \<Rightarrow> ('e, 'w, 'a) go \<Rightarrow> bool" where
  "gates A m \<longleftrightarrow> every m (\<lambda>r es. (\<exists>a. r = Next a) \<longrightarrow> (\<exists>e \<in> set es. A e))"

lemma gate_bind:
  fixes m :: "('e, 'w, 'a) go"
  assumes "silent B m" and "gates A m"
  shows "every (bind m f) (\<lambda>r es. precedes A B es)"
proof (rule every_bindI, rule every_mono [OF every_conj [OF assms [unfolded silent_def gates_def]]])
  fix r :: "'a outcome" and es :: "'e list"
  assume *: "(\<forall>e \<in> set es. \<not> B e) \<and> ((\<exists>a. r = Next a) \<longrightarrow> (\<exists>e \<in> set es. A e))"
  show "case r of Next a \<Rightarrow> every (f a) (\<lambda>r' es'. precedes A B (es @ es'))
      | Return x e \<Rightarrow> precedes A B es | Panic p \<Rightarrow> precedes A B es"
    using * by (cases r) (auto simp: every_def precedes_after precedes_none)
qed

lemma pass_bind:
  fixes m :: "('e, 'w, 'a) go"
  assumes "silent B m" and "\<And>a. every (f a) (\<lambda>r es. precedes A B es)"
  shows "every (bind m f) (\<lambda>r es. precedes A B es)"
proof (rule every_bindI, rule every_mono [OF assms(1) [unfolded silent_def]])
  fix r :: "'a outcome" and es :: "'e list"
  assume none: "\<forall>e \<in> set es. \<not> B e"
  show "case r of Next a \<Rightarrow> every (f a) (\<lambda>r' es'. precedes A B (es @ es'))
      | Return x e \<Rightarrow> precedes A B es | Panic p \<Rightarrow> precedes A B es"
  proof (cases r)
    case (Next a)
    have "every (f a) (\<lambda>r' es'. precedes A B (es @ es'))"
      by (rule every_mono [OF assms(2)]) (use none in \<open>auto intro: precedes_skip\<close>)
    with Next show ?thesis by simp
  qed (use none in \<open>auto intro: precedes_none\<close>)
qed

end
