(* ===== verification/Client.thy ===== *)
theory Client
  imports Kube_Objects Go_Monad
begin

text \<open>
  The outside of the operator as a parameter: a record \<open>env\<close> of functions on an abstract world
  \<open>'w\<close> for the API server behind \<open>client.Client\<close>, the file system, the processes it runs, the clock,
  the random source and the quantity parser. The definitions of the operator take it as an
  argument; nothing is assumed of it unless a lemma says so. Every interaction with the API
  server, the file system and \<open>kubectl\<close> is logged as an \<open>event\<close> with its answer.
\<close>

section \<open>The environment\<close>

record 'w env =
  \<comment> \<open>\<open>resource.MustParse\<close>: the canonical text of the quantity, or \<open>None\<close> where it panics\<close>
  MustParse :: "string \<Rightarrow> Quantity option"
  \<comment> \<open>\<open>time.Now().UnixNano()\<close>, \<open>rand.Seed\<close>, \<open>rand.Intn\<close>\<close>
  time_Now_UnixNano :: "'w \<Rightarrow> int \<times> 'w"
  rand_Seed :: "int \<Rightarrow> 'w \<Rightarrow> 'w"
  rand_Intn :: "nat \<Rightarrow> 'w \<Rightarrow> nat \<times> 'w"
  \<comment> \<open>\<open>client.Create\<close>: the error, and the metadata the call leaves in the object it was given\<close>
  api_Create :: "kobj \<Rightarrow> 'w \<Rightarrow> (goerror option \<times> ObjectMeta) \<times> 'w"
  api_Update :: "kobj \<Rightarrow> 'w \<Rightarrow> goerror option \<times> 'w"
  \<comment> \<open>\<open>client.Status().Update\<close>: the error, and the resource as the call leaves it\<close>
  api_StatusUpdate :: "Jira \<Rightarrow> 'w \<Rightarrow> (goerror option \<times> Jira) \<times> 'w"
  \<comment> \<open>\<open>client.Get\<close>, once per type it decodes into\<close>
  get_Jira :: "ObjectKey \<Rightarrow> 'w \<Rightarrow> (goerror + Jira) \<times> 'w"
  get_RDSInstance :: "ObjectKey \<Rightarrow> 'w \<Rightarrow> (goerror + RDSInstance) \<times> 'w"
  get_EbsVolume :: "ObjectKey \<Rightarrow> 'w \<Rightarrow> (goerror + EbsVolume) \<times> 'w"
  get_FileSystem :: "ObjectKey \<Rightarrow> 'w \<Rightarrow> (goerror + FileSystem) \<times> 'w"
  get_MountTarget :: "ObjectKey \<Rightarrow> 'w \<Rightarrow> (goerror + MountTarget) \<times> 'w"
  get_Pod :: "ObjectKey \<Rightarrow> 'w \<Rightarrow> (goerror + Pod) \<times> 'w"
  get_Job :: "ObjectKey \<Rightarrow> 'w \<Rightarrow> (goerror + Job) \<times> 'w"
  get_Service :: "ObjectKey \<Rightarrow> 'w \<Rightarrow> (goerror + Service) \<times> 'w"
  get_StatefulSet :: "ObjectKey \<Rightarrow> 'w \<Rightarrow> (goerror + StatefulSet) \<times> 'w"
  get_PersistentVolume :: "ObjectKey \<Rightarrow> 'w \<Rightarrow> (goerror + PersistentVolume) \<times> 'w"
  get_PersistentVolumeClaim :: "ObjectKey \<Rightarrow> 'w \<Rightarrow> (goerror + PersistentVolumeClaim) \<times> 'w"
  get_Secret :: "ObjectKey \<Rightarrow> 'w \<Rightarrow> (goerror + Secret) \<times> 'w"
  get_ConfigMap :: "ObjectKey \<Rightarrow> 'w \<Rightarrow> (goerror + ConfigMap) \<times> 'w"
  \<comment> \<open>\<open>os.ReadFile\<close>, \<open>os.Create\<close>, writing to the created file, \<open>exec.Command(c, a...).CombinedOutput()\<close>\<close>
  os_ReadFile :: "string \<Rightarrow> 'w \<Rightarrow> (goerror + string) \<times> 'w"
  os_Create :: "string \<Rightarrow> 'w \<Rightarrow> goerror option \<times> 'w"
  file_Write :: "string \<Rightarrow> string \<Rightarrow> 'w \<Rightarrow> goerror option \<times> 'w"
  exec_CombinedOutput :: "string \<Rightarrow> string list \<Rightarrow> 'w \<Rightarrow> (string \<times> goerror option) \<times> 'w"

section \<open>Events\<close>

datatype event =
    Got kind ObjectKey "goerror + kobj"
  | Created kobj "goerror option"
  | Updated kobj "goerror option"
  | StatusUpdated Jira "goerror option"
  | FileRead string "goerror + string"
  | FileCreated string "goerror option"
  | FileWritten string string "goerror option"
  | Ran string "string list" string "goerror option"

fun is_Got :: "event \<Rightarrow> bool" where
  "is_Got (Got k key r) = True"
| "is_Got _ = False"

fun is_Created :: "event \<Rightarrow> bool" where
  "is_Created (Created ob e) = True"
| "is_Created _ = False"

fun is_StatusUpdated :: "event \<Rightarrow> bool" where
  "is_StatusUpdated (StatusUpdated j e) = True"
| "is_StatusUpdated _ = False"

text \<open>The objects a log asked to create, in order.\<close>

definition created_objects :: "event list \<Rightarrow> kobj list" where
  "created_objects es = concat (map (\<lambda>ev. case ev of Created ob e \<Rightarrow> [ob] | _ \<Rightarrow> []) es)"

lemma created_objects_simps [simp]:
  "created_objects [] = []" "created_objects (Created ob e # es) = ob # created_objects es"
  "created_objects (Got k key r # es) = created_objects es"
  "created_objects (Updated ob e # es) = created_objects es"
  "created_objects (StatusUpdated j e # es) = created_objects es"
  by (simp_all add: created_objects_def)

lemma set_created_objects: "ob \<in> set (created_objects es) \<longleftrightarrow> (\<exists>e. Created ob e \<in> set es)"
  by (force simp: created_objects_def split: event.splits)

lemma created_objects_append [simp]:
  "created_objects (xs @ ys) = created_objects xs @ created_objects ys"
  by (simp add: created_objects_def)

text \<open>The error an event ended with, if it did; \<open>AlreadyExists\<close> is no failure of a \<open>Create\<close>.\<close>

fun event_error :: "event \<Rightarrow> goerror option" where
  "event_error (Got k key (Inl e)) = Some e"
| "event_error (Got k key (Inr ob)) = None"
| "event_error (Created ob e) = (if create_failed e then e else None)"
| "event_error (Updated ob e) = e"
| "event_error (StatusUpdated j e) = e"
| "event_error (FileRead p (Inl e)) = Some e"
| "event_error (FileRead p (Inr s)) = None"
| "event_error (FileCreated p e) = e"
| "event_error (FileWritten p s e) = e"
| "event_error (Ran c a out e) = e"

section \<open>The calls\<close>

type_synonym ('w, 'a) op = "(event, 'w, 'a) go"

definition r_Get :: "kind \<Rightarrow> ('o \<Rightarrow> kobj) \<Rightarrow> (ObjectKey \<Rightarrow> 'w \<Rightarrow> (goerror + 'o) \<times> 'w)
    \<Rightarrow> ObjectKey \<Rightarrow> ('w, goerror + 'o) op" where
  "r_Get k mk g key = act (g key) (\<lambda>r. [Got k key (map_sum id mk r)])"

definition r_Create :: "'w env \<Rightarrow> kobj \<Rightarrow> ('w, goerror option \<times> ObjectMeta) op" where
  "r_Create env ob = act (api_Create env ob) (\<lambda>(e, m). [Created ob e])"

definition r_Update :: "'w env \<Rightarrow> kobj \<Rightarrow> ('w, goerror option) op" where
  "r_Update env ob = act (api_Update env ob) (\<lambda>e. [Updated ob e])"

definition r_Status_Update :: "'w env \<Rightarrow> Jira \<Rightarrow> ('w, goerror option \<times> Jira) op" where
  "r_Status_Update env jira = act (api_StatusUpdate env jira) (\<lambda>(e, j). [StatusUpdated jira e])"

definition ReadFile :: "'w env \<Rightarrow> string \<Rightarrow> ('w, goerror + string) op" where
  "ReadFile env p = act (os_ReadFile env p) (\<lambda>r. [FileRead p r])"

definition CreateFile :: "'w env \<Rightarrow> string \<Rightarrow> ('w, goerror option) op" where
  "CreateFile env p = act (os_Create env p) (\<lambda>e. [FileCreated p e])"

definition WriteFile :: "'w env \<Rightarrow> string \<Rightarrow> string \<Rightarrow> ('w, goerror option) op" where
  "WriteFile env p s = act (file_Write env p s) (\<lambda>e. [FileWritten p s e])"

text \<open>Effects on the clock and the random source are not logged.\<close>

definition Now_UnixNano :: "'w env \<Rightarrow> ('w, int) op" where
  "Now_UnixNano env = act (time_Now_UnixNano env) (\<lambda>_. [])"

definition Seed :: "'w env \<Rightarrow> int \<Rightarrow> ('w, unit) op" where
  "Seed env s = act (\<lambda>w. ((), rand_Seed env s w)) (\<lambda>_. [])"

definition Intn :: "'w env \<Rightarrow> nat \<Rightarrow> ('w, nat) op" where
  "Intn env n = act (rand_Intn env n) (\<lambda>_. [])"

lemmas call_defs = r_Get_def r_Create_def r_Update_def r_Status_Update_def ReadFile_def
  CreateFile_def WriteFile_def Now_UnixNano_def Seed_def Intn_def

section \<open>Documented behaviour of the environment\<close>

text \<open>
  Hypotheses some lemmas take: a \<open>Create\<close> leaves the name and the namespace of the object it is
  given as they were (the operator never asks for a generated name); a status update leaves
  everything but the status as it was; \<open>rand.Intn\<close> stays below its bound; \<open>resource.MustParse\<close>
  accepts a decimal integer followed by \<open>Gi\<close>.
\<close>

definition create_keeps_key :: "'w env \<Rightarrow> bool" where
  "create_keeps_key env \<longleftrightarrow>
     (\<forall>ob w e m w'. api_Create env ob w = ((e, m), w') \<longrightarrow> meta_key m = obj_key ob)"

definition status_update_keeps_request :: "'w env \<Rightarrow> bool" where
  "status_update_keeps_request env \<longleftrightarrow>
     (\<forall>jira w e j w'. api_StatusUpdate env jira w = ((e, j), w') \<longrightarrow> same_request jira j)"

definition Intn_in_range :: "'w env \<Rightarrow> bool" where
  "Intn_in_range env \<longleftrightarrow> (\<forall>n w. 0 < n \<longrightarrow> fst (rand_Intn env n w) < n)"

definition parses_GiB :: "'w env \<Rightarrow> bool" where
  "parses_GiB env \<longleftrightarrow> (\<forall>i. MustParse env (Itoa i @ ''Gi'') \<noteq> None)"

section \<open>Reading with the calls\<close>

lemma every_r_GetI:
  "(\<And>r. P (Next r) [Got k key (map_sum id mk r)]) \<Longrightarrow> every (r_Get k mk g key) P"
  by (simp add: r_Get_def every_actI)

lemma every_bind_r_GetI:
  "(\<And>r. every (f r) (\<lambda>q es. P q (Got k key (map_sum id mk r) # es))) \<Longrightarrow>
   every (bind (r_Get k mk g key) f) P"
  by (rule every_bindI, rule every_r_GetI) simp

lemma every_bind_r_CreateI:
  "(\<And>e m. every (f (e, m)) (\<lambda>q es. P q (Created ob e # es))) \<Longrightarrow>
   every (bind (r_Create env ob) f) P"
  unfolding r_Create_def by (rule every_bind_actI) (simp split: prod.splits)

lemma every_bind_r_UpdateI:
  "(\<And>e. every (f e) (\<lambda>q es. P q (Updated ob e # es))) \<Longrightarrow> every (bind (r_Update env ob) f) P"
  unfolding r_Update_def by (rule every_bind_actI) simp

lemma every_bind_r_Status_UpdateI:
  "(\<And>e j. every (f (e, j)) (\<lambda>q es. P q (StatusUpdated jira e # es))) \<Longrightarrow>
   every (bind (r_Status_Update env jira) f) P"
  unfolding r_Status_Update_def by (rule every_bind_actI) (simp split: prod.splits)

lemma every_bind_ReadFileI:
  "(\<And>r. every (f r) (\<lambda>q es. P q (FileRead p r # es))) \<Longrightarrow> every (bind (ReadFile env p) f) P"
  unfolding ReadFile_def by (rule every_bind_actI) simp

lemma every_bind_CreateFileI:
  "(\<And>e. every (f e) (\<lambda>q es. P q (FileCreated p e # es))) \<Longrightarrow> every (bind (CreateFile env p) f) P"
  unfolding CreateFile_def by (rule every_bind_actI) simp

lemma every_bind_WriteFileI:
  "(\<And>e. every (f e) (\<lambda>q es. P q (FileWritten p s e # es))) \<Longrightarrow> every (bind (WriteFile env p s) f) P"
  unfolding WriteFile_def by (rule every_bind_actI) simp

lemma every_bind_quietI:
  "(\<And>t. every (f t) P) \<Longrightarrow> every (bind (Now_UnixNano env) f) P"
  "every (g ()) P \<Longrightarrow> every (bind (Seed env s) g) P"
  "(\<And>k. every (h k) P) \<Longrightarrow> every (bind (Intn env n) h) P"
  unfolding Now_UnixNano_def Seed_def Intn_def by (rule every_bind_actI, simp)+

lemmas every_calls = every_bind_r_GetI every_bind_r_CreateI every_bind_r_UpdateI
  every_bind_r_Status_UpdateI every_bind_ReadFileI every_bind_CreateFileI every_bind_WriteFileI
  every_bind_quietI

end
