(* ===== verification/Helpers.thy ===== *)
theory Helpers
  imports Client
begin

text \<open>
  \<open>k8s/helpers.go\<close>: the tags and owner references every object gets, and the password generator.
\<close>

section \<open>Tags\<close>

definition ptr_tag :: "string \<Rightarrow> string \<Rightarrow> PtrTag" where
  "ptr_tag k v = \<lparr>ptag_Key = Some k, ptag_Value = Some v\<rparr>"

definition GetTags :: "Jira \<Rightarrow> PtrTag list" where
  "GetTags jira =
     [ptr_tag ''resource_owner'' ''mgibson'',
      ptr_tag ''service_name'' ''itplat_infrastructure'',
      ptr_tag ''created_by'' ''jira_operator'',
      ptr_tag ''business_unit'' ''Workplace Technology'',
      ptr_tag ''Name'' (jira_Name jira @ ''-'' @ jira_UID jira)]"

definition GetDbTags :: "Jira \<Rightarrow> DbTag list" where
  "GetDbTags jira =
     [\<lparr>dtag_Key = ''resource_owner'', dtag_Value = ''mgibson''\<rparr>,
      \<lparr>dtag_Key = ''service_name'', dtag_Value = ''itplat_infrastructure''\<rparr>,
      \<lparr>dtag_Key = ''created_by'', dtag_Value = ''jira_operator''\<rparr>,
      \<lparr>dtag_Key = ''business_unit'', dtag_Value = ''Workplace Technology''\<rparr>,
      \<lparr>dtag_Key = ''Name'', dtag_Value = jira_Name jira @ ''-'' @ jira_UID jira\<rparr>]"

text \<open>The two spell the same tags; one has pointers.\<close>

lemma GetTags_GetDbTags:
  "map (\<lambda>t. (ptag_Key t, ptag_Value t)) (GetTags jira) =
   map (\<lambda>t. (Some (dtag_Key t), Some (dtag_Value t))) (GetDbTags jira)"
  by (simp add: GetTags_def GetDbTags_def ptr_tag_def)

section \<open>Owner references\<close>

definition GetOwnerReferences :: "Jira \<Rightarrow> OwnerReference list" where
  "GetOwnerReferences jira =
     [\<lparr>or_APIVersion = APIVersion (jira_TypeMeta jira), or_Kind = Kind (jira_TypeMeta jira),
       or_Name = jira_Name jira, or_UID = jira_UID jira,
       BlockOwnerDeletion = Some True, Controller = Some True\<rparr>]"

lemma controlled_by_GetOwnerReferences:
  "OwnerReferences (obj_meta ob) = GetOwnerReferences jira \<Longrightarrow> controlled_by jira ob"
  by (simp add: controlled_by_def controller_refs_def GetOwnerReferences_def)

lemma GetOwnerReferences_same_request:
  "same_request a b \<Longrightarrow> GetOwnerReferences b = GetOwnerReferences a"
  by (simp add: GetOwnerReferences_def same_request_def jira_Name_def jira_UID_def)

section \<open>Passwords\<close>

definition passwd_chars :: string where
  "passwd_chars = ''abcdefghijklmnopqrstuvwxyz'' @ ''%()$#'' @ ''ABCDEFGHIJKLMNOPQRSTUVWXYZ'' @ ''0123456789''"

lemma length_passwd_chars [simp]: "length passwd_chars = 67"
  by (simp add: passwd_chars_def)

text \<open>
  The loop \<open>for i := range buf { buf[i] = chars[rand.Intn(len(chars))] }\<close>, \<open>n\<close> characters still to
  draw. Indexing past the end of \<open>chars\<close> panics.
\<close>

fun passwd_loop :: "'w env \<Rightarrow> nat \<Rightarrow> ('w, string) op" where
  "passwd_loop env 0 = ret []"
| "passwd_loop env (Suc n) =
     bind (Intn env (length passwd_chars)) (\<lambda>k.
     if k < length passwd_chars
     then bind (passwd_loop env n) (\<lambda>cs. ret (passwd_chars ! k # cs))
     else panic ''index out of range'')"

text \<open>\<open>make([]rune, length)\<close> panics when the length is negative.\<close>

definition GeneratePasswd :: "'w env \<Rightarrow> int \<Rightarrow> ('w, string) op" where
  "GeneratePasswd env stringLength =
     bind (Now_UnixNano env) (\<lambda>t.
     bind (Seed env t) (\<lambda>_.
     if stringLength < 0 then panic ''makeslice: len out of range''
     else passwd_loop env (nat stringLength)))"

definition passwd_ok :: "nat \<Rightarrow> string \<Rightarrow> bool" where
  "passwd_ok n s \<longleftrightarrow> length s = n \<and> set s \<subseteq> set passwd_chars"

lemma passwd_loop_spec:
  "every (passwd_loop env n) (\<lambda>r es. es = [] \<and> (\<forall>s. r = Next s \<longrightarrow> passwd_ok n s)
     \<and> (\<forall>x e. r \<noteq> Return x e))"
proof (induction n)
  case 0
  show ?case by (simp add: wp_simps passwd_ok_def)
next
  case (Suc n)
  have step: "every (bind (passwd_loop env n) (\<lambda>cs. ret (passwd_chars ! k # cs)))
      (\<lambda>r es. es = [] \<and> (\<forall>s. r = Next s \<longrightarrow> passwd_ok (Suc n) s) \<and> (\<forall>x e. r \<noteq> Return x e))"
    if "k < length passwd_chars" for k
  proof (rule every_bindI, rule every_mono [OF Suc.IH])
    fix r :: "string outcome" and es :: "event list"
    assume "es = [] \<and> (\<forall>s. r = Next s \<longrightarrow> passwd_ok n s) \<and> (\<forall>x e. r \<noteq> Return x e)"
    with that show "case r of
        Next a \<Rightarrow> every (ret (passwd_chars ! k # a)) (\<lambda>r' es'. es @ es' = []
          \<and> (\<forall>s. r' = Next s \<longrightarrow> passwd_ok (Suc n) s) \<and> (\<forall>x e. r' \<noteq> Return x e))
      | Return x e \<Rightarrow> es = [] \<and> (\<forall>s. Return x e = Next s \<longrightarrow> passwd_ok (Suc n) s)
          \<and> (\<forall>x' e'. (Return x e :: string outcome) \<noteq> Return x' e')
      | Panic p \<Rightarrow> es = [] \<and> (\<forall>s. Panic p = Next s \<longrightarrow> passwd_ok (Suc n) s)
          \<and> (\<forall>x' e'. (Panic p :: string outcome) \<noteq> Return x' e')"
      by (cases r) (auto simp: every_ret passwd_ok_def simp del: length_passwd_chars)
  qed
  show ?case
    unfolding passwd_loop.simps
    by (rule every_bind_quietI(3)) (use step in \<open>auto simp: every_panic\<close>)
qed

lemma GeneratePasswd_spec:
  "every (GeneratePasswd env n) (\<lambda>r es. es = [] \<and> (\<forall>s. r = Next s \<longrightarrow> passwd_ok (nat n) s)
     \<and> (\<forall>x e. r \<noteq> Return x e))"
  unfolding GeneratePasswd_def
  by (rule every_bind_quietI(1), rule every_bind_quietI(2))
     (simp add: every_panic passwd_loop_spec)

text \<open>Where \<open>rand.Intn\<close> respects its bound the generator always returns.\<close>

lemma passwd_loop_returns:
  assumes "Intn_in_range env"
  shows "every (passwd_loop env n) (\<lambda>r es. \<exists>s. r = Next s)"
proof (induction n)
  case 0
  show ?case by (simp add: wp_simps)
next
  case (Suc n)
  have "every (bind (passwd_loop env n) (\<lambda>cs. ret (passwd_chars ! k # cs))) (\<lambda>r es. \<exists>s. r = Next s)"
    for k
    by (rule every_bindI, rule every_mono [OF Suc.IH]) (auto simp: every_ret)
  moreover have "fst (rand_Intn env 67 w) < 67" for w
    using assms by (simp add: Intn_in_range_def)
  ultimately show ?case
    unfolding passwd_loop.simps Intn_def
    by (intro every_bindI every_act_range) simp
qed

lemma GeneratePasswd_returns:
  "Intn_in_range env \<Longrightarrow> 0 \<le> n \<Longrightarrow> every (GeneratePasswd env n) (\<lambda>r es. \<exists>s. r = Next s)"
  unfolding GeneratePasswd_def
  by (rule every_bind_quietI(1), rule every_bind_quietI(2)) (simp add: passwd_loop_returns)

end
