(* ===== verification/Status_Readers.thy ===== *)
theory Status_Readers
  imports Helpers
begin

text \<open>
  \<open>controllers/status.go\<close>: the functions that read one object and give one field of it, as a pair of
  the value and the error. A struct argument that is only the buffer \<open>Get\<close> decodes into is left out;
  where the key is taken from it, its metadata is the argument.
\<close>

section \<open>The readers\<close>

text \<open>\<open>err = r.Get(...); if err != nil { return zero, err }; return field, nil\<close>.\<close>

definition read_field ::
  "('w, goerror + 'o) op \<Rightarrow> 'v \<Rightarrow> ('o \<Rightarrow> 'v) \<Rightarrow> ('w, 'v \<times> goerror option) op" where
  "read_field get zero field =
     bind get (\<lambda>r. case r of Inl e \<Rightarrow> ret (zero, Some e) | Inr ob \<Rightarrow> ret (field ob, None))"

definition getRdsStatus :: "'w env \<Rightarrow> ObjectKey \<Rightarrow> ('w, string \<times> goerror option) op" where
  "getRdsStatus env key =
     read_field (r_Get Kind_RDSInstance Obj_RDSInstance (get_RDSInstance env) key)
       '''' (\<lambda>i. DBInstanceStatus (rds_AtProvider i))"

definition getEbsVolumeId :: "'w env \<Rightarrow> ObjectKey \<Rightarrow> ('w, string \<times> goerror option) op" where
  "getEbsVolumeId env key =
     read_field (r_Get Kind_EbsVolume Obj_EbsVolume (get_EbsVolume env) key)
       '''' (\<lambda>v. case ebs_AtProvider_VolumeID v of Some i \<Rightarrow> i | None \<Rightarrow> '''')"

definition getMountTargetStatus ::
  "'w env \<Rightarrow> ObjectKey \<Rightarrow> ('w, string option \<times> goerror option) op" where
  "getMountTargetStatus env key =
     read_field (r_Get Kind_MountTarget Obj_MountTarget (get_MountTarget env) key)
       None mt_AtProvider_LifeCycleState"

definition getFilesystemId ::
  "'w env \<Rightarrow> ObjectKey \<Rightarrow> ('w, string option \<times> goerror option) op" where
  "getFilesystemId env key =
     read_field (r_Get Kind_FileSystem Obj_FileSystem (get_FileSystem env) key)
       None fs_AtProvider_FileSystemID"

definition getRdsEndpoint :: "'w env \<Rightarrow> ObjectKey \<Rightarrow> ('w, string \<times> goerror option) op" where
  "getRdsEndpoint env key =
     read_field (r_Get Kind_RDSInstance Obj_RDSInstance (get_RDSInstance env) key)
       '''' (\<lambda>i. Endpoint_Address (rds_AtProvider i))"

definition getPodStatus :: "'w env \<Rightarrow> ObjectMeta \<Rightarrow> ('w, string \<times> goerror option) op" where
  "getPodStatus env m =
     read_field (r_Get Kind_Pod Obj_Pod (get_Pod env) (meta_key m))
       '''' (\<lambda>p. pod_Phase (pod_Status p))"

definition getJobSucceededReplicas ::
  "'w env \<Rightarrow> ObjectMeta \<Rightarrow> ('w, int32 \<times> goerror option) op" where
  "getJobSucceededReplicas env m =
     read_field (r_Get Kind_Job Obj_Job (get_Job env) (meta_key m))
       0 (\<lambda>j. Succeeded (job_Status j))"

definition getSvcClusterIp :: "'w env \<Rightarrow> ObjectMeta \<Rightarrow> ('w, string \<times> goerror option) op" where
  "getSvcClusterIp env m =
     read_field (r_Get Kind_Service Obj_Service (get_Service env) (meta_key m))
       '''' (\<lambda>s. ClusterIP (svc_Spec s))"

definition getStsReadyReplicas ::
  "'w env \<Rightarrow> ObjectMeta \<Rightarrow> ('w, int32 \<times> goerror option) op" where
  "getStsReadyReplicas env m =
     read_field (r_Get Kind_StatefulSet Obj_StatefulSet (get_StatefulSet env) (meta_key m))
       0 (\<lambda>s. ReadyReplicas (sts_Status s))"

definition getPvcStatus :: "'w env \<Rightarrow> ObjectMeta \<Rightarrow> ('w, string \<times> goerror option) op" where
  "getPvcStatus env m =
     read_field (r_Get Kind_PersistentVolumeClaim Obj_PersistentVolumeClaim
         (get_PersistentVolumeClaim env) (meta_key m))
       '''' (\<lambda>p. Phase (pvc_Status p))"

text \<open>\<open>corev1.PersistentVolume{}\<close>.\<close>

definition zero_PersistentVolume :: PersistentVolume where
  "zero_PersistentVolume =
     \<lparr>pv_ObjectMeta = zero_ObjectMeta,
      pv_Spec = \<lparr>Capacity = fmempty, pv_Source = zero_PersistentVolumeSource, pv_AccessModes = [],
        ClaimRef = None, PersistentVolumeReclaimPolicy = '''', pv_StorageClassName = '''',
        pv_NodeAffinity = None\<rparr>\<rparr>"

definition getPvByName ::
  "'w env \<Rightarrow> string \<Rightarrow> ('w, PersistentVolume \<times> goerror option) op" where
  "getPvByName env name =
     read_field (r_Get Kind_PersistentVolume Obj_PersistentVolume
         (get_PersistentVolume env) (ClusterKey name))
       zero_PersistentVolume (\<lambda>pv. pv)"

definition getSecretData :: "'w env \<Rightarrow> ObjectMeta \<Rightarrow> ('w, string gomap \<times> goerror option) op" where
  "getSecretData env m =
     read_field (r_Get Kind_Secret Obj_Secret (get_Secret env) (meta_key m))
       fmempty secret_Data"

definition getConfigMapData :: "'w env \<Rightarrow> ObjectMeta \<Rightarrow> ('w, string gomap \<times> goerror option) op" where
  "getConfigMapData env m =
     read_field (r_Get Kind_ConfigMap Obj_ConfigMap (get_ConfigMap env) (meta_key m))
       fmempty cm_Data"

text \<open>\<open>pv.Spec.CSI.VolumeHandle\<close> dereferences a nil pointer when the volume is no CSI volume.\<close>

definition volume_handle :: "PersistentVolume \<Rightarrow> ('w, string \<times> goerror option) op" where
  "volume_handle pv =
     (case CSI (pv_Source (pv_Spec pv)) of
        None \<Rightarrow> panic ''nil pointer dereference''
      | Some csi \<Rightarrow> ret (VolumeHandle csi, None))"

definition getPvHandle :: "'w env \<Rightarrow> string \<Rightarrow> ('w, string \<times> goerror option) op" where
  "getPvHandle env name =
     bind (getPvByName env name) (\<lambda>(pv, err).
     case err of Some e \<Rightarrow> ret ('''', Some e) | None \<Rightarrow> volume_handle pv)"

definition getFsxVolumeName :: "'w env \<Rightarrow> ObjectMeta \<Rightarrow> ('w, string \<times> goerror option) op" where
  "getFsxVolumeName env m =
     bind (r_Get Kind_PersistentVolumeClaim Obj_PersistentVolumeClaim
         (get_PersistentVolumeClaim env) (meta_key m)) (\<lambda>r.
     case r of
       Inl e \<Rightarrow> ret ('''', Some e)
     | Inr pvc \<Rightarrow> getPvHandle env (VolumeName (pvc_Spec pvc)))"

lemmas reader_defs = getRdsStatus_def getEbsVolumeId_def getMountTargetStatus_def
  getFilesystemId_def getRdsEndpoint_def getPodStatus_def getJobSucceededReplicas_def
  getSvcClusterIp_def getStsReadyReplicas_def getPvcStatus_def getPvByName_def
  getSecretData_def getConfigMapData_def

section \<open>The contract of a reader\<close>

text \<open>
  A reader makes one \<open>Get\<close>, of the kind and the key it is for, changes nothing else, and always
  comes back: with the error of that \<open>Get\<close> and the zero value, or with no error and the field of
  the object that was got.
\<close>

locale field_reader =
  fixes read :: "'w env \<Rightarrow> 'k \<Rightarrow> ('w, 'v \<times> goerror option) op"
    and knd :: kind
    and key :: "'k \<Rightarrow> ObjectKey"
    and zero :: 'v
    and field :: "kobj \<Rightarrow> 'v"
  assumes read_spec: "every (read env x) (\<lambda>r es.
      (\<exists>e. es = [Got knd (key x) (Inl e)] \<and> r = Next (zero, Some e))
      \<or> (\<exists>ob. es = [Got knd (key x) (Inr ob)] \<and> obj_kind ob = knd \<and> r = Next (field ob, None)))"
begin

text \<open>What the reconciler does with a reader: carry on with both cases known.\<close>

lemma every_bind_readI:
  assumes "\<And>e. every (f (zero, Some e)) (\<lambda>q es. P q (Got knd (key x) (Inl e) # es))"
    and "\<And>ob. obj_kind ob = knd \<Longrightarrow>
      every (f (field ob, None)) (\<lambda>q es. P q (Got knd (key x) (Inr ob) # es))"
  shows "every (bind (read env x) f) P"
  by (rule every_bindI, rule every_mono [OF read_spec]) (use assms in auto)

text \<open>A reader does not write.\<close>

lemma read_only: "every (read env x) (\<lambda>r es. \<forall>ev \<in> set es. is_Got ev)"
  by (rule every_mono [OF read_spec]) auto

end

lemma every_read_fieldI:
  "every (read_field (r_Get knd mk g key) zero field) (\<lambda>r es.
      (\<exists>e. es = [Got knd key (Inl e)] \<and> r = Next (zero, Some e))
      \<or> (\<exists>ob. es = [Got knd key (Inr (mk ob))] \<and> r = Next (field ob, None)))"
  unfolding read_field_def
  by (rule every_bind_r_GetI) (auto split: sum.split simp: every_ret)

lemma read_field_contract:
  assumes "\<And>ob. obj_kind (mk ob) = knd" and "\<And>ob. fld (mk ob) = field ob"
  shows "every (read_field (r_Get knd mk g key) zero field) (\<lambda>r es.
      (\<exists>e. es = [Got knd key (Inl e)] \<and> r = Next (zero, Some e))
      \<or> (\<exists>ob. es = [Got knd key (Inr ob)] \<and> obj_kind ob = knd \<and> r = Next (fld ob, None)))"
  by (rule every_mono [OF every_read_fieldI]) (use assms in \<open>metis (no_types)\<close>)

text \<open>The field as a function of the object that was got.\<close>

fun db_status :: "kobj \<Rightarrow> string" where
  "db_status (Obj_RDSInstance i) = DBInstanceStatus (rds_AtProvider i)"
| "db_status _ = ''''"

fun db_endpoint :: "kobj \<Rightarrow> string" where
  "db_endpoint (Obj_RDSInstance i) = Endpoint_Address (rds_AtProvider i)"
| "db_endpoint _ = ''''"

fun ebs_id :: "kobj \<Rightarrow> string" where
  "ebs_id (Obj_EbsVolume v) = (case ebs_AtProvider_VolumeID v of Some i \<Rightarrow> i | None \<Rightarrow> '''')"
| "ebs_id _ = ''''"

fun mt_state :: "kobj \<Rightarrow> string option" where
  "mt_state (Obj_MountTarget m) = mt_AtProvider_LifeCycleState m"
| "mt_state _ = None"

fun fs_id :: "kobj \<Rightarrow> string option" where
  "fs_id (Obj_FileSystem f) = fs_AtProvider_FileSystemID f"
| "fs_id _ = None"

fun pod_phase :: "kobj \<Rightarrow> string" where
  "pod_phase (Obj_Pod p) = pod_Phase (pod_Status p)"
| "pod_phase _ = ''''"

fun job_succeeded :: "kobj \<Rightarrow> int32" where
  "job_succeeded (Obj_Job j) = Succeeded (job_Status j)"
| "job_succeeded _ = 0"

fun svc_ip :: "kobj \<Rightarrow> string" where
  "svc_ip (Obj_Service s) = ClusterIP (svc_Spec s)"
| "svc_ip _ = ''''"

fun sts_ready :: "kobj \<Rightarrow> int32" where
  "sts_ready (Obj_StatefulSet s) = ReadyReplicas (sts_Status s)"
| "sts_ready _ = 0"

fun pvc_phase :: "kobj \<Rightarrow> string" where
  "pvc_phase (Obj_PersistentVolumeClaim p) = Phase (pvc_Status p)"
| "pvc_phase _ = ''''"

fun the_pv :: "kobj \<Rightarrow> PersistentVolume" where
  "the_pv (Obj_PersistentVolume v) = v"
| "the_pv _ = zero_PersistentVolume"

fun secret_data :: "kobj \<Rightarrow> string gomap" where
  "secret_data (Obj_Secret s) = secret_Data s"
| "secret_data _ = fmempty"

fun cm_data :: "kobj \<Rightarrow> string gomap" where
  "cm_data (Obj_ConfigMap c) = cm_Data c"
| "cm_data _ = fmempty"

interpretation rdsStatus: field_reader getRdsStatus Kind_RDSInstance "\<lambda>k. k" "''''" db_status
  by unfold_locales (simp add: getRdsStatus_def read_field_contract)

interpretation ebsVolumeId: field_reader getEbsVolumeId Kind_EbsVolume "\<lambda>k. k" "''''" ebs_id
  by unfold_locales (simp add: getEbsVolumeId_def read_field_contract)

interpretation mountTargetStatus:
  field_reader getMountTargetStatus Kind_MountTarget "\<lambda>k. k" None mt_state
  by unfold_locales (simp add: getMountTargetStatus_def read_field_contract)

interpretation filesystemId: field_reader getFilesystemId Kind_FileSystem "\<lambda>k. k" None fs_id
  by unfold_locales (simp add: getFilesystemId_def read_field_contract)

interpretation rdsEndpoint: field_reader getRdsEndpoint Kind_RDSInstance "\<lambda>k. k" "''''" db_endpoint
  by unfold_locales (simp add: getRdsEndpoint_def read_field_contract)

interpretation podStatus: field_reader getPodStatus Kind_Pod meta_key "''''" pod_phase
  by unfold_locales (simp add: getPodStatus_def read_field_contract)

interpretation jobSucceededReplicas:
  field_reader getJobSucceededReplicas Kind_Job meta_key 0 job_succeeded
  by unfold_locales (simp add: getJobSucceededReplicas_def read_field_contract)

interpretation svcClusterIp: field_reader getSvcClusterIp Kind_Service meta_key "''''" svc_ip
  by unfold_locales (simp add: getSvcClusterIp_def read_field_contract)

interpretation stsReadyReplicas:
  field_reader getStsReadyReplicas Kind_StatefulSet meta_key 0 sts_ready
  by unfold_locales (simp add: getStsReadyReplicas_def read_field_contract)

interpretation pvcStatus:
  field_reader getPvcStatus Kind_PersistentVolumeClaim meta_key "''''" pvc_phase
  by unfold_locales (simp add: getPvcStatus_def read_field_contract)

interpretation pvByName: field_reader getPvByName Kind_PersistentVolume ClusterKey
  zero_PersistentVolume the_pv
  by unfold_locales (simp add: getPvByName_def read_field_contract)

interpretation secretData: field_reader getSecretData Kind_Secret meta_key fmempty secret_data
  by unfold_locales (simp add: getSecretData_def read_field_contract)

interpretation configMapData:
  field_reader getConfigMapData Kind_ConfigMap meta_key fmempty cm_data
  by unfold_locales (simp add: getConfigMapData_def read_field_contract)

end
