(* ===== verification/Builder_Contract.thy ===== *)
theory Builder_Contract
  imports Helpers
begin

text \<open>
  The interface between the reconciler and the functions that build objects (\<open>k8s/\<close> and
  \<open>crossplane/\<close>): a builder gives, for a resource and its own arguments, an object of a fixed kind
  under a key that depends on the request only, or panics (\<open>None\<close>); most of them make the resource the
  controlling owner. The theories of the builders interpret the locales on the builders themselves.
\<close>

locale object_builder =
  fixes build :: "Jira \<Rightarrow> 'a \<Rightarrow> kobj option"
    and knd :: kind
    and key :: "Jira \<Rightarrow> 'a \<Rightarrow> ObjectKey"
  assumes build_kind: "build jira x = Some ob \<Longrightarrow> obj_kind ob = knd"
    and build_key: "build jira x = Some ob \<Longrightarrow> obj_key ob = key jira x"
    and key_request: "same_request a b \<Longrightarrow> key b x = key a x"
begin

text \<open>
  Reconciling the same request again asks for the same key, whatever happened to the status: the
  API server answers \<open>AlreadyExists\<close> instead of storing a second object.
\<close>

lemma rebuild_same_key:
  assumes "same_request a b" and "build a x = Some ob" and "build b x = Some ob'"
  shows "obj_key ob' = obj_key ob \<and> obj_kind ob' = obj_kind ob"
  using assms by (simp add: build_key build_kind key_request)

end

locale owned_builder = object_builder +
  assumes build_owner: "build jira x = Some ob \<Longrightarrow>
    OwnerReferences (obj_meta ob) = GetOwnerReferences jira"
begin

lemma build_controlled: "build jira x = Some ob \<Longrightarrow> controlled_by jira ob"
  by (rule controlled_by_GetOwnerReferences) (rule build_owner)

lemma build_controlled_request:
  assumes "same_request a b" and "build b x = Some ob"
  shows "controlled_by a ob"
  using build_owner [OF assms(2)] GetOwnerReferences_same_request [OF assms(1)]
  by (simp add: controlled_by_GetOwnerReferences)

end

text \<open>The two ways the names of the operator are made.\<close>

definition name_uid :: "Jira \<Rightarrow> string" where
  "name_uid jira = jira_Name jira @ ''-'' @ jira_UID jira"

lemma name_uid_same_request: "same_request a b \<Longrightarrow> name_uid b = name_uid a"
  by (simp add: name_uid_def same_request_Name same_request_UID)

lemma name_uid_set [simp]:
  "name_uid (set_RDS f jira) = name_uid jira"
  "name_uid (set_AppStatus g jira) = name_uid jira"
  "name_uid (set_SharedFs h jira) = name_uid jira"
  by (simp_all add: name_uid_def)

lemmas key_request_simps = name_uid_same_request same_request_Name same_request_UID
  same_request_Spec

text \<open>The metadata most builders set: a name, a namespace (or none) and the owner.\<close>

definition owned_meta :: "Jira \<Rightarrow> string \<Rightarrow> string \<Rightarrow> ObjectMeta" where
  "owned_meta jira n ns =
     zero_ObjectMeta\<lparr>Name := n, Namespace := ns, OwnerReferences := GetOwnerReferences jira\<rparr>"

lemma owned_meta_simps [simp]:
  "Name (owned_meta jira n ns) = n" "Namespace (owned_meta jira n ns) = ns"
  "UID (owned_meta jira n ns) = ''''"
  "Labels (owned_meta jira n ns) = fmempty" "Annotations (owned_meta jira n ns) = fmempty"
  "OwnerReferences (owned_meta jira n ns) = GetOwnerReferences jira"
  "meta_key (owned_meta jira n ns) = NamespacedKey n ns"
  by (simp_all add: owned_meta_def meta_key_def)

lemma NamespacedKey_cluster: "NamespacedKey n '''' = ClusterKey n"
  by (simp add: NamespacedKey_def ClusterKey_def)

end
