(* ===== verification/Reconcile_Steps.thy ===== *)
theory Reconcile_Steps
  imports Status_Readers Builder_Contract
begin

text \<open>
  The statement patterns \<open>Reconcile\<close> (\<open>controllers/jira_controller.go\<close>) is made of, and the contract
  every part of it keeps: after a call that fails nothing more is called and its error is returned,
  and a return without an error asks to be run again.
\<close>

section \<open>Statement patterns\<close>

text \<open>\<open>err = r.Create(ob); if err != nil && !errors.IsAlreadyExists(err) { return res, err }\<close>; the value
  is the metadata the call left in the object.\<close>

definition ensure :: "'w env \<Rightarrow> kobj \<Rightarrow> ctrl_Result \<Rightarrow> ('w, ObjectMeta) op" where
  "ensure env ob res =
     bind (r_Create env ob) (\<lambda>(err, m). bind (stop_if (create_failed err) res err) (\<lambda>_. ret m))"

text \<open>\<open>v, err := f(...); if err != nil { return res, err }\<close>.\<close>

definition checked :: "('w, 'v \<times> goerror option) op \<Rightarrow> ctrl_Result \<Rightarrow> ('w, 'v) op" where
  "checked m res = bind m (\<lambda>(v, err). bind (stop_if (err \<noteq> None) res err) (\<lambda>_. ret v))"

text \<open>\<open>err = r.Client.Update(ob); if err != nil { return res, err }\<close>.\<close>

definition update_object :: "'w env \<Rightarrow> kobj \<Rightarrow> ctrl_Result \<Rightarrow> ('w, unit) op" where
  "update_object env ob res = bind (r_Update env ob) (\<lambda>err. stop_if (err \<noteq> None) res err)"

text \<open>\<open>err = r.Status().Update(jira); if err != nil { return res, err }\<close>; the value is \<open>jira\<close> after it.\<close>

definition save_status :: "'w env \<Rightarrow> Jira \<Rightarrow> ctrl_Result \<Rightarrow> ('w, Jira) op" where
  "save_status env jira res =
     bind (r_Status_Update env jira) (\<lambda>(err, j). bind (stop_if (err \<noteq> None) res err) (\<lambda>_. ret j))"

text \<open>A builder that parses a quantity, which panics on a malformed one.\<close>

definition built :: "'o option \<Rightarrow> ('w, 'o) op" where
  "built ob = (case ob of None \<Rightarrow> panic ''cannot parse quantity'' | Some x \<Rightarrow> ret x)"

text \<open>\<open>*p\<close> of a pointer that may be nil.\<close>

definition deref :: "'o option \<Rightarrow> ('w, 'o) op" where
  "deref p = (case p of None \<Rightarrow> panic ''nil pointer dereference'' | Some x \<Rightarrow> ret x)"

text \<open>
  The count a reader gives is checked: an error other than \<open>AlreadyExists\<close> returns \<open>res\<close>, and a count
  below one returns \<open>res'\<close>, with whatever error is left.
\<close>

definition replicas_ready ::
  "('w, int32 \<times> goerror option) op \<Rightarrow> ctrl_Result \<Rightarrow> ctrl_Result \<Rightarrow> ('w, unit) op" where
  "replicas_ready m res res' =
     bind m (\<lambda>(n, err).
     bind (stop_if (create_failed err) res err) (\<lambda>_.
     stop_if (sint n < 1) res' err))"

lemma every_bind_ensureI:
  assumes "\<And>e. \<not> IsAlreadyExists e \<Longrightarrow> P (Return res (Some e)) [Created ob (Some e)]"
    and "\<And>e m. \<not> create_failed e \<Longrightarrow> every (f m) (\<lambda>r es. P r (Created ob e # es))"
  shows "every (bind (ensure env ob res) f) P"
  unfolding ensure_def bind_assoc
proof (rule every_bind_r_CreateI)
  fix e m
  show "every (bind (case (e, m) of (err, m) \<Rightarrow>
      bind (stop_if (create_failed err) res err) (\<lambda>_. ret m)) f) (\<lambda>r es. P r (Created ob e # es))"
    using assms by (cases e) (auto simp: stop_if_def wp_simps)
qed

lemma every_bind_update_objectI:
  assumes "\<And>e. P (Return res (Some e)) [Updated ob (Some e)]"
    and "every (f ()) (\<lambda>r es. P r (Updated ob None # es))"
  shows "every (bind (update_object env ob res) f) P"
  unfolding update_object_def bind_assoc
  by (rule every_bind_r_UpdateI) (use assms in \<open>auto simp: stop_if_def wp_simps\<close>)

lemma every_bind_save_statusI:
  assumes "\<And>e. P (Return res (Some e)) [StatusUpdated jira (Some e)]"
    and "\<And>j. every (f j) (\<lambda>r es. P r (StatusUpdated jira None # es))"
  shows "every (bind (save_status env jira res) f) P"
  unfolding save_status_def bind_assoc
  by (rule every_bind_r_Status_UpdateI) (use assms in \<open>auto simp: stop_if_def wp_simps\<close>)

lemma every_bind_builtI:
  assumes "ob = None \<Longrightarrow> P (Panic ''cannot parse quantity'') []"
    and "\<And>x. ob = Some x \<Longrightarrow> every (f x) P"
  shows "every (bind (built ob) f) P"
  using assms by (cases ob) (simp_all add: built_def wp_simps)

lemma every_bind_derefI:
  assumes "p = None \<Longrightarrow> P (Panic ''nil pointer dereference'') []"
    and "\<And>x. p = Some x \<Longrightarrow> every (f x) P"
  shows "every (bind (deref p) f) P"
  using assms by (cases p) (simp_all add: deref_def wp_simps)

text \<open>A checked reader, inside the contract of readers.\<close>

context field_reader
begin

lemma every_bind_checkedI:
  assumes "\<And>e. P (Return res (Some e)) [Got knd (key x) (Inl e)]"
    and "\<And>ob. obj_kind ob = knd \<Longrightarrow>
      every (f (field ob)) (\<lambda>q es. P q (Got knd (key x) (Inr ob) # es))"
  shows "every (bind (checked (read env x) res) f) P"
  unfolding checked_def bind_assoc
  by (rule every_bind_readI) (use assms in \<open>auto simp: stop_if_def wp_simps\<close>)

end

text \<open>A checked count, for a reader that satisfies its contract.\<close>

definition reads_count :: "('w, int32 \<times> goerror option) op \<Rightarrow> kind \<Rightarrow> ObjectKey \<Rightarrow> (kobj \<Rightarrow> int32) \<Rightarrow> bool" where
  "reads_count m knd key field \<longleftrightarrow> every m (\<lambda>r es.
      (\<exists>e. es = [Got knd key (Inl e)] \<and> r = Next (0, Some e))
      \<or> (\<exists>ob. es = [Got knd key (Inr ob)] \<and> obj_kind ob = knd \<and> r = Next (field ob, None)))"

lemma every_bind_replicas_readyI:
  assumes "reads_count m knd key field"
    and "\<And>e. P (Return (if IsAlreadyExists e then res' else res) (Some e)) [Got knd key (Inl e)]"
    and "\<And>ob. obj_kind ob = knd \<Longrightarrow> sint (field ob) < 1 \<Longrightarrow> P (Return res' None) [Got knd key (Inr ob)]"
    and "\<And>ob. obj_kind ob = knd \<Longrightarrow> 1 \<le> sint (field ob) \<Longrightarrow>
      every (f ()) (\<lambda>q es. P q (Got knd key (Inr ob) # es))"
  shows "every (bind (replicas_ready m res res') f) P"
  unfolding replicas_ready_def bind_assoc
proof (rule every_bindI, rule every_mono [OF assms(1) [unfolded reads_count_def]])
  fix r :: "(int32 \<times> goerror option) outcome" and es
  assume "(\<exists>e. es = [Got knd key (Inl e)] \<and> r = Next (0, Some e))
      \<or> (\<exists>ob. es = [Got knd key (Inr ob)] \<and> obj_kind ob = knd \<and> r = Next (field ob, None))"
  then show "case r of
      Next a \<Rightarrow> every (bind (case a of (n, err) \<Rightarrow>
          bind (stop_if (create_failed err) res err) (\<lambda>_. stop_if (sint n < 1) res' err)) f)
        (\<lambda>r' es'. P r' (es @ es'))
    | Return x e \<Rightarrow> P (Return x e) es | Panic p \<Rightarrow> P (Panic p) es"
    using assms(2-4) by (auto simp: stop_if_def wp_simps) (metis if_False if_True)+
qed

lemma job_reads_count: "reads_count (getJobSucceededReplicas env m) Kind_Job (meta_key m) job_succeeded"
  unfolding reads_count_def by (rule jobSucceededReplicas.read_spec)

lemma sts_reads_count: "reads_count (getStsReadyReplicas env m) Kind_StatefulSet (meta_key m) sts_ready"
  unfolding reads_count_def by (rule stsReadyReplicas.read_spec)

section \<open>The contract of a step\<close>

text \<open>
  The error a call ended with, except that of reading the database secret, which the code drops.
\<close>

fun serious_error :: "event \<Rightarrow> goerror option" where
  "serious_error (Got Kind_Secret key (Inl e)) = None"
| "serious_error ev = event_error ev"

fun fail_fast :: "'a outcome \<Rightarrow> event list \<Rightarrow> bool" where
  "fail_fast r [] = True"
| "fail_fast r (ev # es) =
     (case serious_error ev of
        None \<Rightarrow> fail_fast r es
      | Some e \<Rightarrow> es = [] \<and> (\<exists>x. r = Return x (Some e)))"

fun requeues :: "'a outcome \<Rightarrow> bool" where
  "requeues (Return x None) = (0 < RequeueAfter x)"
| "requeues _ = True"

lemma fail_fast_append:
  "\<forall>ev \<in> set xs. serious_error ev = None \<Longrightarrow> fail_fast r (xs @ ys) = fail_fast r ys"
  by (induction xs) auto

lemma fail_fast_Next: "fail_fast (Next a) es \<longleftrightarrow> (\<forall>ev \<in> set es. serious_error ev = None)"
  by (induction es) (auto split: option.splits)

text \<open>Unfolded: in a log, only the last call can have failed, and then its error is returned.\<close>

lemma fail_fast_split:
  "fail_fast r (ys @ ev # zs) \<Longrightarrow> serious_error ev = Some e \<Longrightarrow> zs = [] \<and> (\<exists>x. r = Return x (Some e))"
  by (induction ys) (auto split: option.splits)

definition step_contract :: "'a outcome \<Rightarrow> event list \<Rightarrow> bool" where
  "step_contract r es \<longleftrightarrow> fail_fast r es \<and> requeues r"

locale reconcile_step =
  fixes step :: "('w, 'a) op"
  assumes contract: "every step step_contract"
begin

lemma failed_call_is_last:
  assumes "step w = (r, ys @ ev # zs, w')" and "serious_error ev = Some e"
  shows "zs = [] \<and> (\<exists>x. r = Return x (Some e))"
proof -
  from everyD [OF contract assms(1)] have "fail_fast r (ys @ ev # zs)"
    by (simp add: step_contract_def)
  then show ?thesis using assms(2) by (rule fail_fast_split)
qed

lemma returns_requeue:
  assumes "step w = (Return x None, es, w')"
  shows "0 < RequeueAfter x"
  using everyD [OF contract assms(1)] by (simp add: step_contract_def)

end

lemma step_contract_Cons:
  "serious_error ev = None \<Longrightarrow> step_contract r (ev # es) = step_contract r es"
  by (simp add: step_contract_def)

text \<open>One step after another keeps the contract.\<close>

lemma contract_bind:
  fixes m :: "('w, 'a) op" and f :: "'a \<Rightarrow> ('w, 'b) op"
  assumes "every m step_contract" and "\<And>a. every (f a) step_contract"
  shows "every (bind m f) step_contract"
proof (rule every_bindI, rule every_mono [OF assms(1)])
  fix r :: "'a outcome" and es :: "event list"
  assume c: "step_contract r es"
  show "case r of Next a \<Rightarrow> every (f a) (\<lambda>r' es'. step_contract r' (es @ es'))
      | Return x e \<Rightarrow> step_contract (Return x e :: 'b outcome) es
      | Panic p \<Rightarrow> step_contract (Panic p :: 'b outcome) es"
  proof (cases r)
    case (Next a)
    with c have "\<forall>ev \<in> set es. serious_error ev = None"
      by (simp add: step_contract_def fail_fast_Next)
    then have "step_contract r' (es @ es') = step_contract r' es'" for r' :: "'b outcome" and es'
      by (simp add: step_contract_def fail_fast_append)
    with Next assms(2) show ?thesis by simp
  next
    case (Return x e)
    have "fail_fast (Return x e :: 'a outcome) es' = fail_fast (Return x e :: 'b outcome) es'" for es'
      by (induction es') (auto split: option.splits)
    moreover have "requeues (Return x e :: 'a outcome) = requeues (Return x e :: 'b outcome)"
      by (cases e) auto
    ultimately have "step_contract (Return x e :: 'b outcome) es"
      using c Return unfolding step_contract_def by metis
    with Return show ?thesis by simp
  next
    case (Panic p)
    have "fail_fast (Panic p :: 'a outcome) es' = fail_fast (Panic p :: 'b outcome) es'" for es'
      by (induction es') (auto split: option.splits)
    with c Panic show ?thesis by (simp add: step_contract_def)
  qed
qed

locale reconcile_sequence =
  first: reconcile_step first for first :: "('w, 'a) op" +
  fixes rest :: "'a \<Rightarrow> ('w, 'b) op"
  assumes rest: "every (rest a) step_contract"

sublocale reconcile_sequence \<subseteq> seq: reconcile_step "bind first rest"
  by unfold_locales (rule contract_bind [OF first.contract rest])

lemma contract_ret [simp]: "every (ret a) step_contract"
  by (simp add: wp_simps step_contract_def)

lemma contract_panic [simp]: "every (panic p) step_contract"
  by (simp add: wp_simps step_contract_def)

lemma contract_stop: "e \<noteq> None \<or> 0 < RequeueAfter res \<Longrightarrow> every (stop res e) step_contract"
  by (cases e) (auto simp: wp_simps step_contract_def)

lemma contract_stop_if:
  "(c \<Longrightarrow> e \<noteq> None \<or> 0 < RequeueAfter res) \<Longrightarrow> every (stop_if c res e) step_contract"
  by (auto simp: stop_if_def contract_stop)

lemma contract_if:
  "(c \<Longrightarrow> every m step_contract) \<Longrightarrow> (\<not> c \<Longrightarrow> every n step_contract) \<Longrightarrow>
   every (if c then m else n) step_contract"
  by simp

lemma contract_option:
  "(ob = None \<Longrightarrow> every m step_contract) \<Longrightarrow> (\<And>x. ob = Some x \<Longrightarrow> every (f x) step_contract) \<Longrightarrow>
   every (case ob of None \<Rightarrow> m | Some x \<Rightarrow> f x) step_contract"
  by (cases ob) auto

lemma contract_built [simp]: "every (built ob) step_contract"
  by (simp add: built_def split: option.split)

lemma contract_deref [simp]: "every (deref ob) step_contract"
  by (simp add: deref_def split: option.split)

lemma contract_ensure: "every (ensure env ob res) step_contract"
  using every_bind_ensureI [where f = ret and P = step_contract and ob = ob and res = res and env = env]
  by (auto simp: wp_simps step_contract_def)

lemma contract_update_object: "every (update_object env ob res) step_contract"
  using every_bind_update_objectI [where f = ret and P = step_contract and ob = ob and res = res and env = env]
  by (auto simp: wp_simps step_contract_def)

lemma contract_save_status: "every (save_status env jira res) step_contract"
  using every_bind_save_statusI [where f = ret and P = step_contract and jira = jira and res = res and env = env]
  by (auto simp: wp_simps step_contract_def)

lemma requeues_no_return: "\<forall>x e. r \<noteq> Return x e \<Longrightarrow> requeues r"
  by (cases r) auto

lemma contract_replicas_ready:
  assumes "reads_count m knd key field" and "0 < RequeueAfter res'"
  shows "every (replicas_ready m res res') step_contract"
  using every_bind_replicas_readyI [OF assms(1), where f = ret and P = step_contract
      and res = res and res' = res'] assms(2)
  by (cases knd) (auto simp: wp_simps step_contract_def)

lemma contract_no_events:
  "every m (\<lambda>r es. es = [] \<and> (\<forall>x e. r \<noteq> Return x e)) \<Longrightarrow> every m step_contract"
  by (erule every_mono) (auto simp: step_contract_def requeues_no_return)

context field_reader
begin

lemma contract_checked:
  "knd \<noteq> Kind_Secret \<Longrightarrow> every (checked (read env x) res) step_contract"
  using every_bind_checkedI [where f = ret and P = step_contract and x = x and res = res and env = env]
  by (cases knd) (auto simp: wp_simps step_contract_def)

lemma contract_read_secret: "knd = Kind_Secret \<Longrightarrow> every (read env x) step_contract"
  by (rule every_mono [OF read_spec]) (auto simp: step_contract_def)

end

lemmas contract_intros = contract_bind contract_ret contract_panic contract_stop contract_stop_if
  contract_if contract_option contract_built contract_deref contract_ensure contract_update_object
  contract_save_status

section \<open>What the patterns log\<close>

lemma logs_built: "logs E (built ob) (\<lambda>x. ob = Some x)"
  by (simp add: built_def logs_ret split: option.split)

lemma logs_deref: "logs E (deref p) (\<lambda>x. p = Some x)"
  by (simp add: deref_def logs_ret split: option.split)

lemma logs_r_Get: "(\<And>r. E (Got k key r)) \<Longrightarrow> logs E (r_Get k mk g key) (\<lambda>_. True)"
  unfolding r_Get_def by (rule logs_act) simp

lemma logs_r_Create:
  assumes "\<And>e. E (Created ob e)"
  shows "logs E (r_Create env ob) (\<lambda>(e, m). create_keeps_key env \<longrightarrow> meta_key m = obj_key ob)"
  unfolding r_Create_def
proof (rule logs_act_range)
  fix w
  show "(\<forall>ev \<in> set (case fst (api_Create env ob w) of (e, m) \<Rightarrow> [Created ob e]). E ev)
      \<and> (case fst (api_Create env ob w) of (e, m) \<Rightarrow> create_keeps_key env \<longrightarrow> meta_key m = obj_key ob)"
    using assms by (auto simp: create_keeps_key_def split: prod.split) (metis prod.collapse)
qed

text \<open>The metadata an object has after its creation is under the key of the object.\<close>

lemma logs_ensure:
  assumes "\<And>e. E (Created ob e)"
  shows "logs E (ensure env ob res) (\<lambda>m. create_keeps_key env \<longrightarrow> meta_key m = obj_key ob)"
  unfolding ensure_def
  by (rule logs_bind, rule logs_r_Create, rule assms)
     (auto intro!: logs_bind [OF logs_stop_if] logs_ret)

lemma logs_update_object:
  "(\<And>e. E (Updated ob e)) \<Longrightarrow> logs E (update_object env ob res) (\<lambda>_. True)"
  unfolding update_object_def r_Update_def
  by (rule logs_bind, rule logs_act) (auto intro: logs_mono [OF logs_stop_if])

text \<open>A status update gives back the same request.\<close>

lemma logs_save_status:
  assumes "\<And>e. E (StatusUpdated jira e)"
  shows "logs E (save_status env jira res)
    (\<lambda>j. status_update_keeps_request env \<longrightarrow> same_request jira j)"
  unfolding save_status_def r_Status_Update_def
proof (rule logs_bind, rule logs_act_range)
  fix w
  show "(\<forall>ev \<in> set (case fst (api_StatusUpdate env jira w) of (e, j) \<Rightarrow> [StatusUpdated jira e]). E ev)
      \<and> (case fst (api_StatusUpdate env jira w) of
          (e, j) \<Rightarrow> status_update_keeps_request env \<longrightarrow> same_request jira j)"
    using assms by (auto simp: status_update_keeps_request_def split: prod.split) (metis prod.collapse)
qed (auto intro!: logs_bind [OF logs_stop_if] logs_ret)

lemma logs_checked:
  "logs E m (\<lambda>(v, e). Q v) \<Longrightarrow> logs E (checked m res) Q"
  unfolding checked_def
  by (erule logs_bind) (auto intro!: logs_bind [OF logs_stop_if] logs_ret)

lemma logs_replicas_ready:
  assumes "reads_count m knd key field" and "\<And>r. E (Got knd key r)"
  shows "logs E (replicas_ready m res res') (\<lambda>_. True)"
proof -
  have "logs E m (\<lambda>_. True)"
    unfolding logs_def
    by (rule every_mono [OF assms(1) [unfolded reads_count_def]]) (use assms(2) in auto)
  then show ?thesis
    unfolding replicas_ready_def
    by (rule logs_bind) (auto intro!: logs_bind [OF logs_stop_if] logs_mono [OF logs_stop_if])
qed

lemma logs_no_events: "every m (\<lambda>r es. es = [] \<and> (\<forall>a. r = Next a \<longrightarrow> Q a)) \<Longrightarrow> logs E m Q"
  unfolding logs_def by (erule every_mono) simp

context field_reader
begin

lemma logs_read: "(\<And>r. E (Got knd (key x) r)) \<Longrightarrow> logs E (read env x) (\<lambda>_. True)"
  unfolding logs_def by (rule every_mono [OF read_spec]) auto

lemma logs_checked_read:
  "(\<And>r. E (Got knd (key x) r)) \<Longrightarrow> logs E (checked (read env x) res) (\<lambda>_. True)"
  by (rule logs_checked, rule logs_mono [OF logs_read]) auto

end

lemmas logs_binds = logs_bind [OF logs_ensure] logs_bind [OF logs_built] logs_bind [OF logs_deref]
  logs_bind [OF logs_stop_if] logs_bind [OF logs_update_object] logs_bind [OF logs_save_status]
  logs_bind [OF logs_r_Get] logs_bind [OF logs_r_Create]
  logs_bind [OF logs_replicas_ready [OF job_reads_count]]
  logs_bind [OF logs_replicas_ready [OF sts_reads_count]]

lemmas logs_lasts = logs_weaken [OF logs_ensure] logs_weaken [OF logs_update_object]
  logs_weaken [OF logs_save_status] logs_weaken [OF logs_stop_if]

end
