(* ===== verification/Database_Objects.thy ===== *)
theory Database_Objects
  imports Builder_Contract
begin

text \<open>
  The objects around the database: the namespace (\<open>k8s/namespace.go\<close>), the secrets
  (\<open>k8s/secret.go\<close>, and \<open>GetLiquibaseSecret\<close> of \<open>k8s/liquibase.go\<close>), and the RDS instance with its subnet and parameter groups
  (\<open>crossplane/rds.go\<close>).
\<close>

section \<open>The namespace\<close>

definition GetNamespace :: "Jira \<Rightarrow> NamespaceObj" where
  "GetNamespace jira =
     \<lparr>ns_ObjectMeta = zero_ObjectMeta
        \<lparr>Name := jira_Name jira,
         Labels := fmap_of_list [(''owned_by'', jira_Name jira)],
         Annotations := fmap_of_list [(''owned_by'', jira_Name jira)],
         OwnerReferences := GetOwnerReferences jira\<rparr>\<rparr>"

interpretation namespace: owned_builder
  "\<lambda>jira _. Some (Obj_Namespace (GetNamespace jira))" Kind_Namespace
  "\<lambda>jira _. ClusterKey (jira_Name jira)"
  by unfold_locales
    (auto simp: GetNamespace_def obj_key_def meta_key_def NamespacedKey_cluster key_request_simps)

section \<open>Secrets\<close>

text \<open>
  The map literal calls \<open>GeneratePasswd\<close> three times, in the order of its entries.
\<close>

definition GetRdsSecret :: "'w env \<Rightarrow> Jira \<Rightarrow> string \<Rightarrow> string \<Rightarrow> ('w, Secret) op" where
  "GetRdsSecret env jira rdsHostname namespace =
     bind (GeneratePasswd env 26) (\<lambda>passwd.
     bind (GeneratePasswd env 26) (\<lambda>appPasswd.
     bind (GeneratePasswd env 26) (\<lambda>appRoPasswd.
     ret \<lparr>secret_ObjectMeta = owned_meta jira ''jira-database-secret'' namespace,
          secret_Data = fmap_of_list
            [(''password'', passwd),
             (''username'', ''postgres''),
             (''url'', ''jdbc:postgresql://'' @ rdsHostname @ ''/postgres''),
             (''jdbcUrl'', ''jdbc:postgresql://'' @ rdsHostname @ ''/jira''),
             (''hostname'', rdsHostname),
             (''changeLogFile'', ''changelog.yml''),
             (''classpath'', ''changelog''),
             (''parameter.appUsername'', ''jira''),
             (''parameter.appRoUsername'', ''jira-ro''),
             (''parameter.appPassword'', appPasswd),
             (''parameter.appRoPassword'', appRoPasswd)]\<rparr>)))"

definition GetJiraUserRdsSecret :: "'w env \<Rightarrow> Jira \<Rightarrow> string \<Rightarrow> string \<Rightarrow> ('w, Secret) op" where
  "GetJiraUserRdsSecret env jira namespace rdsHostname =
     bind (GeneratePasswd env 26) (\<lambda>passwd.
     ret \<lparr>secret_ObjectMeta = owned_meta jira ''jira-database-secret'' namespace,
          secret_Data = fmap_of_list
            [(''password'', passwd),
             (''username'', ''jira''),
             (''jdbcUrl'', ''jdbc:postgresql://'' @ rdsHostname @ ''/jira'')]\<rparr>)"

definition GetLiquibaseSecret ::
  "'w env \<Rightarrow> Jira \<Rightarrow> string \<Rightarrow> string \<Rightarrow> string \<Rightarrow> string \<Rightarrow> ('w, Secret) op" where
  "GetLiquibaseSecret env jira namespace rdsHostname masterPassword appUserJDBCPassword =
     bind (GeneratePasswd env 26) (\<lambda>appRoPasswd.
     ret \<lparr>secret_ObjectMeta =
            owned_meta jira (jira_Name jira @ ''-liquibase-properties-secret'') namespace,
          secret_Data = fmap_of_list
            [(''password'', masterPassword),
             (''username'', ''postgres''),
             (''url'', ''jdbc:postgresql://'' @ rdsHostname @ ''/postgres''),
             (''hostname'', rdsHostname),
             (''changeLogFile'', ''changelog.yml''),
             (''classpath'', ''changelog''),
             (''parameter.appUsername'', ''jira''),
             (''parameter.appRoUsername'', ''jira-ro''),
             (''parameter.appPassword'', appUserJDBCPassword),
             (''parameter.appRoPassword'', appRoPasswd)]\<rparr>)"

text \<open>What the reconciler relies on of the database secret it just built.\<close>

definition rds_secret_ok :: "Jira \<Rightarrow> string \<Rightarrow> string \<Rightarrow> Secret \<Rightarrow> bool" where
  "rds_secret_ok jira host ns s \<longleftrightarrow>
     secret_ObjectMeta s = owned_meta jira ''jira-database-secret'' ns
     \<and> fmlookup (secret_Data s) ''hostname'' = Some host
     \<and> fmlookup (secret_Data s) ''username'' = Some ''postgres''
     \<and> fmlookup (secret_Data s) ''url'' = Some (''jdbc:postgresql://'' @ host @ ''/postgres'')
     \<and> fmlookup (secret_Data s) ''jdbcUrl'' = Some (''jdbc:postgresql://'' @ host @ ''/jira'')
     \<and> fmlookup (secret_Data s) ''changeLogFile'' = Some ''changelog.yml''
     \<and> fmlookup (secret_Data s) ''classpath'' = Some ''changelog''
     \<and> (\<forall>k \<in> {''password'', ''parameter.appPassword'', ''parameter.appRoPassword''}.
          \<exists>p. fmlookup (secret_Data s) k = Some p \<and> passwd_ok 26 p)"

lemma GetRdsSecret_spec:
  "every (GetRdsSecret env jira host ns) (\<lambda>r es. es = []
     \<and> (\<forall>s. r = Next s \<longrightarrow> rds_secret_ok jira host ns s) \<and> (\<forall>x e. r \<noteq> Return x e))"
  (is "every _ ?Q")
proof -
  have draw: "every (bind (GeneratePasswd env 26) f) ?Q"
    if "\<And>p. passwd_ok 26 p \<Longrightarrow> every (f p) ?Q" for f
  proof (rule every_bindI, rule every_mono [OF GeneratePasswd_spec])
    fix r :: "string outcome" and es :: "event list"
    assume "es = [] \<and> (\<forall>s. r = Next s \<longrightarrow> passwd_ok (nat 26) s) \<and> (\<forall>x e. r \<noteq> Return x e)"
    with that show "case r of Next a \<Rightarrow> every (f a) (\<lambda>r' es'. ?Q r' (es @ es'))
        | Return x e \<Rightarrow> ?Q (Return x e) es | Panic p \<Rightarrow> ?Q (Panic p) es"
      by (cases r) auto
  qed
  show ?thesis
    unfolding GetRdsSecret_def
    by (intro draw) (simp add: every_ret rds_secret_ok_def fmlookup_of_list)
qed

lemma GetRdsSecret_returns:
  assumes "Intn_in_range env"
  shows "every (GetRdsSecret env jira host ns) (\<lambda>r es. \<exists>s. r = Next s)"
proof -
  have draw: "every (bind (GeneratePasswd env 26) f) (\<lambda>r es. \<exists>s. r = Next s)"
    if "\<And>p. every (f p) (\<lambda>r es. \<exists>s. r = Next s)" for f :: "string \<Rightarrow> ('a, Secret) op"
    by (rule every_bindI, rule every_mono [OF GeneratePasswd_returns [OF assms]])
       (use that in auto)
  show ?thesis unfolding GetRdsSecret_def by (intro draw) (simp add: every_ret)
qed

section \<open>The RDS instance, its subnet group and its parameter group\<close>

definition provider_spec :: "Jira \<Rightarrow> ResourceSpec" where
  "provider_spec jira = \<lparr>WriteConnectionSecretToReference = None,
     ProviderConfigReference = Some (CrossplaneAwsProviderName (Spec jira)), DeletionPolicy = ''''\<rparr>"

text \<open>\<open>if jira.Spec.RetainOnDelete { spec.DeletionPolicy = "Orphan" }\<close>.\<close>

definition orphan_if_retained :: "Jira \<Rightarrow> ResourceSpec \<Rightarrow> ResourceSpec" where
  "orphan_if_retained jira s =
     (if RetainOnDelete (Spec jira) then s\<lparr>DeletionPolicy := ''Orphan''\<rparr> else s)"

definition GetRdsInstance :: "Jira \<Rightarrow> DBSubnetGroup \<Rightarrow> DBParameterGroup \<Rightarrow> string \<Rightarrow> RDSInstance" where
  "GetRdsInstance jira dbSubnetGroup dbParameterGroup namespace =
     (let rdsParams =
        \<lparr>rdsp_Region = Some (AWSRegion (Spec jira)),
         rdsp_AllocatedStorage = Some (AllocatedStorage (Database (Spec jira))),
         rdsp_DBInstanceClass = DBInstanceClass (Database (Spec jira)),
         VPCSecurityGroupIDs = SecurityGroupIds (spec_Network (Spec jira)),
         DBParameterGroupName = Some (Name (dpg_ObjectMeta dbParameterGroup)),
         DBSubnetGroupName = Some (Name (dsg_ObjectMeta dbSubnetGroup)),
         rdsp_Engine = Engine (Database (Spec jira)),
         rdsp_EngineVersion = Some (EngineVersion (Database (Spec jira))),
         rdsp_KMSKeyID = Some (KMSKeyId (Spec jira)),
         MasterUsername = Some ''postgres'',
         MasterPasswordSecretRef = Some
           \<lparr>xsks_SecretReference =
              \<lparr>secref_Name = ''jira-database-secret'', secref_Namespace = namespace\<rparr>,
            xsks_Key = ''password''\<rparr>,
         SkipFinalSnapshotBeforeDeletion = Some True,
         rdsp_Tags = GetDbTags jira,
         ApplyModificationsImmediately = Some True,
         RestoreFrom = None\<rparr>;
      rdsParams =
        (if SnapshotID (Database (Spec jira)) \<noteq> ''''
         then rdsParams\<lparr>RestoreFrom := Some
                \<lparr>rbc_Snapshot = Some
                   \<lparr>SnapshotIdentifier = Some (SnapshotID (Database (Spec jira)))\<rparr>,
                 rbc_Source = Some ''Snapshot''\<rparr>\<rparr>
         else rdsParams);
      rdsResourceSpec =
        orphan_if_retained jira
          \<lparr>WriteConnectionSecretToReference = Some
             \<lparr>secref_Name = jira_Name jira @ ''-db-secret'', secref_Namespace = namespace\<rparr>,
           ProviderConfigReference = Some (CrossplaneAwsProviderName (Spec jira)),
           DeletionPolicy = ''''\<rparr>
      in \<lparr>rds_ObjectMeta = owned_meta jira (name_uid jira) '''',
          rds_Spec = \<lparr>rds_ResourceSpec = rdsResourceSpec, rds_ForProvider = rdsParams\<rparr>,
          rds_AtProvider = \<lparr>DBInstanceStatus = '''', Endpoint_Address = ''''\<rparr>\<rparr>)"

definition GetDbSubnetGroup :: "Jira \<Rightarrow> DBSubnetGroup" where
  "GetDbSubnetGroup jira =
     \<lparr>dsg_ObjectMeta = owned_meta jira (name_uid jira) '''',
      dsg_ForProvider =
        \<lparr>dsg_Region = Some (AWSRegion (Spec jira)),
         dsg_Description = ''DB Subnet group for '' @ jira_Name jira @ '' RDS instance'',
         dsg_SubnetIDs = SubnetIDs (spec_Network (Spec jira)),
         dsg_Tags = GetDbTags jira\<rparr>,
      dsg_ResourceSpec = provider_spec jira\<rparr>"

definition custom_parameter :: "string \<Rightarrow> string \<Rightarrow> CustomParameter" where
  "custom_parameter n v =
     \<lparr>ParameterName = Some n, ParameterValue = Some v, ApplyMethod = Some ''immediate''\<rparr>"

text \<open>\<open>strings.Split(jira.Spec.Database.EngineVersion, ".")[0]\<close>.\<close>

definition GetDbParameterGroup :: "Jira \<Rightarrow> DBParameterGroup" where
  "GetDbParameterGroup jira =
     (let paramaterFamilyVersion = strings_Split (EngineVersion (Database (Spec jira))) ''.'' ! 0
      in \<lparr>dpg_ObjectMeta = owned_meta jira (name_uid jira) '''',
          dpg_ResourceSpec = provider_spec jira,
          dpg_ForProvider =
            \<lparr>dpg_Region = AWSRegion (Spec jira),
             dpg_Description = Some ''DB Parameter Group created by Jira Operator'',
             dpg_Tags =
               [ptr_tag ''resource_owner'' ''mgibson'',
                ptr_tag ''service_name'' ''itplat_infrastructure'',
                ptr_tag ''created_by'' ''jira_operator'',
                ptr_tag ''business_unit'' ''Workplace Technology''],
             Parameters =
               [custom_parameter ''log_statement'' ''ddl'',
                custom_parameter ''log_min_duration_statement'' ''8000'',
                custom_parameter ''rds.log_retention_period'' ''10080''],
             DBParameterGroupFamily = Some (''postgres'' @ paramaterFamilyVersion)\<rparr>\<rparr>)"

interpretation dbSubnetGroup: owned_builder
  "\<lambda>jira _. Some (Obj_DBSubnetGroup (GetDbSubnetGroup jira))" Kind_DBSubnetGroup
  "\<lambda>jira _. ClusterKey (name_uid jira)"
  by unfold_locales
    (auto simp: GetDbSubnetGroup_def obj_key_def NamespacedKey_cluster key_request_simps)

interpretation dbParameterGroup: owned_builder
  "\<lambda>jira _. Some (Obj_DBParameterGroup (GetDbParameterGroup jira))" Kind_DBParameterGroup
  "\<lambda>jira _. ClusterKey (name_uid jira)"
  by unfold_locales
    (auto simp: GetDbParameterGroup_def Let_def obj_key_def NamespacedKey_cluster key_request_simps)

interpretation rdsInstance: owned_builder
  "\<lambda>jira (sg, pg, ns). Some (Obj_RDSInstance (GetRdsInstance jira sg pg ns))" Kind_RDSInstance
  "\<lambda>jira _. ClusterKey (name_uid jira)"
  by unfold_locales
    (auto simp: GetRdsInstance_def Let_def obj_key_def NamespacedKey_cluster key_request_simps)

text \<open>The family the parameter group is made for: the engine version up to its first dot.\<close>

lemma parameter_family:
  "DBParameterGroupFamily (dpg_ForProvider (GetDbParameterGroup jira)) =
     Some (''postgres'' @ takeWhile (\<lambda>c. c \<noteq> CHR ''.'') (EngineVersion (Database (Spec jira))))"
proof -
  have "strings_Split s ''.'' ! 0 = takeWhile (\<lambda>c. c \<noteq> CHR ''.'') s" for s
    by (metis Split_char_hd Split_nonempty hd_conv_nth list.distinct(1))
  then show ?thesis by (simp add: GetDbParameterGroup_def Let_def)
qed

end
