(* ===== verification/Jobs.thy ===== *)
theory Jobs
  imports Database_Objects
begin

text \<open>
  The Liquibase change-log ConfigMap, the job that runs it, the job that resets the root password
  of a restored database and the service account of that job (\<open>k8s/liquibase.go\<close>).
\<close>

section \<open>The change log\<close>

definition liquibaseFilePath :: string where
  "liquibaseFilePath = ''config/liquibase/changelog.yml''"

definition empty_ConfigMap :: ConfigMap where
  "empty_ConfigMap = \<lparr>cm_ObjectMeta = zero_ObjectMeta, cm_Data = fmempty\<rparr>"

definition liquibase_ConfigMap :: "Jira \<Rightarrow> string \<Rightarrow> string \<Rightarrow> ConfigMap" where
  "liquibase_ConfigMap jira namespace configContent =
     \<lparr>cm_ObjectMeta = owned_meta jira (jira_Name jira @ ''-liquibase-changelog'') namespace,
      cm_Data = fmap_of_list [(''changelog.yml'', configContent)]\<rparr>"

definition GetLiquibaseConfigMap ::
  "'w env \<Rightarrow> Jira \<Rightarrow> string \<Rightarrow> ('w, ConfigMap \<times> goerror option) op" where
  "GetLiquibaseConfigMap env jira namespace =
     bind (ReadFile env liquibaseFilePath) (\<lambda>r.
     case r of
       Inl e \<Rightarrow> ret (empty_ConfigMap, Some e)
     | Inr configContent \<Rightarrow> ret (liquibase_ConfigMap jira namespace configContent, None))"

section \<open>Resetting the root password of a restored database\<close>

definition GetServiceAccount :: "Jira \<Rightarrow> string \<Rightarrow> ServiceAccount" where
  "GetServiceAccount jira namespace =
     \<lparr>sa_ObjectMeta = zero_ObjectMeta
        \<lparr>Name := ''rds-reset-password-sa'', Namespace := namespace,
         Annotations := fmap_of_list [(''eks.amazonaws.com/role-arn'', RdsRoleArn (Spec jira))]\<rparr>\<rparr>"

definition secret_env :: "string \<Rightarrow> string \<Rightarrow> string \<Rightarrow> EnvVar" where
  "secret_env n secret k =
     \<lparr>env_Name = n,
      ValueFrom = Some \<lparr>SecretKeyRef = Some \<lparr>sks_Name = secret, sks_Key = k\<rparr>\<rparr>\<rparr>"

definition awsCliCommand :: "Jira \<Rightarrow> string \<Rightarrow> string" where
  "awsCliCommand jira dbInstanceIdentifier =
     ''aws rds modify-db-instance --db-instance-identifier='' @ dbInstanceIdentifier
     @ '' --master-user-password $PGPASSWORD --region '' @ AWSRegion (Spec jira)
     @ '' --apply-immediately''"

definition GetChangeRootPasswordJob :: "Jira \<Rightarrow> string \<Rightarrow> string \<Rightarrow> Job" where
  "GetChangeRootPasswordJob jira namespace dbInstanceIdentifier =
     \<lparr>job_ObjectMeta = zero_ObjectMeta
        \<lparr>Name := jira_Name jira @ ''-reset-rds-credentials'', Namespace := namespace\<rparr>,
      job_Spec =
        \<lparr>BackoffLimit = Some 20,
         job_Template =
           \<lparr>tpl_ObjectMeta =
              zero_ObjectMeta\<lparr>Labels := fmap_of_list [(''owner'', jira_Name jira)]\<rparr>,
            tpl_Spec = zero_PodSpec
              \<lparr>ServiceAccountName := Name (sa_ObjectMeta (GetServiceAccount jira namespace)),
               Containers :=
                 [zero_Container
                   \<lparr>ctr_Name := ''reset-creds'',
                    Image := ''amazon/aws-cli:2.13.14'',
                    Command := [''/bin/sh''],
                    Args := [''-c'', awsCliCommand jira dbInstanceIdentifier],
                    Env := [secret_env ''PGPASSWORD'' ''jira-database-secret'' ''password'']\<rparr>],
               RestartPolicy := ''Never''\<rparr>\<rparr>\<rparr>,
      job_Status = \<lparr>Succeeded = 0\<rparr>\<rparr>"

section \<open>The Liquibase job\<close>

definition liquibase_container :: "Jira \<Rightarrow> Container" where
  "liquibase_container jira = zero_Container
     \<lparr>ctr_Name := jira_Name jira @ ''-liquibase'',
      Image := ''liquibase/liquibase:4.21.0'',
      Command := [''/bin/sh'', ''-c''],
      Args :=
        [''cd /liquibase/changelog/properties; grep '' @ [CHR 0x27, CHR 0x27] @ '' * | sed ''
         @ [CHR 0x27] @ ''s/:/: /1'' @ [CHR 0x27]
         @ '' > /liquibase/liquibase.properties; cd /liquibase;  ./docker-entrypoint.sh --defaultsFile=liquibase.properties update;''],
      Env :=
        [secret_env ''PGPASSWORD'' ''jira-database-secret'' ''password'',
         secret_env ''JDBC_URL'' ''jira-database-secret'' ''url''],
      VolumeMounts :=
        [\<lparr>vm_Name = ''jira-database-secret'', MountPath = ''/liquibase/changelog/properties'',
          SubPath = ''''\<rparr>,
         \<lparr>vm_Name = ''liquibase-changelog-configmap'',
          MountPath = ''/liquibase/changelog/changelog.yml'', SubPath = ''changelog.yml''\<rparr>]\<rparr>"

definition GetLiquibaseJob :: "Jira \<Rightarrow> string \<Rightarrow> Job" where
  "GetLiquibaseJob jira namespace =
     \<lparr>job_ObjectMeta = zero_ObjectMeta
        \<lparr>Name := jira_Name jira @ ''-liquibase-changeset'', Namespace := namespace\<rparr>,
      job_Spec =
        \<lparr>BackoffLimit = None,
         job_Template =
           \<lparr>tpl_ObjectMeta =
              zero_ObjectMeta\<lparr>Labels := fmap_of_list [(''owner'', jira_Name jira)]\<rparr>,
            tpl_Spec = zero_PodSpec
              \<lparr>Volumes :=
                 [\<lparr>vol_Name = ''jira-database-secret'',
                   vol_VolumeSource = zero_VolumeSource
                     \<lparr>vs_Secret := Some \<lparr>SecretName = ''jira-database-secret''\<rparr>\<rparr>\<rparr>,
                  \<lparr>vol_Name = ''liquibase-changelog-configmap'',
                   vol_VolumeSource = zero_VolumeSource
                     \<lparr>vs_ConfigMap := Some
                        \<lparr>cmvs_Name = jira_Name jira @ ''-liquibase-changelog''\<rparr>\<rparr>\<rparr>],
               Containers := [liquibase_container jira],
               RestartPolicy := ''Never''\<rparr>\<rparr>\<rparr>,
      job_Status = \<lparr>Succeeded = 0\<rparr>\<rparr>"

section \<open>The builder contract\<close>

text \<open>
  The change-log ConfigMap has the resource as its controlling owner. The service account and the
  two jobs have no owner reference: they satisfy the weaker contract only.
\<close>

interpretation liquibaseConfigMap: owned_builder
  "\<lambda>jira (ns, content). Some (Obj_ConfigMap (liquibase_ConfigMap jira ns content))"
  Kind_ConfigMap
  "\<lambda>jira (ns, content). NamespacedKey (jira_Name jira @ ''-liquibase-changelog'') ns"
  by unfold_locales (auto simp: liquibase_ConfigMap_def obj_key_def key_request_simps)

interpretation serviceAccount: object_builder
  "\<lambda>jira ns. Some (Obj_ServiceAccount (GetServiceAccount jira ns))"
  Kind_ServiceAccount
  "\<lambda>jira ns. NamespacedKey ''rds-reset-password-sa'' ns"
  by unfold_locales (auto simp: GetServiceAccount_def obj_key_def meta_key_def)

interpretation changeRootPasswordJob: object_builder
  "\<lambda>jira (ns, db). Some (Obj_Job (GetChangeRootPasswordJob jira ns db))"
  Kind_Job
  "\<lambda>jira (ns, db). NamespacedKey (jira_Name jira @ ''-reset-rds-credentials'') ns"
  by unfold_locales
    (auto simp: GetChangeRootPasswordJob_def obj_key_def meta_key_def key_request_simps)

interpretation liquibaseJob: object_builder
  "\<lambda>jira ns. Some (Obj_Job (GetLiquibaseJob jira ns))"
  Kind_Job
  "\<lambda>jira ns. NamespacedKey (jira_Name jira @ ''-liquibase-changeset'') ns"
  by unfold_locales (auto simp: GetLiquibaseJob_def obj_key_def meta_key_def key_request_simps)

section \<open>What the jobs refer to\<close>

text \<open>The secret keys the environment of a pod template reads.\<close>

definition secret_refs :: "PodSpec \<Rightarrow> (string \<times> string) list" where
  "secret_refs p =
     [(sks_Name s, sks_Key s). c \<leftarrow> Containers p, v \<leftarrow> Env c,
        Some src \<leftarrow> [ValueFrom v], Some s \<leftarrow> [SecretKeyRef src]]"

text \<open>Every volume mount of a container names a volume of the pod.\<close>

definition mounts_resolve :: "PodSpec \<Rightarrow> bool" where
  "mounts_resolve p \<longleftrightarrow>
     (\<forall>c \<in> set (Containers p). \<forall>m \<in> set (VolumeMounts c). vm_Name m \<in> vol_Name ` set (Volumes p))"

lemma liquibase_secret_refs:
  "secret_refs (tpl_Spec (job_Template (job_Spec (GetLiquibaseJob jira ns)))) =
     [(''jira-database-secret'', ''password''), (''jira-database-secret'', ''url'')]"
  by (simp add: secret_refs_def GetLiquibaseJob_def liquibase_container_def secret_env_def
      zero_PodSpec_def zero_Container_def)

lemma reset_secret_refs:
  "secret_refs (tpl_Spec (job_Template (job_Spec (GetChangeRootPasswordJob jira ns db)))) =
     [(''jira-database-secret'', ''password'')]"
  by (simp add: secret_refs_def GetChangeRootPasswordJob_def secret_env_def
      zero_PodSpec_def zero_Container_def)

lemma liquibase_mounts:
  "mounts_resolve (tpl_Spec (job_Template (job_Spec (GetLiquibaseJob jira ns))))"
  by (simp add: mounts_resolve_def GetLiquibaseJob_def liquibase_container_def
      zero_PodSpec_def zero_Container_def)

end
