(* ===== verification/Reconcile_Database.thy ===== *)
theory Reconcile_Database
  imports Reconcile_Steps Jobs
begin

text \<open>
  The first half of \<open>Reconcile\<close> (\<open>controllers/jira_controller.go\<close>): the namespace and the database
  resources, waiting for the instance, its endpoint in the secret and in the status, resetting the
  root password of a restored instance, and the Liquibase change set. Each definition is one stretch
  of the function, in its order, with its exits; the variables that later stretches use are passed on.
\<close>

section \<open>The stages\<close>

text \<open>\<open>namespace.Name\<close>, \<open>rdsSecret\<close> and \<open>rdsInstance\<close> as the \<open>Create\<close> calls left them.\<close>

record db_objects =
  db_namespace :: string
  db_secret :: ObjectMeta
  db_instance :: ObjectMeta

definition reconcile_infra :: "'w env \<Rightarrow> Jira \<Rightarrow> ('w, db_objects) op" where
  "reconcile_infra env jira =
     bind (ensure env (Obj_Namespace (GetNamespace jira)) (after Minute)) (\<lambda>namespace.
     bind (ensure env (Obj_DBParameterGroup (GetDbParameterGroup jira)) (after Minute)) (\<lambda>pg.
     bind (ensure env (Obj_DBSubnetGroup (GetDbSubnetGroup jira)) (after Minute)) (\<lambda>sg.
     bind (GetRdsSecret env jira ''replaceme'' (Name namespace)) (\<lambda>rdsSecret.
     bind (ensure env (Obj_Secret rdsSecret) (after Minute)) (\<lambda>secret.
     bind (ensure env
            (Obj_RDSInstance
              (GetRdsInstance jira
                ((GetDbSubnetGroup jira)\<lparr>dsg_ObjectMeta := sg\<rparr>)
                ((GetDbParameterGroup jira)\<lparr>dpg_ObjectMeta := pg\<rparr>)
                (Name namespace)))
            empty_Result) (\<lambda>instance'.
     ret \<lparr>db_namespace = Name namespace, db_secret = secret, db_instance = instance'\<rparr>))))))"

text \<open>Gives the resource with the status it read, and the host name of the instance.\<close>

definition rds_wait :: "'w env \<Rightarrow> Jira \<Rightarrow> ('w, Jira \<times> string) op" where
  "rds_wait env jira =
     (let rdsObjKey = ClusterKey (name_uid jira) in
     bind (checked (getRdsStatus env rdsObjKey) (after (5 * Second))) (\<lambda>rdsStatus.
     bind (if rds_Status (RDS (Status jira)) \<noteq> rdsStatus
           then save_status env (set_RDS (\<lambda>s. s\<lparr>rds_Status := rdsStatus\<rparr>) jira) (after (5 * Second))
           else ret jira) (\<lambda>jira.
     bind (stop_if (rdsStatus \<noteq> ''available'') (after (30 * Second)) None) (\<lambda>_.
     bind (checked (getRdsEndpoint env rdsObjKey) (after (5 * Second))) (\<lambda>rdsHostname.
     bind (stop_if (rdsHostname = '''') (after (10 * Second)) None) (\<lambda>_.
     ret (jira, rdsHostname)))))))"

text \<open>
  The error of \<open>getSecretData\<close> is overwritten unread: after a failed read the map is empty, so the
  host name differs and the secret is written anew.
\<close>

definition update_secret :: "'w env \<Rightarrow> Jira \<Rightarrow> db_objects \<Rightarrow> string \<Rightarrow> ('w, unit) op" where
  "update_secret env jira o' rdsHostname =
     bind (getSecretData env (db_secret o')) (\<lambda>(existingRdsSecretData, _).
     if gomap_get existingRdsSecretData ''hostname'' \<noteq> rdsHostname
     then bind (GetRdsSecret env jira rdsHostname (db_namespace o')) (\<lambda>rdsSecret.
          update_object env (Obj_Secret rdsSecret) (after (5 * Second)))
     else ret ())"

definition sync_endpoint :: "'w env \<Rightarrow> Jira \<Rightarrow> db_objects \<Rightarrow> string \<Rightarrow> ('w, Jira) op" where
  "sync_endpoint env jira o' rdsHostname =
     bind (update_secret env jira o' rdsHostname) (\<lambda>_.
     if rds_Endpoint (RDS (Status jira)) \<noteq> rdsHostname
     then save_status env (set_RDS (\<lambda>s. s\<lparr>rds_Endpoint := rdsHostname\<rparr>) jira) (after (5 * Second))
     else ret jira)"

definition reset_credentials :: "'w env \<Rightarrow> Jira \<Rightarrow> db_objects \<Rightarrow> ('w, Jira) op" where
  "reset_credentials env jira o' =
     (if SnapshotID (Database (Spec jira)) \<noteq> '''' then
        bind (ensure env (Obj_ServiceAccount (GetServiceAccount jira (db_namespace o')))
               (after (5 * Minute))) (\<lambda>_.
        bind (ensure env
               (Obj_Job (GetChangeRootPasswordJob jira (db_namespace o') (Name (db_instance o'))))
               (after (5 * Minute))) (\<lambda>job.
        bind (replicas_ready (getJobSucceededReplicas env job)
               (after (5 * Second)) (after (5 * Second))) (\<lambda>_.
        save_status env (set_RDS (\<lambda>s. s\<lparr>ResetRdsCredsJobStatus := ''Succeeded''\<rparr>) jira)
          (after (5 * Second)))))
      else ret jira)"

text \<open>The ConfigMap is there already: it is updated when the change log in it differs.\<close>

definition refresh_changelog :: "'w env \<Rightarrow> ConfigMap \<Rightarrow> ('w, unit) op" where
  "refresh_changelog env cm =
     bind (checked (getConfigMapData env (cm_ObjectMeta cm)) (after (5 * Second))) (\<lambda>cmData.
     if gomap_get cmData ''changelog.yml'' \<noteq> gomap_get (cm_Data cm) ''changelog.yml''
     then update_object env (Obj_ConfigMap cm) (after (5 * Second))
     else ret ())"

definition create_changelog :: "'w env \<Rightarrow> ConfigMap \<Rightarrow> ('w, unit) op" where
  "create_changelog env cm =
     bind (r_Create env (Obj_ConfigMap cm)) (\<lambda>(err, m).
     case err of
       None \<Rightarrow> ret ()
     | Some e \<Rightarrow>
         if IsAlreadyExists e then refresh_changelog env (cm\<lparr>cm_ObjectMeta := m\<rparr>)
         else stop (after (10 * Second)) err)"

definition liquibase_changelog :: "'w env \<Rightarrow> Jira \<Rightarrow> string \<Rightarrow> ('w, unit) op" where
  "liquibase_changelog env jira namespace =
     bind (checked (GetLiquibaseConfigMap env jira namespace) (after (10 * Minute)))
       (create_changelog env)"

definition liquibase_job :: "'w env \<Rightarrow> Jira \<Rightarrow> string \<Rightarrow> ('w, Jira) op" where
  "liquibase_job env jira namespace =
     bind (ensure env (Obj_Job (GetLiquibaseJob jira namespace)) (after (5 * Minute))) (\<lambda>job.
     bind (checked (getJobSucceededReplicas env job) (after (30 * Second))) (\<lambda>n.
     bind (stop_if (sint n < 1) (after (5 * Second)) None) (\<lambda>_.
     save_status env (set_RDS (\<lambda>s. s\<lparr>LiquibaseJobStatus := ''Succeeded''\<rparr>) jira)
       (after (5 * Second)))))"

definition reconcile_database :: "'w env \<Rightarrow> Jira \<Rightarrow> ('w, Jira \<times> string) op" where
  "reconcile_database env jira =
     bind (reconcile_infra env jira) (\<lambda>o'.
     bind (rds_wait env jira) (\<lambda>(jira, rdsHostname).
     bind (sync_endpoint env jira o' rdsHostname) (\<lambda>jira.
     bind (reset_credentials env jira o') (\<lambda>jira.
     bind (liquibase_changelog env jira (db_namespace o')) (\<lambda>_.
     bind (liquibase_job env jira (db_namespace o')) (\<lambda>jira.
     ret (jira, db_namespace o')))))))"

section \<open>Every stage keeps the contract\<close>

lemma contract_GetRdsSecret: "every (GetRdsSecret env jira host ns) step_contract"
  by (rule contract_no_events, rule every_mono [OF GetRdsSecret_spec]) simp

interpretation infra: reconcile_step "reconcile_infra env jira" for env jira
  by unfold_locales (auto simp: reconcile_infra_def intro!: contract_intros contract_GetRdsSecret)

interpretation rds_wait: reconcile_step "rds_wait env jira" for env jira
  by unfold_locales (auto simp: rds_wait_def Let_def intro!: contract_intros
      rdsStatus.contract_checked rdsEndpoint.contract_checked)

interpretation update_secret: reconcile_step "update_secret env jira o' host" for env jira o' host
  by unfold_locales (auto simp: update_secret_def intro!: contract_intros contract_GetRdsSecret
      secretData.contract_read_secret)

interpretation sync_endpoint: reconcile_step "sync_endpoint env jira o' host" for env jira o' host
  by unfold_locales (auto simp: sync_endpoint_def intro!: contract_intros update_secret.contract)

interpretation reset_credentials: reconcile_step "reset_credentials env jira o'" for env jira o'
  by unfold_locales (auto simp: reset_credentials_def intro!: contract_intros
      contract_replicas_ready job_reads_count)

lemma contract_GetLiquibaseConfigMap:
  "every (checked (GetLiquibaseConfigMap env jira ns) res) step_contract"
  unfolding checked_def GetLiquibaseConfigMap_def bind_assoc
  by (rule every_bind_ReadFileI) (auto simp: step_contract_def stop_if_def wp_simps split: sum.split)

interpretation refresh_changelog: reconcile_step "refresh_changelog env cm" for env cm
  by unfold_locales (auto simp: refresh_changelog_def intro!: contract_intros
      configMapData.contract_checked)

interpretation create_changelog: reconcile_step "create_changelog env cm" for env cm
proof unfold_locales
  have stops: "every (stop res (Some e)) (\<lambda>r es. step_contract r (Created ob (Some e) # es))"
    for res e ob
    by (simp add: wp_simps step_contract_def)
  show "every (create_changelog env cm) step_contract"
    unfolding create_changelog_def
    by (rule every_bind_r_CreateI)
       (auto simp: step_contract_Cons refresh_changelog.contract stops split: option.split
         intro: every_mono [OF contract_ret])
qed

interpretation liquibase_changelog: reconcile_step "liquibase_changelog env jira ns" for env jira ns
  by unfold_locales (auto simp: liquibase_changelog_def
      intro!: contract_bind contract_GetLiquibaseConfigMap create_changelog.contract)

interpretation liquibase_job: reconcile_step "liquibase_job env jira ns" for env jira ns
  by unfold_locales (auto simp: liquibase_job_def intro!: contract_intros
      jobSucceededReplicas.contract_checked)

interpretation reconcile_database: reconcile_step "reconcile_database env jira" for env jira
  by unfold_locales (auto simp: reconcile_database_def intro!: contract_intros infra.contract
      rds_wait.contract sync_endpoint.contract reset_credentials.contract
      liquibase_changelog.contract liquibase_job.contract)

end
