(* ===== verification/Volume_Objects.thy ===== *)
theory Volume_Objects
  imports Database_Objects
begin

text \<open>
  The persistent volumes, claims and snapshots of \<open>k8s/volume.go\<close>. The volumes and claims parse a
  size with \<open>resource.MustParse\<close>, a parameter here: a builder gives \<open>None\<close> where it panics.
\<close>

section \<open>Persistent volumes\<close>

definition claim_ref :: "string \<Rightarrow> string \<Rightarrow> ObjectReference" where
  "claim_ref ns n =
     \<lparr>oref_Kind = ''PersistentVolumeClaim'', oref_Namespace = ns, oref_Name = n\<rparr>"

definition GetNfsPersistentVolume ::
  "(string \<Rightarrow> Quantity option) \<Rightarrow> Jira \<Rightarrow> string \<Rightarrow> string \<Rightarrow> string \<Rightarrow> PersistentVolume option" where
  "GetNfsPersistentVolume parse jira nfsClusterIp size' namespace =
     map_option (\<lambda>q.
       \<lparr>pv_ObjectMeta = owned_meta jira (''jira-shared-home-pv'' @ ''-'' @ jira_UID jira) '''',
        pv_Spec =
          \<lparr>Capacity = fmap_of_list [(''storage'', q)],
           pv_Source = zero_PersistentVolumeSource
             \<lparr>NFS := Some \<lparr>Server = nfsClusterIp, Path = ''/srv/nfs''\<rparr>\<rparr>,
           pv_AccessModes = [''ReadWriteMany''],
           ClaimRef = Some (claim_ref namespace ''jira-shared-home''),
           PersistentVolumeReclaimPolicy = ''Retain'',
           pv_StorageClassName = EbsStorageClassName (Ebs (spec_SharedFS (Spec jira))),
           pv_NodeAffinity = None\<rparr>\<rparr>)
     (parse (size' @ ''Gi''))"

definition GetEfsPersistentVolume ::
  "(string \<Rightarrow> Quantity option) \<Rightarrow> Jira \<Rightarrow> string \<Rightarrow> string \<Rightarrow> PersistentVolume option" where
  "GetEfsPersistentVolume parse jira efsId namespace =
     map_option (\<lambda>q.
       \<lparr>pv_ObjectMeta = owned_meta jira (''jira-shared-home-pv'' @ ''-'' @ jira_UID jira) '''',
        pv_Spec =
          \<lparr>Capacity = fmap_of_list [(''storage'', q)],
           pv_Source = zero_PersistentVolumeSource
             \<lparr>CSI := Some
                \<lparr>csi_Driver = EfsCsiDriverName (Efs (spec_SharedFS (Spec jira))),
                 VolumeHandle = efsId, ReadOnly = False\<rparr>\<rparr>,
           pv_AccessModes = [''ReadWriteMany''],
           ClaimRef = Some (claim_ref namespace ''jira-shared-home''),
           PersistentVolumeReclaimPolicy = ''Retain'',
           pv_StorageClassName = EfsStorageClassName (Efs (spec_SharedFS (Spec jira))),
           pv_NodeAffinity = None\<rparr>\<rparr>)
     (parse ''10Gi'')"

text \<open>The availability zone and region the EBS volume lives in, as a node selector term.\<close>

definition zone_selector :: "Jira \<Rightarrow> NodeSelector" where
  "zone_selector jira =
     \<lparr>NodeSelectorTerms =
       [\<lparr>MatchExpressions =
          [\<lparr>Key = ''topology.kubernetes.io/zone'', Operator = ''In'',
            Values = [AWSRegion (Spec jira) @ AvailabilityZone (Ebs (spec_SharedFS (Spec jira)))]\<rparr>,
           \<lparr>Key = ''topology.kubernetes.io/region'', Operator = ''In'',
            Values = [AWSRegion (Spec jira)]\<rparr>]\<rparr>]\<rparr>"

definition GetEbsPersistentVolume ::
  "(string \<Rightarrow> Quantity option) \<Rightarrow> Jira \<Rightarrow> string \<Rightarrow> string \<Rightarrow> string \<Rightarrow> string \<Rightarrow> PersistentVolume option" where
  "GetEbsPersistentVolume parse jira ebsVolumeId name size' namespace =
     map_option (\<lambda>q.
       \<lparr>pv_ObjectMeta = owned_meta jira (name @ ''-'' @ jira_UID jira) '''',
        pv_Spec =
          \<lparr>Capacity = fmap_of_list [(''storage'', q)],
           pv_Source = zero_PersistentVolumeSource
             \<lparr>AWSElasticBlockStore := Some
                \<lparr>VolumeID = ebsVolumeId, FSType = EbsFsType (Ebs (spec_SharedFS (Spec jira)))\<rparr>\<rparr>,
           pv_AccessModes = [''ReadWriteOnce''],
           ClaimRef = Some (claim_ref namespace name),
           PersistentVolumeReclaimPolicy = ''Retain'',
           pv_StorageClassName = EbsStorageClassName (Ebs (spec_SharedFS (Spec jira))),
           pv_NodeAffinity = Some \<lparr>Required = Some (zone_selector jira)\<rparr>\<rparr>\<rparr>)
     (parse (size' @ ''Gi''))"

section \<open>Claims\<close>

definition GetPersistentVolumeClaim ::
  "(string \<Rightarrow> Quantity option) \<Rightarrow> Jira \<Rightarrow> string \<Rightarrow> string \<Rightarrow> string \<Rightarrow> string \<Rightarrow> string \<Rightarrow> string
    \<Rightarrow> PersistentVolumeClaim option" where
  "GetPersistentVolumeClaim parse jira name namespace volumeName storageClassName size' accessMode =
     map_option (\<lambda>q.
       \<lparr>pvc_ObjectMeta = owned_meta jira name namespace,
        pvc_Spec =
          \<lparr>pvc_AccessModes = [accessMode],
           Requests = fmap_of_list [(''storage'', q)],
           VolumeName = volumeName,
           pvc_StorageClassName = Some storageClassName,
           DataSource = None\<rparr>,
        pvc_Status = \<lparr>Phase = ''''\<rparr>\<rparr>)
     (parse (size' @ ''Gi''))"

definition GetFsxPersistentVolumeClaimFromSnapshot ::
  "(string \<Rightarrow> Quantity option) \<Rightarrow> Jira \<Rightarrow> string \<Rightarrow> string \<Rightarrow> string \<Rightarrow> PersistentVolumeClaim option" where
  "GetFsxPersistentVolumeClaimFromSnapshot parse jira name namespace size' =
     map_option (\<lambda>q.
       \<lparr>pvc_ObjectMeta = owned_meta jira name namespace,
        pvc_Spec =
          \<lparr>pvc_AccessModes = [''ReadWriteMany''],
           Requests = fmap_of_list [(''storage'', q)],
           VolumeName = '''',
           pvc_StorageClassName =
             Some (FsxRestoreStorageClassName (Fsx (spec_SharedFS (Spec jira)))),
           DataSource = Some
             \<lparr>APIGroup = Some ''snapshot.storage.k8s.io'', tlor_Kind = ''VolumeSnapshot'',
              tlor_Name = name_uid jira\<rparr>\<rparr>,
        pvc_Status = \<lparr>Phase = ''''\<rparr>\<rparr>)
     (parse (size' @ ''Gi''))"

section \<open>Snapshots\<close>

definition GetFsxVolumeSnapshotContent :: "Jira \<Rightarrow> string \<Rightarrow> VolumeSnapshotContent" where
  "GetFsxVolumeSnapshotContent jira namespace =
     \<lparr>vsc_ObjectMeta = owned_meta jira (name_uid jira) namespace,
      vsc_Spec =
        \<lparr>VolumeSnapshotRef =
           \<lparr>oref_Kind = ''VolumeSnapshot'', oref_Namespace = namespace, oref_Name = name_uid jira\<rparr>,
         vsc_Driver = FsxCsiDriverName (Fsx (spec_SharedFS (Spec jira))),
         vsc_VolumeSnapshotClassName =
           Some (FsxVolumeSnapshotClassName (Fsx (spec_SharedFS (Spec jira)))),
         SnapshotHandle = Some (fsx_SnapshotId (Fsx (spec_SharedFS (Spec jira)))),
         vsc_DeletionPolicy = ''Retain''\<rparr>\<rparr>"

definition GetFsxVolumeSnapshot :: "Jira \<Rightarrow> string \<Rightarrow> VolumeSnapshot" where
  "GetFsxVolumeSnapshot jira namespace =
     \<lparr>vsnap_ObjectMeta = owned_meta jira (name_uid jira) namespace,
      vsnap_Spec =
        \<lparr>VolumeSnapshotContentName = Some (name_uid jira),
         vsnap_VolumeSnapshotClassName =
           Some (FsxVolumeSnapshotClassName (Fsx (spec_SharedFS (Spec jira))))\<rparr>\<rparr>"

section \<open>The builder contract\<close>

interpretation nfsPersistentVolume: owned_builder
  "\<lambda>jira (parse, ip, sz, ns).
     map_option Obj_PersistentVolume (GetNfsPersistentVolume parse jira ip sz ns)"
  Kind_PersistentVolume
  "\<lambda>jira _. ClusterKey (''jira-shared-home-pv'' @ ''-'' @ jira_UID jira)"
  by unfold_locales
    (auto simp: GetNfsPersistentVolume_def obj_key_def NamespacedKey_cluster key_request_simps)

interpretation efsPersistentVolume: owned_builder
  "\<lambda>jira (parse, efsId, ns).
     map_option Obj_PersistentVolume (GetEfsPersistentVolume parse jira efsId ns)"
  Kind_PersistentVolume
  "\<lambda>jira _. ClusterKey (''jira-shared-home-pv'' @ ''-'' @ jira_UID jira)"
  by unfold_locales
    (auto simp: GetEfsPersistentVolume_def obj_key_def NamespacedKey_cluster key_request_simps)

interpretation ebsPersistentVolume: owned_builder
  "\<lambda>jira (parse, ebsId, name, sz, ns).
     map_option Obj_PersistentVolume (GetEbsPersistentVolume parse jira ebsId name sz ns)"
  Kind_PersistentVolume
  "\<lambda>jira (parse, ebsId, name, sz, ns). ClusterKey (name @ ''-'' @ jira_UID jira)"
  by unfold_locales
    (auto simp: GetEbsPersistentVolume_def obj_key_def NamespacedKey_cluster key_request_simps)

interpretation persistentVolumeClaim: owned_builder
  "\<lambda>jira (parse, name, ns, vol, cls, sz, mode).
     map_option Obj_PersistentVolumeClaim
       (GetPersistentVolumeClaim parse jira name ns vol cls sz mode)"
  Kind_PersistentVolumeClaim
  "\<lambda>jira (parse, name, ns, vol, cls, sz, mode). NamespacedKey name ns"
  by unfold_locales (auto simp: GetPersistentVolumeClaim_def obj_key_def key_request_simps)

interpretation fsxPersistentVolumeClaim: owned_builder
  "\<lambda>jira (parse, name, ns, sz).
     map_option Obj_PersistentVolumeClaim
       (GetFsxPersistentVolumeClaimFromSnapshot parse jira name ns sz)"
  Kind_PersistentVolumeClaim
  "\<lambda>jira (parse, name, ns, sz). NamespacedKey name ns"
  by unfold_locales
    (auto simp: GetFsxPersistentVolumeClaimFromSnapshot_def obj_key_def key_request_simps)

interpretation fsxVolumeSnapshotContent: owned_builder
  "\<lambda>jira ns. Some (Obj_VolumeSnapshotContent (GetFsxVolumeSnapshotContent jira ns))"
  Kind_VolumeSnapshotContent
  "\<lambda>jira ns. NamespacedKey (name_uid jira) ns"
  by unfold_locales (auto simp: GetFsxVolumeSnapshotContent_def obj_key_def key_request_simps)

interpretation fsxVolumeSnapshot: owned_builder
  "\<lambda>jira ns. Some (Obj_VolumeSnapshot (GetFsxVolumeSnapshot jira ns))"
  Kind_VolumeSnapshot
  "\<lambda>jira ns. NamespacedKey (name_uid jira) ns"
  by unfold_locales (auto simp: GetFsxVolumeSnapshot_def obj_key_def key_request_simps)

section \<open>When a claim binds to the volume made for it\<close>

text \<open>
  Kubernetes binds a claim to a volume that is reserved for it when the volume's claim reference
  names the claim and the claim names the volume, the access modes of the claim are among the
  volume's, the volume is as large as requested, and both are of the same storage class.
\<close>

definition reserved_pair :: "PersistentVolume \<Rightarrow> PersistentVolumeClaim \<Rightarrow> bool" where
  "reserved_pair pv pvc \<longleftrightarrow>
     ClaimRef (pv_Spec pv) =
       Some (claim_ref (Namespace (pvc_ObjectMeta pvc)) (Name (pvc_ObjectMeta pvc)))
     \<and> VolumeName (pvc_Spec pvc) = Name (pv_ObjectMeta pv)"

definition same_modes_and_size :: "PersistentVolume \<Rightarrow> PersistentVolumeClaim \<Rightarrow> bool" where
  "same_modes_and_size pv pvc \<longleftrightarrow>
     set (pvc_AccessModes (pvc_Spec pvc)) \<subseteq> set (pv_AccessModes (pv_Spec pv))
     \<and> Requests (pvc_Spec pvc) = Capacity (pv_Spec pv)"

definition same_class :: "PersistentVolume \<Rightarrow> PersistentVolumeClaim \<Rightarrow> bool" where
  "same_class pv pvc \<longleftrightarrow> pvc_StorageClassName (pvc_Spec pvc) = Some (pv_StorageClassName (pv_Spec pv))"

lemmas volume_defs = GetNfsPersistentVolume_def GetEfsPersistentVolume_def
  GetEbsPersistentVolume_def GetPersistentVolumeClaim_def
  GetFsxPersistentVolumeClaimFromSnapshot_def

end
