(* ===== verification/Cloud_Storage.thy ===== *)
theory Cloud_Storage
  imports Volume_Objects
begin

text \<open>
  The Crossplane resources for shared storage (\<open>crossplane/ebs.go\<close>, \<open>crossplane/efs.go\<close>) and the
  in-cluster NFS server over an EBS volume (\<open>k8s/nfs.go\<close>).
\<close>

section \<open>EBS\<close>

definition GetEbsVolume :: "Jira \<Rightarrow> EbsVolume" where
  "GetEbsVolume jira =
     (let encrypted = (KMSKeyId (Spec jira) \<noteq> '''');
          ebsResourceSpec = orphan_if_retained jira (provider_spec jira)
      in \<lparr>ebs_ObjectMeta = owned_meta jira (name_uid jira) '''',
          ebs_ResourceSpec = ebsResourceSpec,
          ebs_ForProvider =
            \<lparr>ebs_Region = AWSRegion (Spec jira),
             ebs_AvailabilityZone =
               Some (AWSRegion (Spec jira) @ AvailabilityZone (Ebs (spec_SharedFS (Spec jira)))),
             Encrypted = Some encrypted,
             Size = Some (VolumeSize (spec_SharedFS (Spec jira))),
             ebs_SnapshotID = Some (ebs_SnapshotId (Ebs (spec_SharedFS (Spec jira)))),
             TagSpecifications =
               [\<lparr>ResourceType = Some ''volume'', ts_Tags = GetTags jira\<rparr>],
             ebs_KMSKeyID = Some (KMSKeyId (Spec jira))\<rparr>,
          ebs_AtProvider_VolumeID = None\<rparr>)"

section \<open>EFS\<close>

definition GetFileSystem :: "Jira \<Rightarrow> string \<Rightarrow> FileSystem" where
  "GetFileSystem jira namespace =
     (let efsResourceSpec = orphan_if_retained jira
        \<lparr>WriteConnectionSecretToReference = Some
           \<lparr>secref_Name = jira_Name jira @ ''-efs-secret'', secref_Namespace = namespace\<rparr>,
         ProviderConfigReference = Some (CrossplaneAwsProviderName (Spec jira)),
         DeletionPolicy = ''''\<rparr>
      in \<lparr>fs_ObjectMeta = owned_meta jira (name_uid jira) '''',
          fs_ResourceSpec = efsResourceSpec,
          fs_ForProvider =
            \<lparr>fs_Region = AWSRegion (Spec jira),
             fs_KMSKeyID = Some (KMSKeyId (Spec jira)),
             fs_Encrypted = Some True,
             fs_Tags =
               [ptr_tag ''resource_owner'' ''mgibson'',
                ptr_tag ''service_name'' ''itplat_infrastructure'',
                ptr_tag ''created_by'' ''jira_operator'',
                ptr_tag ''business_unit'' ''Workplace Technology'',
                ptr_tag ''Name'' (name_uid jira)]\<rparr>,
          fs_AtProvider_FileSystemID = None\<rparr>)"

definition mount_target_name :: "Jira \<Rightarrow> string \<Rightarrow> string" where
  "mount_target_name jira index = jira_Name jira @ index @ ''-'' @ jira_UID jira"

definition GetMountTargets :: "Jira \<Rightarrow> string \<Rightarrow> string \<Rightarrow> string \<Rightarrow> MountTarget" where
  "GetMountTargets jira filesystemId subnetId index =
     (let mountTargetResourceSpec = orphan_if_retained jira (provider_spec jira)
      in \<lparr>mt_ObjectMeta = owned_meta jira (mount_target_name jira index) '''',
          mt_ResourceSpec = mountTargetResourceSpec,
          mt_ForProvider =
            \<lparr>mt_Region = AWSRegion (Spec jira),
             SecurityGroups = SecurityGroupIds (spec_Network (Spec jira)),
             mt_FileSystemID = Some filesystemId,
             SubnetID = Some subnetId\<rparr>,
          mt_AtProvider_LifeCycleState = None\<rparr>)"

lemma mount_target_name_inj:
  "mount_target_name jira (Itoa i) = mount_target_name jira (Itoa j) \<longleftrightarrow> i = j"
  by (simp add: mount_target_name_def Itoa_inj)

section \<open>The NFS server\<close>

definition GetNfSServerService :: "Jira \<Rightarrow> string \<Rightarrow> Service" where
  "GetNfSServerService jira namespace =
     \<lparr>svc_ObjectMeta = owned_meta jira (jira_Name jira @ ''-nfs-server'') namespace,
      svc_Spec =
        \<lparr>svc_Ports = [\<lparr>sport_Name = ''nfs'', sport_Protocol = ''TCP'', Port = 2049\<rparr>],
         svc_Selector = fmap_of_list [(''app'', ''nfs-server'')],
         svc_Type = ''ClusterIP'',
         ClusterIP = ''''\<rparr>\<rparr>"

definition nfs_server_container :: Container where
  "nfs_server_container = zero_Container
     \<lparr>ctr_Name := ''nfs-server'',
      Image := ''atlassian/nfs-server-test:2.1'',
      ctr_SecurityContext := Some
        \<lparr>sc_Capabilities = Some \<lparr>Add = [''DAC_READ_SEARCH'', ''SYS_RESOURCE'']\<rparr>\<rparr>,
      ctr_Ports :=
        [\<lparr>cport_Name = ''nfs'', ContainerPort = 2049, cport_Protocol = ''TCP''\<rparr>],
      VolumeMounts := [\<lparr>vm_Name = ''data'', MountPath = ''/srv/nfs'', SubPath = ''''\<rparr>],
      ReadinessProbe := Some
        \<lparr>Exec = Some
           \<lparr>exec_Command = [''/usr/local/bin/docker-entrypoint.sh'', ''healthcheck'']\<rparr>,
         InitialDelaySeconds = 5, PeriodSeconds = 1, FailureThreshold = 30\<rparr>\<rparr>"

text \<open>The same zone and region as \<open>zone_selector\<close>, written out a second time in \<open>k8s/nfs.go\<close>.\<close>

definition nfs_zone_selector :: "Jira \<Rightarrow> NodeSelector" where
  "nfs_zone_selector jira =
     \<lparr>NodeSelectorTerms =
       [\<lparr>MatchExpressions =
          [\<lparr>Key = ''topology.kubernetes.io/zone'', Operator = ''In'',
            Values = [AWSRegion (Spec jira) @ AvailabilityZone (Ebs (spec_SharedFS (Spec jira)))]\<rparr>,
           \<lparr>Key = ''topology.kubernetes.io/region'', Operator = ''In'',
            Values = [AWSRegion (Spec jira)]\<rparr>]\<rparr>]\<rparr>"

definition GetNfsServerStatefulSet :: "Jira \<Rightarrow> string \<Rightarrow> StatefulSet" where
  "GetNfsServerStatefulSet jira namespace =
     \<lparr>sts_ObjectMeta = owned_meta jira (jira_Name jira @ ''-nfs-server'') namespace,
      sts_Spec =
        \<lparr>UpdateStrategy = ''RollingUpdate'',
         Replicas = Some 1,
         sts_Selector = Some \<lparr>MatchLabels = fmap_of_list [(''app'', ''nfs-server'')]\<rparr>,
         sts_Template =
           \<lparr>tpl_ObjectMeta =
              zero_ObjectMeta\<lparr>Labels := fmap_of_list [(''app'', ''nfs-server'')]\<rparr>,
            tpl_Spec = zero_PodSpec
              \<lparr>TerminationGracePeriodSeconds := Some 0,
               pod_Affinity := Some
                 \<lparr>aff_NodeAffinity = Some
                   \<lparr>RequiredDuringSchedulingIgnoredDuringExecution = Some (nfs_zone_selector jira)\<rparr>\<rparr>,
               Volumes :=
                 [\<lparr>vol_Name = ''data'',
                   vol_VolumeSource = zero_VolumeSource
                     \<lparr>vs_PersistentVolumeClaim :=
                        Some \<lparr>ClaimName = jira_Name jira @ ''-nfs-server''\<rparr>\<rparr>\<rparr>],
               Containers := [nfs_server_container]\<rparr>\<rparr>,
         ServiceName = ''nfs-server''\<rparr>,
      sts_Status = \<lparr>ReadyReplicas = 0\<rparr>\<rparr>"

section \<open>The builder contract\<close>

interpretation ebsVolume: owned_builder
  "\<lambda>jira _. Some (Obj_EbsVolume (GetEbsVolume jira))" Kind_EbsVolume
  "\<lambda>jira _. ClusterKey (name_uid jira)"
  by unfold_locales
    (auto simp: GetEbsVolume_def Let_def obj_key_def NamespacedKey_cluster key_request_simps)

interpretation fileSystem: owned_builder
  "\<lambda>jira ns. Some (Obj_FileSystem (GetFileSystem jira ns))" Kind_FileSystem
  "\<lambda>jira _. ClusterKey (name_uid jira)"
  by unfold_locales
    (auto simp: GetFileSystem_def Let_def obj_key_def NamespacedKey_cluster key_request_simps)

interpretation mountTargets: owned_builder
  "\<lambda>jira (fs, subnet, index). Some (Obj_MountTarget (GetMountTargets jira fs subnet index))"
  Kind_MountTarget
  "\<lambda>jira (fs, subnet, index). ClusterKey (mount_target_name jira index)"
  by unfold_locales
    (auto simp: GetMountTargets_def Let_def mount_target_name_def obj_key_def NamespacedKey_cluster
      key_request_simps)

interpretation nfsServerService: owned_builder
  "\<lambda>jira ns. Some (Obj_Service (GetNfSServerService jira ns))" Kind_Service
  "\<lambda>jira ns. NamespacedKey (jira_Name jira @ ''-nfs-server'') ns"
  by unfold_locales (auto simp: GetNfSServerService_def obj_key_def key_request_simps)

interpretation nfsServerStatefulSet: owned_builder
  "\<lambda>jira ns. Some (Obj_StatefulSet (GetNfsServerStatefulSet jira ns))" Kind_StatefulSet
  "\<lambda>jira ns. NamespacedKey (jira_Name jira @ ''-nfs-server'') ns"
  by unfold_locales (auto simp: GetNfsServerStatefulSet_def obj_key_def key_request_simps)

end
