(* ===== verification/Reconcile_Storage.thy ===== *)
theory Reconcile_Storage
  imports Reconcile_Steps Cloud_Storage
begin

text \<open>
  The shared home of \<open>Reconcile\<close> (\<open>controllers/jira_controller.go\<close>): over an EBS snapshot behind an
  NFS server, over an FSx snapshot, or on a new EFS file system, the first that is asked for.
\<close>

section \<open>EBS behind NFS\<close>

text \<open>\<open>strconv.Itoa(int(jira.Spec.SharedFS.VolumeSize))\<close> and \<open>jira.Name + "-nfs-server"\<close>.\<close>

definition volume_size :: "Jira \<Rightarrow> string" where
  "volume_size jira = Itoa (sint (VolumeSize (spec_SharedFS (Spec jira))))"

definition nfs_server_name :: "Jira \<Rightarrow> string" where
  "nfs_server_name jira = jira_Name jira @ ''-nfs-server''"

text \<open>The volume, and the claim the NFS server mounts; gives the volume id.\<close>

definition nfs_backing :: "'w env \<Rightarrow> Jira \<Rightarrow> string \<Rightarrow> ('w, string) op" where
  "nfs_backing env jira namespace =
     bind (ensure env (Obj_EbsVolume (GetEbsVolume jira)) (after (5 * Minute))) (\<lambda>_.
     bind (checked (getEbsVolumeId env (ClusterKey (name_uid jira))) (after (5 * Minute)))
       (\<lambda>ebsVolumeId.
     bind (stop_if (ebsVolumeId = '''') (after (5 * Second)) None) (\<lambda>_.
     bind (built (GetEbsPersistentVolume (MustParse env) jira ebsVolumeId (nfs_server_name jira)
            (volume_size jira) namespace)) (\<lambda>pv.
     bind (ensure env (Obj_PersistentVolume pv) (after (5 * Minute))) (\<lambda>pv'.
     bind (built (GetPersistentVolumeClaim (MustParse env) jira (nfs_server_name jira) namespace
            (Name pv') (EbsStorageClassName (Ebs (spec_SharedFS (Spec jira))))
            (volume_size jira) ''ReadWriteOnce'')) (\<lambda>pvc.
     bind (ensure env (Obj_PersistentVolumeClaim pvc) (after (5 * Minute))) (\<lambda>_.
     ret ebsVolumeId)))))))"

text \<open>The service and the stateful set of the NFS server; gives the address of the service.\<close>

definition nfs_server :: "'w env \<Rightarrow> Jira \<Rightarrow> string \<Rightarrow> ('w, string) op" where
  "nfs_server env jira namespace =
     bind (ensure env (Obj_Service (GetNfSServerService jira namespace)) (after (5 * Minute))) (\<lambda>svc.
     bind (checked (getSvcClusterIp env svc) (after (30 * Second))) (\<lambda>nfsServerIp.
     bind (stop_if (nfsServerIp = '''') (after (30 * Second)) None) (\<lambda>_.
     bind (ensure env (Obj_StatefulSet (GetNfsServerStatefulSet jira namespace))
            (after (5 * Minute))) (\<lambda>sts.
     bind (replicas_ready (getStsReadyReplicas env sts) (after Minute) (after (10 * Second))) (\<lambda>_.
     ret nfsServerIp)))))"

text \<open>The shared home itself, and the volume id in the status.\<close>

definition nfs_share :: "'w env \<Rightarrow> Jira \<Rightarrow> string \<Rightarrow> string \<Rightarrow> string \<Rightarrow> ('w, Jira) op" where
  "nfs_share env jira namespace ebsVolumeId nfsServerIp =
     bind (built (GetNfsPersistentVolume (MustParse env) jira nfsServerIp (volume_size jira)
            namespace)) (\<lambda>pv.
     bind (ensure env (Obj_PersistentVolume pv) (after Minute)) (\<lambda>pv'.
     bind (built (GetPersistentVolumeClaim (MustParse env) jira ''jira-shared-home'' namespace
            (Name pv') (EfsStorageClassName (Efs (spec_SharedFS (Spec jira))))
            (volume_size jira) ''ReadWriteMany'')) (\<lambda>pvc.
     bind (ensure env (Obj_PersistentVolumeClaim pvc) (after (30 * Second))) (\<lambda>_.
     if EbsId (status_SharedFs (Status jira)) \<noteq> ebsVolumeId
     then save_status env (set_SharedFs (\<lambda>s. s\<lparr>EbsId := ebsVolumeId\<rparr>) jira) (after (5 * Second))
     else ret jira))))"

definition shared_ebs :: "'w env \<Rightarrow> Jira \<Rightarrow> string \<Rightarrow> ('w, Jira) op" where
  "shared_ebs env jira namespace =
     bind (nfs_backing env jira namespace) (\<lambda>ebsVolumeId.
     bind (nfs_server env jira namespace) (\<lambda>nfsServerIp.
     nfs_share env jira namespace ebsVolumeId nfsServerIp))"

section \<open>FSx\<close>

definition shared_fsx :: "'w env \<Rightarrow> Jira \<Rightarrow> string \<Rightarrow> ('w, Jira) op" where
  "shared_fsx env jira namespace =
     bind (ensure env (Obj_VolumeSnapshotContent (GetFsxVolumeSnapshotContent jira namespace))
            (after (30 * Second))) (\<lambda>_.
     bind (ensure env (Obj_VolumeSnapshot (GetFsxVolumeSnapshot jira namespace))
            (after (30 * Second))) (\<lambda>_.
     bind (built (GetFsxPersistentVolumeClaimFromSnapshot (MustParse env) jira ''jira-shared-home''
            namespace ''1'')) (\<lambda>pvc.
     bind (ensure env (Obj_PersistentVolumeClaim pvc) (after (30 * Second))) (\<lambda>fsxPvc.
     bind (checked (getPvcStatus env fsxPvc) (after (30 * Second))) (\<lambda>fsxPvcStatus.
     bind (stop_if (fsxPvcStatus \<noteq> ''Bound'') (after (30 * Second)) None) (\<lambda>_.
     bind (checked (getFsxVolumeName env fsxPvc) (after (30 * Second))) (\<lambda>fsxVolumeName.
     if FsxId (status_SharedFs (Status jira)) \<noteq> fsxVolumeName
     then save_status env (set_SharedFs (\<lambda>s. s\<lparr>FsxId := fsxVolumeName\<rparr>) jira) (after Second)
     else ret jira)))))))"

section \<open>EFS\<close>

text \<open>
  \<open>for i, subnetId := range jira.Spec.Network.SubnetIDs\<close>, from the index \<open>i\<close> on. The state of a mount
  target is read through a pointer, nil until the provider has set it.
\<close>

fun mount_targets :: "'w env \<Rightarrow> Jira \<Rightarrow> string \<Rightarrow> int \<Rightarrow> string list \<Rightarrow> ('w, unit) op" where
  "mount_targets env jira fileSystemId i [] = ret ()"
| "mount_targets env jira fileSystemId i (subnetId # subnetIds) =
     bind (ensure env (Obj_MountTarget (GetMountTargets jira fileSystemId subnetId (Itoa i)))
            (after (10 * Second))) (\<lambda>_.
     bind (checked
            (getMountTargetStatus env
              (ClusterKey (jira_Name jira @ Itoa i @ ''-'' @ jira_UID jira)))
            (after (10 * Second))) (\<lambda>p.
     bind (deref p) (\<lambda>mountTargetStatus.
     bind (stop_if (mountTargetStatus \<noteq> ''available'') (after (10 * Second)) None) (\<lambda>_.
     mount_targets env jira fileSystemId (i + 1) subnetIds))))"

definition efs_file_system :: "'w env \<Rightarrow> Jira \<Rightarrow> string \<Rightarrow> ('w, string) op" where
  "efs_file_system env jira namespace =
     bind (ensure env (Obj_FileSystem (GetFileSystem jira namespace)) (after (5 * Minute))) (\<lambda>_.
     bind (checked (getFilesystemId env (ClusterKey (name_uid jira))) (after Minute)) (\<lambda>p.
     bind (deref p) (\<lambda>fileSystemId.
     bind (stop_if (fileSystemId = '''') (after (5 * Second)) None) (\<lambda>_.
     ret fileSystemId))))"

definition efs_share :: "'w env \<Rightarrow> Jira \<Rightarrow> string \<Rightarrow> string \<Rightarrow> ('w, Jira) op" where
  "efs_share env jira namespace fileSystemId =
     bind (built (GetEfsPersistentVolume (MustParse env) jira fileSystemId namespace)) (\<lambda>pv.
     bind (ensure env (Obj_PersistentVolume pv) (after (30 * Second))) (\<lambda>pv'.
     bind (built (GetPersistentVolumeClaim (MustParse env) jira ''jira-shared-home'' namespace
            (Name pv') (EfsStorageClassName (Efs (spec_SharedFS (Spec jira))))
            ''10'' ''ReadWriteMany'')) (\<lambda>pvc.
     bind (ensure env (Obj_PersistentVolumeClaim pvc) (after (30 * Second))) (\<lambda>_.
     if EfsId (status_SharedFs (Status jira)) \<noteq> fileSystemId
     then save_status env (set_SharedFs (\<lambda>s. s\<lparr>EfsId := fileSystemId\<rparr>) jira) (after (5 * Second))
     else ret jira))))"

definition shared_efs :: "'w env \<Rightarrow> Jira \<Rightarrow> string \<Rightarrow> ('w, Jira) op" where
  "shared_efs env jira namespace =
     bind (efs_file_system env jira namespace) (\<lambda>fileSystemId.
     bind (mount_targets env jira fileSystemId 0 (SubnetIDs (spec_Network (Spec jira)))) (\<lambda>_.
     efs_share env jira namespace fileSystemId))"

section \<open>The choice\<close>

definition shared_home :: "'w env \<Rightarrow> Jira \<Rightarrow> string \<Rightarrow> ('w, Jira) op" where
  "shared_home env jira namespace =
     (if ebs_SnapshotId (Ebs (spec_SharedFS (Spec jira))) \<noteq> '''' then shared_ebs env jira namespace
      else if fsx_SnapshotId (Fsx (spec_SharedFS (Spec jira))) \<noteq> ''''
      then shared_fsx env jira namespace
      else shared_efs env jira namespace)"

section \<open>Every stage keeps the contract\<close>

interpretation nfs_backing: reconcile_step "nfs_backing env jira ns" for env jira ns
  by unfold_locales (auto simp: nfs_backing_def intro!: contract_intros
      ebsVolumeId.contract_checked)

interpretation nfs_server: reconcile_step "nfs_server env jira ns" for env jira ns
  by unfold_locales (auto simp: nfs_server_def intro!: contract_intros
      svcClusterIp.contract_checked contract_replicas_ready sts_reads_count)

interpretation nfs_share: reconcile_step "nfs_share env jira ns v ip" for env jira ns v ip
  by unfold_locales (auto simp: nfs_share_def intro!: contract_intros)

interpretation shared_ebs: reconcile_step "shared_ebs env jira ns" for env jira ns
  by unfold_locales (auto simp: shared_ebs_def intro!: contract_bind nfs_backing.contract
      nfs_server.contract nfs_share.contract)

lemma contract_getPvHandle: "every (checked (getPvHandle env n) res) step_contract"
  unfolding checked_def getPvHandle_def bind_assoc
  by (rule pvByName.every_bind_readI)
     (auto simp: volume_handle_def stop_if_def wp_simps step_contract_def split: option.split)

lemma contract_getFsxVolumeName: "every (checked (getFsxVolumeName env m) res) step_contract"
  unfolding checked_def getFsxVolumeName_def bind_assoc
proof (rule every_bind_r_GetI)
  fix r :: "goerror + PersistentVolumeClaim"
  have "every (bind (getPvHandle env n) (\<lambda>(v, err).
      bind (stop_if (err \<noteq> None) res err) (\<lambda>_. ret v))) step_contract" for n
    using contract_getPvHandle by (simp add: checked_def)
  then show "every (bind (case r of Inl e \<Rightarrow> ret ('''', Some e)
        | Inr pvc \<Rightarrow> getPvHandle env (VolumeName (pvc_Spec pvc)))
      (\<lambda>(v, err). bind (stop_if (err \<noteq> None) res err) (\<lambda>_. ret v)))
      (\<lambda>q es. step_contract q (Got Kind_PersistentVolumeClaim (meta_key m)
        (map_sum id Obj_PersistentVolumeClaim r) # es))"
    by (cases r) (simp add: stop_if_def wp_simps step_contract_def, simp add: step_contract_Cons)
qed

interpretation shared_fsx: reconcile_step "shared_fsx env jira ns" for env jira ns
  by unfold_locales (auto simp: shared_fsx_def intro!: contract_intros
      pvcStatus.contract_checked contract_getFsxVolumeName)

lemma contract_mount_targets: "every (mount_targets env jira fs i subnets) step_contract"
  by (induction subnets arbitrary: i)
     (auto intro!: contract_intros mountTargetStatus.contract_checked)

interpretation efs_file_system: reconcile_step "efs_file_system env jira ns" for env jira ns
  by unfold_locales (auto simp: efs_file_system_def intro!: contract_intros
      filesystemId.contract_checked)

interpretation efs_share: reconcile_step "efs_share env jira ns fs" for env jira ns fs
  by unfold_locales (auto simp: efs_share_def intro!: contract_intros)

interpretation shared_efs: reconcile_step "shared_efs env jira ns" for env jira ns
  by unfold_locales (auto simp: shared_efs_def intro!: contract_bind efs_file_system.contract
      contract_mount_targets efs_share.contract)

interpretation shared_home: reconcile_step "shared_home env jira ns" for env jira ns
  by unfold_locales (auto simp: shared_home_def shared_ebs.contract shared_fsx.contract
      shared_efs.contract)

end
