(* ===== verification/Text_Template.thy ===== *)
theory Text_Template
  imports Prelude "HOL-Library.Char_ord" "HOL-Library.List_Lexorder"
begin

text \<open>
  The part of Go's \<open>text/template\<close> that the operator's template uses: text, \<open>{{ x }}\<close>, \<open>{{ if x }}\<close>,
  \<open>{{ range x }}\<close> with one or two variables, \<open>{{ end }}\<close>, the functions \<open>not\<close> and \<open>split\<close>, quoted strings, and
  the trim markers \<open>{{-\<close> and \<open>-}}\<close>. A template outside this part does not parse in the model. Executing
  gives the output written so far together with whether it came to the end.
\<close>

section \<open>Lexing\<close>

datatype token =
    TDot
  | TField string
  | is_TVar: TVar (var_name: string)
  | TStr string
  | TWord string
  | TDeclare
  | TComma

datatype item = IText string | IAction "token list"

definition is_space :: "char \<Rightarrow> bool" where
  "is_space c \<longleftrightarrow> c \<in> {CHR '' '', CHR 0x09, CHR 0x0D, CHR 0x0A}"

definition is_alnum :: "char \<Rightarrow> bool" where
  "is_alnum c \<longleftrightarrow> (let n = (of_char c :: nat)
     in (48 \<le> n \<and> n \<le> 57) \<or> (65 \<le> n \<and> n \<le> 90) \<or> (97 \<le> n \<and> n \<le> 122) \<or> n = 95)"

text \<open>The rest of a quoted string and what follows it; \<open>None\<close> when it is not closed.\<close>

fun lex_quoted :: "string \<Rightarrow> string \<Rightarrow> (string \<times> string) option" where
  "lex_quoted acc [] = None"
| "lex_quoted acc (c # cs) =
     (if c = CHR 0x22 then Some (rev acc, cs)
      else if c = CHR 0x5C then
        (case cs of
           [] \<Rightarrow> None
         | d # ds \<Rightarrow>
             if d = CHR ''n'' then lex_quoted (CHR 0x0A # acc) ds
             else if d = CHR ''t'' then lex_quoted (CHR 0x09 # acc) ds
             else if d = CHR 0x22 \<or> d = CHR 0x5C then lex_quoted (d # acc) ds
             else None)
      else if c = CHR 0x0A then None
      else lex_quoted (c # acc) cs)"

lemma lex_quoted_length: "lex_quoted acc s = Some (q, rest) \<Longrightarrow> length rest < length s"
  by (induction acc s rule: lex_quoted.induct)
     (auto split: if_splits list.splits)

text \<open>One token of an action (\<open>None\<close> for white space) and what follows it.\<close>

fun lex_token :: "string \<Rightarrow> (token option \<times> string) option" where
  "lex_token [] = None"
| "lex_token (c # cs) =
     (let w = takeWhile is_alnum cs; rest = dropWhile is_alnum cs
      in if is_space c then Some (None, cs)
         else if c = CHR 0x22 then
           map_option (\<lambda>(q, rest'). (Some (TStr q), rest')) (lex_quoted [] cs)
         else if c = CHR ''.'' then Some (Some (if w = [] then TDot else TField w), rest)
         else if c = CHR ''$'' then Some (Some (TVar w), rest)
         else if c = CHR '','' then Some (Some TComma, cs)
         else if prefix '':='' (c # cs) then Some (Some TDeclare, drop 1 cs)
         else if is_alnum c then Some (Some (TWord (c # w)), rest)
         else None)"

lemma lex_token_length: "lex_token s = Some (t, rest) \<Longrightarrow> length rest < length s"
  by (cases s) (auto simp: Let_def length_dropWhile_le less_Suc_eq_le
      dest: lex_quoted_length split: if_splits)

text \<open>The tokens of an action, whether it ends with a trim marker, and what follows it.\<close>

function lex_action :: "token list \<Rightarrow> string \<Rightarrow> (token list \<times> bool \<times> string) option" where
  "lex_action acc s =
     (if prefix ''}}'' s then Some (rev acc, False, drop 2 s)
      else if prefix '' -}}'' s then Some (rev acc, True, drop 4 s)
      else
        (case lex_token s of
           None \<Rightarrow> None
         | Some (None, rest) \<Rightarrow> lex_action acc rest
         | Some (Some t, rest) \<Rightarrow> lex_action (t # acc) rest))"
  by pat_completeness auto
termination
  by (relation "measure (\<lambda>(acc, s). length s)") (auto dest: lex_token_length)

declare lex_action.simps [simp del]

lemma lex_action_length: "lex_action acc s = Some (ts, t, rest) \<Longrightarrow> length rest < length s"
proof (induction acc s rule: lex_action.induct)
  case (1 acc s)
  show ?case
  proof (cases "prefix ''}}'' s \<or> prefix '' -}}'' s")
    case True
    with "1.prems" show ?thesis
      by (auto simp: lex_action.simps [of acc s] prefix_def split: if_splits)
  next
    case False
    with "1.prems" obtain o' s' where tok: "lex_token s = Some (o', s')"
      by (auto simp: lex_action.simps [of acc s] split: option.splits)
    have "length rest < length s'"
      using False "1.prems" "1.IH" tok
      by (cases o') (auto simp: lex_action.simps [of acc s])
    with lex_token_length [OF tok] show ?thesis by simp
  qed
qed

text \<open>
  The items of a template. \<open>acc\<close> is the text before, in reverse: a left trim marker drops its white
  space from the front, a right one drops the white space that follows.
\<close>

function lex_template :: "string \<Rightarrow> string \<Rightarrow> item list option" where
  "lex_template acc [] = Some [IText (rev acc)]"
| "lex_template acc (c # cs) =
     (if prefix ''{{'' (c # cs) then
        (let rest = drop 1 cs; ltrim = (prefix ''-'' rest \<and> drop 1 rest \<noteq> [] \<and> is_space (rest ! 1))
         in case lex_action [] (if ltrim then drop 1 rest else rest) of
              None \<Rightarrow> None
            | Some (ts, rtrim, rest') \<Rightarrow>
                map_option (\<lambda>is. IText (rev (if ltrim then dropWhile is_space acc else acc))
                    # IAction ts # is)
                  (lex_template [] (if rtrim then dropWhile is_space rest' else rest')))
      else lex_template (c # acc) cs)"
  by pat_completeness auto
termination
proof (relation "measure (\<lambda>(acc, s). length s)", goal_cases)
  case (2 acc c cs rest ltrim p ts q rtrim rest')
  then have "length rest' < length (if ltrim then drop 1 rest else rest)"
    by (auto dest: lex_action_length)
  with 2 have "length rest' \<le> length cs"
    by (auto split: if_splits)
  moreover have "length (dropWhile is_space rest') \<le> length rest'"
    by (rule length_dropWhile_le)
  ultimately show ?case by auto
qed auto

section \<open>Parsing\<close>

datatype expr = EDot | EField string | EVar string | EStr string | ENot expr | ESplit expr expr

datatype binding = NoVar | ValVar string | KeyValVar string string

datatype node =
    TextNode string
  | ActionNode expr
  | IfNode expr "node list"
  | RangeNode binding expr "node list"

fun parse_operand :: "token \<Rightarrow> expr option" where
  "parse_operand TDot = Some EDot"
| "parse_operand (TField f) = Some (EField f)"
| "parse_operand (TVar x) = Some (EVar x)"
| "parse_operand (TStr s) = Some (EStr s)"
| "parse_operand _ = None"

definition parse_expr :: "token list \<Rightarrow> expr option" where
  "parse_expr ts =
     (case ts of
        [t] \<Rightarrow> parse_operand t
      | [f, t] \<Rightarrow> if f = TWord ''not'' then map_option ENot (parse_operand t) else None
      | [f, t, u] \<Rightarrow>
          if f = TWord ''split''
          then Option.bind (parse_operand t) (\<lambda>a. map_option (ESplit a) (parse_operand u))
          else None
      | _ \<Rightarrow> None)"

definition parse_range :: "token list \<Rightarrow> (binding \<times> expr) option" where
  "parse_range ts =
     (if 4 < length ts \<and> is_TVar (ts ! 0) \<and> ts ! 1 = TComma \<and> is_TVar (ts ! 2) \<and> ts ! 3 = TDeclare
      then map_option (Pair (KeyValVar (var_name (ts ! 0)) (var_name (ts ! 2)))) (parse_expr (drop 4 ts))
      else if 2 < length ts \<and> is_TVar (ts ! 0) \<and> ts ! 1 = TDeclare
      then map_option (Pair (ValVar (var_name (ts ! 0)))) (parse_expr (drop 2 ts))
      else map_option (Pair NoVar) (parse_expr ts))"

text \<open>An open block: what it becomes when it ends, and the nodes before it, in reverse.\<close>

datatype frame = FIf expr | FRange binding expr

fun close_frame :: "frame \<Rightarrow> node list \<Rightarrow> node" where
  "close_frame (FIf e) body = IfNode e body"
| "close_frame (FRange b e) body = RangeNode b e body"

fun parse_items :: "(frame \<times> node list) list \<Rightarrow> node list \<Rightarrow> item list \<Rightarrow> node list option" where
  "parse_items st acc [] = (if st = [] then Some (rev acc) else None)"
| "parse_items st acc (IText s # is) = parse_items st (if s = [] then acc else TextNode s # acc) is"
| "parse_items st acc (IAction ts # is) =
     (if ts = [TWord ''end''] then
        (case st of
           [] \<Rightarrow> None
         | (f, outer) # st' \<Rightarrow> parse_items st' (close_frame f (rev acc) # outer) is)
      else if ts \<noteq> [] \<and> hd ts = TWord ''if'' then
        (case parse_expr (tl ts) of
           None \<Rightarrow> None
         | Some e \<Rightarrow> parse_items ((FIf e, acc) # st) [] is)
      else if ts \<noteq> [] \<and> hd ts = TWord ''range'' then
        (case parse_range (tl ts) of
           None \<Rightarrow> None
         | Some (b, e) \<Rightarrow> parse_items ((FRange b e, acc) # st) [] is)
      else
        (case parse_expr ts of
           None \<Rightarrow> None
         | Some e \<Rightarrow> parse_items st (ActionNode e # acc) is))"

definition parse_template :: "string \<Rightarrow> node list option" where
  "parse_template s = Option.bind (lex_template [] s) (parse_items [] [])"

section \<open>Executing\<close>

text \<open>The values of a template: \<open>VData\<close> is a \<open>map[string]interface{}\<close>, \<open>VNil\<close> what a missing key gives.\<close>

datatype tval =
  VStr string | VBool bool | VInt int | VStrs "string list" | VData "(string \<times> tval) list" | VNil

fun truth :: "tval \<Rightarrow> bool" where
  "truth (VStr s) = (s \<noteq> [])"
| "truth (VBool b) = b"
| "truth (VInt i) = (i \<noteq> 0)"
| "truth (VStrs xs) = (xs \<noteq> [])"
| "truth (VData m) = (m \<noteq> [])"
| "truth VNil = False"

primrec show_val :: "tval \<Rightarrow> string" where
  "show_val (VStr s) = s"
| "show_val (VBool b) = FormatBool b"
| "show_val (VInt i) = Itoa i"
| "show_val (VStrs xs) = ''['' @ strings_Join xs '' '' @ '']''"
| "show_val (VData m) = ''map['' @ strings_Join
     (map (\<lambda>(k, s). k @ '':'' @ s) (sort_key fst (map (map_prod id show_val) m))) '' '' @ '']''"
| "show_val VNil = ''<no value>''"

fun eval_expr :: "expr \<Rightarrow> tval \<Rightarrow> (string \<times> tval) list \<Rightarrow> tval option" where
  "eval_expr EDot dot vars = Some dot"
| "eval_expr (EField f) dot vars =
     (case dot of
        VData m \<Rightarrow> Some (case map_of m f of None \<Rightarrow> VNil | Some v \<Rightarrow> v)
      | _ \<Rightarrow> None)"
| "eval_expr (EVar x) dot vars = map_of vars x"
| "eval_expr (EStr s) dot vars = Some (VStr s)"
| "eval_expr (ENot e) dot vars = map_option (\<lambda>v. VBool (\<not> truth v)) (eval_expr e dot vars)"
| "eval_expr (ESplit e s) dot vars =
     (case (eval_expr e dot vars, eval_expr s dot vars) of
        (Some (VStr x), Some (VStr sep)) \<Rightarrow> Some (VStrs (strings_Split x sep))
      | _ \<Rightarrow> None)"

text \<open>What a \<open>range\<close> goes over: keys and elements, the keys of a map in order.\<close>

fun range_of :: "tval \<Rightarrow> (tval \<times> tval) list option" where
  "range_of (VStrs xs) = Some (zip (map (\<lambda>i. VInt (int i)) [0..<length xs]) (map VStr xs))"
| "range_of (VData m) = Some (map (\<lambda>(k, v). (VStr k, v)) (sort_key fst m))"
| "range_of VNil = Some []"
| "range_of _ = None"

fun bind_range :: "binding \<Rightarrow> tval \<times> tval \<Rightarrow> (string \<times> tval) list \<Rightarrow> (string \<times> tval) list" where
  "bind_range NoVar (k, v) vars = vars"
| "bind_range (ValVar x) (k, v) vars = (x, v) # vars"
| "bind_range (KeyValVar y x) (k, v) vars = (x, v) # (y, k) # vars"

text \<open>Outputs one after another, up to the first that fails.\<close>

fun seq_out :: "(string \<times> bool) list \<Rightarrow> string \<times> bool" where
  "seq_out [] = ([], True)"
| "seq_out ((s, ok) # rest) =
     (if ok then (case seq_out rest of (s', ok') \<Rightarrow> (s @ s', ok')) else (s, False))"

fun exec_node :: "node \<Rightarrow> tval \<Rightarrow> (string \<times> tval) list \<Rightarrow> string \<times> bool"
  and exec_nodes :: "node list \<Rightarrow> tval \<Rightarrow> (string \<times> tval) list \<Rightarrow> string \<times> bool" where
  "exec_node (TextNode s) dot vars = (s, True)"
| "exec_node (ActionNode e) dot vars =
     (case eval_expr e dot vars of None \<Rightarrow> ([], False) | Some v \<Rightarrow> (show_val v, True))"
| "exec_node (IfNode e body) dot vars =
     (case eval_expr e dot vars of
        None \<Rightarrow> ([], False)
      | Some v \<Rightarrow> if truth v then exec_nodes body dot vars else ([], True))"
| "exec_node (RangeNode b e body) dot vars =
     (case Option.bind (eval_expr e dot vars) range_of of
        None \<Rightarrow> ([], False)
      | Some els \<Rightarrow>
          seq_out (map (\<lambda>el. exec_nodes body (snd el) (bind_range b el vars)) els))"
| "exec_nodes [] dot vars = ([], True)"
| "exec_nodes (n # ns) dot vars = seq_out [exec_node n dot vars, exec_nodes ns dot vars]"

lemma seq_out_all_ok:
  "list_all snd outs \<Longrightarrow> seq_out outs = (concat (map fst outs), True)"
  by (induction outs) auto

text \<open>A loop over a list of strings, or over a map whose keys are in order, whose body never fails.\<close>

lemma exec_range_strs:
  assumes "eval_expr e dot vars = Some (VStrs xs)"
    and "\<And>k x. exec_nodes body (VStr x) (bind_range b (k, VStr x) vars) = (f x, True)"
  shows "exec_node (RangeNode b e body) dot vars = (concat (map f xs), True)"
proof -
  let ?els = "zip (map (\<lambda>i. VInt (int i)) [0..<length xs]) (map VStr xs)"
  have "exec_nodes body (snd el) (bind_range b el vars) = (f x, True)" if "snd el = VStr x" for el x
    using assms(2) [of x "fst el"] that by (cases el) simp
  then have "map (\<lambda>el. exec_nodes body (snd el) (bind_range b el vars)) ?els = map (\<lambda>x. (f x, True)) xs"
    by (intro nth_equalityI) auto
  with assms(1) show ?thesis
    by (simp add: seq_out_all_ok list_all_iff o_def)
qed

lemma exec_range_data:
  assumes "eval_expr e dot vars = Some (VData m)" and "sorted (map fst m)"
    and "\<And>k v. (k, v) \<in> set m \<Longrightarrow> exec_nodes body v (bind_range b (VStr k, v) vars) = (f k v, True)"
  shows "exec_node (RangeNode b e body) dot vars = (concat (map (\<lambda>(k, v). f k v) m), True)"
proof -
  have "map (\<lambda>el. exec_nodes body (snd el) (bind_range b el vars)) (map (\<lambda>(k, v). (VStr k, v)) m) =
      map (\<lambda>(k, v). (f k v, True)) m"
    using assms(3) by (auto simp: o_def)
  moreover have "sort_key fst m = m"
    using assms(2) by (simp add: sorted_sort_id sort_key_id_if_sorted)
  ultimately show ?thesis
    using assms(1)
    by (simp add: seq_out_all_ok list_all_iff o_def case_prod_beta cong: map_cong)
qed

lemma exec_nodes_ok:
  "exec_node n dot vars = (s, True) \<Longrightarrow> exec_nodes ns dot vars = (s', True) \<Longrightarrow>
   exec_nodes (n # ns) dot vars = (s @ s', True)"
  by simp

lemma exec_nodes_append:
  "exec_nodes ms dot vars = (s, True) \<Longrightarrow> exec_nodes ns dot vars = (s', True) \<Longrightarrow>
   exec_nodes (ms @ ns) dot vars = (s @ s', True)"
proof (induction ms arbitrary: s)
  case (Cons m ms)
  then show ?case
    by (cases "exec_node m dot vars"; cases "exec_nodes ms dot vars") (auto split: if_splits)
qed simp

end
