(* ===== verification/ApplicationSet.thy ===== *)
theory ApplicationSet
  imports Text_Template Helpers
begin

text \<open>
  \<open>argocd/applicationset.go\<close> with the template it renders, \<open>argocd/applicationset.yaml.tpl\<close>: the
  variables, the template as text and as the nodes it parses to, and the function that reads the
  template, executes it and writes the result.
\<close>

section \<open>The template\<close>

definition unlines :: "string list \<Rightarrow> string" where
  "unlines ls = strings_Join ls [CHR 0x0A]"

definition applicationset_tpl :: string where
  "applicationset_tpl = unlines
     [''apiVersion: argoproj.io/v1alpha1'',
      ''kind: ApplicationSet'',
      ''metadata:'',
      ''  name: {{ .namespace }}'',
      ''  namespace: {{ .argoCDNamespace }}'',
      ''{{- if not .retainOnDelete }}'',
      ''  ownerReferences:'',
      ''  - apiVersion: app.atlassian.com/v1'',
      ''    blockOwnerDeletion: true'',
      ''    controller: true'',
      ''    kind: Jira'',
      ''    name: {{ .namespace }}'',
      ''    uid: {{ .uid }}'',
      ''{{- end }}'',
      ''spec:'',
      ''  generators:'',
      ''  - list:'',
      ''      elements:'',
      ''      - namespace: {{ .namespace }}'',
      ''  template:'',
      ''    metadata:'',
      ''      name: '{{'' @ [CHR 0x22] @ ''{{ namespace }}'' @ [CHR 0x22] @ ''}}'' @ [CHR 0x27],
      ''    spec:'',
      ''      project: {{ .argoCDProject }}'',
      ''      syncPolicy:'',
      ''        syncOptions:'',
      ''        - ApplyOutOfSyncOnly={{ .applyOutOfSyncOnly }}'',
      ''{{- if .autoSync }}'',
      ''        automated: {}'',
      ''{{- end }}'',
      ''      sources:'',
      ''        - chart: jira'',
      ''          repoURL: {{ .helmChartRepo }}'',
      ''          targetRevision: {{ .helmChartVersion }}'',
      ''          helm:'',
      ''            releaseName: '{{'' @ [CHR 0x22] @ ''{{ namespace }}'' @ [CHR 0x22] @ ''}}'' @ [CHR 0x27],
      ''            values: |'',
      ''            {{- range $line := split .inLineValues '' @ [CHR 0x22] @ [CHR 0x5C] @ ''n'' @ [CHR 0x22] @ '' }}'',
      ''                {{ $line }}'',
      ''            {{- end -}}'',
      ''              ingress:'',
      ''                    host: {{ .appHostname }}'',
      ''                    annotations:'',
      ''                        {{- range $key, $value := .IngressAnnotations }}'',
      ''                        '{{ $key }}': '{{ $value }}'' @ [CHR 0x27],
      ''                        {{- end }}'',
      ''            valueFiles:'',
      ''                {{- range .valuesFiles }}'',
      ''                - {{ . }}'',
      ''                {{- end }}'',
      ''        - repoURL: {{ .helmValuesGitRepo }}'',
      ''          targetRevision: {{ .helmValuesRepoRevision }}'',
      ''          ref: values'',
      ''      destination:'',
      ''        server: '' @ [CHR 0x22] @ ''https://kubernetes.default.svc'' @ [CHR 0x22],
      ''        namespace: '{{'' @ [CHR 0x22] @ ''{{ namespace }}'' @ [CHR 0x22] @ ''}}'' @ [CHR 0x27]]"

section \<open>Parsing the template\<close>

text \<open>
  The items of the template, a few actions at a time, with what follows left open: each lemma is one
  evaluation of the lexer.
\<close>

lemmas lex_eval = is_space_def is_alnum_def Let_def lex_action.simps

definition tpl_1 :: string where
  "tpl_1 = unlines
     [''apiVersion: argoproj.io/v1alpha1'',
      ''kind: ApplicationSet'',
      ''metadata:'',
      ''  name: {{ .namespace }}'',
      ''  namespace: {{ .argoCDNamespace }}'',
      ''{{- if not .retainOnDelete }}'',
      ''  ownerReferences:'',
      ''  - apiVersion: app.atlassian.com/v1'',
      ''    blockOwnerDeletion: true'',
      ''    controller: true'',
      ''    kind: Jira'',
      ''    name: {{ .namespace }}'']"

definition items_1 :: "item list" where
  "items_1 =
    [IText (''apiVersion: argoproj.io/v1alpha1\<newline>kind: ApplicationSet\<newline>metadata:\<newline>  name: ''), IAction [TField ''namespace''],
     IText (''\<newline>  namespace: ''), IAction [TField ''argoCDNamespace''],
     IText (''''), IAction [TWord ''if'', TWord ''not'', TField ''retainOnDelete''],
     IText (''\<newline>  ownerReferences:\<newline>  - apiVersion: app.atlassian.com/v1\<newline>    blockOwnerDeletion: true\<newline>    controller: true\<newline>    kind: Jira\<newline>    name: ''), IAction [TField ''namespace'']]"

lemma lex_1: "lex_template [] (tpl_1 @ s) = map_option (\<lambda>is. items_1 @ is) (lex_template [] s)"
  by (simp add: tpl_1_def items_1_def unlines_def lex_eval option.map_comp o_def)

definition tpl_2 :: string where
  "tpl_2 = unlines
     ['''',
      ''    uid: {{ .uid }}'',
      ''{{- end }}'',
      ''spec:'',
      ''  generators:'',
      ''  - list:'',
      ''      elements:'',
      ''      - namespace: {{ .namespace }}'',
      ''  template:'',
      ''    metadata:'',
      ''      name: '{{'' @ [CHR 0x22] @ ''{{ namespace }}'' @ [CHR 0x22] @ ''}}'']"

definition items_2 :: "item list" where
  "items_2 =
    [IText (''\<newline>    uid: ''), IAction [TField ''uid''],
     IText (''''), IAction [TWord ''end''],
     IText (''\<newline>spec:\<newline>  generators:\<newline>  - list:\<newline>      elements:\<newline>      - namespace: ''), IAction [TField ''namespace''],
     IText (''\<newline>  template:\<newline>    metadata:\<newline>      name: '' @ [CHR 0x27]), IAction [TStr ''{{ namespace }}'']]"

lemma lex_2: "lex_template [] (tpl_2 @ s) = map_option (\<lambda>is. items_2 @ is) (lex_template [] s)"
  by (simp add: tpl_2_def items_2_def unlines_def lex_eval option.map_comp o_def)

definition tpl_3 :: string where
  "tpl_3 = unlines
     [[CHR 0x27],
      ''    spec:'',
      ''      project: {{ .argoCDProject }}'',
      ''      syncPolicy:'',
      ''        syncOptions:'',
      ''        - ApplyOutOfSyncOnly={{ .applyOutOfSyncOnly }}'',
      ''{{- if .autoSync }}'',
      ''        automated: {}'',
      ''{{- end }}'']"

definition items_3 :: "item list" where
  "items_3 =
    [IText ([CHR 0x27] @ ''\<newline>    spec:\<newline>      project: ''), IAction [TField ''argoCDProject''],
     IText (''\<newline>      syncPolicy:\<newline>        syncOptions:\<newline>        - ApplyOutOfSyncOnly=''), IAction [TField ''applyOutOfSyncOnly''],
     IText (''''), IAction [TWord ''if'', TField ''autoSync''],
     IText (''\<newline>        automated: {}''), IAction [TWord ''end'']]"

lemma lex_3: "lex_template [] (tpl_3 @ s) = map_option (\<lambda>is. items_3 @ is) (lex_template [] s)"
  by (simp add: tpl_3_def items_3_def unlines_def lex_eval option.map_comp o_def)

definition tpl_4 :: string where
  "tpl_4 = unlines
     ['''',
      ''      sources:'',
      ''        - chart: jira'',
      ''          repoURL: {{ .helmChartRepo }}'',
      ''          targetRevision: {{ .helmChartVersion }}'',
      ''          helm:'',
      ''            releaseName: '{{'' @ [CHR 0x22] @ ''{{ namespace }}'' @ [CHR 0x22] @ ''}}'' @ [CHR 0x27],
      ''            values: |'',
      ''            {{- range $line := split .inLineValues '' @ [CHR 0x22] @ [CHR 0x5C] @ ''n'' @ [CHR 0x22] @ '' }}'']"

definition items_4 :: "item list" where
  "items_4 =
    [IText (''\<newline>      sources:\<newline>        - chart: jira\<newline>          repoURL: ''), IAction [TField ''helmChartRepo''],
     IText (''\<newline>          targetRevision: ''), IAction [TField ''helmChartVersion''],
     IText (''\<newline>          helm:\<newline>            releaseName: '' @ [CHR 0x27]), IAction [TStr ''{{ namespace }}''],
     IText ([CHR 0x27] @ ''\<newline>            values: |''), IAction [TWord ''range'', TVar ''line'', TDeclare, TWord ''split'', TField ''inLineValues'', TStr ''\<newline>'']]"

lemma lex_4: "lex_template [] (tpl_4 @ s) = map_option (\<lambda>is. items_4 @ is) (lex_template [] s)"
  by (simp add: tpl_4_def items_4_def unlines_def lex_eval option.map_comp o_def)

definition tpl_5 :: string where
  "tpl_5 = unlines
     ['''',
      ''                {{ $line }}'',
      ''            {{- end -}}'',
      ''              ingress:'',
      ''                    host: {{ .appHostname }}'',
      ''                    annotations:'',
      ''                        {{- range $key, $value := .IngressAnnotations }}'']"

definition items_5 :: "item list" where
  "items_5 =
    [IText (''\<newline>                ''), IAction [TVar ''line''],
     IText (''''), IAction [TWord ''end''],
     IText (''ingress:\<newline>                    host: ''), IAction [TField ''appHostname''],
     IText (''\<newline>                    annotations:''), IAction [TWord ''range'', TVar ''key'', TComma, TVar ''value'', TDeclare, TField ''IngressAnnotations'']]"

lemma lex_5: "lex_template [] (tpl_5 @ s) = map_option (\<lambda>is. items_5 @ is) (lex_template [] s)"
  by (simp add: tpl_5_def items_5_def unlines_def lex_eval option.map_comp o_def)

definition tpl_6 :: string where
  "tpl_6 = unlines
     ['''',
      ''                        '{{ $key }}': '{{ $value }}'' @ [CHR 0x27],
      ''                        {{- end }}'',
      ''            valueFiles:'',
      ''                {{- range .valuesFiles }}'']"

definition items_6 :: "item list" where
  "items_6 =
    [IText (''\<newline>                        '' @ [CHR 0x27]), IAction [TVar ''key''],
     IText ([CHR 0x27] @ '': '' @ [CHR 0x27]), IAction [TVar ''value''],
     IText ([CHR 0x27]), IAction [TWord ''end''],
     IText (''\<newline>            valueFiles:''), IAction [TWord ''range'', TField ''valuesFiles'']]"

lemma lex_6: "lex_template [] (tpl_6 @ s) = map_option (\<lambda>is. items_6 @ is) (lex_template [] s)"
  by (simp add: tpl_6_def items_6_def unlines_def lex_eval option.map_comp o_def)

definition tpl_7 :: string where
  "tpl_7 = unlines
     ['''',
      ''                - {{ . }}'',
      ''                {{- end }}'',
      ''        - repoURL: {{ .helmValuesGitRepo }}'',
      ''          targetRevision: {{ .helmValuesRepoRevision }}'']"

definition items_7 :: "item list" where
  "items_7 =
    [IText (''\<newline>                - ''), IAction [TDot],
     IText (''''), IAction [TWord ''end''],
     IText (''\<newline>        - repoURL: ''), IAction [TField ''helmValuesGitRepo''],
     IText (''\<newline>          targetRevision: ''), IAction [TField ''helmValuesRepoRevision'']]"

lemma lex_7: "lex_template [] (tpl_7 @ s) = map_option (\<lambda>is. items_7 @ is) (lex_template [] s)"
  by (simp add: tpl_7_def items_7_def unlines_def lex_eval option.map_comp o_def)

definition tpl_8 :: string where
  "tpl_8 = unlines
     ['''',
      ''          ref: values'',
      ''      destination:'',
      ''        server: '' @ [CHR 0x22] @ ''https://kubernetes.default.svc'' @ [CHR 0x22],
      ''        namespace: '{{'' @ [CHR 0x22] @ ''{{ namespace }}'' @ [CHR 0x22] @ ''}}'' @ [CHR 0x27]]"

definition items_8 :: "item list" where
  "items_8 =
    [IText (''\<newline>          ref: values\<newline>      destination:\<newline>        server: '' @ [CHR 0x22] @ ''https://kubernetes.default.svc'' @ [CHR 0x22] @ ''\<newline>        namespace: '' @ [CHR 0x27]), IAction [TStr ''{{ namespace }}'']]"

lemma lex_8: "lex_template [] tpl_8 = Some (items_8 @ [IText ([CHR 0x27])])"
  by (simp add: tpl_8_def items_8_def unlines_def lex_eval)

lemma applicationset_tpl_split:
  "applicationset_tpl = tpl_1 @ tpl_2 @ tpl_3 @ tpl_4 @ tpl_5 @ tpl_6 @ tpl_7 @ tpl_8"
  by (simp add: applicationset_tpl_def unlines_def tpl_1_def tpl_2_def tpl_3_def tpl_4_def tpl_5_def tpl_6_def tpl_7_def tpl_8_def)

definition applicationset_nodes :: "node list" where
  "applicationset_nodes =
    [TextNode (''apiVersion: argoproj.io/v1alpha1\<newline>kind: ApplicationSet\<newline>metadata:\<newline>  name: ''),
     ActionNode (EField ''namespace''),
     TextNode (''\<newline>  namespace: ''),
     ActionNode (EField ''argoCDNamespace''),
     IfNode (ENot (EField ''retainOnDelete''))
        [TextNode (''\<newline>  ownerReferences:\<newline>  - apiVersion: app.atlassian.com/v1\<newline>    blockOwnerDeletion: true\<newline>    controller: true\<newline>    kind: Jira\<newline>    name: ''),
         ActionNode (EField ''namespace''),
         TextNode (''\<newline>    uid: ''),
         ActionNode (EField ''uid'')],
     TextNode (''\<newline>spec:\<newline>  generators:\<newline>  - list:\<newline>      elements:\<newline>      - namespace: ''),
     ActionNode (EField ''namespace''),
     TextNode (''\<newline>  template:\<newline>    metadata:\<newline>      name: '' @ [CHR 0x27]),
     ActionNode (EStr ''{{ namespace }}''),
     TextNode ([CHR 0x27] @ ''\<newline>    spec:\<newline>      project: ''),
     ActionNode (EField ''argoCDProject''),
     TextNode (''\<newline>      syncPolicy:\<newline>        syncOptions:\<newline>        - ApplyOutOfSyncOnly=''),
     ActionNode (EField ''applyOutOfSyncOnly''),
     IfNode (EField ''autoSync'')
        [TextNode (''\<newline>        automated: {}'')],
     TextNode (''\<newline>      sources:\<newline>        - chart: jira\<newline>          repoURL: ''),
     ActionNode (EField ''helmChartRepo''),
     TextNode (''\<newline>          targetRevision: ''),
     ActionNode (EField ''helmChartVersion''),
     TextNode (''\<newline>          helm:\<newline>            releaseName: '' @ [CHR 0x27]),
     ActionNode (EStr ''{{ namespace }}''),
     TextNode ([CHR 0x27] @ ''\<newline>            values: |''),
     RangeNode (ValVar ''line'') (ESplit (EField ''inLineValues'') (EStr ''\<newline>''))
        [TextNode (''\<newline>                ''),
         ActionNode (EVar ''line'')],
     TextNode (''ingress:\<newline>                    host: ''),
     ActionNode (EField ''appHostname''),
     TextNode (''\<newline>                    annotations:''),
     RangeNode (KeyValVar ''key'' ''value'') (EField ''IngressAnnotations'')
        [TextNode (''\<newline>                        '' @ [CHR 0x27]),
         ActionNode (EVar ''key''),
         TextNode ([CHR 0x27] @ '': '' @ [CHR 0x27]),
         ActionNode (EVar ''value''),
         TextNode ([CHR 0x27])],
     TextNode (''\<newline>            valueFiles:''),
     RangeNode NoVar (EField ''valuesFiles'')
        [TextNode (''\<newline>                - ''),
         ActionNode (EDot)],
     TextNode (''\<newline>        - repoURL: ''),
     ActionNode (EField ''helmValuesGitRepo''),
     TextNode (''\<newline>          targetRevision: ''),
     ActionNode (EField ''helmValuesRepoRevision''),
     TextNode (''\<newline>          ref: values\<newline>      destination:\<newline>        server: '' @ [CHR 0x22] @ ''https://kubernetes.default.svc'' @ [CHR 0x22] @ ''\<newline>        namespace: '' @ [CHR 0x27]),
     ActionNode (EStr ''{{ namespace }}''),
     TextNode ([CHR 0x27])]"

text \<open>The nodes are what the shipped template parses to.\<close>

lemma parse_applicationset_tpl: "parse_template applicationset_tpl = Some applicationset_nodes"
proof -
  have lex: "lex_template [] applicationset_tpl =
    Some (items_1 @ items_2 @ items_3 @ items_4 @ items_5 @ items_6 @ items_7 @ items_8 @ [IText ([CHR 0x27])])"
    by (simp add: applicationset_tpl_split lex_1 lex_2 lex_3 lex_4 lex_5 lex_6 lex_7 lex_8)
  show ?thesis
    unfolding parse_template_def lex
    by (simp add: items_1_def items_2_def items_3_def items_4_def items_5_def items_6_def items_7_def items_8_def parse_expr_def parse_range_def applicationset_nodes_def)
qed

section \<open>The variables\<close>

definition albTags :: "Jira \<Rightarrow> string" where
  "albTags jira = strings_Join
     [''service_name='' @ jira_Name jira,
      ''Name='' @ jira_Name jira,
      ''business_unit=WorkplaceTechnology'',
      ''resource_owner=mgibson''] '',''"

definition ingressAnnotations :: "Jira \<Rightarrow> (string \<times> tval) list" where
  "ingressAnnotations jira =
     [(''alb.ingress.kubernetes.io/certificate-arn'',
         VStr ''arn:aws:acm:ap-southeast-2:629205377521:certificate/7d398889-d2ed-42e4-94e7-16fded6498f1''),
      (''alb.ingress.kubernetes.io/healthcheck-path'', VStr ''/status''),
      (''alb.ingress.kubernetes.io/listen-ports'',
         VStr (''[{'' @ [CHR 0x22] @ ''HTTP'' @ [CHR 0x22] @ '': 80}, {'' @ [CHR 0x22] @ ''HTTPS'' @ [CHR 0x22] @ '': 443}]'')),
      (''alb.ingress.kubernetes.io/scheme'', VStr ''internal''),
      (''alb.ingress.kubernetes.io/ssl-policy'', VStr ''ELBSecurityPolicy-FS-1-2-Res-2020-10''),
      (''alb.ingress.kubernetes.io/subnets'',
         VStr (strings_Join (SubnetIDs (spec_Network (Spec jira))) '','')),
      (''alb.ingress.kubernetes.io/tags'', VStr (albTags jira)),
      (''alb.ingress.kubernetes.io/target-group-attributes'',
         VStr ''stickiness.enabled=true,stickiness.lb_cookie.duration_seconds=43200''),
      (''alb.ingress.kubernetes.io/target-type'', VStr ''ip''),
      (''external-dns.alpha.kubernetes.io/hostname'', VStr (Hostname (Spec jira)))]"

definition template_vars :: "Jira \<Rightarrow> (string \<times> tval) list" where
  "template_vars jira =
     (let argo = ArgoCD (Spec jira)
      in [(''namespace'', VStr (jira_Name jira)),
          (''argoCDNamespace'', VStr (argo_Namespace argo)),
          (''argoCDProject'', VStr (Project argo)),
          (''autoSync'', VBool (AutoSync (argo_SyncPolicy argo))),
          (''retainOnDelete'', VBool (argo_RetainOnDelete argo)),
          (''uid'', VStr (jira_UID jira)),
          (''applyOutOfSyncOnly'', VStr (FormatBool (ApplyOutOfSyncOnly (argo_SyncPolicy argo)))),
          (''helmChartRepo'', VStr (RepoURL (argo_HelmChart argo))),
          (''helmChartVersion'', VStr (Version (argo_HelmChart argo))),
          (''helmValuesGitRepo'', VStr (GitRepo (argo_HelmValues argo))),
          (''helmValuesRepoRevision'', VStr (GitRevision (argo_HelmValues argo))),
          (''valuesFiles'', VStrs (HelmValuesFiles (argo_HelmValues argo))),
          (''appHostname'', VStr (Hostname (Spec jira))),
          (''IngressAnnotations'', VData (ingressAnnotations jira)),
          (''inLineValues'', VStr (ValueOverrides (argo_HelmValues argo)))])"

section \<open>Rendering\<close>

definition template_error :: "string \<Rightarrow> goerror" where
  "template_error s = \<lparr>err_text = ''template: applicationset: '' @ s, IsAlreadyExists = False\<rparr>"

definition applicationset_path :: "Jira \<Rightarrow> string" where
  "applicationset_path jira = ''argocd/applicationset-'' @ jira_Name jira @ ''.yaml''"

text \<open>
  \<open>tmpl.Execute(file, vars)\<close> writes as it goes: on an execution error what was written so far stays.
\<close>

definition ProcessApplicationSetTemplate :: "'w env \<Rightarrow> Jira \<Rightarrow> ('w, goerror option) op" where
  "ProcessApplicationSetTemplate env jira =
     bind (ReadFile env ''argocd/applicationset.yaml.tpl'') (\<lambda>r.
     case r of
       Inl e \<Rightarrow> ret (Some e)
     | Inr tmplContent \<Rightarrow>
         (case parse_template tmplContent of
            None \<Rightarrow> ret (Some (template_error ''parse''))
          | Some tmpl \<Rightarrow>
              bind (CreateFile env (applicationset_path jira)) (\<lambda>err.
              if err \<noteq> None then ret err
              else
                (case exec_nodes tmpl (VData (template_vars jira)) [] of
                   (out, ok) \<Rightarrow>
                     bind (WriteFile env (applicationset_path jira) out) (\<lambda>err.
                     if err \<noteq> None then ret err
                     else ret (if ok then None else Some (template_error ''execute'')))))))"

section \<open>What the template renders to\<close>

text \<open>
  The document in three parts: up to the inline Helm values, the inline values, and the rest, which
  starts with the key \<open>ingress:\<close>.
\<close>

definition yaml_owner :: "Jira \<Rightarrow> string" where
  "yaml_owner jira =
     (if argo_RetainOnDelete (ArgoCD (Spec jira)) then ''''
      else ''\<newline>  ownerReferences:\<newline>  - apiVersion: app.atlassian.com/v1\<newline>    blockOwnerDeletion: true\<newline>    controller: true\<newline>    kind: Jira\<newline>    name: ''
        @ jira_Name jira @ ''\<newline>    uid: '' @ jira_UID jira)"

definition yaml_head :: "Jira \<Rightarrow> string" where
  "yaml_head jira =
     ''apiVersion: argoproj.io/v1alpha1\<newline>kind: ApplicationSet\<newline>metadata:\<newline>  name: '' @ jira_Name jira
     @ ''\<newline>  namespace: '' @ argo_Namespace (ArgoCD (Spec jira))
     @ yaml_owner jira
     @ ''\<newline>spec:\<newline>  generators:\<newline>  - list:\<newline>      elements:\<newline>      - namespace: '' @ jira_Name jira
     @ ''\<newline>  template:\<newline>    metadata:\<newline>      name: '' @ [CHR 0x27] @ ''{{ namespace }}'' @ [CHR 0x27]
     @ ''\<newline>    spec:\<newline>      project: '' @ Project (ArgoCD (Spec jira))
     @ ''\<newline>      syncPolicy:\<newline>        syncOptions:\<newline>        - ApplyOutOfSyncOnly=''
     @ FormatBool (ApplyOutOfSyncOnly (argo_SyncPolicy (ArgoCD (Spec jira))))
     @ (if AutoSync (argo_SyncPolicy (ArgoCD (Spec jira))) then ''\<newline>        automated: {}'' else '''')
     @ ''\<newline>      sources:\<newline>        - chart: jira\<newline>          repoURL: ''
     @ RepoURL (argo_HelmChart (ArgoCD (Spec jira)))
     @ ''\<newline>          targetRevision: '' @ Version (argo_HelmChart (ArgoCD (Spec jira)))
     @ ''\<newline>          helm:\<newline>            releaseName: '' @ [CHR 0x27] @ ''{{ namespace }}'' @ [CHR 0x27]
     @ ''\<newline>            values: |''"

definition yaml_inline :: "string \<Rightarrow> string" where
  "yaml_inline v = concat (map (\<lambda>l. ''\<newline>                '' @ l) (strings_Split v ''\<newline>''))"

definition yaml_tail :: "Jira \<Rightarrow> string" where
  "yaml_tail jira =
     ''ingress:\<newline>                    host: '' @ Hostname (Spec jira)
     @ ''\<newline>                    annotations:''
     @ concat (map (\<lambda>(k, v). ''\<newline>                        '' @ [CHR 0x27] @ k @ [CHR 0x27] @ '': ''
         @ [CHR 0x27] @ show_val v @ [CHR 0x27]) (ingressAnnotations jira))
     @ ''\<newline>            valueFiles:''
     @ concat (map (\<lambda>f. ''\<newline>                - '' @ f)
         (HelmValuesFiles (argo_HelmValues (ArgoCD (Spec jira)))))
     @ ''\<newline>        - repoURL: '' @ GitRepo (argo_HelmValues (ArgoCD (Spec jira)))
     @ ''\<newline>          targetRevision: '' @ GitRevision (argo_HelmValues (ArgoCD (Spec jira)))
     @ ''\<newline>          ref: values\<newline>      destination:\<newline>        server: '' @ [CHR 0x22]
     @ ''https://kubernetes.default.svc'' @ [CHR 0x22]
     @ ''\<newline>        namespace: '' @ [CHR 0x27] @ ''{{ namespace }}'' @ [CHR 0x27]"

definition applicationset_yaml :: "Jira \<Rightarrow> string" where
  "applicationset_yaml jira =
     yaml_head jira @ yaml_inline (ValueOverrides (argo_HelmValues (ArgoCD (Spec jira))))
     @ yaml_tail jira"

lemma ingressAnnotations_sorted: "sorted (map fst (ingressAnnotations jira))"
  by (simp add: ingressAnnotations_def)

lemma render_applicationset:
  "exec_nodes applicationset_nodes (VData (template_vars jira)) [] = (applicationset_yaml jira, True)"
proof -
  let ?dot = "VData (template_vars jira)"
  have inline: "exec_node (RangeNode (ValVar ''line'')
      (ESplit (EField ''inLineValues'') (EStr ''\<newline>''))
      [TextNode ''\<newline>                '', ActionNode (EVar ''line'')]) ?dot [] =
    (yaml_inline (ValueOverrides (argo_HelmValues (ArgoCD (Spec jira)))), True)"
    unfolding yaml_inline_def
    by (rule exec_range_strs) (simp_all add: template_vars_def Let_def)
  have annotations: "exec_node (RangeNode (KeyValVar ''key'' ''value'') (EField ''IngressAnnotations'')
      [TextNode (''\<newline>                        '' @ [CHR 0x27]), ActionNode (EVar ''key''),
       TextNode ([CHR 0x27] @ '': '' @ [CHR 0x27]), ActionNode (EVar ''value''), TextNode [CHR 0x27]])
      ?dot [] =
    (concat (map (\<lambda>(k, v). ''\<newline>                        '' @ [CHR 0x27] @ k @ [CHR 0x27] @ '': ''
         @ [CHR 0x27] @ show_val v @ [CHR 0x27]) (ingressAnnotations jira)), True)"
    by (rule exec_range_data) (simp_all add: template_vars_def Let_def ingressAnnotations_sorted)
  have files: "exec_node (RangeNode NoVar (EField ''valuesFiles'')
      [TextNode ''\<newline>                - '', ActionNode EDot]) ?dot [] =
    (concat (map (\<lambda>f. ''\<newline>                - '' @ f)
         (HelmValuesFiles (argo_HelmValues (ArgoCD (Spec jira))))), True)"
    by (rule exec_range_strs) (simp_all add: template_vars_def Let_def)
  show ?thesis
    unfolding applicationset_nodes_def applicationset_yaml_def
    using inline annotations files
    by (simp add: template_vars_def Let_def yaml_head_def yaml_owner_def yaml_tail_def
        del: exec_node.simps(4))
qed

end
