(* ===== verification/Reconcile_App.thy ===== *)
theory Reconcile_App
  imports Reconcile_Steps ApplicationSet
begin

text \<open>
  The end of \<open>Reconcile\<close> (\<open>controllers/jira_controller.go\<close>): render the ApplicationSet, apply it with
  \<open>kubectl\<close> (\<open>k8s/kubectl.go\<close>), and copy what Argo CD reports of the application into the status.
\<close>

section \<open>kubectl\<close>

text \<open>\<open>exec.Command(command, args...).CombinedOutput()\<close>.\<close>

definition CombinedOutput ::
  "'w env \<Rightarrow> string \<Rightarrow> string list \<Rightarrow> ('w, string \<times> goerror option) op" where
  "CombinedOutput env command args =
     act (exec_CombinedOutput env command args) (\<lambda>(output, err). [Ran command args output err])"

definition RunKubectl :: "'w env \<Rightarrow> string list \<Rightarrow> ('w, string \<times> goerror option) op" where
  "RunKubectl env args =
     (let command = ''kubectl'' in
     bind (CombinedOutput env command args) (\<lambda>(output, err).
     if err \<noteq> None then ret (output, err) else ret (output, None)))"

section \<open>The stages\<close>

definition apply_applicationset :: "'w env \<Rightarrow> Jira \<Rightarrow> ('w, unit) op" where
  "apply_applicationset env jira =
     bind (ProcessApplicationSetTemplate env jira) (\<lambda>err.
     bind (stop_if (err \<noteq> None) (after (60 * Second)) err) (\<lambda>_.
     (let argoFilePath = ''argocd/applicationset-'' @ jira_Name jira @ ''.yaml'';
          args = [''apply'', ''-f'', argoFilePath] in
     bind (checked (RunKubectl env args) (after (5 * Minute))) (\<lambda>_. ret ()))))"

definition getAppKubectlArgs :: "Jira \<Rightarrow> string \<Rightarrow> string list" where
  "getAppKubectlArgs jira path =
     [''get'', ''application/'' @ jira_Name jira, ''-n'', argo_Namespace (ArgoCD (Spec jira)), ''-o'', path]"

definition sync_status :: "'w env \<Rightarrow> Jira \<Rightarrow> ('w, Jira) op" where
  "sync_status env jira =
     bind (checked (RunKubectl env (getAppKubectlArgs jira ''jsonpath={.status.sync.status}''))
            (after (5 * Minute))) (\<lambda>syncStatus.
     if Sync (status_AppStatus (Status jira)) \<noteq> syncStatus
     then save_status env (set_AppStatus (\<lambda>s. s\<lparr>Sync := syncStatus\<rparr>) jira) (after (5 * Second))
     else ret jira)"

definition health_status :: "'w env \<Rightarrow> Jira \<Rightarrow> ('w, Jira) op" where
  "health_status env jira =
     bind (checked (RunKubectl env (getAppKubectlArgs jira ''jsonpath={.status.health.status}''))
            (after (5 * Minute))) (\<lambda>healthStatus.
     if Health (status_AppStatus (Status jira)) \<noteq> healthStatus
     then save_status env (set_AppStatus (\<lambda>s. s\<lparr>Health := healthStatus\<rparr>) jira) (after (5 * Second))
     else ret jira)"

text \<open>Whatever the health is, the last statement asks for the next run in five minutes.\<close>

definition reconcile_app :: "'w env \<Rightarrow> Jira \<Rightarrow> ('w, unit) op" where
  "reconcile_app env jira =
     bind (apply_applicationset env jira) (\<lambda>_.
     bind (sync_status env jira) (\<lambda>jira.
     bind (health_status env jira) (\<lambda>jira.
     stop (after (5 * Minute)) None)))"

section \<open>Reading with kubectl\<close>

lemma every_bind_RunKubectlI:
  assumes "\<And>out e. every (f (out, e)) (\<lambda>q es. P q (Ran ''kubectl'' args out e # es))"
  shows "every (bind (RunKubectl env args) f) P"
  unfolding RunKubectl_def Let_def CombinedOutput_def bind_assoc
  by (rule every_bind_actI) (use assms in \<open>auto split: prod.split\<close>)

lemma every_bind_checked_RunKubectlI:
  assumes "\<And>out e. P (Return res (Some e)) [Ran ''kubectl'' args out (Some e)]"
    and "\<And>out. every (f out) (\<lambda>q es. P q (Ran ''kubectl'' args out None # es))"
  shows "every (bind (checked (RunKubectl env args) res) f) P"
  unfolding checked_def bind_assoc
  by (rule every_bind_RunKubectlI) (use assms in \<open>auto simp: stop_if_def wp_simps\<close>)

lemma contract_checked_RunKubectl: "every (checked (RunKubectl env args) res) step_contract"
  using every_bind_checked_RunKubectlI
    [where f = ret and P = step_contract and args = args and res = res and env = env]
  by (auto simp: wp_simps step_contract_def)

text \<open>
  Rendering: the template is read, then, when it parses, the file is created and written. Its error
  is that of the call that failed, of the parser, or of the execution.
\<close>

fun reports :: "goerror option outcome \<Rightarrow> event list \<Rightarrow> bool" where
  "reports (Next err) es = fail_fast (Return empty_Result err :: unit outcome) es"
| "reports _ es = False"

lemma fail_fast_Return:
  "fail_fast (Return x e :: 'a outcome) es = fail_fast (Return y e :: 'b outcome) es"
  by (induction es) (auto split: option.splits)

lemma contract_bind_reports:
  fixes f :: "unit \<Rightarrow> ('w, 'a) op"
  assumes "every m reports" and "every (f ()) step_contract"
  shows "every (bind m (\<lambda>err. bind (stop_if (err \<noteq> None) res err) f)) step_contract"
proof (rule every_bindI, rule every_mono [OF assms(1)])
  fix r es assume rep: "reports r es"
  then obtain err where r: "r = Next err" by (cases r) auto
  show "case r of Next a \<Rightarrow> every (bind (stop_if (a \<noteq> None) res a) f)
        (\<lambda>r' es'. step_contract r' (es @ es'))
      | Return x e \<Rightarrow> step_contract (Return x e :: 'a outcome) es
      | Panic p \<Rightarrow> step_contract (Panic p :: 'a outcome) es"
  proof (cases err)
    case None
    have "fail_fast (Return x None :: unit outcome) es \<Longrightarrow> \<forall>ev \<in> set es. serious_error ev = None" for x
      by (induction es) (auto split: option.splits)
    with rep r None have "\<forall>ev \<in> set es. serious_error ev = None" by simp
    then have "step_contract r' (es @ es') = step_contract r' es'" for r' :: "'a outcome" and es'
      by (simp add: step_contract_def fail_fast_append)
    with r None assms(2) show ?thesis by (simp add: stop_if_def)
  next
    case (Some e)
    with rep r have "fail_fast (Return res (Some e) :: 'a outcome) es"
      using fail_fast_Return by (metis reports.simps(1))
    with r Some show ?thesis by (simp add: stop_if_def wp_simps step_contract_def)
  qed
qed

lemma Process_reports: "every (ProcessApplicationSetTemplate env jira) reports"
  unfolding ProcessApplicationSetTemplate_def
proof (rule every_bind_ReadFileI)
  fix r :: "goerror + string"
  show "every (case r of Inl e \<Rightarrow> ret (Some e)
     | Inr tmplContent \<Rightarrow>
         (case parse_template tmplContent of
            None \<Rightarrow> ret (Some (template_error ''parse''))
          | Some tmpl \<Rightarrow>
              bind (CreateFile env (applicationset_path jira)) (\<lambda>err.
              if err \<noteq> None then ret err
              else
                (case exec_nodes tmpl (VData (template_vars jira)) [] of
                   (out, ok) \<Rightarrow>
                     bind (WriteFile env (applicationset_path jira) out) (\<lambda>err.
                     if err \<noteq> None then ret err
                     else ret (if ok then None else Some (template_error ''execute'')))))))
    (\<lambda>q es. reports q (FileRead ''argocd/applicationset.yaml.tpl'' r # es))"
    by (auto simp: wp_simps split: sum.split option.split prod.split
        intro!: every_bind_CreateFileI every_bind_WriteFileI)
qed

interpretation apply_applicationset: reconcile_step "apply_applicationset env jira" for env jira
  by unfold_locales (unfold apply_applicationset_def Let_def,
    rule contract_bind_reports [OF Process_reports],
    intro contract_bind contract_ret contract_checked_RunKubectl)

interpretation sync_status: reconcile_step "sync_status env jira" for env jira
  by unfold_locales (auto simp: sync_status_def intro!: contract_intros contract_checked_RunKubectl)

interpretation health_status: reconcile_step "health_status env jira" for env jira
  by unfold_locales (auto simp: health_status_def intro!: contract_intros contract_checked_RunKubectl)

interpretation reconcile_app: reconcile_step "reconcile_app env jira" for env jira
  by unfold_locales (auto simp: reconcile_app_def intro!: contract_intros
      apply_applicationset.contract sync_status.contract health_status.contract)

end
