(* ===== verification/Reconciler.thy ===== *)
theory Reconciler
  imports Reconcile_Database Reconcile_Storage Reconcile_App
begin

text \<open>
  \<open>JiraReconciler.Reconcile\<close> (\<open>controllers/jira_controller.go\<close>): the stages put together.
\<close>

definition reconcile_jira :: "'w env \<Rightarrow> Jira \<Rightarrow> ('w, unit) op" where
  "reconcile_jira env jira =
     bind (reconcile_database env jira) (\<lambda>(jira, namespace).
     bind (shared_home env jira namespace) (\<lambda>jira.
     reconcile_app env jira))"

definition Reconcile :: "'w env \<Rightarrow> ObjectKey \<Rightarrow> ('w, unit) op" where
  "Reconcile env req =
     bind (r_Get Kind_Jira Obj_Jira (get_Jira env) req) (\<lambda>r.
     case r of
       Inl e \<Rightarrow> stop empty_Result None
     | Inr jira \<Rightarrow> reconcile_jira env jira)"

interpretation storage_and_app: reconcile_sequence
  "shared_home env jira ns" "reconcile_app env" for env jira ns
  by unfold_locales (rule reconcile_app.contract)

interpretation reconcile_jira: reconcile_sequence "reconcile_database env jira"
  "\<lambda>(jira, ns). bind (shared_home env jira ns) (reconcile_app env)" for env jira
  by unfold_locales (auto simp: storage_and_app.seq.contract)

text \<open>The shape of a run: the lookup of the resource, and then a run of the stages.\<close>

lemma Reconcile_shape:
  "every (Reconcile env req) (\<lambda>r es. \<exists>ans es'. es = Got Kind_Jira req ans # es' \<and>
     (case ans of
        Inl e \<Rightarrow> es' = [] \<and> r = Return empty_Result None
      | Inr ob \<Rightarrow> step_contract r es' \<and> (\<forall>a. r \<noteq> Next a)))"
  unfolding Reconcile_def
proof (rule every_bind_r_GetI)
  fix r :: "goerror + Jira"
  have never: "every (reconcile_jira env jira) (\<lambda>r es. \<forall>a. r \<noteq> Next a)" for jira
    unfolding reconcile_jira_def reconcile_app_def bind_assoc case_prod_beta
    by (intro every_bindI everyI) (auto simp: every_def bind_def stop_def split: outcome.split prod.splits)
  have run: "every (reconcile_jira env jira) (\<lambda>r es. step_contract r es \<and> (\<forall>a. r \<noteq> Next a))" for jira
    by (rule every_conj [OF _ never]) (unfold reconcile_jira_def, rule reconcile_jira.seq.contract)
  show "every (case r of Inl e \<Rightarrow> stop empty_Result None | Inr jira \<Rightarrow> reconcile_jira env jira)
    (\<lambda>q es. \<exists>ans es'. Got Kind_Jira req (map_sum id Obj_Jira r) # es = Got Kind_Jira req ans # es' \<and>
      (case ans of
         Inl e \<Rightarrow> es' = [] \<and> q = Return empty_Result None
       | Inr ob \<Rightarrow> step_contract q es' \<and> (\<forall>a. q \<noteq> Next a)))"
    using run by (cases r) (auto simp: wp_simps)
qed

end
