(* ===== verification/Inventory.thy ===== *)
theory Inventory
  imports Reconciler
begin

text \<open>
  The abstract specification of what \<open>Reconcile\<close> may touch for a resource: the inventory of the keys
  it manages, a function of the request alone, and the events that stay within it.
\<close>

section \<open>The inventory\<close>

definition changeset_key :: "Jira \<Rightarrow> ObjectKey" where
  "changeset_key jira = NamespacedKey (jira_Name jira @ ''-liquibase-changeset'') (jira_Name jira)"

definition reset_key :: "Jira \<Rightarrow> ObjectKey" where
  "reset_key jira = NamespacedKey (jira_Name jira @ ''-reset-rds-credentials'') (jira_Name jira)"

definition database_inventory :: "Jira \<Rightarrow> (kind \<times> ObjectKey) list" where
  "database_inventory jira =
     [(Kind_Namespace, ClusterKey (jira_Name jira)),
      (Kind_DBParameterGroup, ClusterKey (name_uid jira)),
      (Kind_DBSubnetGroup, ClusterKey (name_uid jira)),
      (Kind_Secret, NamespacedKey ''jira-database-secret'' (jira_Name jira)),
      (Kind_RDSInstance, ClusterKey (name_uid jira)),
      (Kind_ConfigMap, NamespacedKey (jira_Name jira @ ''-liquibase-changelog'') (jira_Name jira)),
      (Kind_Job, changeset_key jira)]"

definition reset_inventory :: "Jira \<Rightarrow> (kind \<times> ObjectKey) list" where
  "reset_inventory jira =
     (if SnapshotID (Database (Spec jira)) \<noteq> '''' then
        [(Kind_ServiceAccount, NamespacedKey ''rds-reset-password-sa'' (jira_Name jira)),
         (Kind_Job, reset_key jira)]
      else [])"

definition ebs_inventory :: "Jira \<Rightarrow> (kind \<times> ObjectKey) list" where
  "ebs_inventory jira =
     [(Kind_EbsVolume, ClusterKey (name_uid jira)),
      (Kind_PersistentVolume, ClusterKey (nfs_server_name jira @ ''-'' @ jira_UID jira)),
      (Kind_PersistentVolumeClaim, NamespacedKey (nfs_server_name jira) (jira_Name jira)),
      (Kind_Service, NamespacedKey (nfs_server_name jira) (jira_Name jira)),
      (Kind_StatefulSet, NamespacedKey (nfs_server_name jira) (jira_Name jira)),
      (Kind_PersistentVolume, ClusterKey (''jira-shared-home-pv-'' @ jira_UID jira)),
      (Kind_PersistentVolumeClaim, NamespacedKey ''jira-shared-home'' (jira_Name jira))]"

definition fsx_inventory :: "Jira \<Rightarrow> (kind \<times> ObjectKey) list" where
  "fsx_inventory jira =
     [(Kind_VolumeSnapshotContent, NamespacedKey (name_uid jira) (jira_Name jira)),
      (Kind_VolumeSnapshot, NamespacedKey (name_uid jira) (jira_Name jira)),
      (Kind_PersistentVolumeClaim, NamespacedKey ''jira-shared-home'' (jira_Name jira))]"

definition efs_inventory :: "Jira \<Rightarrow> (kind \<times> ObjectKey) list" where
  "efs_inventory jira =
     (Kind_FileSystem, ClusterKey (name_uid jira))
     # map (\<lambda>i. (Kind_MountTarget, ClusterKey (mount_target_name jira (Itoa (int i)))))
         [0..<length (SubnetIDs (spec_Network (Spec jira)))]
     @ [(Kind_PersistentVolume, ClusterKey (''jira-shared-home-pv-'' @ jira_UID jira)),
        (Kind_PersistentVolumeClaim, NamespacedKey ''jira-shared-home'' (jira_Name jira))]"

definition storage_inventory :: "Jira \<Rightarrow> (kind \<times> ObjectKey) list" where
  "storage_inventory jira =
     (if ebs_SnapshotId (Ebs (spec_SharedFS (Spec jira))) \<noteq> '''' then ebs_inventory jira
      else if fsx_SnapshotId (Fsx (spec_SharedFS (Spec jira))) \<noteq> '''' then fsx_inventory jira
      else efs_inventory jira)"

definition managed :: "Jira \<Rightarrow> (kind \<times> ObjectKey) list" where
  "managed jira = database_inventory jira @ reset_inventory jira @ storage_inventory jira"

lemmas inventory_defs = database_inventory_def reset_inventory_def ebs_inventory_def
  fsx_inventory_def efs_inventory_def storage_inventory_def managed_def nfs_server_name_def
  changeset_key_def reset_key_def

lemma managed_same_request: "same_request a b \<Longrightarrow> managed b = managed a"
  by (simp add: inventory_defs mount_target_name_def name_uid_same_request [of a b]
      same_request_Name [of a b] same_request_UID [of a b] same_request_Spec [of a b])

text \<open>No two managed objects of a kind share a key: no two creations collide.\<close>

lemma managed_distinct: "distinct (managed jira)"
  by (auto simp: inventory_defs distinct_map inj_on_def mount_target_name_inj)

section \<open>Events within the inventory\<close>

definition kubectl_args :: "Jira \<Rightarrow> string list list" where
  "kubectl_args jira =
     [[''apply'', ''-f'', applicationset_path jira],
      getAppKubectlArgs jira ''jsonpath={.status.sync.status}'',
      getAppKubectlArgs jira ''jsonpath={.status.health.status}'']"

text \<open>
  Everything but the service account and the jobs is created with the resource as its controlling
  owner, so that the garbage collector removes it and the watches of the controller see it.
\<close>

definition owned_or_job :: "Jira \<Rightarrow> kobj \<Rightarrow> bool" where
  "owned_or_job jira ob \<longleftrightarrow>
     (if obj_kind ob \<in> {Kind_ServiceAccount, Kind_Job} then controller_refs ob = []
      else controlled_by jira ob)"

fun within :: "Jira \<Rightarrow> event \<Rightarrow> bool" where
  "within jira (Got k key r) = ((k, key) \<in> set (managed jira) \<or> k = Kind_PersistentVolume)"
| "within jira (Created ob e) =
     ((obj_kind ob, obj_key ob) \<in> set (managed jira) \<and> owned_or_job jira ob)"
| "within jira (Updated ob e) =
     (obj_kind ob \<in> {Kind_Secret, Kind_ConfigMap} \<and> (obj_kind ob, obj_key ob) \<in> set (managed jira))"
| "within jira (StatusUpdated j e) = same_request jira j"
| "within jira (FileRead p r) =
     (p \<in> {''config/liquibase/changelog.yml'', ''argocd/applicationset.yaml.tpl''})"
| "within jira (FileCreated p e) = (p = applicationset_path jira)"
| "within jira (FileWritten p s e) = (p = applicationset_path jira)"
| "within jira (Ran c args out e) = (c = ''kubectl'' \<and> args \<in> set (kubectl_args jira))"

text \<open>Only the last part of \<open>Reconcile\<close> runs commands.\<close>

fun runs :: "event \<Rightarrow> bool" where
  "runs (Ran c args out e) = True"
| "runs _ = False"

definition within_cluster :: "Jira \<Rightarrow> event \<Rightarrow> bool" where
  "within_cluster jira ev \<longleftrightarrow> within jira ev \<and> \<not> runs ev"

lemma same_request_within:
  assumes "same_request a b" shows "within b ev = within a ev"
proof -
  have "same_request b j = same_request a j" for j
    using assms by (simp add: same_request_def)
  moreover have "kubectl_args b = kubectl_args a"
    using assms by (simp add: kubectl_args_def getAppKubectlArgs_def applicationset_path_def
        same_request_Name [OF assms] same_request_Spec [OF assms])
  moreover have "owned_or_job b ob = owned_or_job a ob" for ob
    using assms same_request_Name [OF assms] same_request_UID [OF assms]
    by (simp add: owned_or_job_def controlled_by_def same_request_def split: list.split)
  ultimately show ?thesis
    using managed_same_request [OF assms] same_request_Name [OF assms]
    by (cases ev) (simp_all add: applicationset_path_def)
qed

end
