(* ===== verification/Frame.thy ===== *)
theory Frame
  imports Inventory
begin

text \<open>
  Every stage of \<open>Reconcile\<close> stays within the inventory of the resource, and hands the same request on;
  the composition follows.
\<close>

section \<open>Every stage stays within\<close>

declare within_cluster_def [simp]

text \<open>The kinds and keys of the objects built, from the contracts of their builders.\<close>

lemmas built_keys =
  namespace.build_key [OF refl] dbParameterGroup.build_key [OF refl]
  dbSubnetGroup.build_key [OF refl] ebsVolume.build_key [OF refl]
  rdsInstance.build_key [where x = "(sg, pg, ns)" for sg pg ns, simplified, OF refl]
  liquibaseConfigMap.build_key [where x = "(ns, c)" for ns c, simplified, OF refl]
  serviceAccount.build_key [OF refl]
  changeRootPasswordJob.build_key [where x = "(ns, db)" for ns db, simplified, OF refl]
  liquibaseJob.build_key [OF refl]
  fsxVolumeSnapshotContent.build_key [OF refl] fsxVolumeSnapshot.build_key [OF refl]
  fileSystem.build_key [OF refl]
  mountTargets.build_key [where x = "(fs, subnet, i)" for fs subnet i, simplified, OF refl]
  nfsServerService.build_key [OF refl] nfsServerStatefulSet.build_key [OF refl]

lemma parsed_keys:
  "GetEbsPersistentVolume parse jira v n sz ns = Some pv \<Longrightarrow>
     obj_key (Obj_PersistentVolume pv) = ClusterKey (n @ ''-'' @ jira_UID jira)"
  "GetNfsPersistentVolume parse jira ip sz ns = Some pv \<Longrightarrow>
     obj_key (Obj_PersistentVolume pv) = ClusterKey (''jira-shared-home-pv-'' @ jira_UID jira)"
  "GetEfsPersistentVolume parse jira fs ns = Some pv \<Longrightarrow>
     obj_key (Obj_PersistentVolume pv) = ClusterKey (''jira-shared-home-pv-'' @ jira_UID jira)"
  "GetPersistentVolumeClaim parse jira n ns vol cls sz mode = Some pvc \<Longrightarrow>
     obj_key (Obj_PersistentVolumeClaim pvc) = NamespacedKey n ns"
  "GetFsxPersistentVolumeClaimFromSnapshot parse jira n ns sz = Some pvc \<Longrightarrow>
     obj_key (Obj_PersistentVolumeClaim pvc) = NamespacedKey n ns"
  using ebsPersistentVolume.build_key [of jira "(parse, v, n, sz, ns)"]
    nfsPersistentVolume.build_key [of jira "(parse, ip, sz, ns)"]
    efsPersistentVolume.build_key [of jira "(parse, fs, ns)"]
    persistentVolumeClaim.build_key [of jira "(parse, n, ns, vol, cls, sz, mode)"]
    fsxPersistentVolumeClaim.build_key [of jira "(parse, n, ns, sz)"]
  by simp_all

text \<open>Who owns them.\<close>

lemmas built_owners =
  namespace.build_controlled [OF refl] dbParameterGroup.build_controlled [OF refl]
  dbSubnetGroup.build_controlled [OF refl] ebsVolume.build_controlled [OF refl]
  rdsInstance.build_controlled [where x = "(sg, pg, ns)" for sg pg ns, simplified, OF refl]
  liquibaseConfigMap.build_controlled [where x = "(ns, c)" for ns c, simplified, OF refl]
  fsxVolumeSnapshotContent.build_controlled [OF refl] fsxVolumeSnapshot.build_controlled [OF refl]
  fileSystem.build_controlled [OF refl]
  mountTargets.build_controlled [where x = "(fs, subnet, i)" for fs subnet i, simplified, OF refl]
  nfsServerService.build_controlled [OF refl] nfsServerStatefulSet.build_controlled [OF refl]

lemma parsed_owners:
  "GetEbsPersistentVolume parse jira v n sz ns = Some pv \<Longrightarrow> controlled_by jira (Obj_PersistentVolume pv)"
  "GetNfsPersistentVolume parse jira ip sz ns = Some pv \<Longrightarrow> controlled_by jira (Obj_PersistentVolume pv)"
  "GetEfsPersistentVolume parse jira fs ns = Some pv \<Longrightarrow> controlled_by jira (Obj_PersistentVolume pv)"
  "GetPersistentVolumeClaim parse jira n ns vol cls sz mode = Some pvc \<Longrightarrow>
     controlled_by jira (Obj_PersistentVolumeClaim pvc)"
  "GetFsxPersistentVolumeClaimFromSnapshot parse jira n ns sz = Some pvc \<Longrightarrow>
     controlled_by jira (Obj_PersistentVolumeClaim pvc)"
  using ebsPersistentVolume.build_controlled [of jira "(parse, v, n, sz, ns)"]
    nfsPersistentVolume.build_controlled [of jira "(parse, ip, sz, ns)"]
    efsPersistentVolume.build_controlled [of jira "(parse, fs, ns)"]
    persistentVolumeClaim.build_controlled [of jira "(parse, n, ns, vol, cls, sz, mode)"]
    fsxPersistentVolumeClaim.build_controlled [of jira "(parse, n, ns, sz)"]
  by simp_all

text \<open>And who does not.\<close>

lemma unowned:
  "controller_refs (Obj_ServiceAccount (GetServiceAccount jira ns)) = []"
  "controller_refs (Obj_Job (GetChangeRootPasswordJob jira ns db)) = []"
  "controller_refs (Obj_Job (GetLiquibaseJob jira ns)) = []"
  by (simp_all add: controller_refs_def GetServiceAccount_def GetChangeRootPasswordJob_def
      GetLiquibaseJob_def)

lemmas owner_simps = owned_or_job_def built_owners parsed_owners unowned

lemma meta_key_Name: "meta_key m = NamespacedKey n ns \<Longrightarrow> Name m = n"
  by (simp add: meta_key_def)

lemma meta_key_Cluster: "meta_key m = ClusterKey n \<Longrightarrow> Name m = n"
  by (simp add: meta_key_def)

lemma in_database_inventory:
  "set (database_inventory jira) \<subseteq> set (managed jira)"
  "set (reset_inventory jira) \<subseteq> set (managed jira)"
  "set (storage_inventory jira) \<subseteq> set (managed jira)"
  by (auto simp: managed_def)

lemma in_managed:
  "(Kind_Namespace, ClusterKey (jira_Name jira)) \<in> set (managed jira)"
  "(Kind_DBParameterGroup, ClusterKey (name_uid jira)) \<in> set (managed jira)"
  "(Kind_DBSubnetGroup, ClusterKey (name_uid jira)) \<in> set (managed jira)"
  "(Kind_Secret, NamespacedKey ''jira-database-secret'' (jira_Name jira)) \<in> set (managed jira)"
  "(Kind_RDSInstance, ClusterKey (name_uid jira)) \<in> set (managed jira)"
  "(Kind_ConfigMap, NamespacedKey (jira_Name jira @ ''-liquibase-changelog'') (jira_Name jira))
     \<in> set (managed jira)"
  "(Kind_Job, changeset_key jira) \<in> set (managed jira)"
  by (simp_all add: managed_def database_inventory_def)

lemma in_managed_reset:
  assumes "SnapshotID (Database (Spec jira)) \<noteq> ''''"
  shows "(Kind_ServiceAccount, NamespacedKey ''rds-reset-password-sa'' (jira_Name jira)) \<in> set (managed jira)"
    "(Kind_Job, reset_key jira) \<in> set (managed jira)"
  using assms by (simp_all add: managed_def reset_inventory_def)

lemma secret_key:
  "rds_secret_ok jira host ns s \<Longrightarrow> obj_key (Obj_Secret s) = NamespacedKey ''jira-database-secret'' ns"
  by (simp add: rds_secret_ok_def obj_key_def)

lemma secret_owner: "rds_secret_ok jira host ns s \<Longrightarrow> controlled_by jira (Obj_Secret s)"
  by (rule controlled_by_GetOwnerReferences) (simp add: rds_secret_ok_def)

lemma logs_GetRdsSecret: "logs E (GetRdsSecret env jira host ns) (rds_secret_ok jira host ns)"
  by (rule logs_no_events, rule every_mono [OF GetRdsSecret_spec]) auto

text \<open>What the first stage hands to the later ones.\<close>

definition db_objects_ok :: "Jira \<Rightarrow> db_objects \<Rightarrow> bool" where
  "db_objects_ok jira o' \<longleftrightarrow> db_namespace o' = jira_Name jira
     \<and> meta_key (db_secret o') = NamespacedKey ''jira-database-secret'' (jira_Name jira)
     \<and> Name (db_instance o') = name_uid jira"

lemma within_infra:
  assumes "create_keeps_key env"
  shows "logs (within_cluster jira) (reconcile_infra env jira) (db_objects_ok jira)"
  unfolding reconcile_infra_def
  apply (intro logs_binds logs_bind [OF logs_GetRdsSecret] logs_ret)
  apply (simp_all add: built_keys owner_simps secret_key secret_owner in_managed assms meta_key_Cluster meta_key_Name db_objects_ok_def)
  done


lemma within_rds_wait:
  assumes "status_update_keeps_request env"
  shows "logs (within_cluster jira) (rds_wait env jira) (\<lambda>(j, host). same_request jira j)"
  unfolding rds_wait_def Let_def
  apply (rule logs_bind [OF rdsStatus.logs_checked_read])
   apply (simp add: in_managed)
  apply (rule logs_bind [where Q = "same_request jira"])
   apply (intro logs_if logs_ret logs_lasts(3))
     apply (simp_all add: assms)
  apply (intro logs_binds logs_bind [OF rdsEndpoint.logs_checked_read] logs_ret)
  apply (simp_all add: in_managed)
  done

lemma within_update_secret:
  assumes "db_objects_ok jira o'"
  shows "logs (within_cluster jira) (update_secret env jira o' host) (\<lambda>_. True)"
  unfolding update_secret_def
  apply (rule logs_bind [OF secretData.logs_read])
   apply (use assms in \<open>simp add: db_objects_ok_def in_managed\<close>)
  apply (clarsimp split: prod.split)
  apply (intro logs_if conjI impI logs_ret logs_bind [OF logs_GetRdsSecret] logs_lasts(2))
  apply (use assms in \<open>simp_all add: secret_key secret_owner owner_simps in_managed db_objects_ok_def\<close>)
  done

lemma within_sync_endpoint:
  assumes "status_update_keeps_request env" and "db_objects_ok jira o'"
  shows "logs (within_cluster jira) (sync_endpoint env jira o' host) (same_request jira)"
  unfolding sync_endpoint_def
  apply (rule logs_bind [OF within_update_secret [OF assms(2)]])
  apply (intro logs_if logs_ret logs_lasts(3))
  apply (simp_all add: assms(1))
  done

lemma within_reset_credentials:
  assumes "create_keeps_key env" and "status_update_keeps_request env" and "db_objects_ok jira o'"
  shows "logs (within_cluster jira) (reset_credentials env jira o') (same_request jira)"
  unfolding reset_credentials_def
  apply (intro logs_if logs_binds logs_lasts(3) logs_ret)
  apply (use assms in \<open>simp_all add: built_keys owner_simps in_managed_reset [unfolded reset_key_def] db_objects_ok_def\<close>)
  done

lemma logs_GetLiquibaseConfigMap:
  assumes "\<And>r. E (FileRead ''config/liquibase/changelog.yml'' r)"
  shows "logs E (checked (GetLiquibaseConfigMap env jira ns) res)
    (\<lambda>cm. \<exists>c. cm = liquibase_ConfigMap jira ns c)"
  unfolding logs_def checked_def GetLiquibaseConfigMap_def bind_assoc
  by (rule every_bind_ReadFileI)
     (use assms in \<open>auto simp: liquibaseFilePath_def stop_if_def wp_simps split: sum.split\<close>)

lemma within_liquibase_changelog:
  assumes "create_keeps_key env"
  shows "logs (within_cluster jira) (liquibase_changelog env jira (jira_Name jira)) (\<lambda>_. True)"
  unfolding liquibase_changelog_def
proof (rule logs_bind [OF logs_GetLiquibaseConfigMap])
  fix cm assume "\<exists>c. cm = liquibase_ConfigMap jira (jira_Name jira) c"
  then obtain c where cm: "cm = liquibase_ConfigMap jira (jira_Name jira) c" by blast
  have key: "within_cluster jira (Created (Obj_ConfigMap cm) e)" for e
    by (simp add: cm built_keys owner_simps in_managed)
  have refresh: "logs (within_cluster jira) (refresh_changelog env (cm\<lparr>cm_ObjectMeta := m\<rparr>)) (\<lambda>_. True)"
    if "meta_key m = obj_key (Obj_ConfigMap cm)" for m
    unfolding refresh_changelog_def
    apply (rule logs_bind [OF configMapData.logs_checked_read])
    apply (simp add: that cm built_keys owner_simps in_managed)
    apply (intro logs_if logs_ret logs_lasts(2))
     apply (simp_all add: that obj_key_def)
    using that key apply (simp add: obj_key_def)
    done
  show "logs (within_cluster jira) (create_changelog env cm) (\<lambda>_. True)"
    unfolding create_changelog_def
    apply (rule logs_bind [OF logs_r_Create])
     apply (rule key)
    apply (use assms refresh in \<open>auto intro: logs_ret split: option.split\<close>)
    done
qed simp

lemma within_liquibase_job:
  assumes "create_keeps_key env" and "status_update_keeps_request env"
  shows "logs (within_cluster jira) (liquibase_job env jira (jira_Name jira)) (same_request jira)"
  unfolding liquibase_job_def
  apply (intro logs_binds logs_bind [OF jobSucceededReplicas.logs_checked_read] logs_lasts(3))
  apply (use assms in \<open>simp_all add: built_keys owner_simps in_managed [unfolded changeset_key_def]\<close>)
  done


lemma in_managed_ebs:
  assumes "ebs_SnapshotId (Ebs (spec_SharedFS (Spec jira))) \<noteq> ''''"
  shows "(k, key) \<in> set (ebs_inventory jira) \<Longrightarrow> (k, key) \<in> set (managed jira)"
  using assms by (simp add: managed_def storage_inventory_def)

lemma within_nfs_backing:
  assumes "create_keeps_key env" and "ebs_SnapshotId (Ebs (spec_SharedFS (Spec jira))) \<noteq> ''''"
  shows "logs (within_cluster jira) (nfs_backing env jira (jira_Name jira)) (\<lambda>_. True)"
  unfolding nfs_backing_def
  apply (intro logs_binds logs_bind [OF ebsVolumeId.logs_checked_read] logs_ret)
  apply (use assms in \<open>simp_all add: built_keys owner_simps parsed_keys in_managed_ebs ebs_inventory_def\<close>)
  done

lemma within_nfs_server:
  assumes "create_keeps_key env" and "ebs_SnapshotId (Ebs (spec_SharedFS (Spec jira))) \<noteq> ''''"
  shows "logs (within_cluster jira) (nfs_server env jira (jira_Name jira)) (\<lambda>_. True)"
  unfolding nfs_server_def
  apply (intro logs_binds logs_bind [OF svcClusterIp.logs_checked_read] logs_ret)
  apply (use assms in \<open>simp_all add: built_keys owner_simps in_managed_ebs ebs_inventory_def nfs_server_name_def\<close>)
  done

lemma within_nfs_share:
  assumes "status_update_keeps_request env" and "ebs_SnapshotId (Ebs (spec_SharedFS (Spec jira))) \<noteq> ''''"
  shows "logs (within_cluster jira) (nfs_share env jira (jira_Name jira) v ip) (same_request jira)"
  unfolding nfs_share_def
  apply (intro logs_binds logs_if logs_ret logs_lasts(3))
  apply (use assms in \<open>simp_all add: parsed_keys owner_simps in_managed_ebs ebs_inventory_def\<close>)
  done

lemma within_shared_ebs:
  assumes "create_keeps_key env" and "status_update_keeps_request env"
    and "ebs_SnapshotId (Ebs (spec_SharedFS (Spec jira))) \<noteq> ''''"
  shows "logs (within_cluster jira) (shared_ebs env jira (jira_Name jira)) (same_request jira)"
  unfolding shared_ebs_def
  by (rule logs_bind [OF within_nfs_backing [OF assms(1,3)]],
      rule logs_bind [OF within_nfs_server [OF assms(1,3)]],
      rule within_nfs_share [OF assms(2,3)])

lemma logs_getFsxVolumeName:
  assumes "\<And>r. E (Got Kind_PersistentVolumeClaim (meta_key m) r)"
    and "\<And>key r. E (Got Kind_PersistentVolume key r)"
  shows "logs E (checked (getFsxVolumeName env m) res) (\<lambda>_. True)"
proof (rule logs_checked, rule logs_mono [where E = E])
  have handle: "logs E (getPvHandle env n) (\<lambda>_. True)" for n
    unfolding getPvHandle_def
    by (rule logs_bind [OF pvByName.logs_read])
       (auto simp: assms volume_handle_def intro: logs_ret split: option.split)
  show "logs E (getFsxVolumeName env m) (\<lambda>_. True)"
    unfolding getFsxVolumeName_def
    by (rule logs_bind [OF logs_r_Get]) (auto simp: assms handle intro: logs_ret split: sum.split)
qed auto

lemma within_shared_fsx:
  assumes "create_keeps_key env" and "status_update_keeps_request env"
    and "\<not> ebs_SnapshotId (Ebs (spec_SharedFS (Spec jira))) \<noteq> ''''"
    and "fsx_SnapshotId (Fsx (spec_SharedFS (Spec jira))) \<noteq> ''''"
  shows "logs (within_cluster jira) (shared_fsx env jira (jira_Name jira)) (same_request jira)"
proof -
  have in_fsx: "(k, key) \<in> set (fsx_inventory jira) \<Longrightarrow> (k, key) \<in> set (managed jira)" for k key
    using assms(3,4) by (simp add: managed_def storage_inventory_def)
  show ?thesis
    unfolding shared_fsx_def
    apply (intro logs_binds logs_bind [OF pvcStatus.logs_checked_read]
        logs_bind [OF logs_getFsxVolumeName] logs_if logs_ret logs_lasts(3))
    apply (use assms in \<open>simp_all add: built_keys owner_simps parsed_keys in_fsx fsx_inventory_def\<close>)
    done
qed

lemma in_managed_efs:
  assumes "\<not> ebs_SnapshotId (Ebs (spec_SharedFS (Spec jira))) \<noteq> ''''"
    and "\<not> fsx_SnapshotId (Fsx (spec_SharedFS (Spec jira))) \<noteq> ''''"
  shows "(k, key) \<in> set (efs_inventory jira) \<Longrightarrow> (k, key) \<in> set (managed jira)"
  using assms by (simp add: managed_def storage_inventory_def)

lemma logs_mount_targets:
  assumes "\<And>j ev. i \<le> j \<Longrightarrow> j < i + length subnets \<Longrightarrow>
      (\<exists>ob e. ev = Created ob e \<and> obj_kind ob = Kind_MountTarget \<and> controlled_by jira ob
        \<and> obj_key ob = ClusterKey (mount_target_name jira (Itoa (int j))))
      \<or> (\<exists>r. ev = Got Kind_MountTarget (ClusterKey (mount_target_name jira (Itoa (int j)))) r)
      \<Longrightarrow> E ev"
  shows "logs E (mount_targets env jira fs (int i) subnets) (\<lambda>_. True)"
  using assms
proof (induction subnets arbitrary: i)
  case (Cons subnet subnets)
  have rest: "logs E (mount_targets env jira fs (1 + int i) subnets) (\<lambda>_. True)"
  proof -
    have "logs E (mount_targets env jira fs (int (Suc i)) subnets) (\<lambda>_. True)"
      by (rule Cons.IH) (rule Cons.prems, auto)
    then show ?thesis by simp
  qed
  have ev: "E (Created (Obj_MountTarget (GetMountTargets jira fs subnet (Itoa (int i)))) e)"
    "E (Got Kind_MountTarget (ClusterKey (mount_target_name jira (Itoa (int i)))) r)" for e r
    by (rule Cons.prems [of i]; simp add: built_keys built_owners)+
  show ?case
    unfolding mount_targets.simps mount_target_name_def [symmetric]
    by (intro logs_binds logs_bind [OF mountTargetStatus.logs_checked_read])
       (simp_all add: ev rest add.commute)
qed (simp add: logs_ret)

lemma within_shared_efs:
  assumes "create_keeps_key env" and "status_update_keeps_request env"
    and "\<not> ebs_SnapshotId (Ebs (spec_SharedFS (Spec jira))) \<noteq> ''''"
    and "\<not> fsx_SnapshotId (Fsx (spec_SharedFS (Spec jira))) \<noteq> ''''"
  shows "logs (within_cluster jira) (shared_efs env jira (jira_Name jira)) (same_request jira)"
proof -
  note in_efs = in_managed_efs [OF assms(3,4)]
  have target: "(Kind_MountTarget, ClusterKey (mount_target_name jira (Itoa (int j))))
      \<in> set (managed jira)" if "j < length (SubnetIDs (spec_Network (Spec jira)))" for j
    using that by (intro in_efs) (auto simp: efs_inventory_def)
  have mts: "logs (within_cluster jira) (mount_targets env jira fs 0 (SubnetIDs (spec_Network (Spec jira))))
      (\<lambda>_. True)" for fs
    using logs_mount_targets [of 0 "SubnetIDs (spec_Network (Spec jira))" jira "within_cluster jira" env fs]
      target by (fastforce simp: owned_or_job_def)
  have fs: "logs (within_cluster jira) (efs_file_system env jira (jira_Name jira)) (\<lambda>_. True)"
    unfolding efs_file_system_def
    by (intro logs_binds logs_bind [OF filesystemId.logs_checked_read] logs_ret)
       (simp_all add: built_keys owner_simps in_efs efs_inventory_def)
  have share: "logs (within_cluster jira) (efs_share env jira (jira_Name jira) i) (same_request jira)" for i
    unfolding efs_share_def
    apply (intro logs_binds logs_if logs_ret logs_lasts(3))
    apply (use assms(2) in \<open>simp_all add: parsed_keys owner_simps in_efs efs_inventory_def\<close>)
    done
  show ?thesis
    unfolding shared_efs_def
    by (rule logs_bind [OF fs], rule logs_bind [OF mts], rule share)
qed

lemma within_shared_home:
  assumes "create_keeps_key env" and "status_update_keeps_request env"
  shows "logs (within_cluster jira) (shared_home env jira (jira_Name jira)) (same_request jira)"
  unfolding shared_home_def
  by (intro logs_if within_shared_ebs within_shared_fsx within_shared_efs assms)

lemma logs_checked_RunKubectl:
  assumes "\<And>out e. E (Ran ''kubectl'' args out e)"
  shows "logs E (checked (RunKubectl env args) res) (\<lambda>_. True)"
proof -
  have "every (bind (checked (RunKubectl env args) res) ret)
      (\<lambda>r es. (\<forall>ev \<in> set es. E ev) \<and> (\<forall>a. r = Next a \<longrightarrow> True))"
    by (rule every_bind_checked_RunKubectlI) (auto simp: assms wp_simps)
  then show ?thesis by (simp add: logs_def)
qed

lemma logs_ProcessApplicationSetTemplate:
  assumes "\<And>r. E (FileRead ''argocd/applicationset.yaml.tpl'' r)"
    and "\<And>e. E (FileCreated (applicationset_path jira) e)"
    and "\<And>s e. E (FileWritten (applicationset_path jira) s e)"
  shows "logs E (ProcessApplicationSetTemplate env jira) (\<lambda>_. True)"
  unfolding logs_def ProcessApplicationSetTemplate_def
  by (rule every_bind_ReadFileI)
     (auto simp: wp_simps assms split: sum.split option.split prod.split
        intro!: every_bind_CreateFileI every_bind_WriteFileI)

lemma within_reconcile_app:
  assumes "status_update_keeps_request env"
  shows "logs (within jira) (reconcile_app env jira) (\<lambda>_. True)"
proof -
  have apply': "logs (within jira) (apply_applicationset env jira) (\<lambda>_. True)"
    unfolding apply_applicationset_def Let_def
    apply (rule logs_bind [OF logs_ProcessApplicationSetTemplate])
       apply simp_all [3]
    apply (intro logs_binds logs_bind [OF logs_checked_RunKubectl] logs_ret)
     apply (simp_all add: kubectl_args_def applicationset_path_def)
    done
  have sync: "logs (within jira) (sync_status env jira) (same_request jira)"
    unfolding sync_status_def
    apply (intro logs_bind [OF logs_checked_RunKubectl] logs_if logs_ret logs_lasts(3))
       apply (use assms in \<open>simp_all add: kubectl_args_def\<close>)
    done
  have health: "logs (within j) (health_status env j) (\<lambda>_. True)" for j
    unfolding health_status_def
    apply (intro logs_bind [OF logs_checked_RunKubectl] logs_if logs_ret logs_lasts(3))
       apply (simp_all add: kubectl_args_def)
    done
  show ?thesis
    unfolding reconcile_app_def
    apply (rule logs_bind [OF apply'], rule logs_bind [OF sync])
    apply (rule logs_bind [OF logs_mono [OF health]])
    apply (simp_all add: same_request_within)
    done
qed

text \<open>Stages compose: each starts from the same request.\<close>

lemma within_transfer:
  assumes "same_request a b"
  shows "logs (within_cluster b) m (same_request b) \<Longrightarrow> logs (within_cluster a) m (same_request a)"
    and "logs (within_cluster b) m' Q \<Longrightarrow> logs (within_cluster a) m' Q"
    and "logs (within b) m'' R \<Longrightarrow> logs (within a) m'' R"
  using assms by (auto elim!: logs_mono simp: same_request_within within_cluster_def
      intro: same_request_trans)

lemma db_objects_ok_same_request: "same_request a b \<Longrightarrow> db_objects_ok a o' \<Longrightarrow> db_objects_ok b o'"
  using same_request_Name [of a b] name_uid_same_request [of a b] by (simp add: db_objects_ok_def)

lemma within_reconcile_database:
  assumes ke: "create_keeps_key env" and st: "status_update_keeps_request env"
  shows "logs (within_cluster jira) (reconcile_database env jira)
    (\<lambda>(j, ns). same_request jira j \<and> ns = jira_Name jira)"
  unfolding reconcile_database_def
proof (rule logs_bind [OF within_infra [OF ke]], rule logs_bind [OF within_rds_wait [OF st]],
    unfold case_prod_beta)
  fix o' and x :: "Jira \<times> string"
  assume o': "db_objects_ok jira o'" and "same_request jira (fst x)"
  note ok = db_objects_ok_same_request [OF _ o']
  show "logs (within_cluster jira)
      (bind (sync_endpoint env (fst x) o' (snd x)) (\<lambda>j. bind (reset_credentials env j o') (\<lambda>j.
       bind (liquibase_changelog env j (db_namespace o')) (\<lambda>_.
       bind (liquibase_job env j (db_namespace o')) (\<lambda>j. ret (j, db_namespace o'))))))
      (\<lambda>x. same_request jira (fst x) \<and> snd x = jira_Name jira)"
  proof (rule logs_bind [OF within_transfer(1)], fact, rule within_sync_endpoint [OF st ok], fact)
    fix j assume j: "same_request jira j"
    show "logs (within_cluster jira)
      (bind (reset_credentials env j o') (\<lambda>j.
       bind (liquibase_changelog env j (db_namespace o')) (\<lambda>_.
       bind (liquibase_job env j (db_namespace o')) (\<lambda>j. ret (j, db_namespace o')))))
      (\<lambda>x. same_request jira (fst x) \<and> snd x = jira_Name jira)"
    proof (rule logs_bind [OF within_transfer(1) [OF j within_reset_credentials [OF ke st ok [OF j]]]])
      fix j assume j: "same_request jira j"
      then have ns: "db_namespace o' = jira_Name j"
        using ok by (simp add: db_objects_ok_def)
      show "logs (within_cluster jira)
        (bind (liquibase_changelog env j (db_namespace o')) (\<lambda>_.
         bind (liquibase_job env j (db_namespace o')) (\<lambda>j. ret (j, db_namespace o'))))
        (\<lambda>x. same_request jira (fst x) \<and> snd x = jira_Name jira)"
        unfolding ns
        by (rule logs_bind [OF within_transfer(2) [OF j within_liquibase_changelog [OF ke]]],
            rule logs_bind [OF within_transfer(1) [OF j within_liquibase_job [OF ke st]]])
           (simp add: logs_ret same_request_Name [OF j])
    qed
  qed
qed

lemma within_reconcile_jira:
  assumes ke: "create_keeps_key env" and st: "status_update_keeps_request env"
  shows "logs (within jira) (reconcile_jira env jira) (\<lambda>_. True)"
  unfolding reconcile_jira_def
proof (rule logs_bind [OF logs_mono [OF within_reconcile_database [OF ke st]]])
  fix x assume "case x of (j, ns) \<Rightarrow> same_request jira j \<and> ns = jira_Name jira"
  then obtain j where x: "x = (j, jira_Name j)" and j: "same_request jira j"
    using same_request_Name by (cases x) auto
  have home: "logs (within jira) (shared_home env j (jira_Name j)) (same_request jira)"
    by (rule logs_mono [OF within_transfer(1) [OF j within_shared_home [OF ke st]]])
       (auto simp: within_cluster_def)
  show "logs (within jira) (case x of (j, ns) \<Rightarrow> bind (shared_home env j ns) (reconcile_app env))
      (\<lambda>_. True)"
    unfolding x split_conv
    by (rule logs_bind [OF home], rule within_transfer(3), assumption,
        rule within_reconcile_app [OF st])
qed (auto simp: within_cluster_def)

end
