(* ===== verification/Plan.thy ===== *)
theory Plan
  imports Frame "HOL-Library.Multiset"
begin

text \<open>
  The abstract specification of what a run creates: a plan, the keys of the inventory in the order the
  stages ask for them. A run creates a prefix of the plan, and runs its commands only when it went
  through the whole of it.
\<close>

section \<open>The plan\<close>

definition plan :: "Jira \<Rightarrow> (kind \<times> ObjectKey) list" where
  "plan jira = take 5 (database_inventory jira) @ reset_inventory jira
     @ drop 5 (database_inventory jira) @ storage_inventory jira"

definition created_keys :: "event list \<Rightarrow> (kind \<times> ObjectKey) list" where
  "created_keys es = map (\<lambda>ob. (obj_kind ob, obj_key ob)) (created_objects es)"

lemma created_keys_simps [simp]:
  "created_keys [] = []"
  "created_keys (Created ob e # es) = (obj_kind ob, obj_key ob) # created_keys es"
  "created_keys (xs @ ys) = created_keys xs @ created_keys ys"
  by (simp_all add: created_keys_def)

lemma no_created_keys: "\<forall>ev \<in> set es. \<not> is_Created ev \<Longrightarrow> created_keys es = []"
proof (induction es)
  case (Cons ev es)
  then show ?case by (cases ev) (simp_all add: created_keys_def created_objects_def)
qed simp

lemma plan_managed: "set (plan jira) = set (managed jira)" "distinct (plan jira)"
proof -
  have "mset (plan jira) = mset (managed jira)"
    by (simp add: plan_def managed_def database_inventory_def reset_inventory_def)
  then show "set (plan jira) = set (managed jira)" and "distinct (plan jira)"
    using managed_distinct mset_eq_setD mset_eq_imp_distinct_iff by blast+
qed

section \<open>Creating along a list of keys\<close>

text \<open>
  \<open>creates m Q ks\<close>: \<open>m\<close> creates a prefix of \<open>ks\<close>, and the whole of it when it carries on, with a value
  in \<open>Q\<close>.
\<close>

definition creates :: "('w, 'a) op \<Rightarrow> ('a \<Rightarrow> bool) \<Rightarrow> (kind \<times> ObjectKey) list \<Rightarrow> bool" where
  "creates m Q ks \<longleftrightarrow> every m (\<lambda>r es. prefix (created_keys es) ks
     \<and> (\<forall>a. r = Next a \<longrightarrow> created_keys es = ks \<and> Q a))"

lemma creates_bind:
  fixes m :: "('w, 'a) op" and f :: "'a \<Rightarrow> ('w, 'b) op"
  assumes "creates m Q ks" and "\<And>a. Q a \<Longrightarrow> creates (f a) R ls"
  shows "creates (bind m f) R (ks @ ls)"
  unfolding creates_def
proof (rule every_bindI, rule every_mono [OF assms(1) [unfolded creates_def]])
  fix r :: "'a outcome" and es
  assume *: "prefix (created_keys es) ks \<and> (\<forall>a. r = Next a \<longrightarrow> created_keys es = ks \<and> Q a)"
  show "case r of
      Next a \<Rightarrow> every (f a) (\<lambda>r' es'. prefix (created_keys (es @ es')) (ks @ ls)
        \<and> (\<forall>b. r' = Next b \<longrightarrow> created_keys (es @ es') = ks @ ls \<and> R b))
    | Return x e \<Rightarrow> prefix (created_keys es) (ks @ ls)
        \<and> (\<forall>b. Return x e = Next b \<longrightarrow> created_keys es = ks @ ls \<and> R b)
    | Panic p \<Rightarrow> prefix (created_keys es) (ks @ ls)
        \<and> (\<forall>b. Panic p = Next b \<longrightarrow> created_keys es = ks @ ls \<and> R b)"
  proof (cases r)
    case (Next a)
    with * have "every (f a) (\<lambda>r' es'. prefix (created_keys (es @ es')) (ks @ ls)
        \<and> (\<forall>b. r' = Next b \<longrightarrow> created_keys (es @ es') = ks @ ls \<and> R b))"
      by (intro every_mono [OF assms(2) [unfolded creates_def]]) auto
    with Next show ?thesis by simp
  qed (use * in \<open>auto intro: prefix_prefix\<close>)
qed

abbreviation creates_nothing :: "('w, 'a) op \<Rightarrow> ('a \<Rightarrow> bool) \<Rightarrow> bool" where
  "creates_nothing m Q \<equiv> logs (\<lambda>ev. \<not> is_Created ev) m Q"

lemma creates_last: "creates_nothing m Q \<Longrightarrow> creates m Q []"
  unfolding creates_def logs_def by (erule every_mono) (simp add: no_created_keys)

lemma creates_skip:
  "creates_nothing m Q \<Longrightarrow> (\<And>a. Q a \<Longrightarrow> creates (f a) R ks) \<Longrightarrow> creates (bind m f) R ks"
  using creates_bind [OF creates_last, of m Q f R ks] by simp

lemma creates_ensure:
  assumes "create_keeps_key env" and "k = (obj_kind ob, obj_key ob)"
    and "\<And>m. meta_key m = obj_key ob \<Longrightarrow> creates (f m) R ks"
  shows "creates (bind (ensure env ob res) f) R (k # ks)"
proof -
  have "creates (ensure env ob res) (\<lambda>m. meta_key m = obj_key ob) [k]"
  proof -
    have "every (bind (ensure env ob res) ret) (\<lambda>r es. created_keys es = [k])"
      by (rule every_bind_ensureI) (simp_all add: wp_simps assms(2))
    then have "every (ensure env ob res) (\<lambda>r es. created_keys es = [k])" by simp
    then show ?thesis
      unfolding creates_def
      by (rule every_mono [OF every_conj [OF _ logs_ensure [where E = "\<lambda>_. True", unfolded logs_def]]])
         (use assms(1) in auto)
  qed
  from creates_bind [OF this assms(3)] show ?thesis by simp
qed

lemma creates_ret: "Q a \<Longrightarrow> creates (ret a) Q []"
  by (rule creates_last, rule logs_ret)

lemma creates_if:
  "(c \<Longrightarrow> creates m Q ks) \<Longrightarrow> (\<not> c \<Longrightarrow> creates n Q ls) \<Longrightarrow>
   creates (if c then m else n) Q (if c then ks else ls)"
  by simp

lemma creates_same:
  assumes "same_request a b" and "creates m (same_request b) ks"
  shows "creates m (same_request a) ks"
  using assms(2) unfolding creates_def
  by (rule every_mono) (use assms(1) in \<open>auto intro: same_request_trans\<close>)

text \<open>Where the contents of a step do not matter, it is what a weaker bound on its log says.\<close>

lemmas creates_nothing_lasts = logs_weaken [OF logs_update_object] logs_weaken [OF logs_save_status]
  logs_weaken [OF logs_stop_if]

lemmas creates_skips = creates_skip [OF logs_built] creates_skip [OF logs_deref]
  creates_skip [OF logs_stop_if] creates_skip [OF logs_update_object] creates_skip [OF logs_save_status]
  creates_skip [OF logs_replicas_ready [OF job_reads_count]]
  creates_skip [OF logs_replicas_ready [OF sts_reads_count]]
  creates_skip [OF logs_GetRdsSecret]
  creates_skip [OF rdsStatus.logs_checked_read] creates_skip [OF rdsEndpoint.logs_checked_read]
  creates_skip [OF jobSucceededReplicas.logs_checked_read] creates_skip [OF ebsVolumeId.logs_checked_read]
  creates_skip [OF svcClusterIp.logs_checked_read] creates_skip [OF pvcStatus.logs_checked_read]
  creates_skip [OF filesystemId.logs_checked_read] creates_skip [OF mountTargetStatus.logs_checked_read]
  creates_skip [OF logs_getFsxVolumeName]

section \<open>The stages\<close>

lemma creates_infra:
  assumes "create_keeps_key env"
  shows "creates (reconcile_infra env jira) (db_objects_ok jira) (take 5 (database_inventory jira))"
  unfolding reconcile_infra_def database_inventory_def
  by (simp, intro creates_ensure [OF assms] creates_skips creates_ret)
     (simp_all add: built_keys secret_key meta_key_Cluster meta_key_Name db_objects_ok_def)

lemma creates_rds_wait:
  assumes "status_update_keeps_request env"
  shows "creates (rds_wait env jira) (\<lambda>(j, host). same_request jira j) []"
  unfolding rds_wait_def Let_def
proof (rule creates_skip [OF rdsStatus.logs_checked_read], simp,
    rule creates_skip [where Q = "same_request jira"])
  fix status
  show "creates_nothing (if rds_Status (RDS (Status jira)) \<noteq> status
      then save_status env (set_RDS (\<lambda>s. s\<lparr>rds_Status := status\<rparr>) jira) (after (5 * Second))
      else ret jira) (same_request jira)"
    by (intro logs_if logs_ret logs_lasts(3)) (simp_all add: assms)
qed (intro creates_skips creates_ret; simp)

lemma creates_sync_endpoint:
  assumes "status_update_keeps_request env"
  shows "creates (sync_endpoint env jira o' host) (same_request jira) []"
  unfolding sync_endpoint_def
proof (rule creates_skip [where Q = "\<lambda>_. True"])
  show "creates_nothing (update_secret env jira o' host) (\<lambda>_. True)"
    unfolding update_secret_def
    by (rule logs_bind [OF secretData.logs_read])
       (auto split: prod.split intro!: logs_if logs_ret logs_bind [OF logs_GetRdsSecret] logs_lasts(2))
qed (intro creates_last logs_if logs_ret logs_lasts(3); simp add: assms)

lemma creates_reset_credentials:
  assumes "create_keeps_key env" and "status_update_keeps_request env" and "db_objects_ok jira o'"
  shows "creates (reset_credentials env jira o') (same_request jira) (reset_inventory jira)"
  unfolding reset_credentials_def reset_inventory_def reset_key_def
  by (rule creates_if; (intro creates_ensure [OF assms(1)] creates_skips creates_ret)?;
      (intro creates_last logs_lasts(3))?)
     (use assms in \<open>simp_all add: built_keys db_objects_ok_def\<close>)

lemma creates_liquibase_changelog:
  "creates (liquibase_changelog env jira (jira_Name jira)) (\<lambda>_. True)
     [(Kind_ConfigMap, NamespacedKey (jira_Name jira @ ''-liquibase-changelog'') (jira_Name jira))]"
  unfolding liquibase_changelog_def
proof (rule creates_skip [OF logs_GetLiquibaseConfigMap])
  fix cm assume "\<exists>c. cm = liquibase_ConfigMap jira (jira_Name jira) c"
  then have key: "obj_key (Obj_ConfigMap cm)
      = NamespacedKey (jira_Name jira @ ''-liquibase-changelog'') (jira_Name jira)"
    by (auto simp: built_keys)
  have refresh: "creates_nothing (refresh_changelog env cm') (\<lambda>_. True)" for cm'
    unfolding refresh_changelog_def
    by (intro logs_bind [OF configMapData.logs_checked_read] logs_if logs_ret logs_lasts(2)) simp_all
  have quiet: "every (refresh_changelog env cm') (\<lambda>r es. created_keys es = [])" for cm'
    using refresh [of cm'] unfolding logs_def by (rule every_mono) (auto simp: no_created_keys)
  have "every (create_changelog env cm) (\<lambda>r es. created_keys es =
      [(Kind_ConfigMap, NamespacedKey (jira_Name jira @ ''-liquibase-changelog'') (jira_Name jira))])"
    unfolding create_changelog_def
    by (rule every_bind_r_CreateI)
       (auto simp: wp_simps key intro: every_mono [OF quiet] split: option.split)
  then show "creates (create_changelog env cm) (\<lambda>_. True)
      [(Kind_ConfigMap, NamespacedKey (jira_Name jira @ ''-liquibase-changelog'') (jira_Name jira))]"
    unfolding creates_def by (rule every_mono) simp
qed simp

lemma creates_liquibase_job:
  assumes "create_keeps_key env" and "status_update_keeps_request env"
  shows "creates (liquibase_job env jira (jira_Name jira)) (same_request jira)
    [(Kind_Job, changeset_key jira)]"
  unfolding liquibase_job_def changeset_key_def
  by (intro creates_ensure [OF assms(1)] creates_skips creates_last logs_lasts(3))
     (use assms in \<open>simp_all add: built_keys\<close>)

lemma creates_nfs_backing:
  assumes "create_keeps_key env"
  shows "creates (nfs_backing env jira (jira_Name jira)) (\<lambda>_. True) (take 3 (ebs_inventory jira))"
  unfolding nfs_backing_def ebs_inventory_def
  by (simp, intro creates_ensure [OF assms] creates_skips creates_ret)
     (simp_all add: built_keys parsed_keys)

lemma creates_nfs_server:
  assumes "create_keeps_key env"
  shows "creates (nfs_server env jira (jira_Name jira)) (\<lambda>_. True) (take 2 (drop 3 (ebs_inventory jira)))"
  unfolding nfs_server_def ebs_inventory_def
  by (simp, intro creates_ensure [OF assms] creates_skips creates_ret)
     (simp_all add: built_keys nfs_server_name_def)

lemma creates_nfs_share:
  assumes "create_keeps_key env" and "status_update_keeps_request env"
  shows "creates (nfs_share env jira (jira_Name jira) v ip) (same_request jira) (drop 5 (ebs_inventory jira))"
proof -
  have last: "drop 5 (ebs_inventory jira) =
      [(Kind_PersistentVolume, ClusterKey (''jira-shared-home-pv-'' @ jira_UID jira)),
       (Kind_PersistentVolumeClaim, NamespacedKey ''jira-shared-home'' (jira_Name jira))]"
    by (simp add: ebs_inventory_def)
  show ?thesis
    unfolding nfs_share_def last
    by (intro creates_ensure [OF assms(1)] creates_skips creates_last logs_if logs_ret logs_lasts(3))
       (use assms in \<open>simp_all add: parsed_keys\<close>)
qed

lemma creates_shared_ebs:
  assumes "create_keeps_key env" and "status_update_keeps_request env"
  shows "creates (shared_ebs env jira (jira_Name jira)) (same_request jira) (ebs_inventory jira)"
proof -
  have "ebs_inventory jira = take 3 (ebs_inventory jira) @ take 2 (drop 3 (ebs_inventory jira))
      @ drop 5 (ebs_inventory jira)"
    by (simp add: ebs_inventory_def)
  then show ?thesis
    unfolding shared_ebs_def
    by (rule ssubst, intro creates_bind [OF creates_nfs_backing [OF assms(1)]]
          creates_bind [OF creates_nfs_server [OF assms(1)]] creates_nfs_share [OF assms])
qed

lemma creates_shared_fsx:
  assumes "create_keeps_key env" and "status_update_keeps_request env"
  shows "creates (shared_fsx env jira (jira_Name jira)) (same_request jira) (fsx_inventory jira)"
  unfolding shared_fsx_def fsx_inventory_def
  by (intro creates_ensure [OF assms(1)] creates_skips creates_last logs_if logs_ret logs_lasts(3))
     (use assms in \<open>simp_all add: built_keys parsed_keys\<close>)

lemma creates_mount_targets:
  assumes "create_keeps_key env"
  shows "creates (mount_targets env jira fs (int i) subnets) (\<lambda>_. True)
    (map (\<lambda>j. (Kind_MountTarget, ClusterKey (mount_target_name jira (Itoa (int j)))))
      [i..<i + length subnets])"
proof (induction subnets arbitrary: i)
  case (Cons subnet subnets)
  have "creates (mount_targets env jira fs (int i + 1) subnets) (\<lambda>_. True)
      (map (\<lambda>j. (Kind_MountTarget, ClusterKey (mount_target_name jira (Itoa (int j)))))
        [Suc i..<Suc i + length subnets])"
    using Cons.IH [of "Suc i"] by (simp add: add.commute)
  then have "creates (mount_targets env jira fs (int i) (subnet # subnets)) (\<lambda>_. True)
      ((Kind_MountTarget, ClusterKey (mount_target_name jira (Itoa (int i))))
       # map (\<lambda>j. (Kind_MountTarget, ClusterKey (mount_target_name jira (Itoa (int j)))))
        [Suc i..<Suc i + length subnets])"
    unfolding mount_targets.simps
    by (intro creates_ensure [OF assms] creates_skips) (simp_all add: built_keys)
  moreover have "[i..<i + length (subnet # subnets)] = i # [Suc i..<Suc i + length subnets]"
    by (subst upt_conv_Cons) simp_all
  ultimately show ?case by (simp only: list.map)
qed (simp add: creates_ret)

lemma creates_shared_efs:
  assumes "create_keeps_key env" and "status_update_keeps_request env"
  shows "creates (shared_efs env jira (jira_Name jira)) (same_request jira) (efs_inventory jira)"
proof -
  let ?volume = "[(Kind_PersistentVolume, ClusterKey (''jira-shared-home-pv-'' @ jira_UID jira)),
      (Kind_PersistentVolumeClaim, NamespacedKey ''jira-shared-home'' (jira_Name jira))]"
  have fs: "creates (efs_file_system env jira (jira_Name jira)) (\<lambda>_. True)
      [(Kind_FileSystem, ClusterKey (name_uid jira))]"
    unfolding efs_file_system_def
    by (intro creates_ensure [OF assms(1)] creates_skips creates_ret) (simp_all add: built_keys)
  have share: "creates (efs_share env jira (jira_Name jira) i) (same_request jira) ?volume" for i
    unfolding efs_share_def
    by (intro creates_ensure [OF assms(1)] creates_skips creates_last logs_if logs_ret logs_lasts(3))
       (use assms in \<open>simp_all add: parsed_keys\<close>)
  show ?thesis
    unfolding shared_efs_def
    using creates_bind [OF fs creates_bind [OF creates_mount_targets
          [OF assms(1), where i = 0 and subnets = "SubnetIDs (spec_Network (Spec jira))"] share]]
    by (simp add: efs_inventory_def)
qed

lemma creates_shared_home:
  assumes "create_keeps_key env" and "status_update_keeps_request env"
  shows "creates (shared_home env jira (jira_Name jira)) (same_request jira) (storage_inventory jira)"
  unfolding shared_home_def storage_inventory_def
  by (simp add: creates_shared_ebs creates_shared_fsx creates_shared_efs assms)

section \<open>The run\<close>

lemma plan_same_request: "same_request a b \<Longrightarrow> plan b = plan a"
  by (simp add: plan_def inventory_defs mount_target_name_def name_uid_same_request [of a b]
      same_request_Name [of a b] same_request_UID [of a b] same_request_Spec [of a b])

text \<open>The three parts of the plan, for a resource with the same request.\<close>

lemma inventories_same_request:
  assumes "same_request a b"
  shows "reset_inventory b = reset_inventory a" "database_inventory b = database_inventory a"
    "storage_inventory b = storage_inventory a"
  using assms
  by (simp_all add: inventory_defs mount_target_name_def name_uid_same_request [of a b]
      same_request_Name [of a b] same_request_UID [of a b] same_request_Spec [of a b])

lemma creates_bind_nothing:
  "creates m Q [] \<Longrightarrow> (\<And>a. Q a \<Longrightarrow> creates (f a) R ks) \<Longrightarrow> creates (bind m f) R ks"
  using creates_bind [of m Q "[]" f R ks] by simp

lemma creates_reconcile_database:
  assumes ke: "create_keeps_key env" and st: "status_update_keeps_request env"
  shows "creates (reconcile_database env jira) (\<lambda>(j, ns). same_request jira j \<and> ns = jira_Name jira)
    (take 5 (database_inventory jira) @ reset_inventory jira @ drop 5 (database_inventory jira))"
  unfolding reconcile_database_def
proof (rule creates_bind [OF creates_infra [OF ke]],
    rule creates_bind_nothing [OF creates_rds_wait [OF st]], clarify)
  fix o' and j1 :: Jira and host
  assume o': "db_objects_ok jira o'" and j1: "same_request jira j1"
  note ok = db_objects_ok_same_request [OF _ o']
  have finish: "creates (bind (liquibase_changelog env j (db_namespace o')) (\<lambda>_.
        bind (liquibase_job env j (db_namespace o')) (\<lambda>j. ret (j, db_namespace o'))))
      (\<lambda>(j, ns). same_request jira j \<and> ns = jira_Name jira) (drop 5 (database_inventory jira))"
    if j: "same_request jira j" for j
  proof -
    have ns: "db_namespace o' = jira_Name j"
      using ok [OF j] by (simp add: db_objects_ok_def)
    have "creates (bind (liquibase_changelog env j (jira_Name j)) (\<lambda>_.
        bind (liquibase_job env j (jira_Name j)) (\<lambda>i. ret (i, jira_Name j))))
      (\<lambda>(i, ns). same_request jira i \<and> ns = jira_Name jira)
      ([(Kind_ConfigMap, NamespacedKey (jira_Name j @ ''-liquibase-changelog'') (jira_Name j))]
       @ [(Kind_Job, changeset_key j)] @ [])"
      by (intro creates_bind [OF creates_liquibase_changelog]
            creates_bind [OF creates_same [OF j creates_liquibase_job [OF ke st]]] creates_ret)
         (simp add: same_request_Name [OF j])
    then show ?thesis
      unfolding ns by (simp add: database_inventory_def changeset_key_def same_request_Name [OF j])
  qed
  have reset: "creates (reset_credentials env j o') (same_request jira) (reset_inventory jira)"
    if j: "same_request jira j" for j
    using creates_same [OF j creates_reset_credentials [OF ke st ok [OF j]]]
    by (simp add: inventories_same_request [OF j])
  show "creates (bind (sync_endpoint env j1 o' host) (\<lambda>jira.
        bind (reset_credentials env jira o') (\<lambda>jira.
        bind (liquibase_changelog env jira (db_namespace o')) (\<lambda>_.
        bind (liquibase_job env jira (db_namespace o')) (\<lambda>jira. ret (jira, db_namespace o'))))))
      (\<lambda>(j, ns). same_request jira j \<and> ns = jira_Name jira)
      (reset_inventory jira @ drop 5 (database_inventory jira))"
    by (intro creates_bind_nothing [OF creates_same [OF j1 creates_sync_endpoint [OF st]]]
          creates_bind [OF reset] finish)
qed

text \<open>The commands come last: they are run by a part that creates nothing.\<close>

lemma creates_reconcile_app:
  "creates_nothing (reconcile_app env jira) (\<lambda>_. False)"
proof -
  have apply': "creates_nothing (apply_applicationset env jira) (\<lambda>_. True)"
    unfolding apply_applicationset_def Let_def
    by (rule logs_bind [OF logs_ProcessApplicationSetTemplate], simp, simp, simp,
        intro logs_binds logs_bind [OF logs_checked_RunKubectl] logs_ret) simp_all
  have sync: "creates_nothing (sync_status env jira) (\<lambda>_. True)"
    unfolding sync_status_def
    by (intro logs_bind [OF logs_checked_RunKubectl] logs_if logs_ret logs_lasts(3)) simp_all
  have health: "creates_nothing (health_status env j) (\<lambda>_. True)" for j
    unfolding health_status_def
    by (intro logs_bind [OF logs_checked_RunKubectl] logs_if logs_ret logs_lasts(3)) simp_all
  show ?thesis
    unfolding reconcile_app_def
    by (rule logs_bind [OF apply'], rule logs_bind [OF sync], rule logs_bind [OF health]) simp
qed

lemma run_creates_plan:
  assumes ke: "create_keeps_key env" and st: "status_update_keeps_request env"
  shows "every (reconcile_jira env jira) (\<lambda>r es. prefix (created_keys es) (plan jira)
    \<and> ((\<exists>ev \<in> set es. runs ev) \<longrightarrow> created_keys es = plan jira))"
  (is "every _ ?P")
proof -
  have "creates (bind (reconcile_database env jira) (\<lambda>(j, ns). shared_home env j ns))
      (same_request jira) ((take 5 (database_inventory jira) @ reset_inventory jira
        @ drop 5 (database_inventory jira)) @ storage_inventory jira)"
  proof (rule creates_bind [OF creates_reconcile_database [OF ke st]], clarify)
    fix j assume j: "same_request jira j"
    have "creates (shared_home env j (jira_Name j)) (same_request jira) (storage_inventory j)"
      by (rule creates_same [OF j creates_shared_home [OF ke st]])
    then show "creates (shared_home env j (jira_Name jira)) (same_request jira) (storage_inventory jira)"
      by (simp add: same_request_Name [OF j] inventories_same_request [OF j])
  qed
  then have creating: "creates (bind (reconcile_database env jira) (\<lambda>(j, ns). shared_home env j ns))
      (same_request jira) (plan jira)"
    by (simp add: plan_def)
  have quiet: "logs (\<lambda>ev. \<not> runs ev) (bind (reconcile_database env jira) (\<lambda>(j, ns). shared_home env j ns))
      (\<lambda>_. True)"
  proof (rule logs_bind [OF logs_mono [OF within_reconcile_database [OF ke st]]])
    fix x assume "case x of (j, ns) \<Rightarrow> same_request jira j \<and> ns = jira_Name jira"
    then obtain j where x: "x = (j, jira_Name j)"
      using same_request_Name by (cases x) auto
    show "logs (\<lambda>ev. \<not> runs ev) (case x of (j, ns) \<Rightarrow> shared_home env j ns) (\<lambda>_. True)"
      unfolding x split_conv
      by (rule logs_mono [OF within_shared_home [OF ke st]]) (auto simp: within_cluster_def)
  qed (auto simp: within_cluster_def)
  have split: "reconcile_jira env jira =
      bind (bind (reconcile_database env jira) (\<lambda>(j, ns). shared_home env j ns)) (reconcile_app env)"
    unfolding reconcile_jira_def bind_assoc case_prod_beta ..
  show ?thesis
    unfolding split
  proof (rule every_bindI, rule every_mono [OF every_conj [OF creating [unfolded creates_def] quiet [unfolded logs_def]]])
    fix r :: "Jira outcome" and es
    assume *: "(prefix (created_keys es) (plan jira)
        \<and> (\<forall>a. r = Next a \<longrightarrow> created_keys es = plan jira \<and> same_request jira a))
      \<and> (\<forall>ev \<in> set es. \<not> runs ev) \<and> (\<forall>a. r = Next a \<longrightarrow> True)"
    have "every (reconcile_app env j) (\<lambda>r' es'. ?P r' (es @ es'))" if "r = Next j" for j
      using * that
      by (intro every_mono [OF creates_reconcile_app [unfolded logs_def]]) (auto simp: no_created_keys)
    with * show "case r of
        Next a \<Rightarrow> every (reconcile_app env a) (\<lambda>r' es'. ?P r' (es @ es'))
      | Return x e \<Rightarrow> ?P (Return x e) es | Panic p \<Rightarrow> ?P (Panic p) es"
      by (cases r) auto
  qed
qed

end
