(* ===== verification/Progress.thy ===== *)
theory Progress
  imports Frame
begin

text \<open>
  When \<open>Reconcile\<close> gets through to its end, and when it can crash. A run whose every call was answered
  well carries on through every stage; a run that panics does so right after an answer that leaves a
  pointer nil which the code dereferences.
\<close>

section \<open>Good answers\<close>

fun good_object :: "kobj \<Rightarrow> bool" where
  "good_object (Obj_RDSInstance i) =
     (DBInstanceStatus (rds_AtProvider i) = ''available'' \<and> Endpoint_Address (rds_AtProvider i) \<noteq> '''')"
| "good_object (Obj_Job j) = (1 \<le> sint (Succeeded (job_Status j)))"
| "good_object (Obj_EbsVolume v) = (ebs_AtProvider_VolumeID v \<notin> {None, Some ''''})"
| "good_object (Obj_FileSystem f) = (fs_AtProvider_FileSystemID f \<notin> {None, Some ''''})"
| "good_object (Obj_MountTarget m) = (mt_AtProvider_LifeCycleState m = Some ''available'')"
| "good_object (Obj_Service s) = (ClusterIP (svc_Spec s) \<noteq> '''')"
| "good_object (Obj_StatefulSet s) = (1 \<le> sint (ReadyReplicas (sts_Status s)))"
| "good_object (Obj_PersistentVolumeClaim p) = (Phase (pvc_Status p) = ''Bound'')"
| "good_object (Obj_PersistentVolume v) = (CSI (pv_Source (pv_Spec v)) \<noteq> None)"
| "good_object _ = True"

fun good_answer :: "event \<Rightarrow> bool" where
  "good_answer (Got k key (Inr ob)) = good_object ob"
| "good_answer (FileRead p (Inr s)) =
     (p = ''argocd/applicationset.yaml.tpl'' \<longrightarrow> s = applicationset_tpl)"
| "good_answer ev = (event_error ev = None)"

definition proceeds :: "('w, 'a) op \<Rightarrow> bool" where
  "proceeds m \<longleftrightarrow> every m (\<lambda>r es. (\<forall>ev \<in> set es. good_answer ev) \<longrightarrow> (\<exists>a. r = Next a))"

section \<open>Rules\<close>

lemma proceeds_ret [simp]: "proceeds (ret a)"
  by (simp add: proceeds_def wp_simps)

lemma proceeds_bind:
  fixes m :: "('w, 'a) op"
  assumes "proceeds m" and "\<And>a. proceeds (f a)"
  shows "proceeds (bind m f)"
  unfolding proceeds_def
proof (rule every_bindI, rule every_mono [OF assms(1) [unfolded proceeds_def]])
  fix r :: "'a outcome" and es
  assume *: "(\<forall>ev \<in> set es. good_answer ev) \<longrightarrow> (\<exists>a. r = Next a)"
  show "case r of
      Next a \<Rightarrow> every (f a) (\<lambda>r' es'. (\<forall>ev \<in> set (es @ es'). good_answer ev) \<longrightarrow> (\<exists>a. r' = Next a))
    | Return x e \<Rightarrow> (\<forall>ev \<in> set es. good_answer ev) \<longrightarrow> (\<exists>a. Return x e = Next a)
    | Panic p \<Rightarrow> (\<forall>ev \<in> set es. good_answer ev) \<longrightarrow> (\<exists>a. Panic p = Next a)"
  proof (cases r)
    case (Next a)
    have "every (f a) (\<lambda>r' es'. (\<forall>ev \<in> set (es @ es'). good_answer ev) \<longrightarrow> (\<exists>a. r' = Next a))"
      by (rule every_mono [OF assms(2) [unfolded proceeds_def]]) auto
    with Next show ?thesis by simp
  qed (use * in auto)
qed

lemma proceeds_if: "(c \<Longrightarrow> proceeds m) \<Longrightarrow> (\<not> c \<Longrightarrow> proceeds n) \<Longrightarrow> proceeds (if c then m else n)"
  by simp

lemma proceeds_stop_if: "\<not> c \<Longrightarrow> proceeds (bind (stop_if c r e) f) = proceeds (f ())"
  by (simp add: stop_if_def)

lemma proceeds_built: "ob \<noteq> None \<Longrightarrow> proceeds (built ob)"
  by (auto simp: built_def)

lemma proceeds_ensure: "proceeds (ensure env ob res)"
  using every_bind_ensureI [where f = ret and ob = ob and env = env and res = res
      and P = "\<lambda>r es. (\<forall>ev \<in> set es. good_answer ev) \<longrightarrow> (\<exists>a. r = Next a)"]
  by (auto simp: proceeds_def wp_simps)

lemma proceeds_update_object: "proceeds (update_object env ob res)"
  using every_bind_update_objectI [where f = ret and ob = ob and env = env and res = res
      and P = "\<lambda>r es. (\<forall>ev \<in> set es. good_answer ev) \<longrightarrow> (\<exists>a. r = Next a)"]
  by (auto simp: proceeds_def wp_simps)

lemma proceeds_save_status: "proceeds (save_status env jira res)"
  using every_bind_save_statusI [where f = ret and jira = jira and env = env and res = res
      and P = "\<lambda>r es. (\<forall>ev \<in> set es. good_answer ev) \<longrightarrow> (\<exists>a. r = Next a)"]
  by (auto simp: proceeds_def wp_simps)

lemma proceeds_replicas_ready:
  assumes "reads_count m knd key field"
    and "\<And>ob. obj_kind ob = knd \<Longrightarrow> good_object ob \<Longrightarrow> 1 \<le> sint (field ob)"
  shows "proceeds (replicas_ready m res res')"
  using every_bind_replicas_readyI [OF assms(1), where f = ret and res = res and res' = res'
      and P = "\<lambda>r es. (\<forall>ev \<in> set es. good_answer ev) \<longrightarrow> (\<exists>a. r = Next a)"]
    assms(2) by (fastforce simp: proceeds_def wp_simps)

lemma proceeds_no_events: "every m (\<lambda>r es. \<exists>a. r = Next a) \<Longrightarrow> proceeds m"
  unfolding proceeds_def by (erule every_mono) simp

context field_reader
begin

lemma proceeds_checked:
  assumes "\<And>ob. obj_kind ob = knd \<Longrightarrow> good_object ob \<Longrightarrow> proceeds (f (field ob))"
  shows "proceeds (bind (checked (read env x) res) f)"
  unfolding proceeds_def
proof (rule every_bind_checkedI)
  fix ob assume "obj_kind ob = knd"
  then show "every (f (field ob)) (\<lambda>q es.
      (\<forall>ev \<in> set (Got knd (key x) (Inr ob) # es). good_answer ev) \<longrightarrow> (\<exists>a. q = Next a))"
    using assms by (cases "good_object ob") (auto simp: proceeds_def every_def)
qed simp

lemma proceeds_read: "(\<And>v. proceeds (f v)) \<Longrightarrow> proceeds (bind (read env x) f)"
  by (rule proceeds_bind) (auto simp: proceeds_def intro: every_mono [OF read_spec])

end

lemma good_fields:
  "obj_kind ob = Kind_RDSInstance \<Longrightarrow> good_object ob \<Longrightarrow> db_status ob = ''available'' \<and> db_endpoint ob \<noteq> ''''"
  "obj_kind ob = Kind_Job \<Longrightarrow> good_object ob \<Longrightarrow> 1 \<le> sint (job_succeeded ob)"
  "obj_kind ob = Kind_EbsVolume \<Longrightarrow> good_object ob \<Longrightarrow> ebs_id ob \<noteq> ''''"
  "obj_kind ob = Kind_FileSystem \<Longrightarrow> good_object ob \<Longrightarrow> \<exists>i. fs_id ob = Some i \<and> i \<noteq> ''''"
  "obj_kind ob = Kind_MountTarget \<Longrightarrow> good_object ob \<Longrightarrow> mt_state ob = Some ''available''"
  "obj_kind ob = Kind_Service \<Longrightarrow> good_object ob \<Longrightarrow> svc_ip ob \<noteq> ''''"
  "obj_kind ob = Kind_StatefulSet \<Longrightarrow> good_object ob \<Longrightarrow> 1 \<le> sint (sts_ready ob)"
  "obj_kind ob = Kind_PersistentVolumeClaim \<Longrightarrow> good_object ob \<Longrightarrow> pvc_phase ob = ''Bound''"
  "obj_kind ob = Kind_PersistentVolume \<Longrightarrow> good_object ob \<Longrightarrow> CSI (pv_Source (pv_Spec (the_pv ob))) \<noteq> None"
  by (cases ob; auto)+

lemmas proceeds_intros = proceeds_bind proceeds_if proceeds_ret proceeds_ensure
  proceeds_update_object proceeds_save_status

section \<open>Every stage proceeds\<close>

lemma proceeds_GetRdsSecret: "Intn_in_range env \<Longrightarrow> proceeds (GetRdsSecret env jira host ns)"
  by (rule proceeds_no_events, rule GetRdsSecret_returns)

lemma proceeds_infra: "Intn_in_range env \<Longrightarrow> proceeds (reconcile_infra env jira)"
  unfolding reconcile_infra_def by (intro proceeds_intros proceeds_GetRdsSecret)

lemma proceeds_rds_wait: "proceeds (rds_wait env jira)"
  unfolding rds_wait_def Let_def
  apply (rule rdsStatus.proceeds_checked)
  apply (rule proceeds_bind)
   apply (intro proceeds_intros)
  apply (simp add: good_fields proceeds_stop_if)
  apply (rule rdsEndpoint.proceeds_checked)
  apply (simp add: good_fields proceeds_stop_if)
  done

lemma proceeds_sync_endpoint: "Intn_in_range env \<Longrightarrow> proceeds (sync_endpoint env jira o' host)"
proof -
  assume "Intn_in_range env"
  then have "proceeds (update_secret env jira o' host)"
    unfolding update_secret_def
    by (intro secretData.proceeds_read) (auto intro!: proceeds_intros proceeds_GetRdsSecret)
  then show ?thesis
    unfolding sync_endpoint_def by (intro proceeds_intros)
qed

lemma proceeds_job: "proceeds (replicas_ready (getJobSucceededReplicas env m) res res')"
  by (rule proceeds_replicas_ready [OF job_reads_count]) (rule good_fields)

lemma proceeds_sts: "proceeds (replicas_ready (getStsReadyReplicas env m) res res')"
  by (rule proceeds_replicas_ready [OF sts_reads_count]) (rule good_fields)

lemma proceeds_reset_credentials: "proceeds (reset_credentials env jira o')"
  unfolding reset_credentials_def by (intro proceeds_intros proceeds_job)

lemma proceeds_create_changelog: "proceeds (create_changelog env cm)"
proof -
  have refresh: "proceeds (refresh_changelog env cm)" for cm
    unfolding refresh_changelog_def
    by (rule configMapData.proceeds_checked) (intro proceeds_intros)
  show ?thesis
    unfolding create_changelog_def proceeds_def
  proof (rule every_bind_r_CreateI)
    fix err m
    show "every (case (err, m) of (err, m) \<Rightarrow> case err of None \<Rightarrow> ret ()
        | Some e \<Rightarrow> if IsAlreadyExists e then refresh_changelog env (cm\<lparr>cm_ObjectMeta := m\<rparr>)
          else stop (after (10 * Second)) err)
      (\<lambda>r es. (\<forall>ev \<in> set (Created (Obj_ConfigMap cm) err # es). good_answer ev) \<longrightarrow> (\<exists>a. r = Next a))"
      using refresh [unfolded proceeds_def, of "cm\<lparr>cm_ObjectMeta := m\<rparr>"]
      by (cases err) (auto simp: every_def ret_def)
  qed
qed

lemma proceeds_liquibase_changelog: "proceeds (liquibase_changelog env jira ns)"
proof -
  have "proceeds (checked (GetLiquibaseConfigMap env jira ns) res)" for res
    unfolding proceeds_def checked_def GetLiquibaseConfigMap_def bind_assoc
    by (rule every_bind_ReadFileI) (auto simp: stop_if_def wp_simps split: sum.split)
  then show ?thesis
    unfolding liquibase_changelog_def by (rule proceeds_bind) (rule proceeds_create_changelog)
qed

lemma proceeds_liquibase_job: "proceeds (liquibase_job env jira ns)"
  unfolding liquibase_job_def
  apply (rule proceeds_bind [OF proceeds_ensure])
  apply (rule jobSucceededReplicas.proceeds_checked)
  apply (frule (1) good_fields(2))
  apply (simp add: proceeds_stop_if proceeds_save_status)
  done


text \<open>The sizes the volumes are made with all parse.\<close>

lemma parses:
  assumes "parses_GiB env"
  shows "GetEbsPersistentVolume (MustParse env) jira v n (volume_size jira) ns \<noteq> None"
    and "GetNfsPersistentVolume (MustParse env) jira ip (volume_size jira) ns \<noteq> None"
    and "GetEfsPersistentVolume (MustParse env) jira fs ns \<noteq> None"
    and "GetPersistentVolumeClaim (MustParse env) jira n ns vol cls (volume_size jira) mode \<noteq> None"
    and "GetPersistentVolumeClaim (MustParse env) jira n ns vol cls ''10'' mode \<noteq> None"
    and "GetFsxPersistentVolumeClaimFromSnapshot (MustParse env) jira n ns ''1'' \<noteq> None"
proof -
  have "Itoa 10 @ ''Gi'' = ''10Gi''" "Itoa 1 @ ''Gi'' = ''1Gi''"
    by code_simp+
  moreover have "MustParse env (Itoa 10 @ ''Gi'') \<noteq> None" "MustParse env (Itoa 1 @ ''Gi'') \<noteq> None"
    using assms unfolding parses_GiB_def by blast+
  ultimately have "MustParse env ''10Gi'' \<noteq> None" "MustParse env ''1Gi'' \<noteq> None"
    by simp_all
  then show "GetEbsPersistentVolume (MustParse env) jira v n (volume_size jira) ns \<noteq> None"
    and "GetNfsPersistentVolume (MustParse env) jira ip (volume_size jira) ns \<noteq> None"
    and "GetEfsPersistentVolume (MustParse env) jira fs ns \<noteq> None"
    and "GetPersistentVolumeClaim (MustParse env) jira n ns vol cls (volume_size jira) mode \<noteq> None"
    and "GetPersistentVolumeClaim (MustParse env) jira n ns vol cls ''10'' mode \<noteq> None"
    and "GetFsxPersistentVolumeClaimFromSnapshot (MustParse env) jira n ns ''1'' \<noteq> None"
    using assms by (auto simp: volume_defs volume_size_def parses_GiB_def)
qed

lemma proceeds_shared_ebs: "parses_GiB env \<Longrightarrow> proceeds (shared_ebs env jira ns)"
proof -
  assume gib: "parses_GiB env"
  have "proceeds (nfs_backing env jira ns)"
    unfolding nfs_backing_def
    apply (rule proceeds_bind [OF proceeds_ensure])
    apply (rule ebsVolumeId.proceeds_checked)
    apply (simp add: good_fields proceeds_stop_if)
    apply (intro proceeds_intros proceeds_built parses gib)
    done
  moreover have "proceeds (nfs_server env jira ns)"
    unfolding nfs_server_def
    apply (rule proceeds_bind [OF proceeds_ensure])
    apply (rule svcClusterIp.proceeds_checked)
    apply (simp add: good_fields proceeds_stop_if)
    apply (intro proceeds_intros proceeds_sts)
    done
  moreover have "proceeds (nfs_share env jira ns v ip)" for v ip
    unfolding nfs_share_def by (intro proceeds_intros proceeds_built parses gib)
  ultimately show ?thesis unfolding shared_ebs_def by (intro proceeds_bind)
qed

lemma proceeds_getFsxVolumeName: "proceeds (checked (getFsxVolumeName env m) res)"
proof -
  have handle: "every (bind (getPvHandle env n) (\<lambda>(v, err).
      bind (stop_if (err \<noteq> None) res err) (\<lambda>_. ret v)))
      (\<lambda>r es. (\<forall>ev \<in> set es. good_answer ev) \<longrightarrow> (\<exists>a. r = Next a))" for n
    unfolding getPvHandle_def bind_assoc
  proof (rule pvByName.every_bind_readI)
    fix ob assume "obj_kind ob = Kind_PersistentVolume"
    note good = good_fields(9) [OF this]
    show "every (bind (case (the_pv ob, None) of (pv, err) \<Rightarrow>
          case err of Some e \<Rightarrow> ret ('''', Some e) | None \<Rightarrow> volume_handle pv)
        (\<lambda>(v, err). bind (stop_if (err \<noteq> None) res err) (\<lambda>_. ret v)))
      (\<lambda>q es. (\<forall>ev \<in> set (Got Kind_PersistentVolume (ClusterKey n) (Inr ob) # es). good_answer ev)
        \<longrightarrow> (\<exists>a. q = Next a))"
      using good by (auto simp: volume_handle_def stop_if_def wp_simps split: option.split)
  qed (simp add: stop_if_def wp_simps)
  show ?thesis
    unfolding proceeds_def checked_def getFsxVolumeName_def bind_assoc
  proof (rule every_bind_r_GetI)
    fix r :: "goerror + PersistentVolumeClaim"
    show "every (bind (case r of Inl e \<Rightarrow> ret ('''', Some e)
          | Inr pvc \<Rightarrow> getPvHandle env (VolumeName (pvc_Spec pvc)))
        (\<lambda>(v, err). bind (stop_if (err \<noteq> None) res err) (\<lambda>_. ret v)))
      (\<lambda>q es. (\<forall>ev \<in> set (Got Kind_PersistentVolumeClaim (meta_key m)
        (map_sum id Obj_PersistentVolumeClaim r) # es). good_answer ev) \<longrightarrow> (\<exists>a. q = Next a))"
    proof (cases r)
      case (Inr pvc)
      then show ?thesis
        using handle [of "VolumeName (pvc_Spec pvc)"] by (auto elim!: every_mono)
    qed (simp add: stop_if_def wp_simps)
  qed
qed

lemma proceeds_shared_fsx: "parses_GiB env \<Longrightarrow> proceeds (shared_fsx env jira ns)"
  unfolding shared_fsx_def
  apply (rule proceeds_bind [OF proceeds_ensure])
  apply (rule proceeds_bind [OF proceeds_ensure])
  apply (rule proceeds_bind [OF proceeds_built [OF parses(6)]], assumption)
  apply (rule proceeds_bind [OF proceeds_ensure])
  apply (rule pvcStatus.proceeds_checked)
  apply (simp add: good_fields proceeds_stop_if)
  apply (rule proceeds_bind [OF proceeds_getFsxVolumeName])
  apply (intro proceeds_intros)
  done

lemma proceeds_mount_targets: "proceeds (mount_targets env jira fs i subnets)"
proof (induction subnets arbitrary: i)
  case (Cons subnet subnets)
  then show ?case
    unfolding mount_targets.simps
    apply (intro proceeds_bind [OF proceeds_ensure])
    apply (rule mountTargetStatus.proceeds_checked)
    apply (simp add: good_fields deref_def proceeds_stop_if)
    done
qed simp

lemma proceeds_shared_efs: "parses_GiB env \<Longrightarrow> proceeds (shared_efs env jira ns)"
proof -
  assume gib: "parses_GiB env"
  have "proceeds (efs_file_system env jira ns)"
    unfolding efs_file_system_def
    apply (rule proceeds_bind [OF proceeds_ensure])
    apply (rule filesystemId.proceeds_checked)
    apply (frule (1) good_fields(4))
    apply (auto simp: deref_def proceeds_stop_if)
    done
  moreover have "proceeds (efs_share env jira ns fs)" for fs
    unfolding efs_share_def by (intro proceeds_intros proceeds_built parses gib)
  ultimately show ?thesis
    unfolding shared_efs_def by (intro proceeds_bind proceeds_mount_targets)
qed

lemma proceeds_shared_home: "parses_GiB env \<Longrightarrow> proceeds (shared_home env jira ns)"
  unfolding shared_home_def
  by (intro proceeds_if proceeds_shared_ebs proceeds_shared_fsx proceeds_shared_efs)


lemma Process_succeeds:
  "every (ProcessApplicationSetTemplate env jira)
     (\<lambda>r es. (\<forall>ev \<in> set es. good_answer ev) \<longrightarrow> r = Next None)"
  unfolding ProcessApplicationSetTemplate_def
proof (rule every_bind_ReadFileI)
  fix r :: "goerror + string"
  show "every (case r of Inl e \<Rightarrow> ret (Some e)
     | Inr tmplContent \<Rightarrow>
         (case parse_template tmplContent of
            None \<Rightarrow> ret (Some (template_error ''parse''))
          | Some tmpl \<Rightarrow>
              bind (CreateFile env (applicationset_path jira)) (\<lambda>err.
              if err \<noteq> None then ret err
              else
                (case exec_nodes tmpl (VData (template_vars jira)) [] of
                   (out, ok) \<Rightarrow>
                     bind (WriteFile env (applicationset_path jira) out) (\<lambda>err.
                     if err \<noteq> None then ret err
                     else ret (if ok then None else Some (template_error ''execute'')))))))
    (\<lambda>q es. (\<forall>ev \<in> set (FileRead ''argocd/applicationset.yaml.tpl'' r # es). good_answer ev)
      \<longrightarrow> q = Next None)"
  proof (cases "r = Inr applicationset_tpl")
    case True
    then show ?thesis
      by (auto simp: parse_applicationset_tpl render_applicationset wp_simps
          intro!: every_bind_CreateFileI every_bind_WriteFileI)
  next
    case False
    then have "\<not> good_answer (FileRead ''argocd/applicationset.yaml.tpl'' r)"
      by (cases r) auto
    then show ?thesis by (simp add: every_def)
  qed
qed

lemma proceeds_kubectl: "proceeds (checked (RunKubectl env args) res)"
  using every_bind_checked_RunKubectlI [where f = ret and args = args and res = res and env = env
      and P = "\<lambda>r es. (\<forall>ev \<in> set es. good_answer ev) \<longrightarrow> (\<exists>a. r = Next a)"]
  by (auto simp: proceeds_def wp_simps)

lemma proceeds_apply_applicationset: "proceeds (apply_applicationset env jira)"
  unfolding apply_applicationset_def Let_def proceeds_def
proof (rule every_bindI, rule every_mono [OF Process_succeeds])
  let ?rest = "\<lambda>err :: goerror option. bind (stop_if (err \<noteq> None) (after (60 * Second)) err) (\<lambda>_.
     bind (checked (RunKubectl env
       [''apply'', ''-f'', ''argocd/applicationset-'' @ jira_Name jira @ ''.yaml''])
       (after (5 * Minute))) (\<lambda>_. ret ()))"
  fix r :: "goerror option outcome" and es
  assume *: "(\<forall>ev \<in> set es. good_answer ev) \<longrightarrow> r = Next None"
  have "proceeds (?rest None)"
    by (simp add: stop_if_def, rule proceeds_bind [OF proceeds_kubectl], simp)
  then have "every (?rest None) (\<lambda>r' es'. (\<forall>ev \<in> set (es @ es'). good_answer ev) \<longrightarrow> (\<exists>a. r' = Next a))"
    unfolding proceeds_def by (rule every_mono) auto
  then show "case r of
      Next a \<Rightarrow> every (?rest a) (\<lambda>r' es'. (\<forall>ev \<in> set (es @ es'). good_answer ev) \<longrightarrow> (\<exists>a. r' = Next a))
    | Return x e \<Rightarrow> (\<forall>ev \<in> set es. good_answer ev) \<longrightarrow> (\<exists>a. Return x e = Next a)
    | Panic p \<Rightarrow> (\<forall>ev \<in> set es. good_answer ev) \<longrightarrow> (\<exists>a. Panic p = Next a)"
  proof (cases "\<forall>ev \<in> set es. good_answer ev")
    case True
    with * have "r = Next None" by simp
    then show ?thesis using \<open>every (?rest None) _\<close> by simp
  qed (cases r; auto simp: every_def)
qed

section \<open>The end of the reconciliation loop\<close>

definition completes :: "('w, 'a) op \<Rightarrow> bool" where
  "completes m \<longleftrightarrow>
     every m (\<lambda>r es. (\<forall>ev \<in> set es. good_answer ev) \<longrightarrow> r = Return (after (5 * Minute)) None)"

lemma completes_bind:
  fixes m :: "('w, 'a) op" and f :: "'a \<Rightarrow> ('w, 'b) op"
  assumes "proceeds m" and "\<And>a. completes (f a)"
  shows "completes (bind m f)"
  unfolding completes_def
proof (rule every_bindI, rule every_mono [OF assms(1) [unfolded proceeds_def]])
  fix r :: "'a outcome" and es
  let ?fin = "Return (after (5 * Minute)) None :: 'b outcome"
  assume *: "(\<forall>ev \<in> set es. good_answer ev) \<longrightarrow> (\<exists>a. r = Next a)"
  show "case r of
      Next a \<Rightarrow> every (f a) (\<lambda>r' es'. (\<forall>ev \<in> set (es @ es'). good_answer ev) \<longrightarrow> r' = ?fin)
    | Return x e \<Rightarrow> (\<forall>ev \<in> set es. good_answer ev) \<longrightarrow> Return x e = ?fin
    | Panic p \<Rightarrow> (\<forall>ev \<in> set es. good_answer ev) \<longrightarrow> Panic p = ?fin"
  proof (cases r)
    case (Next a)
    have "every (f a) (\<lambda>r' es'. (\<forall>ev \<in> set (es @ es'). good_answer ev) \<longrightarrow> r' = ?fin)"
      by (rule every_mono [OF assms(2) [unfolded completes_def]]) auto
    with Next show ?thesis by simp
  qed (use * in auto)
qed

lemma completes_reconcile_app: "completes (reconcile_app env jira)"
proof -
  have "proceeds (sync_status env j)" "proceeds (health_status env j)" for j
    unfolding sync_status_def health_status_def
    by (intro proceeds_bind [OF proceeds_kubectl] proceeds_intros)+
  then show ?thesis
    unfolding reconcile_app_def
    by (intro completes_bind proceeds_apply_applicationset)
       (auto simp: completes_def wp_simps)
qed

lemma proceeds_reconcile_database: "Intn_in_range env \<Longrightarrow> proceeds (reconcile_database env jira)"
  unfolding reconcile_database_def case_prod_beta
  by (intro proceeds_bind proceeds_ret proceeds_infra proceeds_rds_wait proceeds_sync_endpoint
      proceeds_reset_credentials proceeds_liquibase_changelog proceeds_liquibase_job)

lemma completes_reconcile_jira:
  assumes "Intn_in_range env" and "parses_GiB env"
  shows "completes (reconcile_jira env jira)"
  unfolding reconcile_jira_def case_prod_beta
  by (intro completes_bind proceeds_reconcile_database proceeds_shared_home completes_reconcile_app assms)

lemma completes_Reconcile:
  assumes "Intn_in_range env" and "parses_GiB env"
  shows "completes (Reconcile env req)"
  unfolding Reconcile_def completes_def
proof (rule every_bind_r_GetI)
  fix r :: "goerror + Jira"
  show "every (case r of Inl e \<Rightarrow> stop empty_Result None | Inr jira \<Rightarrow> reconcile_jira env jira)
    (\<lambda>q es. (\<forall>ev \<in> set (Got Kind_Jira req (map_sum id Obj_Jira r) # es). good_answer ev)
      \<longrightarrow> q = Return (after (5 * Minute)) None)"
    using completes_reconcile_jira [OF assms, unfolded completes_def]
    by (cases r) (auto simp: wp_simps elim!: every_mono)
qed

end
