(* ===== verification/Crashes.thy ===== *)
theory Crashes
  imports Progress
begin

text \<open>
  The run-time panics of \<open>Reconcile\<close>: every one follows an answer in which a pointer the code
  dereferences is nil, the id of the file system, the state of a mount target, or the CSI source of the
  volume behind the FSx claim.
\<close>

fun nil_object :: "kobj \<Rightarrow> bool" where
  "nil_object (Obj_FileSystem f) = (fs_AtProvider_FileSystemID f = None)"
| "nil_object (Obj_MountTarget m) = (mt_AtProvider_LifeCycleState m = None)"
| "nil_object (Obj_PersistentVolume v) = (CSI (pv_Source (pv_Spec v)) = None)"
| "nil_object _ = False"

fun nil_answer :: "event \<Rightarrow> bool" where
  "nil_answer (Got k key (Inr ob)) = nil_object ob"
| "nil_answer _ = False"

fun crash_explained :: "'a outcome \<Rightarrow> event list \<Rightarrow> bool" where
  "crash_explained (Panic p) es = (es \<noteq> [] \<and> nil_answer (last es))"
| "crash_explained _ es = True"

abbreviation crash_safe :: "('w, 'a) op \<Rightarrow> bool" where
  "crash_safe m \<equiv> every m crash_explained"

section \<open>Rules\<close>

lemma crash_explained_Cons: "crash_explained r es \<Longrightarrow> crash_explained r (ev # es)"
  by (cases r) auto

lemma crash_bind:
  fixes m :: "('w, 'a) op" and f :: "'a \<Rightarrow> ('w, 'b) op"
  assumes "crash_safe m" and "\<And>a. crash_safe (f a)"
  shows "crash_safe (bind m f)"
proof (rule every_bindI, rule every_mono [OF assms(1)])
  fix r :: "'a outcome" and es
  assume *: "crash_explained r es"
  have app: "crash_explained r' es' \<Longrightarrow> crash_explained r' (es @ es')" for r' :: "'b outcome" and es'
    by (cases r') auto
  show "case r of Next a \<Rightarrow> every (f a) (\<lambda>r' es'. crash_explained r' (es @ es'))
      | Return x e \<Rightarrow> crash_explained (Return x e :: 'b outcome) es
      | Panic p \<Rightarrow> crash_explained (Panic p :: 'b outcome) es"
    using * app by (cases r) (auto intro: every_mono [OF assms(2)])
qed

lemma crash_simple [simp]:
  "crash_safe (ret a)" "crash_safe (stop r e)" "crash_safe (stop_if c r e)"
  by (simp_all add: wp_simps)

lemma crash_if: "(c \<Longrightarrow> crash_safe m) \<Longrightarrow> (\<not> c \<Longrightarrow> crash_safe n) \<Longrightarrow> crash_safe (if c then m else n)"
  by simp

lemma crash_act: "crash_safe (act g ev)"
  by (rule every_actI) simp

lemma crash_pair: "(\<And>a b. crash_safe (f a b)) \<Longrightarrow> crash_safe (case x of (a, b) \<Rightarrow> f a b)"
  by (cases x) simp

lemma crash_ensure: "crash_safe (ensure env ob res)"
  unfolding ensure_def r_Create_def by (intro crash_bind crash_act crash_pair crash_simple)

lemma crash_update_object: "crash_safe (update_object env ob res)"
  unfolding update_object_def r_Update_def by (intro crash_bind crash_act crash_simple)

lemma crash_save_status: "crash_safe (save_status env jira res)"
  unfolding save_status_def r_Status_Update_def by (intro crash_bind crash_act crash_pair crash_simple)

lemma crash_built: "ob \<noteq> None \<Longrightarrow> crash_safe (built ob)"
  by (auto simp: built_def)

lemma crash_checked: "crash_safe m \<Longrightarrow> crash_safe (checked m res)"
  unfolding checked_def by (intro crash_bind crash_pair crash_simple)

lemma crash_replicas_ready:
  assumes "reads_count m knd key field"
  shows "crash_safe (replicas_ready m res res')"
proof -
  have "crash_safe m"
    by (rule every_mono [OF assms [unfolded reads_count_def]]) auto
  then show ?thesis
    unfolding replicas_ready_def by (intro crash_bind crash_pair crash_simple)
qed

context field_reader
begin

lemma crash_read: "crash_safe (read env x)"
  by (rule every_mono [OF read_spec]) auto

lemma crash_deref:
  assumes "\<And>ob. obj_kind ob = knd \<Longrightarrow> p (field ob) = None \<Longrightarrow> nil_object ob"
    and "\<And>v. crash_safe (f v)"
  shows "crash_safe (bind (checked (read env x) res) (\<lambda>v. bind (deref (p v)) f))"
proof (rule every_bind_checkedI)
  fix ob assume "obj_kind ob = knd"
  then show "every (bind (deref (p (field ob))) f)
      (\<lambda>q es. crash_explained q (Got knd (key x) (Inr ob) # es))"
    by (intro every_bind_derefI) (simp add: assms(1), rule every_mono [OF assms(2)], rule crash_explained_Cons)
qed simp

end

lemma crash_no_events:
  "every m (\<lambda>r es. es = [] \<and> Q r) \<Longrightarrow> every m (\<lambda>r es. \<exists>a. r = Next a) \<Longrightarrow> crash_safe m"
  by (rule every_mono [OF every_conj], assumption+) auto

lemmas crash_intros = crash_bind crash_if crash_pair crash_simple crash_ensure crash_update_object
  crash_save_status crash_checked crash_replicas_ready [OF job_reads_count]
  crash_replicas_ready [OF sts_reads_count]

section \<open>The stages\<close>

lemma crash_GetRdsSecret: "Intn_in_range env \<Longrightarrow> crash_safe (GetRdsSecret env jira host ns)"
  by (rule every_mono [OF GetRdsSecret_returns]) auto

lemma crash_GetLiquibaseConfigMap: "crash_safe (GetLiquibaseConfigMap env jira ns)"
  unfolding GetLiquibaseConfigMap_def ReadFile_def
  by (rule crash_bind [OF crash_act]) (simp split: sum.split)

lemma crash_create_changelog: "crash_safe (create_changelog env cm)"
proof -
  have "crash_safe (refresh_changelog env cm)" for cm
    unfolding refresh_changelog_def by (intro crash_intros configMapData.crash_read)
  then show ?thesis
    unfolding create_changelog_def r_Create_def
    by (intro crash_bind [OF crash_act] crash_pair) (simp split: option.split)
qed

lemma crash_reconcile_database:
  assumes "Intn_in_range env"
  shows "crash_safe (reconcile_database env jira)"
  unfolding reconcile_database_def reconcile_infra_def rds_wait_def Let_def sync_endpoint_def
    update_secret_def reset_credentials_def liquibase_changelog_def liquibase_job_def
  by (intro crash_intros crash_GetRdsSecret crash_GetLiquibaseConfigMap crash_create_changelog
      assms rdsStatus.crash_read rdsEndpoint.crash_read secretData.crash_read
      jobSucceededReplicas.crash_read)

lemma crash_shared_ebs: "parses_GiB env \<Longrightarrow> crash_safe (shared_ebs env jira ns)"
  unfolding shared_ebs_def nfs_backing_def nfs_server_def nfs_share_def
  by (intro crash_intros crash_built parses ebsVolumeId.crash_read svcClusterIp.crash_read)

lemma crash_getFsxVolumeName: "crash_safe (getFsxVolumeName env m)"
proof -
  have handle: "crash_safe (getPvHandle env n)" for n
    unfolding getPvHandle_def
  proof (rule pvByName.every_bind_readI)
    fix ob assume "obj_kind ob = Kind_PersistentVolume"
    then show "every (case (the_pv ob, None) of (pv, err) \<Rightarrow>
        case err of Some e \<Rightarrow> ret ('''', Some e) | None \<Rightarrow> volume_handle pv)
      (\<lambda>q es. crash_explained q (Got Kind_PersistentVolume (ClusterKey n) (Inr ob) # es))"
      by (cases ob) (auto simp: volume_handle_def wp_simps split: option.split)
  qed (simp add: wp_simps)
  show ?thesis
    unfolding getFsxVolumeName_def r_Get_def
    by (rule crash_bind [OF crash_act]) (simp add: handle split: sum.split)
qed

lemma crash_shared_fsx: "parses_GiB env \<Longrightarrow> crash_safe (shared_fsx env jira ns)"
  unfolding shared_fsx_def
  by (intro crash_intros crash_built parses pvcStatus.crash_read crash_getFsxVolumeName)

lemma crash_mount_targets: "crash_safe (mount_targets env jira fs i subnets)"
proof (induction subnets arbitrary: i)
  case (Cons subnet subnets)
  have "obj_kind ob = Kind_MountTarget \<Longrightarrow> mt_state ob = None \<Longrightarrow> nil_object ob" for ob
    by (cases ob) auto
  then show ?case
    unfolding mount_targets.simps
    by (intro crash_bind [OF crash_ensure] mountTargetStatus.crash_deref crash_intros Cons.IH)
qed simp

lemma crash_shared_efs: "parses_GiB env \<Longrightarrow> crash_safe (shared_efs env jira ns)"
proof -
  assume gib: "parses_GiB env"
  have "obj_kind ob = Kind_FileSystem \<Longrightarrow> fs_id ob = None \<Longrightarrow> nil_object ob" for ob
    by (cases ob) auto
  then have "crash_safe (efs_file_system env jira ns)"
    unfolding efs_file_system_def
    by (intro crash_bind [OF crash_ensure] filesystemId.crash_deref crash_intros)
  moreover have "crash_safe (efs_share env jira ns fs)" for fs
    unfolding efs_share_def by (intro crash_intros crash_built parses gib)
  ultimately show ?thesis
    unfolding shared_efs_def by (intro crash_bind crash_mount_targets)
qed

lemma crash_RunKubectl: "crash_safe (RunKubectl env args)"
  unfolding RunKubectl_def CombinedOutput_def Let_def
  by (intro crash_intros crash_act)

lemma crash_Process: "crash_safe (ProcessApplicationSetTemplate env jira)"
  by (rule every_mono [OF Process_reports]) (auto elim: reports.elims)

lemma crash_reconcile_app: "crash_safe (reconcile_app env jira)"
  unfolding reconcile_app_def apply_applicationset_def sync_status_def health_status_def Let_def
  by (intro crash_intros crash_Process crash_RunKubectl)

lemma crash_Reconcile:
  assumes "Intn_in_range env" and "parses_GiB env"
  shows "crash_safe (Reconcile env req)"
proof -
  have "crash_safe (shared_home env jira ns)" for jira ns
    unfolding shared_home_def
    by (intro crash_if crash_shared_ebs crash_shared_fsx crash_shared_efs assms)
  then have "crash_safe (reconcile_jira env jira)" for jira
    unfolding reconcile_jira_def
    by (intro crash_bind crash_reconcile_database crash_pair crash_reconcile_app assms)
  then show ?thesis
    unfolding Reconcile_def r_Get_def
    by (intro crash_bind [OF crash_act]) (simp split: sum.split)
qed

end
