(* ===== verification/Gating.thy ===== *)
theory Gating
  imports Frame
begin

text \<open>
  What must have been seen before what: the waits of \<open>Reconcile\<close> as gates. An event that lies behind a
  gate is logged only after the answer the gate waits for.
\<close>

section \<open>The answers and the actions\<close>

text \<open>The object of this kind and key was read and had the property.\<close>

fun observed :: "kind \<Rightarrow> ObjectKey \<Rightarrow> (kobj \<Rightarrow> bool) \<Rightarrow> event \<Rightarrow> bool" where
  "observed k key P (Got k' key' (Inr ob)) = (k' = k \<and> key' = key \<and> obj_kind ob = k \<and> P ob)"
| "observed k key P _ = False"

text \<open>The object of this kind and key was created, or was there already.\<close>

fun exists_after :: "kind \<Rightarrow> ObjectKey \<Rightarrow> event \<Rightarrow> bool" where
  "exists_after k key (Created ob e) = (obj_kind ob = k \<and> obj_key ob = key \<and> \<not> create_failed e)"
| "exists_after k key _ = False"

fun attempts :: "kind \<Rightarrow> ObjectKey \<Rightarrow> event \<Rightarrow> bool" where
  "attempts k key (Created ob e) = (obj_kind ob = k \<and> obj_key ob = key)"
| "attempts k key _ = False"

definition db_ready :: "Jira \<Rightarrow> (event \<Rightarrow> bool) list" where
  "db_ready jira =
     [observed Kind_RDSInstance (ClusterKey (name_uid jira)) (\<lambda>ob. db_status ob = ''available''),
      observed Kind_RDSInstance (ClusterKey (name_uid jira)) (\<lambda>ob. db_endpoint ob \<noteq> '''')]
     @ (if SnapshotID (Database (Spec jira)) \<noteq> ''''
        then [observed Kind_Job (reset_key jira) (\<lambda>ob. 1 \<le> sint (job_succeeded ob))] else [])"

definition storage_ready :: "Jira \<Rightarrow> (event \<Rightarrow> bool) list" where
  "storage_ready jira =
     exists_after Kind_PersistentVolumeClaim (NamespacedKey ''jira-shared-home'' (jira_Name jira))
     # (if ebs_SnapshotId (Ebs (spec_SharedFS (Spec jira))) \<noteq> '''' then
          [observed Kind_StatefulSet (NamespacedKey (nfs_server_name jira) (jira_Name jira))
             (\<lambda>ob. 1 \<le> sint (sts_ready ob))]
        else if fsx_SnapshotId (Fsx (spec_SharedFS (Spec jira))) \<noteq> '''' then
          [observed Kind_PersistentVolumeClaim
             (NamespacedKey ''jira-shared-home'' (jira_Name jira)) (\<lambda>ob. pvc_phase ob = ''Bound'')]
        else
          map (\<lambda>i. observed Kind_MountTarget (ClusterKey (mount_target_name jira (Itoa (int i))))
                 (\<lambda>ob. mt_state ob = Some ''available''))
            [0..<length (SubnetIDs (spec_Network (Spec jira)))])"

text \<open>Everything that has to be there before the application is deployed.\<close>

definition app_prerequisites :: "Jira \<Rightarrow> (event \<Rightarrow> bool) list" where
  "app_prerequisites jira = db_ready jira
     @ [observed Kind_Job (changeset_key jira) (\<lambda>ob. 1 \<le> sint (job_succeeded ob))]
     @ storage_ready jira"

section \<open>Rules\<close>

lemma precedes_pass:
  fixes m :: "('e, 'w, 'a) go"
  assumes "logs (\<lambda>ev. \<not> B ev) m Q" and "\<And>a. Q a \<Longrightarrow> every (f a) (\<lambda>r es. precedes A B es)"
  shows "every (bind m f) (\<lambda>r es. precedes A B es)"
proof (rule every_bindI, rule every_mono [OF assms(1) [unfolded logs_def]])
  fix r :: "'a outcome" and es :: "'e list"
  assume *: "(\<forall>ev \<in> set es. \<not> B ev) \<and> (\<forall>a. r = Next a \<longrightarrow> Q a)"
  show "case r of Next a \<Rightarrow> every (f a) (\<lambda>r' es'. precedes A B (es @ es'))
      | Return x e \<Rightarrow> precedes A B es | Panic p \<Rightarrow> precedes A B es"
  proof (cases r)
    case (Next a)
    with * have "every (f a) (\<lambda>r' es'. precedes A B (es @ es'))"
      by (intro every_mono [OF assms(2)]) (auto intro: precedes_skip)
    with Next show ?thesis by simp
  qed (use * in \<open>auto intro: precedes_none\<close>)
qed

lemma precedes_logs: "logs (\<lambda>ev. \<not> B ev) m Q \<Longrightarrow> every m (\<lambda>r es. precedes A B es)"
  unfolding logs_def by (erule every_mono) (auto intro: precedes_none)

lemma precedes_gate:
  fixes m :: "('e, 'w, 'a) go"
  assumes "logs (\<lambda>ev. \<not> B ev) m Q" and "gates A m"
  shows "every (bind m f) (\<lambda>r es. precedes A B es)"
  by (rule gate_bind [OF silent_logs [OF assms(1)] assms(2)])

text \<open>A step is a gate if a part of it is.\<close>

lemma gates_first: "gates A m \<Longrightarrow> gates A (bind m f)"
  unfolding gates_def
  by (rule every_bindI, erule every_mono) (auto simp: every_def split: outcome.split)

lemma gates_rest:
  fixes m :: "('e, 'w, 'a) go"
  assumes "logs E m Q" and "\<And>a. Q a \<Longrightarrow> gates A (f a)"
  shows "gates A (bind m f)"
  unfolding gates_def
proof (rule every_bindI, rule every_mono [OF assms(1) [unfolded logs_def]])
  fix r :: "'a outcome" and es :: "'e list"
  assume *: "(\<forall>ev \<in> set es. E ev) \<and> (\<forall>a. r = Next a \<longrightarrow> Q a)"
  show "case r of
      Next a \<Rightarrow> every (f a) (\<lambda>r' es'. (\<exists>a. r' = Next a) \<longrightarrow> (\<exists>e \<in> set (es @ es'). A e))
    | Return x e \<Rightarrow> (\<exists>a. Return x e = Next a) \<longrightarrow> (\<exists>e \<in> set es. A e)
    | Panic p \<Rightarrow> (\<exists>a. Panic p = Next a) \<longrightarrow> (\<exists>e \<in> set es. A e)"
  proof (cases r)
    case (Next a)
    with * have "every (f a) (\<lambda>r' es'. (\<exists>a. r' = Next a) \<longrightarrow> (\<exists>e \<in> set (es @ es'). A e))"
      by (intro every_mono [OF assms(2) [unfolded gates_def]]) auto
    with Next show ?thesis by simp
  qed auto
qed

lemma gates_mono: "gates A m \<Longrightarrow> (\<And>e. A e \<Longrightarrow> A' e) \<Longrightarrow> gates A' m"
  unfolding gates_def by (erule every_mono) auto

lemma gates_ensure: "gates (exists_after (obj_kind ob) (obj_key ob)) (ensure env ob res)"
  using every_bind_ensureI [where f = ret and ob = ob and env = env and res = res
      and P = "\<lambda>r es. (\<exists>a. r = Next a) \<longrightarrow> (\<exists>e \<in> set es. exists_after (obj_kind ob) (obj_key ob) e)"]
  by (auto simp: gates_def wp_simps)

lemma gates_replicas_ready:
  assumes "reads_count m knd key field"
  shows "gates (observed knd key (\<lambda>ob. 1 \<le> sint (field ob))) (replicas_ready m res res')"
  using every_bind_replicas_readyI [OF assms, where f = ret and res = res and res' = res'
      and P = "\<lambda>r es. (\<exists>a. r = Next a) \<longrightarrow>
        (\<exists>e \<in> set es. observed knd key (\<lambda>ob. 1 \<le> sint (field ob)) e)"]
  by (auto simp: gates_def wp_simps)

text \<open>A step that never carries on is a gate for anything.\<close>

lemma gates_never:
  "gates A (stop r e)" "gates A (panic p)" "c \<Longrightarrow> gates A (bind (stop_if c r e) f)"
  "gates A (bind (deref None) f')"
  by (simp_all add: gates_def stop_if_def deref_def wp_simps)

lemma logs_trivial: "logs (\<lambda>_. True) m (\<lambda>_. True)"
  by (simp add: logs_def every_def)

lemmas gates_later = gates_rest [OF logs_trivial]

text \<open>A checked read, where the rest never carries on unless the object read has the property.\<close>

context field_reader
begin

lemma gates_checked:
  assumes "\<And>ob. obj_kind ob = knd \<Longrightarrow> \<not> P ob \<Longrightarrow> gates (\<lambda>_. False) (f (field ob))"
  shows "gates (observed knd (key x) P) (bind (checked (read env x) res) f)"
  unfolding gates_def
proof (rule every_bind_checkedI)
  fix ob assume "obj_kind ob = knd"
  show "every (f (field ob)) (\<lambda>r es. (\<exists>a. r = Next a) \<longrightarrow>
      (\<exists>ev \<in> set (Got knd (key x) (Inr ob) # es). observed knd (key x) P ev))"
  proof (cases "P ob")
    case False
    with assms [OF \<open>obj_kind ob = knd\<close>] have "gates (\<lambda>_. False) (f (field ob))" by simp
    then show ?thesis unfolding gates_def by (rule every_mono) auto
  qed (use \<open>obj_kind ob = knd\<close> in \<open>simp add: every_def\<close>)
qed simp

end

section \<open>The stages as gates\<close>

lemma gates_rds_available:
  "gates (observed Kind_RDSInstance (ClusterKey (name_uid jira)) (\<lambda>ob. db_status ob = ''available''))
     (rds_wait env jira)"
  unfolding rds_wait_def Let_def
  by (rule rdsStatus.gates_checked, rule gates_later, rule gates_never) simp

lemma gates_rds_endpoint:
  "gates (observed Kind_RDSInstance (ClusterKey (name_uid jira)) (\<lambda>ob. db_endpoint ob \<noteq> ''''))
     (rds_wait env jira)"
  unfolding rds_wait_def Let_def
  by (rule gates_later, rule gates_later, rule gates_later, rule rdsEndpoint.gates_checked,
      rule gates_never) simp

lemma gates_reset:
  assumes "create_keeps_key env" and "db_namespace o' = jira_Name jira"
    and "SnapshotID (Database (Spec jira)) \<noteq> ''''"
  shows "gates (observed Kind_Job (reset_key jira) (\<lambda>ob. 1 \<le> sint (job_succeeded ob)))
    (reset_credentials env jira o')"
  unfolding reset_credentials_def if_P [OF assms(3)]
proof (rule gates_later, rule gates_rest [OF logs_ensure], rule TrueI, rule gates_first)
  fix m
  assume "create_keeps_key env \<longrightarrow> meta_key m = obj_key (Obj_Job
      (GetChangeRootPasswordJob jira (db_namespace o') (Name (db_instance o'))))"
  then have "meta_key m = reset_key jira"
    using assms by (simp add: built_keys reset_key_def)
  then show "gates (observed Kind_Job (reset_key jira) (\<lambda>ob. 1 \<le> sint (job_succeeded ob)))
      (replicas_ready (getJobSucceededReplicas env m) (after (5 * Second)) (after (5 * Second)))"
    using gates_replicas_ready [OF job_reads_count] by metis
qed

lemma gates_changeset:
  assumes "create_keeps_key env"
  shows "gates (observed Kind_Job (changeset_key jira) (\<lambda>ob. 1 \<le> sint (job_succeeded ob)))
    (liquibase_job env jira (jira_Name jira))"
  unfolding liquibase_job_def
proof (rule gates_rest [OF logs_ensure], rule TrueI)
  fix m
  assume "create_keeps_key env \<longrightarrow> meta_key m = obj_key (Obj_Job (GetLiquibaseJob jira (jira_Name jira)))"
  then have key: "changeset_key jira = meta_key m"
    using assms by (simp add: built_keys changeset_key_def)
  show "gates (observed Kind_Job (changeset_key jira) (\<lambda>ob. 1 \<le> sint (job_succeeded ob)))
      (bind (checked (getJobSucceededReplicas env m) (after (30 * Second))) (\<lambda>n.
       bind (stop_if (sint n < 1) (after (5 * Second)) None) (\<lambda>_.
       save_status env (set_RDS (\<lambda>s. s\<lparr>LiquibaseJobStatus := ''Succeeded''\<rparr>) jira)
         (after (5 * Second)))))"
    unfolding key by (rule jobSucceededReplicas.gates_checked, rule gates_never) simp
qed

lemma gates_attempt: "gates (attempts (obj_kind ob) (obj_key ob)) (ensure env ob res)"
  by (rule gates_mono [OF gates_ensure]) (auto elim: exists_after.elims)

lemma gates_changeset_job:
  "ns = jira_Name jira \<Longrightarrow> gates (attempts Kind_Job (changeset_key jira)) (liquibase_job env jira ns)"
  unfolding liquibase_job_def
  using gates_attempt [of "Obj_Job (GetLiquibaseJob jira ns)"]
  by (intro gates_first) (simp add: built_keys changeset_key_def)

lemma gates_shared_home_claim:
  "gates (exists_after Kind_PersistentVolumeClaim (NamespacedKey ''jira-shared-home'' ns))
     (shared_home env jira ns)"
proof -
  have claim: "gates (exists_after Kind_PersistentVolumeClaim (NamespacedKey ''jira-shared-home'' ns))
      (bind (built ob) (\<lambda>pvc. bind (ensure env (Obj_PersistentVolumeClaim pvc) res) (f pvc)))"
    if "\<And>pvc. ob = Some pvc \<Longrightarrow> obj_key (Obj_PersistentVolumeClaim pvc) = NamespacedKey ''jira-shared-home'' ns"
    for ob res f
  proof (rule gates_rest [OF logs_built], rule gates_first)
    fix pvc assume "ob = Some pvc"
    then have "obj_key (Obj_PersistentVolumeClaim pvc) = NamespacedKey ''jira-shared-home'' ns"
      by (rule that)
    then show "gates (exists_after Kind_PersistentVolumeClaim (NamespacedKey ''jira-shared-home'' ns))
        (ensure env (Obj_PersistentVolumeClaim pvc) res)"
      using gates_ensure [of "Obj_PersistentVolumeClaim pvc" env res] by simp
  qed
  have "gates (exists_after Kind_PersistentVolumeClaim (NamespacedKey ''jira-shared-home'' ns))
      (shared_ebs env jira ns)"
    unfolding shared_ebs_def nfs_share_def
    by (rule gates_later, rule gates_later, rule gates_later, rule gates_later, rule claim)
       (simp add: parsed_keys)
  moreover have "gates (exists_after Kind_PersistentVolumeClaim (NamespacedKey ''jira-shared-home'' ns))
      (shared_fsx env jira ns)"
    unfolding shared_fsx_def
    by (rule gates_later, rule gates_later, rule claim) (simp add: parsed_keys)
  moreover have "gates (exists_after Kind_PersistentVolumeClaim (NamespacedKey ''jira-shared-home'' ns))
      (shared_efs env jira ns)"
    unfolding shared_efs_def efs_share_def
    by (rule gates_later, rule gates_later, rule gates_later, rule gates_later, rule claim)
       (simp add: parsed_keys)
  ultimately show ?thesis by (simp add: shared_home_def)
qed

lemma gates_nfs_ready:
  assumes "create_keeps_key env"
  shows "gates (observed Kind_StatefulSet (NamespacedKey (nfs_server_name jira) ns)
      (\<lambda>ob. 1 \<le> sint (sts_ready ob))) (shared_ebs env jira ns)"
  unfolding shared_ebs_def nfs_server_def
proof (rule gates_later, rule gates_first, rule gates_later, rule gates_later, rule gates_later,
    rule gates_rest [OF logs_ensure], rule TrueI, rule gates_first)
  fix m
  assume "create_keeps_key env \<longrightarrow> meta_key m = obj_key (Obj_StatefulSet (GetNfsServerStatefulSet jira ns))"
  then have "meta_key m = NamespacedKey (nfs_server_name jira) ns"
    using assms by (simp add: built_keys nfs_server_name_def)
  then show "gates (observed Kind_StatefulSet (NamespacedKey (nfs_server_name jira) ns)
      (\<lambda>ob. 1 \<le> sint (sts_ready ob)))
      (replicas_ready (getStsReadyReplicas env m) (after Minute) (after (10 * Second)))"
    using gates_replicas_ready [OF sts_reads_count] by metis
qed

lemma gates_fsx_bound:
  assumes "create_keeps_key env"
  shows "gates (observed Kind_PersistentVolumeClaim (NamespacedKey ''jira-shared-home'' ns)
      (\<lambda>ob. pvc_phase ob = ''Bound'')) (shared_fsx env jira ns)"
  unfolding shared_fsx_def
proof (rule gates_later, rule gates_later, rule gates_rest [OF logs_built],
    rule gates_rest [OF logs_ensure], rule TrueI)
  fix pvc m
  assume "GetFsxPersistentVolumeClaimFromSnapshot (MustParse env) jira ''jira-shared-home'' ns ''1''
      = Some pvc"
    and "create_keeps_key env \<longrightarrow> meta_key m = obj_key (Obj_PersistentVolumeClaim pvc)"
  then have key: "NamespacedKey ''jira-shared-home'' ns = meta_key m"
    using assms by (simp add: parsed_keys)
  show "gates (observed Kind_PersistentVolumeClaim (NamespacedKey ''jira-shared-home'' ns)
      (\<lambda>ob. pvc_phase ob = ''Bound''))
     (bind (checked (getPvcStatus env m) (after (30 * Second))) (\<lambda>fsxPvcStatus.
      bind (stop_if (fsxPvcStatus \<noteq> ''Bound'') (after (30 * Second)) None) (\<lambda>_.
      bind (checked (getFsxVolumeName env m) (after (30 * Second))) (\<lambda>fsxVolumeName.
      if FsxId (status_SharedFs (Status jira)) \<noteq> fsxVolumeName
      then save_status env (set_SharedFs (\<lambda>s. s\<lparr>FsxId := fsxVolumeName\<rparr>) jira) (after Second)
      else ret jira))))"
    unfolding key by (rule pvcStatus.gates_checked, rule gates_never) simp
qed

lemma gates_mount_target:
  assumes "k < length subnets"
  shows "gates (observed Kind_MountTarget (ClusterKey (mount_target_name jira (Itoa (int (i + k)))))
      (\<lambda>ob. mt_state ob = Some ''available'')) (mount_targets env jira fs (int i) subnets)"
  using assms
proof (induction subnets arbitrary: i k)
  case (Cons subnet subnets)
  show ?case
  proof (cases k)
    case 0
    have wait: "gates (\<lambda>_. False) (bind (deref p) (\<lambda>s.
        bind (stop_if (s \<noteq> ''available'') (after (10 * Second)) None) f))"
      if "p \<noteq> Some ''available''" for p :: "string option" and f :: "unit \<Rightarrow> ('a, unit) op"
      using that by (cases p) (auto intro: gates_never simp: deref_def)
    show ?thesis
      unfolding mount_targets.simps mount_target_name_def [symmetric] 0 add_0_right
      by (rule gates_later, rule mountTargetStatus.gates_checked, rule wait)
  next
    case (Suc k')
    have "gates (observed Kind_MountTarget (ClusterKey (mount_target_name jira (Itoa (int (Suc i + k')))))
        (\<lambda>ob. mt_state ob = Some ''available'')) (mount_targets env jira fs (int (Suc i)) subnets)"
      by (rule Cons.IH) (use Cons.prems Suc in simp)
    then have *: "gates (observed Kind_MountTarget (ClusterKey (mount_target_name jira (Itoa (int (i + k)))))
        (\<lambda>ob. mt_state ob = Some ''available'')) (mount_targets env jira fs (int i + 1) subnets)"
      by (simp add: Suc add.commute)
    show ?thesis
      unfolding mount_targets.simps
      by (rule gates_later, rule gates_later, rule gates_later, rule gates_later, rule *)
  qed
qed simp

lemma gates_storage:
  assumes "create_keeps_key env" and "A \<in> set (storage_ready jira)"
  shows "gates A (shared_home env jira (jira_Name jira))"
proof -
  have efs: "gates (observed Kind_MountTarget (ClusterKey (mount_target_name jira (Itoa (int i))))
      (\<lambda>ob. mt_state ob = Some ''available'')) (shared_efs env jira (jira_Name jira))"
    if "i < length (SubnetIDs (spec_Network (Spec jira)))" for i
    unfolding shared_efs_def
    by (rule gates_later, rule gates_first) (use gates_mount_target [OF that, of jira 0] in simp)
  show ?thesis
    using assms(2) gates_shared_home_claim gates_nfs_ready [OF assms(1)] gates_fsx_bound [OF assms(1)] efs
    by (fastforce simp: storage_ready_def shared_home_def split: if_splits)
qed

end
