(* ===== verification/Ordering.thy ===== *)
theory Ordering
  imports Gating
begin

text \<open>
  The gates put together: what precedes the creation of the Liquibase job, and what precedes every
  command \<open>Reconcile\<close> runs.
\<close>

section \<open>The order of the whole\<close>

lemma gates_database:
  assumes ke: "create_keeps_key env" and st: "status_update_keeps_request env"
    and A: "A \<in> set (db_ready jira)
      \<union> {observed Kind_Job (changeset_key jira) (\<lambda>ob. 1 \<le> sint (job_succeeded ob)),
         attempts Kind_Job (changeset_key jira)}"
  shows "gates A (reconcile_database env jira)"
proof -
  consider (wait) "gates A (rds_wait env jira)"
    | (reset) "SnapshotID (Database (Spec jira)) \<noteq> ''''"
      "A = observed Kind_Job (reset_key jira) (\<lambda>ob. 1 \<le> sint (job_succeeded ob))"
    | (changeset) "A \<in> {observed Kind_Job (changeset_key jira) (\<lambda>ob. 1 \<le> sint (job_succeeded ob)),
         attempts Kind_Job (changeset_key jira)}"
    using A gates_rds_available [of jira env] gates_rds_endpoint [of jira env]
    by (auto simp: db_ready_def split: if_splits)
  then show ?thesis
  proof cases
    case wait
    then show ?thesis
      unfolding reconcile_database_def by (intro gates_later gates_first)
  next
    case reset
    show ?thesis
      unfolding reconcile_database_def
    proof (rule gates_rest [OF within_infra [OF ke]], rule gates_rest [OF within_rds_wait [OF st]], clarify)
      fix o' j host
      assume o': "db_objects_ok jira o'" and j: "same_request jira j"
      show "gates A (bind (sync_endpoint env j o' host) (\<lambda>j. bind (reset_credentials env j o') (\<lambda>j.
          bind (liquibase_changelog env j (db_namespace o')) (\<lambda>_.
          bind (liquibase_job env j (db_namespace o')) (\<lambda>j. ret (j, db_namespace o'))))))"
      proof (rule gates_rest [OF within_transfer(1) [OF j within_sync_endpoint [OF st
              db_objects_ok_same_request [OF j o']]]], rule gates_first)
        fix j assume j: "same_request jira j"
        have "reset_key j = reset_key jira"
          by (simp add: reset_key_def same_request_Name [OF j])
        then show "gates A (reset_credentials env j o')"
          using gates_reset [OF ke, of o' j] db_objects_ok_same_request [OF j o'] reset
          by (simp add: db_objects_ok_def same_request_Spec [OF j])
      qed
    qed
  next
    case changeset
    show ?thesis
      unfolding reconcile_database_def
    proof (rule gates_rest [OF within_infra [OF ke]], rule gates_rest [OF within_rds_wait [OF st]], clarify)
      fix o' j host
      assume o': "db_objects_ok jira o'" and j: "same_request jira j"
      show "gates A (bind (sync_endpoint env j o' host) (\<lambda>j. bind (reset_credentials env j o') (\<lambda>j.
          bind (liquibase_changelog env j (db_namespace o')) (\<lambda>_.
          bind (liquibase_job env j (db_namespace o')) (\<lambda>j. ret (j, db_namespace o'))))))"
      proof (rule gates_rest [OF within_transfer(1) [OF j within_sync_endpoint [OF st
              db_objects_ok_same_request [OF j o']]]])
        fix j assume j: "same_request jira j"
        show "gates A (bind (reset_credentials env j o') (\<lambda>j.
          bind (liquibase_changelog env j (db_namespace o')) (\<lambda>_.
          bind (liquibase_job env j (db_namespace o')) (\<lambda>j. ret (j, db_namespace o')))))"
        proof (rule gates_rest [OF within_transfer(1) [OF j within_reset_credentials [OF ke st
                db_objects_ok_same_request [OF j o']]]], rule gates_later, rule gates_first)
          fix j assume j: "same_request jira j"
          have "db_namespace o' = jira_Name j" "changeset_key j = changeset_key jira"
            using o' by (simp_all add: db_objects_ok_def changeset_key_def same_request_Name [OF j])
          then show "gates A (liquibase_job env j (db_namespace o'))"
            using gates_changeset [OF ke, of j] gates_changeset_job [where jira = j and env = env] changeset
            by auto
        qed
      qed
    qed
  qed
qed

lemma storage_ready_same_request: "same_request a b \<Longrightarrow> storage_ready b = storage_ready a"
  by (simp add: storage_ready_def nfs_server_name_def mount_target_name_def same_request_Name [of a b]
      same_request_UID [of a b] same_request_Spec [of a b])

lemma prerequisites_before_runs:
  assumes ke: "create_keeps_key env" and st: "status_update_keeps_request env"
    and A: "A \<in> set (app_prerequisites jira)"
  shows "every (reconcile_jira env jira) (\<lambda>r es. precedes A runs es)"
proof -
  have db: "logs (\<lambda>ev. \<not> runs ev) (reconcile_database env jira)
      (\<lambda>(j, ns). same_request jira j \<and> ns = jira_Name jira)"
    by (rule logs_mono [OF within_reconcile_database [OF ke st]]) (auto simp: within_cluster_def)
  consider "gates A (reconcile_database env jira)" | "A \<in> set (storage_ready jira)"
    using A gates_database [OF ke st] by (auto simp: app_prerequisites_def)
  then show ?thesis
  proof cases
    case 1
    then show ?thesis
      unfolding reconcile_jira_def by (rule precedes_gate [OF db])
  next
    case 2
    show ?thesis
      unfolding reconcile_jira_def
    proof (rule precedes_pass [OF db], clarify)
      fix j assume j: "same_request jira j"
      have "gates A (shared_home env j (jira_Name j))"
        using 2 gates_storage [OF ke] storage_ready_same_request [OF j] by simp
      moreover have "logs (\<lambda>ev. \<not> runs ev) (shared_home env j (jira_Name j)) (\<lambda>_. True)"
        by (rule logs_mono [OF within_shared_home [OF ke st]]) (auto simp: within_cluster_def)
      ultimately show "every (bind (shared_home env j (jira_Name jira)) (reconcile_app env))
          (\<lambda>r es. precedes A runs es)"
        unfolding same_request_Name [OF j, symmetric] by (intro precedes_gate)
    qed
  qed
qed

text \<open>The same for the change set: nothing before it attempts to create its job.\<close>

lemma infra_before_changeset:
  "logs (\<lambda>ev. \<not> attempts Kind_Job key ev) (reconcile_infra env jira) (\<lambda>_. True)"
  unfolding reconcile_infra_def
  by (intro logs_binds logs_bind [OF logs_GetRdsSecret] logs_ret) simp_all

lemma rds_wait_before_changeset:
  "logs (\<lambda>ev. \<not> attempts Kind_Job key ev) (rds_wait env jira) (\<lambda>_. True)"
  unfolding rds_wait_def Let_def
  apply (rule logs_bind [OF rdsStatus.logs_checked_read], simp)
  apply (rule logs_bind [where Q = "\<lambda>_. True"])
   apply (intro logs_if logs_ret logs_lasts(3) | simp)+
  apply (intro logs_binds logs_bind [OF rdsEndpoint.logs_checked_read] logs_ret)
  apply simp_all
  done

lemma sync_before_changeset:
  "logs (\<lambda>ev. \<not> attempts Kind_Job key ev) (sync_endpoint env jira o' host) (\<lambda>_. True)"
proof -
  have "logs (\<lambda>ev. \<not> attempts Kind_Job key ev) (update_secret env jira o' host) (\<lambda>_. True)"
    unfolding update_secret_def
    apply (rule logs_bind [OF secretData.logs_read], simp)
    apply (clarsimp split: prod.split)
    apply (intro logs_if conjI impI logs_ret logs_bind [OF logs_GetRdsSecret] logs_lasts(2))
       apply simp_all
    done
  then show ?thesis
    unfolding sync_endpoint_def
    by (rule logs_bind) (intro logs_if logs_ret logs_lasts(3), simp_all)
qed

lemma reset_before_changeset:
  assumes "db_objects_ok jira o'"
  shows "logs (\<lambda>ev. \<not> attempts Kind_Job (changeset_key jira) ev) (reset_credentials env jira o') (\<lambda>_. True)"
  unfolding reset_credentials_def
  apply (intro logs_if logs_binds logs_lasts(3) logs_ret)
  apply (use assms in \<open>simp_all add: built_keys db_objects_ok_def changeset_key_def\<close>)
  done

lemma prerequisites_before_changeset:
  assumes ke: "create_keeps_key env" and st: "status_update_keeps_request env"
    and A: "A \<in> set (db_ready jira)"
  shows "every (reconcile_jira env jira) (\<lambda>r es. precedes A (attempts Kind_Job (changeset_key jira)) es)"
proof -
  consider (wait) "gates A (rds_wait env jira)"
    | (reset) "SnapshotID (Database (Spec jira)) \<noteq> ''''"
      "A = observed Kind_Job (reset_key jira) (\<lambda>ob. 1 \<le> sint (job_succeeded ob))"
    using A gates_rds_available [of jira env] gates_rds_endpoint [of jira env]
    by (auto simp: db_ready_def split: if_splits)
  then show ?thesis
  proof cases
    case wait
    show ?thesis
      unfolding reconcile_jira_def reconcile_database_def bind_assoc
      by (rule precedes_pass [OF infra_before_changeset],
          rule precedes_gate [OF rds_wait_before_changeset wait])
  next
    case reset
    note infra = logs_value [OF infra_before_changeset within_infra [OF ke]]
      and wait = logs_value [OF rds_wait_before_changeset within_rds_wait [OF st]]
    have sync: "logs (\<lambda>ev. \<not> attempts Kind_Job (changeset_key jira) ev) (sync_endpoint env j o' host)
        (\<lambda>k. same_request jira k)" if "same_request jira j" "db_objects_ok jira o'" for j o' host
      by (rule logs_value [OF sync_before_changeset within_transfer(1) [OF that(1)
            within_sync_endpoint [OF st db_objects_ok_same_request [OF that]]]])
    have gate: "every (bind (reset_credentials env j o') f)
        (\<lambda>r es. precedes A (attempts Kind_Job (changeset_key jira)) es)"
      if "same_request jira j" "db_objects_ok jira o'" for j o' and f :: "Jira \<Rightarrow> ('a, unit) op"
    proof (rule precedes_gate)
      show "logs (\<lambda>ev. \<not> attempts Kind_Job (changeset_key jira) ev) (reset_credentials env j o') (\<lambda>_. True)"
        using reset_before_changeset [OF db_objects_ok_same_request [OF that]]
        by (simp add: changeset_key_def same_request_Name [OF that(1)])
      show "gates A (reset_credentials env j o')"
        using gates_reset [OF ke, of o' j] db_objects_ok_same_request [OF that] reset
        by (simp add: db_objects_ok_def same_request_Spec [OF that(1)] reset_key_def
            same_request_Name [OF that(1)])
    qed
    show ?thesis
      unfolding reconcile_jira_def reconcile_database_def bind_assoc
      apply (rule precedes_pass [OF infra], rule precedes_pass [OF wait])
      subgoal for o' x
        unfolding case_prod_beta bind_assoc
        by (rule precedes_pass [OF sync], assumption+, rule gate, assumption+)
      done
  qed
qed

end
