(* ===== verification/Sample.thy ===== *)
theory Sample
  imports Crashes Ordering
begin

text \<open>
  The sample resource of the repository (\<open>config/samples/app_v1_jira.yaml\<close>) and an environment that
  answers every call well: a cluster in which everything is ready. The properties are applied to them.
\<close>

section \<open>The sample resource\<close>

definition sample_spec :: JiraSpec where
  "sample_spec =
     \<lparr>AWSRegion = ''ap-southeast-2'', RetainOnDelete = True,
      Database = \<lparr>DBInstanceClass = ''db.t3.small'', AllocatedStorage = 20, Engine = ''postgres'',
        EngineVersion = ''12.14'',
        SnapshotID = ''dr-k8testj-usw220220720041422013600000001-snap-202308300052''\<rparr>,
      Hostname = ''test-clone-apse2.itplatdev.atlassian.com'',
      CrossplaneAwsProviderName = '''',
      ArgoCD =
        \<lparr>argo_HelmValues =
           \<lparr>GitRepo = ''https://bitbucket.org/atlassian/argo-values.git'', GitRevision = ''dev'',
            HelmValuesFiles =
              [''$values/values/products/jira/stacks/k8spartez-usw2/values.yaml'',
               ''$values/values/products/jira/stacks/k8spartez-usw2/logging-values.yaml'',
               ''$values/values/products/jira/stacks/k8spartez-usw2/version.yaml'',
               ''$values/values/products/jira/stacks/k8spartez-usw2/additional-envs.yaml''],
            ValueOverrides = unlines
              [''volumes:'',
               ''  sharedHome:'',
               ''    nfsPermissionFixer:'',
               ''      enabled: false'',
               '''']\<rparr>,
         argo_HelmChart =
           \<lparr>Version = ''1.15.3'', RepoURL = ''https://atlassian.github.io/data-center-helm-charts''\<rparr>,
         argo_Namespace = ''argocd'', Project = ''default'',
         argo_SyncPolicy = \<lparr>AutoSync = True, ApplyOutOfSyncOnly = True\<rparr>,
         argo_RetainOnDelete = False\<rparr>,
      spec_SharedFS =
        \<lparr>VolumeSize = 2,
         Ebs = \<lparr>EbsStorageClassName = '''', EbsFsType = '''', ebs_SnapshotId = '''',
           AvailabilityZone = ''''\<rparr>,
         Efs = \<lparr>EfsStorageClassName = '''', EfsCsiDriverName = ''''\<rparr>,
         Fsx = \<lparr>fsx_SnapshotId = ''fsvolsnap-0a3c8d01569db5c9a'', FsxRestoreStorageClassName = '''',
           FsxVolumeSnapshotClassName = '''', FsxCsiDriverName = ''''\<rparr>\<rparr>,
      spec_Network =
        \<lparr>SubnetIDs = [''subnet-0a40d9ed72c1504be'', ''subnet-021a6490249d5fd60'', ''subnet-0db32574128feec29''],
         SecurityGroupIds = [''sg-01e10efcbee989dc5'']\<rparr>,
      KMSKeyId = ''069a2a74-a9c7-46f2-a395-87c11c86a5e1'',
      RdsRoleArn = ''arn:aws:iam::629205377521:role/reset-rds-password''\<rparr>"

text \<open>
  The specification as the API server stores it: the defaults of the custom resource definition
  (\<open>config/crd/bases/app.atlassian.com_jiras.yaml\<close>) are filled in where the enclosing object is given,
  that is for \<open>fsx\<close> and the specification itself, not for \<open>ebs\<close> and \<open>efs\<close>, which the sample leaves out.
\<close>

definition stored_spec :: JiraSpec where
  "stored_spec = sample_spec
     \<lparr>CrossplaneAwsProviderName := ''aws-provider'',
      spec_SharedFS := (spec_SharedFS sample_spec)
        \<lparr>Fsx := (Fsx (spec_SharedFS sample_spec))
           \<lparr>FsxRestoreStorageClassName := ''fsx-sc-restore'',
            FsxVolumeSnapshotClassName := ''fsx-snapshot-class'',
            FsxCsiDriverName := ''fsx.openzfs.csi.aws.com''\<rparr>\<rparr>\<rparr>"

definition sample_jira :: Jira where
  "sample_jira =
     \<lparr>jira_TypeMeta = \<lparr>APIVersion = ''app.atlassian.com/v1'', Kind = ''Jira''\<rparr>,
      jira_ObjectMeta = zero_ObjectMeta
        \<lparr>Name := ''jira-clone'', UID := ''0da55702-0b74-4fd0-b55e-a36e794a87e2'',
         Labels := fmap_of_list [(''app.kubernetes.io/name'', ''jira''),
           (''app.kubernetes.io/instance'', ''jira-sample'')]\<rparr>,
      Spec = stored_spec,
      Status =
        \<lparr>RDS = \<lparr>rds_Status = '''', rds_Endpoint = '''', LiquibaseJobStatus = '''',
           ResetRdsCredsJobStatus = ''''\<rparr>,
         status_AppStatus = \<lparr>Health = '''', Sync = ''''\<rparr>,
         status_SharedFs = \<lparr>EfsId = '''', EbsId = '''', FsxId = ''''\<rparr>\<rparr>\<rparr>"

lemmas sample_defs = sample_jira_def stored_spec_def sample_spec_def

definition sample_key :: ObjectKey where
  "sample_key = ClusterKey ''jira-clone''"

text \<open>The rendered file the repository has for it (\<open>argocd/applicationset-jira-clone.yaml\<close>).\<close>

definition sample_lines :: "string list" where
  "sample_lines =
     [''apiVersion: argoproj.io/v1alpha1'',
      ''kind: ApplicationSet'',
      ''metadata:'',
      ''  name: jira-clone'',
      ''  namespace: argocd'',
      ''  ownerReferences:'',
      ''  - apiVersion: app.atlassian.com/v1'',
      ''    blockOwnerDeletion: true'',
      ''    controller: true'',
      ''    kind: Jira'',
      ''    name: jira-clone'',
      ''    uid: 0da55702-0b74-4fd0-b55e-a36e794a87e2'',
      ''spec:'',
      ''  generators:'',
      ''  - list:'',
      ''      elements:'',
      ''      - namespace: jira-clone'',
      ''  template:'',
      ''    metadata:'',
      ''      name: '' @ [CHR 0x27] @ ''{{ namespace }}'' @ [CHR 0x27],
      ''    spec:'',
      ''      project: default'',
      ''      syncPolicy:'',
      ''        syncOptions:'',
      ''        - ApplyOutOfSyncOnly=true'',
      ''        automated: {}'',
      ''      sources:'',
      ''        - chart: jira'',
      ''          repoURL: https://atlassian.github.io/data-center-helm-charts'',
      ''          targetRevision: 1.15.3'',
      ''          helm:'',
      ''            releaseName: '' @ [CHR 0x27] @ ''{{ namespace }}'' @ [CHR 0x27],
      ''            values: |'',
      ''                volumes:'',
      ''                  sharedHome:'',
      ''                    nfsPermissionFixer:'',
      ''                      enabled: false'',
      ''                ingress:'',
      ''                    host: test-clone-apse2.itplatdev.atlassian.com'',
      ''                    annotations:'',
      ''                        '' @ [CHR 0x27] @ ''alb.ingress.kubernetes.io/certificate-arn'' @ [CHR 0x27] @ '': '' @ [CHR 0x27] @ ''arn:aws:acm:ap-southeast-2:629205377521:certificate/7d398889-d2ed-42e4-94e7-16fded6498f1'' @ [CHR 0x27],
      ''                        '' @ [CHR 0x27] @ ''alb.ingress.kubernetes.io/healthcheck-path'' @ [CHR 0x27] @ '': '' @ [CHR 0x27] @ ''/status'' @ [CHR 0x27],
      ''                        '' @ [CHR 0x27] @ ''alb.ingress.kubernetes.io/listen-ports'' @ [CHR 0x27] @ '': '' @ [CHR 0x27] @ ''[{'' @ [CHR 0x22] @ ''HTTP'' @ [CHR 0x22] @ '': 80}, {'' @ [CHR 0x22] @ ''HTTPS'' @ [CHR 0x22] @ '': 443}]'' @ [CHR 0x27],
      ''                        '' @ [CHR 0x27] @ ''alb.ingress.kubernetes.io/scheme'' @ [CHR 0x27] @ '': '' @ [CHR 0x27] @ ''internal'' @ [CHR 0x27],
      ''                        '' @ [CHR 0x27] @ ''alb.ingress.kubernetes.io/ssl-policy'' @ [CHR 0x27] @ '': '' @ [CHR 0x27] @ ''ELBSecurityPolicy-FS-1-2-Res-2020-10'' @ [CHR 0x27],
      ''                        '' @ [CHR 0x27] @ ''alb.ingress.kubernetes.io/subnets'' @ [CHR 0x27] @ '': '' @ [CHR 0x27] @ ''subnet-0a40d9ed72c1504be,subnet-021a6490249d5fd60,subnet-0db32574128feec29'' @ [CHR 0x27],
      ''                        '' @ [CHR 0x27] @ ''alb.ingress.kubernetes.io/tags'' @ [CHR 0x27] @ '': '' @ [CHR 0x27] @ ''service_name=jira-clone,Name=jira-clone,business_unit=WorkplaceTechnology,resource_owner=mgibson'' @ [CHR 0x27],
      ''                        '' @ [CHR 0x27] @ ''alb.ingress.kubernetes.io/target-group-attributes'' @ [CHR 0x27] @ '': '' @ [CHR 0x27] @ ''stickiness.enabled=true,stickiness.lb_cookie.duration_seconds=43200'' @ [CHR 0x27],
      ''                        '' @ [CHR 0x27] @ ''alb.ingress.kubernetes.io/target-type'' @ [CHR 0x27] @ '': '' @ [CHR 0x27] @ ''ip'' @ [CHR 0x27],
      ''                        '' @ [CHR 0x27] @ ''external-dns.alpha.kubernetes.io/hostname'' @ [CHR 0x27] @ '': '' @ [CHR 0x27] @ ''test-clone-apse2.itplatdev.atlassian.com'' @ [CHR 0x27],
      ''            valueFiles:'',
      ''                - $values/values/products/jira/stacks/k8spartez-usw2/values.yaml'',
      ''                - $values/values/products/jira/stacks/k8spartez-usw2/logging-values.yaml'',
      ''                - $values/values/products/jira/stacks/k8spartez-usw2/version.yaml'',
      ''                - $values/values/products/jira/stacks/k8spartez-usw2/additional-envs.yaml'',
      ''        - repoURL: https://bitbucket.org/atlassian/argo-values.git'',
      ''          targetRevision: dev'',
      ''          ref: values'',
      ''      destination:'',
      ''        server: '' @ [CHR 0x22] @ ''https://kubernetes.default.svc'' @ [CHR 0x22],
      ''        namespace: '' @ [CHR 0x27] @ ''{{ namespace }}'' @ [CHR 0x27]]"

definition sample_yaml :: string where
  "sample_yaml = unlines sample_lines"

section \<open>An environment in which everything is ready\<close>

definition sample_env :: "unit env" where
  "sample_env =
     \<lparr>MustParse = Some,
      time_Now_UnixNano = (\<lambda>w. (0, w)),
      rand_Seed = (\<lambda>s w. w),
      rand_Intn = (\<lambda>n w. (0, w)),
      api_Create = (\<lambda>ob w. ((None, obj_meta ob), w)),
      api_Update = (\<lambda>ob w. (None, w)),
      api_StatusUpdate = (\<lambda>jira w. ((None, jira), w)),
      get_Jira = (\<lambda>key w. (Inr sample_jira, w)),
      get_RDSInstance = (\<lambda>key w. (Inr ((GetRdsInstance sample_jira (GetDbSubnetGroup sample_jira)
          (GetDbParameterGroup sample_jira) ''jira-clone'')
        \<lparr>rds_AtProvider := \<lparr>DBInstanceStatus = ''available'', Endpoint_Address = ''db.example.com''\<rparr>\<rparr>), w)),
      get_EbsVolume = (\<lambda>key w.
        (Inr ((GetEbsVolume sample_jira)\<lparr>ebs_AtProvider_VolumeID := Some ''vol-1''\<rparr>), w)),
      get_FileSystem = (\<lambda>key w.
        (Inr ((GetFileSystem sample_jira ''jira-clone'')\<lparr>fs_AtProvider_FileSystemID := Some ''fs-1''\<rparr>), w)),
      get_MountTarget = (\<lambda>key w.
        (Inr ((GetMountTargets sample_jira ''fs-1'' ''subnet-1'' ''0'')
          \<lparr>mt_AtProvider_LifeCycleState := Some ''available''\<rparr>), w)),
      get_Pod = (\<lambda>key w. (Inl \<lparr>err_text = ''not found'', IsAlreadyExists = False\<rparr>, w)),
      get_Job = (\<lambda>key w.
        (Inr ((GetLiquibaseJob sample_jira ''jira-clone'')\<lparr>job_Status := \<lparr>Succeeded = 1\<rparr>\<rparr>), w)),
      get_Service = (\<lambda>key w.
        (Inr (let s = GetNfSServerService sample_jira ''jira-clone'' in
          s\<lparr>svc_Spec := (svc_Spec s)\<lparr>ClusterIP := ''10.0.0.1''\<rparr>\<rparr>), w)),
      get_StatefulSet = (\<lambda>key w.
        (Inr ((GetNfsServerStatefulSet sample_jira ''jira-clone'')
          \<lparr>sts_Status := \<lparr>ReadyReplicas = 1\<rparr>\<rparr>), w)),
      get_PersistentVolume = (\<lambda>key w.
        (Inr (zero_PersistentVolume\<lparr>pv_Spec := (pv_Spec zero_PersistentVolume)
          \<lparr>pv_Source := zero_PersistentVolumeSource
            \<lparr>CSI := Some \<lparr>csi_Driver = '''', VolumeHandle = ''fsvol-1'', ReadOnly = False\<rparr>\<rparr>\<rparr>\<rparr>), w)),
      get_PersistentVolumeClaim = (\<lambda>key w.
        (Inr ((the (GetFsxPersistentVolumeClaimFromSnapshot Some sample_jira ''jira-shared-home''
            ''jira-clone'' ''1''))\<lparr>pvc_Status := \<lparr>Phase = ''Bound''\<rparr>\<rparr>), w)),
      get_Secret = (\<lambda>key w. (Inr \<lparr>secret_ObjectMeta = zero_ObjectMeta, secret_Data = fmempty\<rparr>, w)),
      get_ConfigMap = (\<lambda>key w. (Inr (liquibase_ConfigMap sample_jira ''jira-clone'' ''''), w)),
      os_ReadFile = (\<lambda>p w. (Inr applicationset_tpl, w)),
      os_Create = (\<lambda>p w. (None, w)),
      file_Write = (\<lambda>p s w. (None, w)),
      exec_CombinedOutput = (\<lambda>c args w. ((''Synced'', None), w))\<rparr>"

lemma sample_env_hypotheses:
  "create_keeps_key sample_env" "status_update_keeps_request sample_env" "Intn_in_range sample_env"
  "parses_GiB sample_env"
  by (simp_all add: sample_env_def create_keeps_key_def status_update_keeps_request_def
      Intn_in_range_def parses_GiB_def obj_key_def)

section \<open>Every call of a run in it is answered well\<close>

lemma logs_seq: "logs E m (\<lambda>_. True) \<Longrightarrow> (\<And>a. logs E (f a) (\<lambda>_. True)) \<Longrightarrow> logs E (bind m f) (\<lambda>_. True)"
  by (rule logs_bind)

lemma logs_pair: "(\<And>a b. logs E (f a b) Q) \<Longrightarrow> logs E (case x of (a, b) \<Rightarrow> f a b) Q"
  by (cases x) simp

lemmas run_simps = logs_def every_def bind_def act_def ret_def stop_def stop_if_def panic_def

lemma sample_writes:
  "logs good_answer (ensure sample_env ob res) (\<lambda>_. True)"
  "logs good_answer (update_object sample_env ob res) (\<lambda>_. True)"
  "logs good_answer (save_status sample_env j res) (\<lambda>_. True)"
  "logs good_answer (r_Create sample_env ob) (\<lambda>_. True)"
  by (simp_all add: run_simps ensure_def update_object_def save_status_def r_Create_def r_Update_def
      r_Status_Update_def sample_env_def)

lemma sample_commands:
  "logs good_answer (RunKubectl sample_env args) (\<lambda>_. True)"
  "logs good_answer (GetLiquibaseConfigMap sample_env j ns) (\<lambda>_. True)"
  by (simp_all add: run_simps RunKubectl_def CombinedOutput_def Let_def sample_env_def
      GetLiquibaseConfigMap_def ReadFile_def liquibaseFilePath_def)

lemma sample_render:
  "logs good_answer (ProcessApplicationSetTemplate sample_env j) (\<lambda>_. True)"
  by (simp add: run_simps ProcessApplicationSetTemplate_def ReadFile_def CreateFile_def WriteFile_def
      sample_env_def parse_applicationset_tpl render_applicationset)

lemma sample_reads:
  "logs good_answer (getRdsStatus sample_env key) (\<lambda>_. True)"
  "logs good_answer (getRdsEndpoint sample_env key) (\<lambda>_. True)"
  "logs good_answer (getSecretData sample_env m) (\<lambda>_. True)"
  "logs good_answer (getConfigMapData sample_env m) (\<lambda>_. True)"
  "logs good_answer (getJobSucceededReplicas sample_env m) (\<lambda>_. True)"
  "logs good_answer (getPvcStatus sample_env m) (\<lambda>_. True)"
  "logs good_answer (getEbsVolumeId sample_env key) (\<lambda>_. True)"
  "logs good_answer (getSvcClusterIp sample_env m) (\<lambda>_. True)"
  "logs good_answer (getStsReadyReplicas sample_env m) (\<lambda>_. True)"
  "logs good_answer (getFilesystemId sample_env key) (\<lambda>_. True)"
  "logs good_answer (getMountTargetStatus sample_env key) (\<lambda>_. True)"
  "logs good_answer (getFsxVolumeName sample_env m) (\<lambda>_. True)"
  "logs good_answer (r_Get Kind_Jira Obj_Jira (get_Jira sample_env) key) (\<lambda>_. True)"
  by (simp_all add: run_simps reader_defs read_field_def r_Get_def sample_env_def Let_def
      getFsxVolumeName_def getPvHandle_def volume_handle_def)

lemma sample_secret: "logs good_answer (GetRdsSecret sample_env j host ns) (\<lambda>_. True)"
  by (rule logs_weaken [OF logs_GetRdsSecret]) simp

lemma sample_simple:
  "logs good_answer (built ob) (\<lambda>_. True)" "logs good_answer (deref p) (\<lambda>_. True)"
  "logs good_answer (stop_if c r e) (\<lambda>_. True)" "logs good_answer (ret a) (\<lambda>_. True)"
  by (auto intro: logs_weaken [OF logs_built] logs_weaken [OF logs_deref] logs_weaken [OF logs_stop_if]
      logs_ret)

lemma sample_checked: "logs E m (\<lambda>_. True) \<Longrightarrow> logs E (checked m res) (\<lambda>_. True)"
  by (rule logs_checked, erule logs_weaken) simp

lemma sample_replicas: "logs good_answer m (\<lambda>_. True) \<Longrightarrow> logs good_answer (replicas_ready m res res') (\<lambda>_. True)"
  unfolding replicas_ready_def by (intro logs_seq logs_pair sample_simple)

lemmas sample_intros = logs_if logs_seq logs_pair sample_checked sample_replicas sample_writes
  sample_commands sample_render sample_reads sample_secret sample_simple logs_stop

lemma sample_mount_targets: "logs good_answer (mount_targets sample_env j fs i subnets) (\<lambda>_. True)"
proof (induction subnets arbitrary: i)
  case (Cons subnet subnets)
  then show ?case
    unfolding mount_targets.simps by (intro sample_intros)
qed (simp add: sample_simple)

lemma sample_create_changelog: "logs good_answer (create_changelog sample_env cm) (\<lambda>_. True)"
proof -
  have "logs good_answer (refresh_changelog sample_env cm) (\<lambda>_. True)" for cm
    unfolding refresh_changelog_def by (intro sample_intros)
  then show ?thesis
    unfolding create_changelog_def
    by (intro logs_seq logs_pair sample_intros) (simp add: sample_intros split: option.split)
qed

lemma sample_answers: "logs good_answer (reconcile_jira sample_env j) (\<lambda>_. True)"
  unfolding reconcile_jira_def reconcile_database_def reconcile_infra_def rds_wait_def Let_def
    sync_endpoint_def update_secret_def reset_credentials_def liquibase_changelog_def
    liquibase_job_def shared_home_def shared_ebs_def nfs_backing_def nfs_server_def nfs_share_def
    shared_fsx_def shared_efs_def efs_file_system_def efs_share_def reconcile_app_def
    apply_applicationset_def sync_status_def health_status_def
  by (intro sample_intros sample_create_changelog sample_mount_targets)

lemma sample_Reconcile: "logs good_answer (Reconcile sample_env key) (\<lambda>_. True)"
  unfolding Reconcile_def
  by (intro logs_seq sample_intros) (simp add: sample_answers split: sum.split)

section \<open>What a run in it reaches\<close>

definition reaches :: "(event \<Rightarrow> bool) \<Rightarrow> ('w, 'a) op \<Rightarrow> bool" where
  "reaches A m \<longleftrightarrow> every m (\<lambda>r es. (\<forall>ev \<in> set es. good_answer ev) \<longrightarrow> (\<exists>ev \<in> set es. A ev))"

lemma reaches_first:
  fixes m :: "('w, 'a) op"
  assumes "proceeds m" and "gates A m"
  shows "reaches A (bind m f)"
  unfolding reaches_def
proof (rule every_bindI, rule every_mono [OF every_conj [OF assms [unfolded proceeds_def gates_def]]])
  fix r :: "'a outcome" and es
  assume "((\<forall>ev \<in> set es. good_answer ev) \<longrightarrow> (\<exists>a. r = Next a))
    \<and> ((\<exists>a. r = Next a) \<longrightarrow> (\<exists>ev \<in> set es. A ev))"
  then show "case r of
      Next a \<Rightarrow> every (f a) (\<lambda>r' es'. (\<forall>ev \<in> set (es @ es'). good_answer ev) \<longrightarrow> (\<exists>ev \<in> set (es @ es'). A ev))
    | Return x e \<Rightarrow> (\<forall>ev \<in> set es. good_answer ev) \<longrightarrow> (\<exists>ev \<in> set es. A ev)
    | Panic p \<Rightarrow> (\<forall>ev \<in> set es. good_answer ev) \<longrightarrow> (\<exists>ev \<in> set es. A ev)"
    by (cases r) (auto simp: every_def)
qed

lemma reaches_rest:
  fixes m :: "('w, 'a) op"
  assumes "proceeds m" and "logs E m Q" and "\<And>a. Q a \<Longrightarrow> reaches A (f a)"
  shows "reaches A (bind m f)"
  unfolding reaches_def
proof (rule every_bindI, rule every_mono [OF every_conj [OF assms(1,2) [unfolded proceeds_def logs_def]]])
  fix r :: "'a outcome" and es
  assume *: "((\<forall>ev \<in> set es. good_answer ev) \<longrightarrow> (\<exists>a. r = Next a))
    \<and> (\<forall>ev \<in> set es. E ev) \<and> (\<forall>a. r = Next a \<longrightarrow> Q a)"
  show "case r of
      Next a \<Rightarrow> every (f a) (\<lambda>r' es'. (\<forall>ev \<in> set (es @ es'). good_answer ev) \<longrightarrow> (\<exists>ev \<in> set (es @ es'). A ev))
    | Return x e \<Rightarrow> (\<forall>ev \<in> set es. good_answer ev) \<longrightarrow> (\<exists>ev \<in> set es. A ev)
    | Panic p \<Rightarrow> (\<forall>ev \<in> set es. good_answer ev) \<longrightarrow> (\<exists>ev \<in> set es. A ev)"
  proof (cases r)
    case (Next a)
    with * have "every (f a) (\<lambda>r' es'. (\<forall>ev \<in> set (es @ es'). good_answer ev) \<longrightarrow> (\<exists>ev \<in> set (es @ es'). A ev))"
      by (intro every_mono [OF assms(3) [unfolded reaches_def]]) auto
    with Next show ?thesis by simp
  qed (use * in auto)
qed

lemmas reaches_later = reaches_rest [OF _ logs_trivial]

lemma gates_apply: "gates runs (apply_applicationset env jira)"
  unfolding apply_applicationset_def Let_def
proof (rule gates_later, rule gates_later)
  show "gates runs (bind (checked (RunKubectl env args) res) (\<lambda>_. ret ()))" for args res
    unfolding gates_def by (rule every_bind_checked_RunKubectlI) (auto simp: wp_simps)
qed

lemma reaches_runs:
  assumes "Intn_in_range env" and "parses_GiB env"
  shows "reaches runs (reconcile_jira env jira)"
  unfolding reconcile_jira_def case_prod_beta reconcile_app_def
  by (rule reaches_later [OF proceeds_reconcile_database [OF assms(1)]],
      rule reaches_later [OF proceeds_shared_home [OF assms(2)]],
      rule reaches_first [OF proceeds_apply_applicationset gates_apply])

lemma reaches_changeset:
  assumes "create_keeps_key env" and "status_update_keeps_request env" and "Intn_in_range env"
  shows "reaches (attempts Kind_Job (changeset_key jira)) (reconcile_jira env jira)"
  unfolding reconcile_jira_def
  by (rule reaches_first [OF proceeds_reconcile_database [OF assms(3)] gates_database [OF assms(1,2)]])
     simp

lemma reaches_snapshot_content:
  assumes "create_keeps_key env" and "status_update_keeps_request env"
    and "Intn_in_range env" and "parses_GiB env"
    and "ebs_SnapshotId (Ebs (spec_SharedFS (Spec jira))) = ''''"
    and "fsx_SnapshotId (Fsx (spec_SharedFS (Spec jira))) \<noteq> ''''"
  shows "reaches (\<lambda>ev. \<exists>ob e. ev = Created ob e \<and> obj_kind ob = Kind_VolumeSnapshotContent)
    (reconcile_jira env jira)"
  unfolding reconcile_jira_def
proof (rule reaches_rest [OF proceeds_reconcile_database [OF assms(3)]
      within_reconcile_database [OF assms(1,2)]], clarify)
  fix j assume j: "same_request jira j"
  have "gates (\<lambda>ev. \<exists>ob e. ev = Created ob e \<and> obj_kind ob = Kind_VolumeSnapshotContent)
      (shared_home env j (jira_Name jira))"
    using assms(5,6) unfolding shared_home_def shared_fsx_def same_request_Spec [OF j]
    by (auto intro!: gates_first gates_mono [OF gates_ensure] elim!: exists_after.elims)
  then show "reaches (\<lambda>ev. \<exists>ob e. ev = Created ob e \<and> obj_kind ob = Kind_VolumeSnapshotContent)
      (bind (shared_home env j (jira_Name jira)) (reconcile_app env))"
    by (rule reaches_first [OF proceeds_shared_home [OF assms(4)]])
qed

lemma sample_storage:
  "ebs_SnapshotId (Ebs (spec_SharedFS (Spec sample_jira))) = ''''"
  "fsx_SnapshotId (Fsx (spec_SharedFS (Spec sample_jira))) \<noteq> ''''"
  by (simp_all add: sample_defs)

text \<open>So a run of the sample resource in it has events of these sorts.\<close>

lemma sample_run:
  assumes "reaches A (reconcile_jira sample_env sample_jira)"
  obtains r ys ev zs where "reconcile_jira sample_env sample_jira () = (r, ys @ ev # zs, ())" and "A ev"
proof -
  obtain r es where run: "reconcile_jira sample_env sample_jira () = (r, es, ())"
    by (metis prod_cases3 old.unit.exhaust)
  then have "\<exists>ev \<in> set es. A ev"
    using everyD [OF assms [unfolded reaches_def] run] logs_run [OF sample_answers run] by blast
  then obtain ys ev zs where "es = ys @ ev # zs" "A ev"
    by (metis split_list)
  with run that show thesis by blast
qed

section \<open>A run that panics\<close>

text \<open>
  The part of a run before the shared home reads neither the resource nor a file system, so it goes
  as in \<open>sample_env\<close> when these two reads are answered otherwise.
\<close>

abbreviation other_reads ::
  "'w env \<Rightarrow> (ObjectKey \<Rightarrow> 'w \<Rightarrow> (goerror + Jira) \<times> 'w)
    \<Rightarrow> (ObjectKey \<Rightarrow> 'w \<Rightarrow> (goerror + FileSystem) \<times> 'w) \<Rightarrow> 'w env" where
  "other_reads env g h \<equiv> env\<lparr>get_Jira := g, get_FileSystem := h\<rparr>"

lemma passwd_loop_ignores: "passwd_loop (other_reads env g h) n = passwd_loop env n"
  by (induction n) (simp_all add: Intn_def cong: if_cong)

lemma calls_ignore:
  "ensure (other_reads env g h) ob res = ensure env ob res"
  "r_Create (other_reads env g h) ob = r_Create env ob"
  "update_object (other_reads env g h) ob res = update_object env ob res"
  "save_status (other_reads env g h) jira res = save_status env jira res"
  "getRdsStatus (other_reads env g h) key = getRdsStatus env key"
  "getRdsEndpoint (other_reads env g h) key = getRdsEndpoint env key"
  "getSecretData (other_reads env g h) m = getSecretData env m"
  "getConfigMapData (other_reads env g h) m = getConfigMapData env m"
  "getJobSucceededReplicas (other_reads env g h) m = getJobSucceededReplicas env m"
  "GetRdsSecret (other_reads env g h) jira host ns = GetRdsSecret env jira host ns"
  "GetLiquibaseConfigMap (other_reads env g h) jira ns = GetLiquibaseConfigMap env jira ns"
  by (simp_all add: ensure_def update_object_def save_status_def r_Create_def r_Update_def
      r_Status_Update_def reader_defs GetRdsSecret_def GeneratePasswd_def passwd_loop_ignores
      Now_UnixNano_def Seed_def GetLiquibaseConfigMap_def ReadFile_def cong: if_cong)

lemma stages_ignore:
  "reconcile_infra (other_reads env g h) jira = reconcile_infra env jira"
  "rds_wait (other_reads env g h) jira = rds_wait env jira"
  "update_secret (other_reads env g h) jira o' host = update_secret env jira o' host"
  "reset_credentials (other_reads env g h) jira o' = reset_credentials env jira o'"
  "refresh_changelog (other_reads env g h) cm = refresh_changelog env cm"
  "liquibase_job (other_reads env g h) jira ns = liquibase_job env jira ns"
  by (simp_all add: reconcile_infra_def rds_wait_def update_secret_def reset_credentials_def
      refresh_changelog_def liquibase_job_def calls_ignore Let_def cong: if_cong)

lemma database_ignores: "reconcile_database (other_reads env g h) jira = reconcile_database env jira"
proof -
  have "create_changelog (other_reads env g h) = create_changelog env"
    by (intro ext) (simp add: create_changelog_def calls_ignore stages_ignore cong: if_cong option.case_cong)
  then show ?thesis
    by (simp add: reconcile_database_def sync_endpoint_def liquibase_changelog_def calls_ignore
        stages_ignore cong: if_cong)
qed

text \<open>The sample without its FSx snapshot, and a file system that has no id yet.\<close>

definition fresh_efs_jira :: Jira where
  "fresh_efs_jira = sample_jira\<lparr>Spec := stored_spec\<lparr>spec_SharedFS := (spec_SharedFS stored_spec)
     \<lparr>Fsx := (Fsx (spec_SharedFS stored_spec))\<lparr>fsx_SnapshotId := ''''\<rparr>\<rparr>\<rparr>\<rparr>"

definition fresh_efs_env :: "unit env" where
  "fresh_efs_env = sample_env\<lparr>get_Jira := \<lambda>key w. (Inr fresh_efs_jira, w),
     get_FileSystem := \<lambda>key w. (Inr (GetFileSystem fresh_efs_jira ''jira-clone''), w)\<rparr>"

lemma fresh_efs_env_hypotheses: "Intn_in_range fresh_efs_env" "parses_GiB fresh_efs_env"
  using sample_env_hypotheses(3,4) by (simp_all add: fresh_efs_env_def Intn_in_range_def parses_GiB_def)

lemma sample_database_answers: "logs good_answer (reconcile_database sample_env j) (\<lambda>_. True)"
  unfolding reconcile_database_def reconcile_infra_def rds_wait_def Let_def
    sync_endpoint_def update_secret_def reset_credentials_def liquibase_changelog_def
    liquibase_job_def
  by (intro sample_intros sample_create_changelog)

text \<open>Its run gets through the database, creates the file system, and dereferences nil.\<close>

lemma fresh_efs_run:
  obtains es where "Reconcile fresh_efs_env sample_key () = (Panic ''nil pointer dereference'', es, ())"
proof -
  obtain r ds where db: "reconcile_database sample_env fresh_efs_jira () = (r, ds, ())"
    by (metis prod_cases3 old.unit.exhaust)
  have "\<exists>a. r = Next a"
    using everyD [OF proceeds_reconcile_database [OF sample_env_hypotheses(3), unfolded proceeds_def] db]
      logs_run [OF sample_database_answers db] by blast
  then obtain j ns where r: "r = Next (j, ns)" by auto
  have j: "same_request fresh_efs_jira j"
    using everyD [OF within_reconcile_database [OF sample_env_hypotheses(1,2), unfolded logs_def] db] r
    by simp
  have "shared_home fresh_efs_env j ns = shared_efs fresh_efs_env j ns"
    by (simp add: shared_home_def same_request_Spec [OF j] fresh_efs_jira_def sample_defs)
  moreover obtain ss where "shared_efs fresh_efs_env j ns () = (Panic ''nil pointer dereference'', ss, ())"
    by (simp add: shared_efs_def efs_file_system_def ensure_def r_Create_def checked_def fresh_efs_env_def
        getFilesystemId_def read_field_def r_Get_def bind_def act_def stop_if_def ret_def deref_def
        panic_def sample_env_def GetFileSystem_def Let_def)
  ultimately have "\<exists>es. reconcile_jira fresh_efs_env fresh_efs_jira () = (Panic ''nil pointer dereference'', es, ())"
    using db r database_ignores [where env = sample_env]
    by (simp add: reconcile_jira_def bind_def fresh_efs_env_def)
  then have "\<exists>es. Reconcile fresh_efs_env sample_key () = (Panic ''nil pointer dereference'', es, ())"
    by (auto simp: Reconcile_def r_Get_def bind_def act_def fresh_efs_env_def)
  with that show thesis by blast
qed

end
