(* ===== verification/Wiring.thy ===== *)
theory Wiring
  imports Sample
begin

text \<open>
  How the objects the operator builds refer to each other: secrets and the keys read from them,
  mounts, volumes and the claims the stages create for them, snapshots, selectors and labels, zones,
  deletion policies.
\<close>

section \<open>Secrets\<close>

abbreviation job_pod :: "Job \<Rightarrow> PodSpec" where
  "job_pod j \<equiv> tpl_Spec (job_Template (job_Spec j))"

abbreviation instance_password :: "RDSInstance \<Rightarrow> (string \<times> string \<times> string) option" where
  "instance_password i \<equiv> map_option (\<lambda>r. (secref_Name (xsks_SecretReference r),
     secref_Namespace (xsks_SecretReference r), xsks_Key r))
     (MasterPasswordSecretRef (rds_ForProvider (rds_Spec i)))"

text \<open>C16.
  The database secret has every key that the Liquibase job and the password reset job read from it,
  and the instance takes its root password from the same secret, under the key the jobs read.\<close>

theorem secret_references_resolve:
  "every (GetRdsSecret env jira host ns) (\<lambda>r es. es = [] \<and> (\<forall>s. r = Next s \<longrightarrow>
     (\<forall>(n, k) \<in> set (secret_refs (job_pod (GetLiquibaseJob jira ns))
         @ secret_refs (job_pod (GetChangeRootPasswordJob jira ns db))).
       n = Name (secret_ObjectMeta s) \<and> fmlookup (secret_Data s) k \<noteq> None)
     \<and> instance_password (GetRdsInstance jira sg pg ns)
         = Some (Name (secret_ObjectMeta s), Namespace (secret_ObjectMeta s), ''password'')))"
  by (rule every_mono [OF GetRdsSecret_spec])
     (auto simp: rds_secret_ok_def liquibase_secret_refs reset_secret_refs GetRdsInstance_def Let_def)

theorem secret_references_resolve_witness:
  "every (GetRdsSecret sample_env sample_jira ''db.example.com'' ''jira-clone'') (\<lambda>r es. es = [] \<and>
     (\<forall>s. r = Next s \<longrightarrow>
     (\<forall>(n, k) \<in> set (secret_refs (job_pod (GetLiquibaseJob sample_jira ''jira-clone''))
         @ secret_refs (job_pod (GetChangeRootPasswordJob sample_jira ''jira-clone'' ''db''))).
       n = Name (secret_ObjectMeta s) \<and> fmlookup (secret_Data s) k \<noteq> None)
     \<and> instance_password (GetRdsInstance sample_jira (GetDbSubnetGroup sample_jira)
           (GetDbParameterGroup sample_jira) ''jira-clone'')
         = Some (Name (secret_ObjectMeta s), Namespace (secret_ObjectMeta s), ''password'')))"
  by (rule secret_references_resolve)

text \<open>The mounts of a pod: where, which part of the volume, and the sources of that name.\<close>

definition resolved_mounts :: "PodSpec \<Rightarrow> (string \<times> string \<times> VolumeSource list) list" where
  "resolved_mounts p =
     [(MountPath m, SubPath m, [vol_VolumeSource v. v \<leftarrow> Volumes p, vol_Name v = vm_Name m]).
        c \<leftarrow> Containers p, m \<leftarrow> VolumeMounts c]"

text \<open>C31.
  The Liquibase pod mounts what the reconciler creates for it, the database secret and the ConfigMap,
  each by its own name and from its own namespace. The properties directory is the secret; the change
  log is the key of the ConfigMap that holds the content read from the file, and it is mounted exactly
  where the properties in the secret tell Liquibase to look for it: below its class path, under the
  name of its change log file.\<close>

theorem liquibase_pod_resolves:
  "every (bind (GetRdsSecret env jira host ns) (\<lambda>s.
      bind (checked (GetLiquibaseConfigMap env jira ns) res) (\<lambda>cm. ret (s, cm))))
    (\<lambda>r es. \<forall>s cm. r = Next (s, cm) \<longrightarrow> (\<exists>classpath file content.
       es = [FileRead ''config/liquibase/changelog.yml'' (Inr content)]
       \<and> fmlookup (secret_Data s) ''classpath'' = Some classpath
       \<and> fmlookup (secret_Data s) ''changeLogFile'' = Some file
       \<and> resolved_mounts (job_pod (GetLiquibaseJob jira ns)) =
           [(''/liquibase/changelog/properties'', '''',
               [zero_VolumeSource\<lparr>vs_Secret := Some \<lparr>SecretName = Name (secret_ObjectMeta s)\<rparr>\<rparr>]),
            (''/liquibase/'' @ classpath @ ''/'' @ file, file,
               [zero_VolumeSource\<lparr>vs_ConfigMap := Some \<lparr>cmvs_Name = Name (cm_ObjectMeta cm)\<rparr>\<rparr>])]
       \<and> fmlookup (cm_Data cm) file = Some content
       \<and> Namespace (secret_ObjectMeta s) = Namespace (job_ObjectMeta (GetLiquibaseJob jira ns))
       \<and> Namespace (cm_ObjectMeta cm) = Namespace (job_ObjectMeta (GetLiquibaseJob jira ns))))"
  (is "every _ ?Q")
proof (rule every_bindI, rule every_mono [OF GetRdsSecret_spec])
  have mounts: "resolved_mounts (job_pod (GetLiquibaseJob jira ns)) =
      [(''/liquibase/changelog/properties'', '''',
          [zero_VolumeSource\<lparr>vs_Secret := Some \<lparr>SecretName = ''jira-database-secret''\<rparr>\<rparr>]),
       (''/liquibase/changelog/changelog.yml'', ''changelog.yml'',
          [zero_VolumeSource\<lparr>vs_ConfigMap := Some \<lparr>cmvs_Name = jira_Name jira @ ''-liquibase-changelog''\<rparr>\<rparr>])]"
    by (simp add: resolved_mounts_def GetLiquibaseJob_def liquibase_container_def zero_PodSpec_def
        zero_Container_def)
  have ns: "Namespace (job_ObjectMeta (GetLiquibaseJob jira ns)) = ns"
    by (simp add: GetLiquibaseJob_def)
  fix r :: "Secret outcome" and es :: "event list"
  assume s: "es = [] \<and> (\<forall>s. r = Next s \<longrightarrow> rds_secret_ok jira host ns s) \<and> (\<forall>x e. r \<noteq> Return x e)"
  have cm: "every (bind (checked (GetLiquibaseConfigMap env jira ns) res) (\<lambda>cm. ret (s, cm))) ?Q"
    if "rds_secret_ok jira host ns s" for s
    unfolding checked_def GetLiquibaseConfigMap_def bind_assoc
    by (rule every_bind_ReadFileI)
       (use that in \<open>auto simp: mounts rds_secret_ok_def liquibase_ConfigMap_def liquibaseFilePath_def
          ns fmlookup_of_list stop_if_def wp_simps split: sum.split\<close>)
  with s show "case r of Next a \<Rightarrow> every (bind (checked (GetLiquibaseConfigMap env jira ns) res) (\<lambda>cm. ret (a, cm)))
        (\<lambda>r' es'. ?Q r' (es @ es'))
    | Return x e \<Rightarrow> ?Q (Return x e) es | Panic p \<Rightarrow> ?Q (Panic p) es"
    by (cases r) simp_all
qed

theorem liquibase_pod_resolves_witness:
  "every (bind (GetRdsSecret sample_env sample_jira ''db.example.com'' ''jira-clone'') (\<lambda>s.
      bind (checked (GetLiquibaseConfigMap sample_env sample_jira ''jira-clone'') empty_Result) (\<lambda>cm. ret (s, cm))))
    (\<lambda>r es. \<forall>s cm. r = Next (s, cm) \<longrightarrow> (\<exists>file content.
       fmlookup (secret_Data s) ''changeLogFile'' = Some file \<and> fmlookup (cm_Data cm) file = Some content))"
  by (rule every_mono [OF liquibase_pod_resolves]) auto

section \<open>Volumes and claims\<close>

text \<open>An \<open>ensure\<close> hands on metadata under the key of its object.\<close>

lemma every_bind_ensure_keyI:
  fixes f :: "ObjectMeta \<Rightarrow> ('w, 'a) op"
  assumes "create_keeps_key env"
    and "\<And>e. P (Return res (Some e)) [Created ob (Some e)]"
    and "\<And>e m. meta_key m = obj_key ob \<Longrightarrow> every (f m) (\<lambda>r es. P r (Created ob e # es))"
  shows "every (bind (ensure env ob res) f) P"
proof -
  let ?S = "\<lambda>r es. (\<exists>e. r = Return res (Some e) \<and> es = [Created ob (Some e)])
    \<or> (\<exists>e m. r = Next m \<and> es = [Created ob e])"
  have "every (bind (ensure env ob res) ret) ?S"
    by (rule every_bind_ensureI) (auto simp: wp_simps)
  then have shape: "every (ensure env ob res) ?S" by simp
  show ?thesis
  proof (rule every_bindI, rule every_mono [OF every_conj [OF shape
        logs_ensure [where E = "\<lambda>_. True", unfolded logs_def]]], simp)
    fix r :: "ObjectMeta outcome" and es
    assume "?S r es \<and> (\<forall>ev \<in> set es. True) \<and> (\<forall>m. r = Next m \<longrightarrow> create_keeps_key env \<longrightarrow> meta_key m = obj_key ob)"
    with assms show "case r of Next a \<Rightarrow> every (f a) (\<lambda>r' es'. P r' (es @ es'))
        | Return x e \<Rightarrow> P (Return x e) es | Panic p \<Rightarrow> P (Panic p) es"
      by auto
  qed
qed

text \<open>A status write at the end of a stage.\<close>

lemma every_save_statusI:
  assumes "\<And>e. P (Return res (Some e)) [StatusUpdated jira (Some e)]"
    and "\<And>j. P (Next j) [StatusUpdated jira None]"
  shows "every (save_status env jira res) P"
proof -
  have "every (bind (save_status env jira res) ret) P"
    by (rule every_bind_save_statusI) (use assms in \<open>simp_all add: wp_simps\<close>)
  then show ?thesis by simp
qed

definition volumes_of :: "event list \<Rightarrow> PersistentVolume list" where
  "volumes_of es = [pv. Obj_PersistentVolume pv \<leftarrow> created_objects es]"

definition claims_of :: "event list \<Rightarrow> PersistentVolumeClaim list" where
  "claims_of es = [pvc. Obj_PersistentVolumeClaim pvc \<leftarrow> created_objects es]"

lemma created_of_simps [simp]:
  "volumes_of [] = []" "claims_of [] = []"
  "volumes_of (Created (Obj_PersistentVolume pv) e # es) = pv # volumes_of es"
  "claims_of (Created (Obj_PersistentVolumeClaim pvc) e # es) = pvc # claims_of es"
  "obj_kind ob \<noteq> Kind_PersistentVolume \<Longrightarrow> volumes_of (Created ob e # es) = volumes_of es"
  "obj_kind ob \<noteq> Kind_PersistentVolumeClaim \<Longrightarrow> claims_of (Created ob e # es) = claims_of es"
  "volumes_of (Got k key ans # es) = volumes_of es" "claims_of (Got k key ans # es) = claims_of es"
  "volumes_of (StatusUpdated j e # es) = volumes_of es" "claims_of (StatusUpdated j e # es) = claims_of es"
  by (cases ob; simp add: volumes_of_def claims_of_def)+

text \<open>
  \<open>claimed n ns R r es\<close>: a stage that carries on has created one volume and one claim, named \<open>n\<close> in the
  namespace \<open>ns\<close>, related by \<open>R\<close>; one that ends early has created that much or no claim at all.
\<close>

definition claimed :: "string \<Rightarrow> string \<Rightarrow> (PersistentVolume \<Rightarrow> PersistentVolumeClaim \<Rightarrow> bool)
    \<Rightarrow> 'a outcome \<Rightarrow> event list \<Rightarrow> bool" where
  "claimed n ns R r es \<longleftrightarrow>
     (claims_of es = [] \<and> (\<forall>a. r \<noteq> Next a))
     \<or> (\<exists>pv pvc. volumes_of es = [pv] \<and> claims_of es = [pvc] \<and> R pv pvc
         \<and> obj_key (Obj_PersistentVolumeClaim pvc) = NamespacedKey n ns)"

text \<open>A claim that can be bound to the volume, which is reserved for it.\<close>

definition satisfies :: "PersistentVolume \<Rightarrow> PersistentVolumeClaim \<Rightarrow> bool" where
  "satisfies pv pvc \<longleftrightarrow> reserved_pair pv pvc \<and> same_modes_and_size pv pvc \<and> same_class pv pvc"

lemma same_key_Name: "meta_key m = obj_key ob \<Longrightarrow> Name m = Name (obj_meta ob)"
  by (simp add: obj_key_def meta_key_def NamespacedKey_def)

lemmas claim_simps = claimed_def satisfies_def reserved_pair_def same_modes_and_size_def same_class_def
  volume_defs obj_key_def

text \<open>C17.
  Preparing the disk of the NFS server: the volume over the EBS snapshot is reserved for the claim
  created after it, named for the NFS server, and the claim names the volume and asks for its access
  mode, size and storage class. The stage carries on only when it created both, and the volume is over
  the very EBS volume whose id it hands on.\<close>

theorem ebs_claim_binds:
  assumes "create_keeps_key env"
  shows "every (nfs_backing env jira ns) (\<lambda>r es.
    claimed (nfs_server_name jira) ns satisfies r es
    \<and> (\<forall>v. r = Next v \<longrightarrow> v \<noteq> '''' \<and> map (map_option VolumeID \<circ> AWSElasticBlockStore \<circ> pv_Source \<circ> pv_Spec)
        (volumes_of es) = [Some v]))"
  unfolding nfs_backing_def
  by (intro every_bind_ensure_keyI [OF assms] ebsVolumeId.every_bind_checkedI every_bind_stop_if
        every_bind_builtI; (drule same_key_Name)?)
     (auto simp: claim_simps wp_simps)

theorem ebs_claim_binds_witness:
  "every (nfs_backing sample_env sample_jira ''jira-clone'') (claimed ''jira-clone-nfs-server'' ''jira-clone'' satisfies)"
  by (rule every_mono [OF ebs_claim_binds [OF sample_env_hypotheses(1)]])
     (simp add: nfs_server_name_def jira_Name_def sample_jira_def)

text \<open>C18.
  The same for the shared home on EFS, over the file system the stage is given.\<close>

theorem efs_claim_binds:
  assumes "create_keeps_key env"
  shows "every (efs_share env jira ns fs) (claimed ''jira-shared-home'' ns (\<lambda>pv pvc.
    satisfies pv pvc \<and> map_option VolumeHandle (CSI (pv_Source (pv_Spec pv))) = Some fs))"
  unfolding efs_share_def
  by (intro every_bind_ensure_keyI [OF assms] every_bind_builtI;
      (drule same_key_Name)?)
     (auto simp: claim_simps wp_simps intro!: every_save_statusI)

theorem efs_claim_binds_witness:
  "every (efs_share sample_env sample_jira ''jira-clone'' ''fs-1'') (claimed ''jira-shared-home'' ''jira-clone'' satisfies)"
  by (rule every_mono [OF efs_claim_binds [OF sample_env_hypotheses(1)]]) (auto simp: claimed_def)

text \<open>C19.
  The shared home over NFS: the volume, on the address of the NFS server and the directory it mounts
  its disk on, is reserved for the claim, and access modes and size agree; but the volume is given the
  EBS storage class and the claim the EFS one, so that the claim can be bound only where the two
  classes are the same.\<close>

theorem nfs_claim_class:
  assumes "create_keeps_key env"
  shows "every (nfs_share env jira ns v ip) (claimed ''jira-shared-home'' ns (\<lambda>pv pvc.
    reserved_pair pv pvc \<and> same_modes_and_size pv pvc
    \<and> same_class pv pvc = (EfsStorageClassName (Efs (spec_SharedFS (Spec jira)))
        = EbsStorageClassName (Ebs (spec_SharedFS (Spec jira))))
    \<and> map_option Server (NFS (pv_Source (pv_Spec pv))) = Some ip
    \<and> map_option Path (NFS (pv_Source (pv_Spec pv))) \<in> (Some \<circ> MountPath) ` set (VolumeMounts nfs_server_container)))"
  unfolding nfs_share_def
  by (intro every_bind_ensure_keyI [OF assms] every_bind_builtI;
      (drule same_key_Name)?)
     (auto simp: claim_simps wp_simps nfs_server_container_def zero_Container_def intro!: every_save_statusI)

theorem nfs_claim_class_witness:
  "every (nfs_share sample_env sample_jira ''jira-clone'' ''vol-1'' ''10.0.0.1'') (claimed ''jira-shared-home'' ''jira-clone'' satisfies)"
  by (rule every_mono [OF nfs_claim_class [OF sample_env_hypotheses(1)]])
     (auto simp: claimed_def satisfies_def sample_defs)

text \<open>C20.
  The FSx claim is restored from the snapshot object, which is bound to the content object, which
  points back at the snapshot and holds the snapshot id of the request.\<close>

theorem fsx_snapshot_chain:
  assumes "GetFsxPersistentVolumeClaimFromSnapshot parse jira n ns sz = Some pvc"
  shows "map_option (\<lambda>d. (tlor_Kind d, tlor_Name d)) (DataSource (pvc_Spec pvc))
      = Some (''VolumeSnapshot'', Name (vsnap_ObjectMeta (GetFsxVolumeSnapshot jira ns)))
    \<and> Namespace (pvc_ObjectMeta pvc) = Namespace (vsnap_ObjectMeta (GetFsxVolumeSnapshot jira ns))
    \<and> VolumeSnapshotContentName (vsnap_Spec (GetFsxVolumeSnapshot jira ns))
      = Some (Name (vsc_ObjectMeta (GetFsxVolumeSnapshotContent jira ns)))
    \<and> VolumeSnapshotRef (vsc_Spec (GetFsxVolumeSnapshotContent jira ns))
      = \<lparr>oref_Kind = ''VolumeSnapshot'',
         oref_Namespace = Namespace (vsnap_ObjectMeta (GetFsxVolumeSnapshot jira ns)),
         oref_Name = Name (vsnap_ObjectMeta (GetFsxVolumeSnapshot jira ns))\<rparr>
    \<and> SnapshotHandle (vsc_Spec (GetFsxVolumeSnapshotContent jira ns))
      = Some (fsx_SnapshotId (Fsx (spec_SharedFS (Spec jira))))"
  using assms
  by (auto simp: volume_defs GetFsxVolumeSnapshot_def GetFsxVolumeSnapshotContent_def)

theorem fsx_snapshot_chain_witness:
  "\<exists>pvc. GetFsxPersistentVolumeClaimFromSnapshot Some sample_jira ''jira-shared-home'' ''jira-clone'' ''1''
       = Some pvc \<and>
     VolumeSnapshotContentName (vsnap_Spec (GetFsxVolumeSnapshot sample_jira ''jira-clone''))
       = Some (Name (vsc_ObjectMeta (GetFsxVolumeSnapshotContent sample_jira ''jira-clone'')))"
  using fsx_snapshot_chain [where parse = Some and jira = sample_jira and ns = "''jira-clone''"
      and n = "''jira-shared-home''" and sz = "''1''"]
  by (simp add: GetFsxPersistentVolumeClaimFromSnapshot_def)

section \<open>The NFS server\<close>

text \<open>C21.
  The service of the NFS server selects the labels of the pods of the stateful set, which selects
  them too; the pod mounts the claim made for it, and listens on the port of the service. The
  governing service the stateful set names, however, is never the service that is created.\<close>

theorem nfs_server_wired:
  "svc_Selector (svc_Spec (GetNfSServerService jira ns))
      = Labels (tpl_ObjectMeta (sts_Template (sts_Spec (GetNfsServerStatefulSet jira ns))))
   \<and> map_option MatchLabels (sts_Selector (sts_Spec (GetNfsServerStatefulSet jira ns)))
      = Some (Labels (tpl_ObjectMeta (sts_Template (sts_Spec (GetNfsServerStatefulSet jira ns)))))
   \<and> map (map_option ClaimName \<circ> vs_PersistentVolumeClaim \<circ> vol_VolumeSource)
       (Volumes (tpl_Spec (sts_Template (sts_Spec (GetNfsServerStatefulSet jira ns)))))
      = [Some (nfs_server_name jira)]
   \<and> mounts_resolve (tpl_Spec (sts_Template (sts_Spec (GetNfsServerStatefulSet jira ns))))
   \<and> map Port (svc_Ports (svc_Spec (GetNfSServerService jira ns)))
      = concat (map (\<lambda>c. map ContainerPort (ctr_Ports c))
          (Containers (tpl_Spec (sts_Template (sts_Spec (GetNfsServerStatefulSet jira ns))))))
   \<and> ServiceName (sts_Spec (GetNfsServerStatefulSet jira ns))
      \<noteq> Name (svc_ObjectMeta (GetNfSServerService jira ns))"
proof -
  have "''nfs-server'' \<noteq> jira_Name jira @ ''-nfs-server''"
    by (rule notI, drule arg_cong [where f = length]) simp
  then show ?thesis
    by (simp add: GetNfSServerService_def GetNfsServerStatefulSet_def nfs_server_name_def
        mounts_resolve_def nfs_server_container_def zero_PodSpec_def zero_Container_def
        zero_VolumeSource_def)
qed

section \<open>Zones\<close>

text \<open>The zones a node selector allows.\<close>

definition allowed_zones :: "NodeSelector \<Rightarrow> string list" where
  "allowed_zones s = concat (map Values (filter (\<lambda>e. Key e = ''topology.kubernetes.io/zone'')
     (concat (map MatchExpressions (NodeSelectorTerms s)))))"

text \<open>C22.
  The EBS volume, the persistent volume over it and the pod of the NFS server that mounts it are all
  bound to the same single availability zone.\<close>

theorem nfs_server_zone:
  assumes "GetEbsPersistentVolume parse jira v n sz ns = Some pv"
  shows "\<exists>zone. ebs_AvailabilityZone (ebs_ForProvider (GetEbsVolume jira)) = Some zone
    \<and> map_option (map_option allowed_zones \<circ> Required) (pv_NodeAffinity (pv_Spec pv)) = Some (Some [zone])
    \<and> map_option (map_option (map_option allowed_zones
          \<circ> RequiredDuringSchedulingIgnoredDuringExecution) \<circ> aff_NodeAffinity)
        (pod_Affinity (tpl_Spec (sts_Template (sts_Spec (GetNfsServerStatefulSet jira ns)))))
      = Some (Some (Some [zone]))"
  using assms
  by (auto simp: GetEbsVolume_def Let_def GetEbsPersistentVolume_def GetNfsServerStatefulSet_def
      zone_selector_def nfs_zone_selector_def allowed_zones_def)

theorem nfs_server_zone_witness:
  "\<exists>pv zone. GetEbsPersistentVolume Some sample_jira ''vol-1'' ''nfs'' ''2'' ''jira-clone'' = Some pv
    \<and> ebs_AvailabilityZone (ebs_ForProvider (GetEbsVolume sample_jira)) = Some zone
    \<and> map_option (map_option allowed_zones \<circ> Required) (pv_NodeAffinity (pv_Spec pv)) = Some (Some [zone])"
  using nfs_server_zone [where parse = Some and jira = sample_jira and v = "''vol-1''" and n = "''nfs''"
      and sz = "''2''" and ns = "''jira-clone''"]
  by (simp add: GetEbsPersistentVolume_def) blast

section \<open>The database instance\<close>

text \<open>C24.
  The instance is made in the subnet group and with the parameter group of the resource, the latter
  for the major version of its engine, and it is restored from a snapshot exactly when one is given,
  from that one.\<close>

theorem rds_instance_refers:
  "let i = rds_ForProvider (rds_Spec
         (GetRdsInstance jira (GetDbSubnetGroup jira) (GetDbParameterGroup jira) ns))
   in DBSubnetGroupName i = Some (Name (dsg_ObjectMeta (GetDbSubnetGroup jira)))
     \<and> DBParameterGroupName i = Some (Name (dpg_ObjectMeta (GetDbParameterGroup jira)))
     \<and> DBParameterGroupFamily (dpg_ForProvider (GetDbParameterGroup jira))
        = Some (''postgres'' @ takeWhile (\<lambda>c. c \<noteq> CHR ''.'') (the (rdsp_EngineVersion i)))
     \<and> map_option (map_option SnapshotIdentifier \<circ> rbc_Snapshot) (RestoreFrom i)
        = (if SnapshotID (Database (Spec jira)) = '''' then None
           else Some (Some (Some (SnapshotID (Database (Spec jira))))))
     \<and> SubnetIDs (spec_Network (Spec jira)) = dsg_SubnetIDs (dsg_ForProvider (GetDbSubnetGroup jira))"
  unfolding Let_def parameter_family by (simp add: GetRdsInstance_def Let_def GetDbSubnetGroup_def)

section \<open>Retention and encryption\<close>

text \<open>C25.
  The cloud resources that hold data or give access to it, the instance, the volume, the file system
  and its mount targets, are orphaned on deletion exactly when the resource asks for retention, and
  the subnet and parameter groups never are. The file system is always encrypted, the volume exactly
  when a key is given.\<close>

theorem retained_on_delete:
  "(DeletionPolicy (rds_ResourceSpec (rds_Spec (GetRdsInstance jira sg pg ns))) = ''Orphan'')
      = RetainOnDelete (Spec jira)
   \<and> (DeletionPolicy (ebs_ResourceSpec (GetEbsVolume jira)) = ''Orphan'') = RetainOnDelete (Spec jira)
   \<and> (DeletionPolicy (fs_ResourceSpec (GetFileSystem jira ns)) = ''Orphan'') = RetainOnDelete (Spec jira)
   \<and> (DeletionPolicy (mt_ResourceSpec (GetMountTargets jira fs subnet i)) = ''Orphan'')
      = RetainOnDelete (Spec jira)
   \<and> DeletionPolicy (dsg_ResourceSpec (GetDbSubnetGroup jira)) \<noteq> ''Orphan''
   \<and> DeletionPolicy (dpg_ResourceSpec (GetDbParameterGroup jira)) \<noteq> ''Orphan''
   \<and> fs_Encrypted (fs_ForProvider (GetFileSystem jira ns)) = Some True
   \<and> Encrypted (ebs_ForProvider (GetEbsVolume jira)) = Some (KMSKeyId (Spec jira) \<noteq> '''')"
  by (simp add: GetRdsInstance_def GetEbsVolume_def GetFileSystem_def GetMountTargets_def Let_def
      GetDbSubnetGroup_def GetDbParameterGroup_def provider_spec_def orphan_if_retained_def)

end
