(* ===== verification/Rendering.thy ===== *)
theory Rendering
  imports Sample
begin

text \<open>
  What \<open>ProcessApplicationSetTemplate\<close> writes from the template the repository ships, and where the
  result is not the document that is meant.
\<close>

text \<open>C11.
  With the shipped template, and calls that succeed, the rendering writes the document
  \<open>applicationset_yaml\<close> into the file of the resource, in one run of read, create and write, and
  reports no error.\<close>

theorem process_writes_applicationset:
  assumes "os_ReadFile env ''argocd/applicationset.yaml.tpl'' w = (Inr applicationset_tpl, w1)"
    and "os_Create env (applicationset_path jira) w1 = (None, w2)"
    and "file_Write env (applicationset_path jira) (applicationset_yaml jira) w2 = (None, w3)"
  shows "ProcessApplicationSetTemplate env jira w =
    (Next None,
     [FileRead ''argocd/applicationset.yaml.tpl'' (Inr applicationset_tpl),
      FileCreated (applicationset_path jira) None,
      FileWritten (applicationset_path jira) (applicationset_yaml jira) None],
     w3)"
  using assms
  by (simp add: ProcessApplicationSetTemplate_def ReadFile_def CreateFile_def WriteFile_def bind_def
      act_def ret_def parse_applicationset_tpl render_applicationset)

theorem process_writes_applicationset_witness:
  "\<exists>es. ProcessApplicationSetTemplate sample_env sample_jira () =
     (Next None, es @ [FileWritten ''argocd/applicationset-jira-clone.yaml''
        (applicationset_yaml sample_jira) None], ())"
  using process_writes_applicationset [of sample_env "()" "()" sample_jira "()" "()"]
  by (simp add: sample_env_def applicationset_path_def jira_Name_def sample_jira_def)

text \<open>
  The sample with another name, id, place in Argo CD and other switches, and the lines of the file
  that is checked in for the sample, with what depends on these: seven lines for the owner, one for
  automatic synchronisation, and the values in them.
\<close>

definition varied :: "string \<Rightarrow> string \<Rightarrow> string \<Rightarrow> string \<Rightarrow> bool \<Rightarrow> bool \<Rightarrow> bool \<Rightarrow> Jira" where
  "varied name uid namespace project retain auto apply' = sample_jira
     \<lparr>jira_ObjectMeta := (jira_ObjectMeta sample_jira)\<lparr>Name := name, UID := uid\<rparr>,
      Spec := (Spec sample_jira)
        \<lparr>ArgoCD := (ArgoCD (Spec sample_jira))
           \<lparr>argo_Namespace := namespace, Project := project,
            argo_SyncPolicy := \<lparr>AutoSync = auto, ApplyOutOfSyncOnly = apply'\<rparr>,
            argo_RetainOnDelete := retain\<rparr>\<rparr>\<rparr>"

definition varied_lines ::
  "string \<Rightarrow> string \<Rightarrow> string \<Rightarrow> string \<Rightarrow> bool \<Rightarrow> bool \<Rightarrow> bool \<Rightarrow> string list" where
  "varied_lines name uid namespace project retain auto apply' =
     take 3 sample_lines
     @ [''  name: '' @ name, ''  namespace: '' @ namespace]
     @ (if retain then []
        else take 5 (drop 5 sample_lines) @ [''    name: '' @ name, ''    uid: '' @ uid])
     @ take 4 (drop 12 sample_lines)
     @ [''      - namespace: '' @ name]
     @ take 4 (drop 17 sample_lines)
     @ [''      project: '' @ project]
     @ take 2 (drop 22 sample_lines)
     @ [''        - ApplyOutOfSyncOnly='' @ FormatBool apply']
     @ (if auto then take 1 (drop 25 sample_lines) else [])
     @ take 20 (drop 26 sample_lines)
     @ [''                        '' @ [CHR 0x27] @ ''alb.ingress.kubernetes.io/tags'' @ [CHR 0x27] @ '': ''
        @ [CHR 0x27] @ ''service_name='' @ name @ '',Name='' @ name
        @ '',business_unit=WorkplaceTechnology,resource_owner=mgibson'' @ [CHR 0x27]]
     @ drop 47 sample_lines"

text \<open>
  The two documents are compared piece by piece, each piece with what follows left open; the pieces
  that do not vary are closed and are evaluated.
\<close>

definition later_lines :: "string list \<Rightarrow> string" where
  "later_lines ls = concat (map (\<lambda>l. CHR 0x0A # l) ls)"

lemma later_lines_simps:
  "later_lines [] = ''''" "later_lines (l # ls) = CHR 0x0A # l @ later_lines ls"
  "later_lines (xs @ ys) = later_lines xs @ later_lines ys"
  by (simp_all add: later_lines_def)

lemma unlines_later: "unlines (l # ls) = l @ later_lines ls"
proof (induction ls arbitrary: l)
  case (Cons m ls)
  then show ?case by (simp add: unlines_def later_lines_simps)
qed (simp add: unlines_def later_lines_simps)

definition annotation_yaml :: "string \<times> tval \<Rightarrow> string" where
  "annotation_yaml = (\<lambda>(k, v). ''\<newline>                        '' @ [CHR 0x27] @ k @ [CHR 0x27] @ '': ''
     @ [CHR 0x27] @ show_val v @ [CHR 0x27])"

definition yaml_sources :: "Jira \<Rightarrow> string" where
  "yaml_sources jira =
     ''\<newline>      sources:\<newline>        - chart: jira\<newline>          repoURL: '' @ RepoURL (argo_HelmChart (ArgoCD (Spec jira)))
     @ ''\<newline>          targetRevision: '' @ Version (argo_HelmChart (ArgoCD (Spec jira)))
     @ ''\<newline>          helm:\<newline>            releaseName: '' @ [CHR 0x27] @ ''{{ namespace }}'' @ [CHR 0x27]
     @ ''\<newline>            values: |'' @ yaml_inline (ValueOverrides (argo_HelmValues (ArgoCD (Spec jira))))
     @ ''ingress:\<newline>                    host: '' @ Hostname (Spec jira)
     @ ''\<newline>                    annotations:''"

definition yaml_values :: "Jira \<Rightarrow> string" where
  "yaml_values jira =
     ''\<newline>            valueFiles:''
     @ concat (map (\<lambda>f. ''\<newline>                - '' @ f)
         (HelmValuesFiles (argo_HelmValues (ArgoCD (Spec jira)))))
     @ ''\<newline>        - repoURL: '' @ GitRepo (argo_HelmValues (ArgoCD (Spec jira)))
     @ ''\<newline>          targetRevision: '' @ GitRevision (argo_HelmValues (ArgoCD (Spec jira)))
     @ ''\<newline>          ref: values\<newline>      destination:\<newline>        server: '' @ [CHR 0x22]
     @ ''https://kubernetes.default.svc'' @ [CHR 0x22]
     @ ''\<newline>        namespace: '' @ [CHR 0x27] @ ''{{ namespace }}'' @ [CHR 0x27]"

lemma applicationset_yaml_pieces:
  "applicationset_yaml jira =
     ''apiVersion: argoproj.io/v1alpha1\<newline>kind: ApplicationSet\<newline>metadata:\<newline>  name: '' @ jira_Name jira
     @ ''\<newline>  namespace: '' @ argo_Namespace (ArgoCD (Spec jira))
     @ yaml_owner jira
     @ ''\<newline>spec:\<newline>  generators:\<newline>  - list:\<newline>      elements:\<newline>      - namespace: '' @ jira_Name jira
     @ ''\<newline>  template:\<newline>    metadata:\<newline>      name: '' @ [CHR 0x27] @ ''{{ namespace }}'' @ [CHR 0x27]
     @ ''\<newline>    spec:\<newline>      project: '' @ Project (ArgoCD (Spec jira))
     @ ''\<newline>      syncPolicy:\<newline>        syncOptions:\<newline>        - ApplyOutOfSyncOnly=''
     @ FormatBool (ApplyOutOfSyncOnly (argo_SyncPolicy (ArgoCD (Spec jira))))
     @ (if AutoSync (argo_SyncPolicy (ArgoCD (Spec jira))) then ''\<newline>        automated: {}'' else '''')
     @ yaml_sources jira @ concat (map annotation_yaml (ingressAnnotations jira)) @ yaml_values jira"
  unfolding applicationset_yaml_def yaml_head_def yaml_tail_def yaml_sources_def yaml_values_def
    annotation_yaml_def append_assoc ..

lemma sample_pieces:
  "unlines (take 3 sample_lines @ (''  name: '' @ n) # ls)
     = ''apiVersion: argoproj.io/v1alpha1\<newline>kind: ApplicationSet\<newline>metadata:\<newline>  name: '' @ n @ later_lines ls"
  "later_lines ((''  namespace: '' @ n) # ls) = ''\<newline>  namespace: '' @ n @ later_lines ls"
  "later_lines (take 5 (drop 5 sample_lines) @ (''    name: '' @ n) # (''    uid: '' @ u) # ls)
     = ''\<newline>  ownerReferences:\<newline>  - apiVersion: app.atlassian.com/v1\<newline>    blockOwnerDeletion: true\<newline>    controller: true\<newline>    kind: Jira\<newline>    name: ''
       @ n @ ''\<newline>    uid: '' @ u @ later_lines ls"
  "later_lines (take 4 (drop 12 sample_lines) @ (''      - namespace: '' @ n) # ls)
     = ''\<newline>spec:\<newline>  generators:\<newline>  - list:\<newline>      elements:\<newline>      - namespace: '' @ n @ later_lines ls"
  "later_lines (take 4 (drop 17 sample_lines) @ (''      project: '' @ n) # ls)
     = ''\<newline>  template:\<newline>    metadata:\<newline>      name: '' @ [CHR 0x27] @ ''{{ namespace }}'' @ [CHR 0x27]
       @ ''\<newline>    spec:\<newline>      project: '' @ n @ later_lines ls"
  "later_lines (take 2 (drop 22 sample_lines) @ (''        - ApplyOutOfSyncOnly='' @ n) # ls)
     = ''\<newline>      syncPolicy:\<newline>        syncOptions:\<newline>        - ApplyOutOfSyncOnly='' @ n @ later_lines ls"
  "later_lines (take 1 (drop 25 sample_lines) @ ls) = ''\<newline>        automated: {}'' @ later_lines ls"
  by (simp_all add: sample_lines_def unlines_later later_lines_simps)

lemma sample_closed_pieces:
  "later_lines (take 20 (drop 26 sample_lines))
     = yaml_sources sample_jira @ concat (map annotation_yaml (take 6 (ingressAnnotations sample_jira)))"
  "later_lines (drop 47 sample_lines)
     = concat (map annotation_yaml (drop 7 (ingressAnnotations sample_jira))) @ yaml_values sample_jira"
  by code_simp+

lemma sample_last_pieces:
  "later_lines (take 20 (drop 26 sample_lines) @ l # drop 47 sample_lines)
   = yaml_sources sample_jira @ concat (map annotation_yaml (take 6 (ingressAnnotations sample_jira)))
     @ [CHR 0x0A] @ l
     @ concat (map annotation_yaml (drop 7 (ingressAnnotations sample_jira))) @ yaml_values sample_jira"
  by (simp only: later_lines_simps sample_closed_pieces append_assoc append_Cons append_Nil)

lemma varied_fields:
  fixes name uid namespace project :: string and retain auto apply' :: bool
  defines "j \<equiv> varied name uid namespace project retain auto apply'"
  shows "jira_Name j = name" "argo_Namespace (ArgoCD (Spec j)) = namespace"
    "Project (ArgoCD (Spec j)) = project" "AutoSync (argo_SyncPolicy (ArgoCD (Spec j))) = auto"
    "ApplyOutOfSyncOnly (argo_SyncPolicy (ArgoCD (Spec j))) = apply'"
    "yaml_sources j = yaml_sources sample_jira" "yaml_values j = yaml_values sample_jira"
    "yaml_owner j = (if retain then '''' else ''\<newline>  ownerReferences:\<newline>  - apiVersion: app.atlassian.com/v1\<newline>    blockOwnerDeletion: true\<newline>    controller: true\<newline>    kind: Jira\<newline>    name: ''
       @ name @ ''\<newline>    uid: '' @ uid)"
  by (simp_all add: j_def varied_def jira_Name_def jira_UID_def yaml_sources_def yaml_values_def yaml_owner_def)

lemma varied_annotations:
  "concat (map annotation_yaml (ingressAnnotations (varied name uid namespace project retain auto apply')))
   = concat (map annotation_yaml (take 6 (ingressAnnotations sample_jira)))
     @ ([CHR 0x0A] @ ''                        '' @ [CHR 0x27] @ ''alb.ingress.kubernetes.io/tags'' @ [CHR 0x27] @ '': ''
        @ [CHR 0x27] @ ''service_name='' @ name @ '',Name='' @ name
        @ '',business_unit=WorkplaceTechnology,resource_owner=mgibson'' @ [CHR 0x27])
     @ concat (map annotation_yaml (drop 7 (ingressAnnotations sample_jira)))"
proof -
  let ?j = "varied name uid namespace project retain auto apply'"
  have "ingressAnnotations ?j = take 6 (ingressAnnotations sample_jira)
      @ (''alb.ingress.kubernetes.io/tags'', VStr (albTags ?j)) # drop 7 (ingressAnnotations sample_jira)"
    by (simp add: ingressAnnotations_def varied_def)
  moreover have "annotation_yaml (''alb.ingress.kubernetes.io/tags'', VStr (albTags ?j))
      = [CHR 0x0A] @ ''                        '' @ [CHR 0x27] @ ''alb.ingress.kubernetes.io/tags'' @ [CHR 0x27] @ '': ''
        @ [CHR 0x27] @ ''service_name='' @ name @ '',Name='' @ name
        @ '',business_unit=WorkplaceTechnology,resource_owner=mgibson'' @ [CHR 0x27]"
    by (simp add: annotation_yaml_def albTags_def varied_def jira_Name_def)
  ultimately show ?thesis by simp
qed

lemma varied_yaml:
  "applicationset_yaml (varied name uid namespace project retain auto apply')
     = unlines (varied_lines name uid namespace project retain auto apply')"
  unfolding varied_lines_def applicationset_yaml_pieces varied_fields varied_annotations
  by (cases retain; cases auto;
      simp only: if_True if_False append_Nil append_Cons [where 'a = string] append_assoc
        sample_pieces sample_last_pieces)

text \<open>C12.
  The shipped template parses, and executing it for the sample resource gives the rendered file that
  is checked in beside it, character for character. It does so for every other name, id, Argo CD
  namespace and project too, and with each of the three switches on or off: the values change, the
  owner references are there exactly without retention, the line for automatic synchronisation exactly
  with it, and no other line changes.\<close>

theorem sample_renders:
  "\<exists>nodes. parse_template applicationset_tpl = Some nodes
     \<and> exec_nodes nodes (VData (template_vars sample_jira)) [] = (sample_yaml, True)
     \<and> exec_nodes nodes (VData (template_vars (varied name uid namespace project retain auto apply'))) []
       = (unlines (varied_lines name uid namespace project retain auto apply'), True)"
proof -
  have "applicationset_yaml sample_jira = sample_yaml" by code_simp
  moreover have "applicationset_yaml (varied name uid namespace project retain auto apply')
      = unlines (varied_lines name uid namespace project retain auto apply')"
    by (rule varied_yaml)
  ultimately show ?thesis by (simp add: parse_applicationset_tpl render_applicationset)
qed

section \<open>Where the ingress key lands\<close>

text \<open>The text since the last line break.\<close>

definition last_line :: "string \<Rightarrow> string" where
  "last_line s = rev (takeWhile (\<lambda>c. c \<noteq> CHR 0x0A) (rev s))"

lemma last_line_append:
  "CHR 0x0A \<notin> set l \<Longrightarrow> last_line (s @ CHR 0x0A # l) = l"
proof -
  assume "CHR 0x0A \<notin> set l"
  then have "takeWhile (\<lambda>c. c \<noteq> CHR 0x0A) (rev l @ CHR 0x0A # rev s) = rev l"
    by (subst takeWhile_append2) auto
  then show ?thesis by (simp add: last_line_def)
qed

lemma last_line_whole: "CHR 0x0A \<notin> set l \<Longrightarrow> last_line l = l"
proof -
  assume "CHR 0x0A \<notin> set l"
  then have "takeWhile (\<lambda>c. c \<noteq> CHR 0x0A) (rev l) = rev l"
    by (subst takeWhile_eq_all_conv) auto
  then show ?thesis unfolding last_line_def by (simp only: rev_rev_ident)
qed

lemma last_line_free: "CHR 0x0A \<notin> set (last_line s)"
  by (auto simp: last_line_def dest: set_takeWhileD)

lemma strings_Split_last: "last (strings_Split v [CHR 0x0A]) = last_line v"
proof (cases "CHR 0x0A \<in> set v")
  case True
  then obtain s t where v: "v = s @ CHR 0x0A # t" and t: "CHR 0x0A \<notin> set t"
    by (metis split_list_last)
  then show ?thesis
    by (simp add: strings_Split_def split_from_char_last last_line_append)
next
  case False
  then have "split_from [CHR 0x0A] b v = [rev b @ v]" for b
    by (induction v arbitrary: b) auto
  then show ?thesis by (simp add: strings_Split_def last_line_whole [OF False])
qed

lemma last_line_inline:
  "last_line (yaml_head jira @ yaml_inline v) = replicate 16 CHR '' '' @ last_line v"
proof -
  define f :: "string \<Rightarrow> string" where "f l = CHR 0x0A # replicate 16 CHR '' '' @ l" for l
  have inline: "yaml_inline v = concat (map f (strings_Split v [CHR 0x0A]))"
    by (simp add: yaml_inline_def f_def [abs_def] eval_nat_numeral)
  obtain xs where "strings_Split v [CHR 0x0A] = xs @ [last_line v]"
    by (metis Split_nonempty append_butlast_last_id list.distinct(1) strings_Split_last)
  with inline have "yaml_head jira @ yaml_inline v
      = (yaml_head jira @ concat (map f xs)) @ CHR 0x0A # (replicate 16 CHR '' '' @ last_line v)"
    by (simp add: f_def)
  moreover have "CHR 0x0A \<notin> set (replicate 16 CHR '' '' @ last_line v)"
    using last_line_free by simp
  ultimately show ?thesis using last_line_append by metis
qed

text \<open>C23.
  Executing the shipped template, the key \<open>ingress:\<close> of the document is put right behind the last line
  of the inline Helm values: it starts a line of its own, sixteen blanks in, exactly when the values
  are empty or end with a line break (or blanks behind it); otherwise it is glued to the last value.\<close>

theorem ingress_key_line:
  "\<exists>nodes before after. parse_template applicationset_tpl = Some nodes
    \<and> exec_nodes nodes (VData (template_vars jira)) [] = (before @ after, True)
    \<and> prefix (''ingress:\<newline>                    host: '' @ Hostname (Spec jira) @ ''\<newline>'') after
    \<and> last_line before = replicate 16 CHR '' ''
        @ last_line (ValueOverrides (argo_HelmValues (ArgoCD (Spec jira))))"
proof -
  let ?v = "ValueOverrides (argo_HelmValues (ArgoCD (Spec jira)))"
  have "last_line (yaml_head jira @ yaml_inline ?v) = replicate 16 CHR '' '' @ last_line ?v"
    by (rule last_line_inline)
  moreover have "prefix (''ingress:\<newline>                    host: '' @ Hostname (Spec jira) @ ''\<newline>'') (yaml_tail jira)"
    by (simp add: yaml_tail_def)
  ultimately show ?thesis
    by (intro exI [of _ applicationset_nodes] exI [of _ "yaml_head jira @ yaml_inline ?v"]
          exI [of _ "yaml_tail jira"])
       (simp add: parse_applicationset_tpl render_applicationset applicationset_yaml_def)
qed

section \<open>Who owns the ApplicationSet\<close>

text \<open>Owner references as YAML, under the metadata of an object.\<close>

definition owner_yaml :: "OwnerReference list \<Rightarrow> string" where
  "owner_yaml rs =
     ''\<newline>  ownerReferences:'' @ concat (map (\<lambda>r.
       ''\<newline>  - apiVersion: '' @ or_APIVersion r
       @ ''\<newline>    blockOwnerDeletion: '' @ FormatBool (BlockOwnerDeletion r = Some True)
       @ ''\<newline>    controller: '' @ FormatBool (Controller r = Some True)
       @ ''\<newline>    kind: '' @ or_Kind r
       @ ''\<newline>    name: '' @ or_Name r
       @ ''\<newline>    uid: '' @ or_UID r) rs)"

text \<open>C35.
  The owner references the template spells out are those \<open>GetOwnerReferences\<close> gives every other object:
  in the rendered metadata they follow the name and the namespace, and they are left out exactly when
  the application is to be retained. The template has the API version and kind of the resource as
  literals, so this is under the type the operator registers.\<close>

theorem applicationset_owner:
  assumes "jira_TypeMeta jira = \<lparr>APIVersion = ''app.atlassian.com/v1'', Kind = ''Jira''\<rparr>"
  shows "\<exists>nodes spec. parse_template applicationset_tpl = Some nodes
    \<and> exec_nodes nodes (VData (template_vars jira)) [] =
        (''apiVersion: argoproj.io/v1alpha1\<newline>kind: ApplicationSet\<newline>metadata:\<newline>  name: '' @ jira_Name jira
         @ ''\<newline>  namespace: '' @ argo_Namespace (ArgoCD (Spec jira))
         @ (if argo_RetainOnDelete (ArgoCD (Spec jira)) then ''''
            else owner_yaml (GetOwnerReferences jira))
         @ ''\<newline>spec:\<newline>  generators:'' @ spec, True)"
proof -
  have owner: "yaml_owner jira = (if argo_RetainOnDelete (ArgoCD (Spec jira)) then ''''
      else owner_yaml (GetOwnerReferences jira))"
    using assms by (simp add: yaml_owner_def owner_yaml_def GetOwnerReferences_def FormatBool_def)
  have "\<exists>spec. applicationset_yaml jira =
      ''apiVersion: argoproj.io/v1alpha1\<newline>kind: ApplicationSet\<newline>metadata:\<newline>  name: '' @ jira_Name jira
      @ ''\<newline>  namespace: '' @ argo_Namespace (ArgoCD (Spec jira)) @ yaml_owner jira
      @ ''\<newline>spec:\<newline>  generators:'' @ spec"
    unfolding applicationset_yaml_def yaml_head_def append_assoc by simp
  then show ?thesis
    unfolding owner by (simp add: parse_applicationset_tpl render_applicationset)
qed

theorem applicationset_owner_witness:
  "\<exists>nodes spec. parse_template applicationset_tpl = Some nodes
    \<and> exec_nodes nodes (VData (template_vars sample_jira)) [] =
        (''apiVersion: argoproj.io/v1alpha1\<newline>kind: ApplicationSet\<newline>metadata:\<newline>  name: jira-clone\<newline>  namespace: argocd''
         @ owner_yaml (GetOwnerReferences sample_jira) @ ''\<newline>spec:\<newline>  generators:'' @ spec, True)"
  using applicationset_owner [of sample_jira] by (simp add: sample_defs jira_Name_def)

end
