(* ===== verification/Stage_Behaviour.thy ===== *)
theory Stage_Behaviour
  imports Sample
begin

text \<open>
  What single stages of \<open>Reconcile\<close> do on every branch: waiting for the database, the secret, the
  change log, the mount targets, and the crash on a file system that has no id yet.
\<close>

section \<open>Waiting for the database\<close>

text \<open>
  What \<open>rds_wait\<close> does once it holds the resource \<open>j\<close> with the status it read from \<open>ob\<close>: no more
  calls while that status is not available, otherwise one read, of the endpoint.
\<close>

definition rds_rest :: "Jira \<Rightarrow> kobj \<Rightarrow> Jira \<Rightarrow> (Jira \<times> string) outcome \<Rightarrow> event list \<Rightarrow> bool" where
  "rds_rest jira ob j r rest \<longleftrightarrow>
     (if db_status ob \<noteq> ''available'' then rest = [] \<and> r = Return (after (30 * Second)) None
      else \<exists>ans. rest = [Got Kind_RDSInstance (ClusterKey (name_uid jira)) ans]
        \<and> r = (case ans of
                 Inl e \<Rightarrow> Return (after (5 * Second)) (Some e)
               | Inr ob' \<Rightarrow>
                   if db_endpoint ob' = '''' then Return (after (10 * Second)) None
                   else Next (j, db_endpoint ob')))"

text \<open>The log of \<open>rds_wait\<close> on every branch, with its outcome.\<close>

definition rds_log :: "Jira \<Rightarrow> (Jira \<times> string) outcome \<Rightarrow> event list \<Rightarrow> bool" where
  "rds_log jira r es \<longleftrightarrow> (\<exists>ans rest. es = Got Kind_RDSInstance (ClusterKey (name_uid jira)) ans # rest
     \<and> (case ans of
          Inl e \<Rightarrow> rest = [] \<and> r = Return (after (5 * Second)) (Some e)
        | Inr ob \<Rightarrow>
            if rds_Status (RDS (Status jira)) = db_status ob then rds_rest jira ob jira r rest
            else \<exists>err rest'.
              rest = StatusUpdated (set_RDS (\<lambda>s. s\<lparr>rds_Status := db_status ob\<rparr>) jira) err # rest'
              \<and> (case err of
                   Some e \<Rightarrow> rest' = [] \<and> r = Return (after (5 * Second)) err
                 | None \<Rightarrow> \<exists>j. rds_rest jira ob j r rest')))"

text \<open>C14.
  Waiting for the instance, on every branch: the instance is read, and the status read is written into
  the resource when it differs from the recorded one and only then. Then, while it is not available,
  the run ends for thirty seconds without another call; when it is, the endpoint is read: ten seconds
  while there is none, on with the one that was read. A call that fails ends it for five seconds with
  its error.\<close>

theorem rds_wait_exits: "every (rds_wait env jira) (rds_log jira)"
  unfolding rds_wait_def Let_def
proof (rule rdsStatus.every_bind_checkedI)
  fix ob assume "obj_kind ob = Kind_RDSInstance"
  let ?got = "Got Kind_RDSInstance (ClusterKey (name_uid jira))"
  let ?new = "set_RDS (\<lambda>s. s\<lparr>rds_Status := db_status ob\<rparr>) jira"
  let ?rest = "\<lambda>j. bind (stop_if (db_status ob \<noteq> ''available'') (after (30 * Second)) None) (\<lambda>_.
     bind (checked (getRdsEndpoint env (ClusterKey (name_uid jira))) (after (5 * Second))) (\<lambda>h.
     bind (stop_if (h = '''') (after (10 * Second)) None) (\<lambda>_. ret (j, h))))"
  have rest: "every (?rest j) (rds_rest jira ob j)" for j :: Jira
  proof (rule every_bind_stop_if)
    assume "\<not> db_status ob \<noteq> ''available''"
    then show "every (bind (checked (getRdsEndpoint env (ClusterKey (name_uid jira))) (after (5 * Second)))
        (\<lambda>h. bind (stop_if (h = '''') (after (10 * Second)) None) (\<lambda>_. ret (j, h)))) (rds_rest jira ob j)"
      by (intro rdsEndpoint.every_bind_checkedI) (auto simp: rds_rest_def stop_if_def wp_simps)
  qed (simp add: rds_rest_def)
  have save: "every (bind (save_status env ?new (after (5 * Second))) ?rest)
      (\<lambda>r es. rds_log jira r (?got (Inr ob) # es))" if "rds_Status (RDS (Status jira)) \<noteq> db_status ob"
    by (rule every_bind_save_statusI) (use that in \<open>auto simp: rds_log_def intro: every_mono [OF rest]\<close>)
  show "every (bind (if rds_Status (RDS (Status jira)) \<noteq> db_status ob
         then save_status env ?new (after (5 * Second)) else ret jira) ?rest)
    (\<lambda>r es. rds_log jira r (?got (Inr ob) # es))"
    using save by (auto simp: rds_log_def intro: every_mono [OF rest])
qed (simp add: rds_log_def)

section \<open>The database secret\<close>

text \<open>C10.
  The secret is read once. When the host name in it is the endpoint nothing is written. Otherwise,
  and also when reading it failed, whatever the error, a secret built anew for the endpoint, with
  three freshly generated passwords, is written over it, and the outcome is that of this write: the
  passwords in use are lost on a failed read.\<close>

theorem update_secret_branches:
  assumes "Intn_in_range env"
  shows "every (update_secret env jira o' host) (\<lambda>r es. \<exists>ans rest.
    es = Got Kind_Secret (meta_key (db_secret o')) ans # rest
    \<and> (if (case ans of Inl e \<Rightarrow> '''' | Inr ob \<Rightarrow> gomap_get (secret_data ob) ''hostname'') = host
       then rest = [] \<and> r = Next ()
       else \<exists>s err. rest = [Updated (Obj_Secret s) err]
         \<and> rds_secret_ok jira host (db_namespace o') s
         \<and> r = (case err of None \<Rightarrow> Next () | Some e \<Rightarrow> Return (after (5 * Second)) err)))"
  (is "every _ ?Q")
proof -
  have overwrite: "every (bind (GetRdsSecret env jira host (db_namespace o')) (\<lambda>rdsSecret.
      update_object env (Obj_Secret rdsSecret) (after (5 * Second))))
    (\<lambda>r es. \<exists>s err. es = [Updated (Obj_Secret s) err] \<and> rds_secret_ok jira host (db_namespace o') s
      \<and> r = (case err of None \<Rightarrow> Next () | Some e \<Rightarrow> Return (after (5 * Second)) err))" (is "every _ ?W")
  proof (rule every_bindI, rule every_mono [OF every_conj [OF GetRdsSecret_spec GetRdsSecret_returns [OF assms]]])
    fix r :: "Secret outcome" and es :: "event list"
    assume "(es = [] \<and> (\<forall>s. r = Next s \<longrightarrow> rds_secret_ok jira host (db_namespace o') s)
      \<and> (\<forall>x e. r \<noteq> Return x e)) \<and> (\<exists>s. r = Next s)"
    then obtain s where s: "r = Next s" "es = []" "rds_secret_ok jira host (db_namespace o') s" by blast
    have "every (bind (update_object env (Obj_Secret s) (after (5 * Second))) ret) ?W"
      using s by (intro every_bind_update_objectI) (auto simp: wp_simps)
    with s show "case r of
        Next a \<Rightarrow> every (update_object env (Obj_Secret a) (after (5 * Second))) (\<lambda>r' es'. ?W r' (es @ es'))
      | Return x e \<Rightarrow> ?W (Return x e) es | Panic p \<Rightarrow> ?W (Panic p) es"
      by simp
  qed
  show ?thesis
    unfolding update_secret_def
  proof (rule secretData.every_bind_readI)
    fix e
    show "every (case (fmempty, Some e) of (data, uu) \<Rightarrow>
        if gomap_get data ''hostname'' \<noteq> host
        then bind (GetRdsSecret env jira host (db_namespace o')) (\<lambda>rdsSecret.
          update_object env (Obj_Secret rdsSecret) (after (5 * Second)))
        else ret ()) (\<lambda>r es. ?Q r (Got Kind_Secret (meta_key (db_secret o')) (Inl e) # es))"
      using overwrite by (auto simp: gomap_get_def wp_simps elim: every_mono)
  next
    fix ob
    show "every (case (secret_data ob, None) of (data, uu) \<Rightarrow>
        if gomap_get data ''hostname'' \<noteq> host
        then bind (GetRdsSecret env jira host (db_namespace o')) (\<lambda>rdsSecret.
          update_object env (Obj_Secret rdsSecret) (after (5 * Second)))
        else ret ()) (\<lambda>r es. ?Q r (Got Kind_Secret (meta_key (db_secret o')) (Inr ob) # es))"
      using overwrite by (auto simp: wp_simps elim: every_mono)
  qed
qed

theorem update_secret_branches_witness:
  "every (update_secret sample_env sample_jira
      \<lparr>db_namespace = ''jira-clone'', db_secret = zero_ObjectMeta, db_instance = zero_ObjectMeta\<rparr>
      ''db.example.com'')
    (\<lambda>r es. \<exists>ans rest. es = Got Kind_Secret (meta_key zero_ObjectMeta) ans # rest)"
  by (rule every_mono [OF update_secret_branches [OF sample_env_hypotheses(3)]]) auto

section \<open>The change log\<close>

text \<open>
  A ConfigMap that is there already is read, and updated exactly when the change log in it differs
  from the one wanted; the outcome is the error of the call that failed, if one did.
\<close>

definition refreshed :: "ConfigMap \<Rightarrow> unit outcome \<Rightarrow> event list \<Rightarrow> bool" where
  "refreshed cm r es \<longleftrightarrow> (\<exists>ans rest. es = Got Kind_ConfigMap (meta_key (cm_ObjectMeta cm)) ans # rest
     \<and> (case ans of
          Inl e \<Rightarrow> rest = [] \<and> r = Return (after (5 * Second)) (Some e)
        | Inr ob \<Rightarrow>
            if gomap_get (cm_data ob) ''changelog.yml'' = gomap_get (cm_Data cm) ''changelog.yml''
            then rest = [] \<and> r = Next ()
            else \<exists>err. rest = [Updated (Obj_ConfigMap cm) err]
              \<and> r = (case err of None \<Rightarrow> Next () | Some e \<Rightarrow> Return (after (5 * Second)) err)))"

lemma refresh_changelog_refreshed: "every (refresh_changelog env cm) (refreshed cm)"
  unfolding refresh_changelog_def
proof (rule configMapData.every_bind_checkedI)
  fix ob
  have "every (bind (update_object env (Obj_ConfigMap cm) (after (5 * Second))) ret)
    (\<lambda>r es. \<exists>err. es = [Updated (Obj_ConfigMap cm) err]
      \<and> r = (case err of None \<Rightarrow> Next () | Some e \<Rightarrow> Return (after (5 * Second)) err))"
    by (rule every_bind_update_objectI) (auto simp: wp_simps)
  then show "every (if gomap_get (cm_data ob) ''changelog.yml'' \<noteq> gomap_get (cm_Data cm) ''changelog.yml''
        then update_object env (Obj_ConfigMap cm) (after (5 * Second)) else ret ())
    (\<lambda>q es. refreshed cm q (Got Kind_ConfigMap (meta_key (cm_ObjectMeta cm)) (Inr ob) # es))"
    by (auto simp: refreshed_def wp_simps elim: every_mono)
qed (simp add: refreshed_def)

text \<open>C15.
  The ConfigMap of the change log is created; when it is there already it is refreshed, that is read,
  and updated exactly when the change log in it differs from the one wanted. Any other failure of the
  creation is returned with ten seconds.\<close>

theorem create_changelog_branches:
  "every (create_changelog env cm) (\<lambda>r es. \<exists>err rest. es = Created (Obj_ConfigMap cm) err # rest
     \<and> (case err of
          None \<Rightarrow> rest = [] \<and> r = Next ()
        | Some e \<Rightarrow>
            if IsAlreadyExists e then \<exists>m. refreshed (cm\<lparr>cm_ObjectMeta := m\<rparr>) r rest
            else rest = [] \<and> r = Return (after (10 * Second)) err))"
  unfolding create_changelog_def
proof (rule every_bind_r_CreateI, unfold split_conv)
  fix err m
  show "every (case err of None \<Rightarrow> ret () | Some e \<Rightarrow>
        if IsAlreadyExists e then refresh_changelog env (cm\<lparr>cm_ObjectMeta := m\<rparr>)
        else stop (after (10 * Second)) err)
    (\<lambda>r es. \<exists>err' rest. Created (Obj_ConfigMap cm) err # es = Created (Obj_ConfigMap cm) err' # rest
     \<and> (case err' of
          None \<Rightarrow> rest = [] \<and> r = Next ()
        | Some e \<Rightarrow>
            if IsAlreadyExists e then \<exists>m. refreshed (cm\<lparr>cm_ObjectMeta := m\<rparr>) r rest
            else rest = [] \<and> r = Return (after (10 * Second)) err'))"
    by (cases err)
       (auto simp: wp_simps intro: every_mono [OF refresh_changelog_refreshed])
qed

section \<open>EFS\<close>

text \<open>C13.
  The loop over the subnets creates one mount target per subnet, in order, numbered from zero: at any
  exit the objects created are a prefix of that list, and when the loop ends by itself they are the
  whole of it.\<close>

theorem mount_targets_in_order:
  "every (mount_targets env jira fs (int i) subnets) (\<lambda>r es.
     prefix (created_objects es)
       (map (\<lambda>(j, s). Obj_MountTarget (GetMountTargets jira fs s (Itoa (int j)))) (enumerate i subnets))
     \<and> (r = Next () \<longrightarrow> length (created_objects es) = length subnets))"
  (is "every _ (?Q i subnets)")
proof (induction subnets arbitrary: i)
  case (Cons subnet subnets)
  have loop: "every (mount_targets env jira fs (int i + 1) subnets) (?Q (Suc i) subnets)"
    using Cons.IH [of "Suc i"] by (simp add: add.commute)
  show ?case
    unfolding mount_targets.simps
    by (intro every_bind_ensureI mountTargetStatus.every_bind_checkedI every_bind_derefI
        every_bind_stop_if every_mono [OF loop]) auto
qed (simp add: wp_simps)

theorem mount_targets_in_order_witness:
  "every (mount_targets sample_env sample_jira ''fs-1'' 0 [''subnet-a'', ''subnet-b'']) (\<lambda>r es.
     r = Next () \<longrightarrow> length (created_objects es) = 2)"
  by (rule every_mono [OF mount_targets_in_order [where i = 0, simplified]]) auto

text \<open>C28.
  A file system that was just asked for has no id yet: the pointer read is nil, and \<open>Reconcile\<close>
  dereferences it, where it was meant to wait five seconds.\<close>

theorem efs_crashes_without_id:
  assumes "api_Create env (Obj_FileSystem (GetFileSystem jira ns)) w = ((None, m), w1)"
    and "get_FileSystem env (ClusterKey (name_uid jira)) w1 = (Inr f, w2)"
    and "fs_AtProvider_FileSystemID f = None"
  shows "shared_efs env jira ns w = (Panic ''nil pointer dereference'',
     [Created (Obj_FileSystem (GetFileSystem jira ns)) None,
      Got Kind_FileSystem (ClusterKey (name_uid jira)) (Inr (Obj_FileSystem f))], w2)"
  using assms
  by (simp add: shared_efs_def efs_file_system_def ensure_def r_Create_def checked_def
      getFilesystemId_def read_field_def r_Get_def bind_def act_def stop_if_def ret_def deref_def panic_def)

theorem efs_crashes_without_id_witness:
  "\<exists>es. shared_efs (sample_env\<lparr>get_FileSystem := \<lambda>key w. (Inr (GetFileSystem sample_jira ''jira-clone''), w)\<rparr>)
     sample_jira ''jira-clone'' () = (Panic ''nil pointer dereference'', es, ())"
  using efs_crashes_without_id [of "sample_env\<lparr>get_FileSystem := \<lambda>key w. (Inr (GetFileSystem sample_jira ''jira-clone''), w)\<rparr>"
      sample_jira "''jira-clone''" "()" _ "()" _ "()"]
  by (simp add: sample_env_def GetFileSystem_def Let_def)

section \<open>Passwords\<close>

text \<open>C26.
  Whatever the clock and the random source do within its range, a generated password has the length
  asked for (none is negative) and only letters, digits and the five special characters, and its generation always ends
  with one.\<close>

theorem generated_passwords_ok:
  assumes "Intn_in_range env" and "0 \<le> n"
  shows "every (GeneratePasswd env n) (\<lambda>r es. es = [] \<and>
    (\<exists>s. r = Next s \<and> length s = nat n \<and> set s \<subseteq> set passwd_chars))"
  by (rule every_mono [OF every_conj [OF GeneratePasswd_spec GeneratePasswd_returns [OF assms]]])
     (auto simp: passwd_ok_def)

theorem generated_passwords_ok_witness:
  "every (GeneratePasswd sample_env 26) (\<lambda>r es. \<exists>s. r = Next s \<and> length s = 26)"
  by (rule every_mono [OF generated_passwords_ok [OF sample_env_hypotheses(3), of 26]]) auto

section \<open>What is reported in the status\<close>

text \<open>C30.
  The health Argo CD reports of the application is asked for with one command; when it differs from
  the one recorded it is recorded as it was printed, and nothing is written when it does not.\<close>

theorem health_status_branches:
  "every (health_status env jira) (\<lambda>r es. \<exists>out err rest.
     es = Ran ''kubectl'' (getAppKubectlArgs jira ''jsonpath={.status.health.status}'') out err # rest
     \<and> (case err of
          Some e \<Rightarrow> rest = [] \<and> r = Return (after (5 * Minute)) err
        | None \<Rightarrow>
            if Health (status_AppStatus (Status jira)) = out then rest = [] \<and> r = Next jira
            else \<exists>err'. rest = [StatusUpdated (set_AppStatus (\<lambda>s. s\<lparr>Health := out\<rparr>) jira) err']
              \<and> (case err' of
                   Some e \<Rightarrow> r = Return (after (5 * Second)) err'
                 | None \<Rightarrow> \<exists>j. r = Next j)))"
  (is "every _ ?Q")
  unfolding health_status_def
proof (rule every_bind_checked_RunKubectlI)
  fix out
  let ?ran = "Ran ''kubectl'' (getAppKubectlArgs jira ''jsonpath={.status.health.status}'') out None"
  let ?new = "set_AppStatus (\<lambda>s. s\<lparr>Health := out\<rparr>) jira"
  have "every (bind (save_status env ?new (after (5 * Second))) ret)
    (\<lambda>r es. \<exists>err'. es = [StatusUpdated ?new err'] \<and> (case err' of
        Some e \<Rightarrow> r = Return (after (5 * Second)) err' | None \<Rightarrow> \<exists>j. r = Next j))"
    by (rule every_bind_save_statusI) (auto simp: wp_simps)
  then show "every (if Health (status_AppStatus (Status jira)) \<noteq> out
        then save_status env ?new (after (5 * Second)) else ret jira) (\<lambda>q es. ?Q q (?ran # es))"
    by (auto simp: wp_simps elim: every_mono)
qed simp

text \<open>C29.
  The FSx volume id is read through the claim: the claim first, then the volume it is bound to, and
  the handle of its CSI source; the first error is passed on, and a volume without a CSI source
  crashes the run.\<close>

theorem fsx_volume_name_read:
  "every (getFsxVolumeName env m) (\<lambda>r es.
     (\<exists>e. es = [Got Kind_PersistentVolumeClaim (meta_key m) (Inl e)] \<and> r = Next ('''', Some e))
     \<or> (\<exists>pvc ans. es = [Got Kind_PersistentVolumeClaim (meta_key m) (Inr (Obj_PersistentVolumeClaim pvc)),
           Got Kind_PersistentVolume (ClusterKey (VolumeName (pvc_Spec pvc))) ans]
         \<and> (case ans of
              Inl e \<Rightarrow> r = Next ('''', Some e)
            | Inr ob \<Rightarrow>
                (case CSI (pv_Source (pv_Spec (the_pv ob))) of
                   None \<Rightarrow> r = Panic ''nil pointer dereference''
                 | Some c \<Rightarrow> r = Next (VolumeHandle c, None)))))"
proof -
  have handle: "every (getPvHandle env n) (\<lambda>r es. \<exists>ans. es = [Got Kind_PersistentVolume (ClusterKey n) ans]
      \<and> (case ans of
           Inl e \<Rightarrow> r = Next ('''', Some e)
         | Inr ob \<Rightarrow>
             (case CSI (pv_Source (pv_Spec (the_pv ob))) of
                None \<Rightarrow> r = Panic ''nil pointer dereference''
              | Some c \<Rightarrow> r = Next (VolumeHandle c, None))))" for n
    unfolding getPvHandle_def
    by (rule pvByName.every_bind_readI) (auto simp: volume_handle_def wp_simps split: option.split)
  show ?thesis
    unfolding getFsxVolumeName_def
    by (rule every_bind_r_GetI)
       (auto simp: wp_simps split: sum.split intro!: every_mono [OF handle])
qed

end
