(* ===== verification/Manager.thy ===== *)
theory Manager
  imports Sample
begin

text \<open>
  What surrounds \<open>Reconcile\<close>: the scheme and the start-up of \<open>main.go\<close>, and the watches of
  \<open>SetupWithManager\<close> (\<open>controllers/jira_controller.go\<close>). The manager itself is a library: its calls
  are answered by a parameter.
\<close>

section \<open>The scheme\<close>

text \<open>The packages whose types \<open>init\<close> adds to the scheme, in its order.\<close>

datatype api_package = Client_go | Aws_rds | Aws_database | Aws_efs | Aws_ec2 | Csi_snapshot | App_v1

definition init_scheme :: "api_package list" where
  "init_scheme = [Client_go, Aws_rds, Aws_database, Aws_efs, Aws_ec2, Csi_snapshot, App_v1]"

text \<open>
  The package whose scheme knows each kind, read off the qualifiers the controllers use for it
  (\<open>appv1.Jira\<close>, \<open>database.RDSInstance\<close>, \<open>ec2.Volume\<close>, \<open>corev1.Secret\<close>, \<open>appsv1.StatefulSet\<close>, ...) and the
  imports that bind them in \<open>jira_controller.go\<close> and \<open>status.go\<close>; the Kubernetes packages (\<open>corev1\<close>,
  \<open>batchv1\<close>, \<open>appsv1\<close>) are all in the scheme of \<open>client-go\<close>.
\<close>

fun kind_package :: "kind \<Rightarrow> api_package" where
  "kind_package Kind_RDSInstance = Aws_database"
| "kind_package Kind_DBSubnetGroup = Aws_database"
| "kind_package Kind_DBParameterGroup = Aws_rds"
| "kind_package Kind_EbsVolume = Aws_ec2"
| "kind_package Kind_FileSystem = Aws_efs"
| "kind_package Kind_MountTarget = Aws_efs"
| "kind_package Kind_VolumeSnapshotContent = Csi_snapshot"
| "kind_package Kind_VolumeSnapshot = Csi_snapshot"
| "kind_package Kind_Jira = App_v1"
| "kind_package _ = Client_go"

section \<open>The watches\<close>

record controller_watches =
  watch_For :: kind
  watch_Owns :: "kind list"

definition SetupWithManager :: controller_watches where
  "SetupWithManager =
     \<lparr>watch_For = Kind_Jira,
      watch_Owns =
        [Kind_Namespace, Kind_Secret, Kind_Job, Kind_ConfigMap, Kind_RDSInstance, Kind_DBSubnetGroup,
         Kind_DBParameterGroup, Kind_EbsVolume, Kind_FileSystem, Kind_VolumeSnapshot,
         Kind_VolumeSnapshotContent]\<rparr>"

section \<open>Start-up\<close>

record flags =
  metrics_bind_address :: "string option"
  health_probe_bind_address :: "string option"
  leader_elect :: "bool option"

record Options =
  MetricsBindAddress :: string
  ManagerPort :: nat
  HealthProbeBindAddress :: string
  LeaderElection :: bool
  LeaderElectionID :: string

definition manager_options :: "flags \<Rightarrow> Options" where
  "manager_options f =
     \<lparr>MetricsBindAddress = (case metrics_bind_address f of None \<Rightarrow> '':8080'' | Some a \<Rightarrow> a),
      ManagerPort = 9443,
      HealthProbeBindAddress = (case health_probe_bind_address f of None \<Rightarrow> '':8081'' | Some a \<Rightarrow> a),
      LeaderElection = (case leader_elect f of None \<Rightarrow> False | Some b \<Rightarrow> b),
      LeaderElectionID = ''3239bb59.atlassian.com''\<rparr>"

text \<open>
  What \<open>flag.Parse\<close> makes of the command line: the values given, or, as a library default, an exit, with
  code 0 when help is asked for and 2 on a malformed flag. The flags of the logger are left out.
\<close>

datatype parsed_flags = Parsed flags | Help_wanted | Bad_flag

datatype startup_call =
    GetConfig
  | NewManager Options
  | NewController controller_watches
  | AddHealthzCheck string
  | AddReadyzCheck string
  | StartManager

definition main_calls :: "flags \<Rightarrow> startup_call list" where
  "main_calls f =
     [GetConfig, NewManager (manager_options f), NewController SetupWithManager, AddHealthzCheck ''healthz'',
      AddReadyzCheck ''readyz'', StartManager]"

text \<open>
  Each call is checked: its error exits the process with code 1 at once. \<open>ctrl.GetConfigOrDie\<close>, which
  loads the configuration of the client, does so itself.
\<close>

fun startup :: "(startup_call \<Rightarrow> goerror option) \<Rightarrow> startup_call list \<Rightarrow> startup_call list \<times> nat" where
  "startup answer [] = ([], 0)"
| "startup answer (c # cs) =
     (case answer c of
        Some e \<Rightarrow> ([c], 1)
      | None \<Rightarrow> (case startup answer cs of (done', code) \<Rightarrow> (c # done', code)))"

definition main :: "(startup_call \<Rightarrow> goerror option) \<Rightarrow> parsed_flags \<Rightarrow> startup_call list \<times> nat" where
  "main answer p =
     (case p of
        Parsed f \<Rightarrow> startup answer (main_calls f)
      | Help_wanted \<Rightarrow> ([], 0)
      | Bad_flag \<Rightarrow> ([], 2))"

section \<open>Properties\<close>

lemma main_calls_shape:
  obtains c0 c1 c2 c3 c4 where "main_calls f = [c0, c1, c2, c3, c4, StartManager]"
    and "StartManager \<notin> {c0, c1, c2, c3, c4}"
  by (simp add: main_calls_def)

text \<open>C32.
  Start-up makes its six calls in order and stops with exit code 1 at the first that fails; the
  manager is started only when the configuration was loaded, it was made, the controller with its
  watches is registered and both probes are there. Flags that do not parse, or ask for help, end it
  before any call.\<close>

theorem main_starts_last:
  assumes "main answer p = (calls, code)"
  shows "case p of
      Parsed f \<Rightarrow> prefix calls (main_calls f)
        \<and> (StartManager \<in> set calls) = (\<forall>c \<in> set (butlast (main_calls f)). answer c = None)
        \<and> (code = 0) = (\<forall>c \<in> set (main_calls f). answer c = None) \<and> code \<le> 1
    | Help_wanted \<Rightarrow> calls = [] \<and> code = 0
    | Bad_flag \<Rightarrow> calls = [] \<and> code = 2"
proof (cases p)
  case (Parsed f)
  obtain c0 c1 c2 c3 c4 where calls: "main_calls f = [c0, c1, c2, c3, c4, StartManager]"
    and distinct: "StartManager \<notin> {c0, c1, c2, c3, c4}"
    by (rule main_calls_shape)
  show ?thesis
    using assms distinct unfolding main_def Parsed parsed_flags.case calls
    by (cases "answer c0"; cases "answer c1"; cases "answer c2"; cases "answer c3"; cases "answer c4";
        cases "answer StartManager") auto
qed (use assms in \<open>simp_all add: main_def\<close>)

theorem main_starts_last_witness:
  "main (\<lambda>c. if c = AddReadyzCheck ''readyz'' then Some \<lparr>err_text = ''bad'', IsAlreadyExists = False\<rparr> else None)
     (Parsed \<lparr>metrics_bind_address = None, health_probe_bind_address = None, leader_elect = None\<rparr>)
   = (butlast (main_calls
       \<lparr>metrics_bind_address = None, health_probe_bind_address = None, leader_elect = None\<rparr>), 1)
   \<and> StartManager \<notin> set (butlast (main_calls
       \<lparr>metrics_bind_address = None, health_probe_bind_address = None, leader_elect = None\<rparr>))"
proof -
  let ?f = "\<lparr>metrics_bind_address = None, health_probe_bind_address = None, leader_elect = None\<rparr>"
  let ?a = "\<lambda>c. if c = AddReadyzCheck ''readyz'' then Some \<lparr>err_text = ''bad'', IsAlreadyExists = False\<rparr> else None"
  have run: "main ?a (Parsed ?f) = (butlast (main_calls ?f), 1)"
    by (simp add: main_def main_calls_def)
  from main_starts_last [OF run] run show ?thesis by (simp add: main_calls_def)
qed

text \<open>C34.
  The packages \<open>init\<close> adds to the scheme are exactly those of the kinds the operator builds, reads or
  watches, each added once: no client call can fail for an unregistered type, and nothing is
  registered in vain.\<close>

theorem scheme_covers:
  "set init_scheme = range kind_package \<and> distinct init_scheme"
proof -
  have "kind_package k \<in> set init_scheme" for k
    by (cases k) (simp_all add: init_scheme_def)
  moreover have "set init_scheme \<subseteq> kind_package ` {Kind_Pod, Kind_DBParameterGroup, Kind_RDSInstance,
      Kind_FileSystem, Kind_EbsVolume, Kind_VolumeSnapshot, Kind_Jira}"
    by (simp add: init_scheme_def)
  ultimately have "set init_scheme = range kind_package" by blast
  then show ?thesis by (simp add: init_scheme_def)
qed

text \<open>C33.
  The controller watches jobs as objects it owns, but no job a run creates has a controlling owner: no
  event of a job leads back to the resource, which learns of it by polling only. Of all the other
  kinds it watches as owned, the secret included, a run creates objects under the control of the
  resource only.\<close>

theorem watched_jobs_have_no_owner:
  assumes "create_keeps_key env" and "status_update_keeps_request env"
    and "reconcile_jira env jira w = (r, es, w')"
  shows "Kind_Job \<in> set (watch_Owns SetupWithManager)
   \<and> (\<forall>ob \<in> set (created_objects es). obj_kind ob \<in> set (watch_Owns SetupWithManager) \<longrightarrow>
        (if obj_kind ob = Kind_Job then controller_refs ob = [] else controlled_by jira ob))"
proof -
  have "owned_or_job jira ob" if "ob \<in> set (created_objects es)" for ob
  proof -
    from that obtain e where "Created ob e \<in> set es" by (auto simp: set_created_objects)
    then have "within jira (Created ob e)"
      using logs_run [OF within_reconcile_jira [OF assms(1,2)] assms(3)] by blast
    then show ?thesis by simp
  qed
  then show ?thesis
    by (auto simp: owned_or_job_def SetupWithManager_def)
qed

theorem watched_jobs_have_no_owner_witness:
  "\<exists>r es ob. reconcile_jira sample_env sample_jira () = (r, es, ()) \<and> ob \<in> set (created_objects es)
    \<and> obj_kind ob = Kind_Job \<and> controller_refs ob = []"
proof -
  obtain r ys ev zs where run: "reconcile_jira sample_env sample_jira () = (r, ys @ ev # zs, ())"
    and ev: "attempts Kind_Job (changeset_key sample_jira) ev"
    using sample_run [OF reaches_changeset [OF sample_env_hypotheses(1-3)]] by blast
  then obtain ob e where "ev = Created ob e" "obj_kind ob = Kind_Job"
    by (auto elim: attempts.elims)
  then have ob: "ob \<in> set (created_objects (ys @ ev # zs))" "obj_kind ob = Kind_Job"
    by simp_all
  with watched_jobs_have_no_owner [OF sample_env_hypotheses(1,2) run]
  have "controller_refs ob = []" by (auto simp del: created_objects_append)
  with run ob show ?thesis by blast
qed

end
