(* ===== verification/Spec2Isabelle.thy ===== *)
theory Spec2Isabelle
  imports Plan Wiring Rendering Stage_Behaviour Manager
begin

text \<open>
  A model of the Jira operator (repository \<open>jira-installation-operator\<close>): a Kubernetes controller, in
  Go, that provisions what a Jira installation needs for a \<open>Jira\<close> custom resource (an RDS
  instance, a shared home on EBS, FSx or EFS, secrets, jobs) and deploys Jira through Argo CD. The
  model is a shallow embedding of the controller, with the world outside it as a parameter, and
  theorems about its runs.

  The program. \<open>controllers/jira_controller.go\<close> holds \<open>Reconcile\<close>, one long function that is run
  again and again for a resource: it creates objects built by \<open>k8s/*.go\<close> and \<open>crossplane/*.go\<close>, reads
  fields of them back with the functions of \<open>controllers/status.go\<close>, waits by returning a delay, writes
  the status of the resource, renders a template (\<open>argocd/applicationset.go\<close>) and runs \<open>kubectl\<close>
  (\<open>k8s/kubectl.go\<close>). \<open>api/v1/jira_types.go\<close> declares the resource, \<open>main.go\<close> starts the manager.

  The theories, in the order they are built:
    \<^item> \<open>Prelude\<close>: 32 and 64 bit integers as words, Go maps, errors, durations, the functions of packages
      \<open>strconv\<close> and \<open>strings\<close> the program calls. \<open>Go_Monad\<close>: a stateful step with an event log that carries
      on, returns out of \<open>Reconcile\<close> or panics; the calculi used on it: \<open>every\<close> (all runs satisfy),
      \<open>logs\<close> (bounds on the log and the value), \<open>precedes\<close>, \<open>gates\<close> (order in the log).
    \<^item> \<open>Jira_Types\<close>: the custom resource, one record per struct. \<open>Kube_Types\<close>, \<open>Kube_Objects\<close>: the
      fields of the foreign API types that the program sets or reads, the objects as one sum, keys,
      ownership. \<open>Client\<close>: the environment, a record of functions for the API server, the file system,
      the processes, clock, random source and quantity parser, and the calls, each of which logs an
      event with its answer; the named hypotheses on the environment.
    \<^item> \<open>Helpers\<close>, \<open>Builder_Contract\<close>, \<open>Database_Objects\<close>, \<open>Volume_Objects\<close>, \<open>Cloud_Storage\<close>, \<open>Jobs\<close>:
      the builders, one definition per Go function. Their interface to the reconciler is the pair of
      locales \<open>object_builder\<close> and \<open>owned_builder\<close>, interpreted on every builder.
    \<^item> \<open>Status_Readers\<close>: the readers, with the locale \<open>field_reader\<close> interpreted on each of them.
    \<^item> \<open>Text_Template\<close>: the part of Go's \<open>text/template\<close> the shipped template uses (lexer with trim
      markers, parser, execution). \<open>ApplicationSet\<close>: the template, its variables, the rendering, and
      the document it amounts to. \<open>Rendering\<close>: the properties of it, against the rendered file that is
      checked in for the sample resource among others.
    \<^item> \<open>Reconcile_Steps\<close>: the statement patterns of \<open>Reconcile\<close> (create unless it exists, check an error,
      save the status, wait for a count), and the locales \<open>reconcile_step\<close> and \<open>reconcile_sequence\<close> of
      the contract every stretch of the function keeps. \<open>Reconcile_Database\<close>, \<open>Reconcile_Storage\<close>,
      \<open>Reconcile_App\<close>: the function cut into stages at its comments, each interpreted as a step;
      \<open>Reconciler\<close>: the whole. \<open>Stage_Behaviour\<close>: what single stages do on every branch.
    \<^item> \<open>Inventory\<close>, \<open>Frame\<close>: the abstract specification of what a run may touch, as a function of the
      request, and the proof that every stage stays within it. \<open>Plan\<close>: the order in which a run creates
      it, and the proof that the stages follow it. \<open>Gating\<close>, \<open>Ordering\<close>: what a run has to
      have seen before it does what. \<open>Progress\<close>: when a run gets to its end. \<open>Crashes\<close>: when it panics.
    \<^item> \<open>Wiring\<close>: how the built objects refer to each other, also across the stages that create them.
      \<open>Manager\<close>: scheme, watches, start-up.
    \<^item> \<open>Sample\<close>: the sample resource of the repository, with the defaults of its definition filled in,
      an environment in which everything is ready, at which the properties are applied, and one in
      which a run panics. This theory: the properties of whole runs.

  Correspondence. A Go struct is a record with its fields, a pointer field an option, a map a finite
  map, a slice a list, an \<open>int64\<close> or \<open>int32\<close> field a word, \<open>time.Duration\<close> an integer of nanoseconds. A
  statement \<open>if err != nil { return res, err }\<close> is a \<open>Return\<close> outcome; the effects before it stay. The
  value a \<open>Create\<close> leaves in the object it was given is taken from the environment, and later reads use
  it, as in the code. An error that the code drops is dropped. Every delay is the one of the code.
  Nothing is assumed of the environment but in hypotheses of theorems: \<open>create_keeps_key\<close> (a \<open>Create\<close>
  leaves name and namespace as they are), \<open>status_update_keeps_request\<close> (a status update changes the
  status only), \<open>Intn_in_range\<close> and \<open>parses_GiB\<close> (documented behaviour of \<open>rand.Intn\<close> and
  \<open>resource.MustParse\<close>).

  Bounds. Nothing needs fuel: the loops of the program run over lists or up to a given length and are
  structural recursions; the lexer and parser of templates recur on a measure.

  Not modelled: log messages; contexts; the queue of the manager, which serialises runs for one
  resource and calls \<open>Reconcile\<close> again; YAML and JSON encoding; what the API server, AWS or Argo CD do
  with an object; in \<open>main.go\<close>, the flags of the logger. \<open>tmpl.Execute\<close> writes piecemeal, here it is one write of all it produced; a
  template outside the modelled part of the language counts as one that does not parse. Aliasing of the resource in the client's cache (\<open>zz_generated.deepcopy.go\<close>) is left
  out: \<open>Reconcile\<close> never assigns into a slice of the resource. Fields of foreign types that the program neither sets
  nor reads are left out of their records.
\<close>

section \<open>The contract of a run\<close>

text \<open>C3.
  A run of \<open>Reconcile\<close> stops at the first call that fails and returns its error: in the log of a run
  a failed call (an \<open>AlreadyExists\<close> answer to a \<open>Create\<close> is none) is the last event, unless it is the
  lookup of the resource or the read of the database secret, whose errors the code drops.\<close>

theorem Reconcile_fail_fast:
  assumes "Reconcile env req w = (r, ys @ ev # zs, w')"
    and "event_error ev = Some e"
    and "ev \<noteq> Got Kind_Jira req (Inl e)"
    and "\<nexists>key. ev = Got Kind_Secret key (Inl e)"
  shows "zs = [] \<and> (\<exists>x. r = Return x (Some e))"
proof -
  obtain ans es' where es: "ys @ ev # zs = Got Kind_Jira req ans # es'"
    and run: "case ans of Inl e \<Rightarrow> es' = [] \<and> r = Return empty_Result None
      | Inr ob \<Rightarrow> step_contract r es' \<and> (\<forall>a. r \<noteq> Next a)"
    using everyD [OF Reconcile_shape assms(1)] by blast
  have serious: "serious_error ev = Some e"
    using assms(2,4) by (cases ev rule: serious_error.cases) (auto split: if_splits)
  show ?thesis
  proof (cases ys)
    case Nil
    with es assms(2,3) show ?thesis by (cases ans) auto
  next
    case (Cons y ys')
    with es have "es' = ys' @ ev # zs" by simp
    with run have "fail_fast r (ys' @ ev # zs)"
      by (auto simp: step_contract_def split: sum.splits)
    then show ?thesis using serious by (rule fail_fast_split)
  qed
qed

definition refusing_env :: "unit env" where
  "refusing_env = sample_env\<lparr>api_Create := \<lambda>ob w.
     ((Some \<lparr>err_text = ''forbidden'', IsAlreadyExists = False\<rparr>, obj_meta ob), w)\<rparr>"

lemma refusing_run:
  "Reconcile refusing_env sample_key () =
     (Return (after Minute) (Some \<lparr>err_text = ''forbidden'', IsAlreadyExists = False\<rparr>),
      [Got Kind_Jira sample_key (Inr (Obj_Jira sample_jira)),
       Created (Obj_Namespace (GetNamespace sample_jira))
         (Some \<lparr>err_text = ''forbidden'', IsAlreadyExists = False\<rparr>)], ())"
  by (simp add: Reconcile_def reconcile_jira_def reconcile_database_def reconcile_infra_def ensure_def
      r_Create_def r_Get_def bind_def act_def stop_if_def stop_def refusing_env_def sample_env_def)

theorem Reconcile_fail_fast_witness:
  "\<exists>r es. Reconcile refusing_env sample_key () = (r, es @ [Created (Obj_Namespace (GetNamespace sample_jira))
      (Some \<lparr>err_text = ''forbidden'', IsAlreadyExists = False\<rparr>)], ())
    \<and> (\<exists>x. r = Return x (Some \<lparr>err_text = ''forbidden'', IsAlreadyExists = False\<rparr>))"
  using Reconcile_fail_fast [of refusing_env sample_key "()" _
      "[Got Kind_Jira sample_key (Inr (Obj_Jira sample_jira))]"
      "Created (Obj_Namespace (GetNamespace sample_jira))
        (Some \<lparr>err_text = ''forbidden'', IsAlreadyExists = False\<rparr>)" "[]" "()"]
    refusing_run by simp

text \<open>C4.
  Once the resource was found, a run never ends without a way to be run again: it returns an error,
  or no error and a positive delay, or it panics (and is restarted). It never falls off its end.\<close>

theorem Reconcile_requeues:
  assumes "Reconcile env req w = (r, es, w')" and "Got Kind_Jira req (Inr ob) \<in> set es"
  shows "(\<exists>x e. r = Return x (Some e)) \<or> (\<exists>x. r = Return x None \<and> 0 < RequeueAfter x)
    \<or> (\<exists>p. r = Panic p)"
proof -
  obtain ans es' where es: "es = Got Kind_Jira req ans # es'"
    and run: "case ans of Inl e \<Rightarrow> es' = [] \<and> r = Return empty_Result None
      | Inr ob \<Rightarrow> step_contract r es' \<and> (\<forall>a. r \<noteq> Next a)"
    using everyD [OF Reconcile_shape assms(1)] by blast
  with assms(2) have "step_contract r es'" "\<forall>a. r \<noteq> Next a"
    by (auto split: sum.splits)
  then show ?thesis
    by (cases r rule: requeues.cases) (auto simp: step_contract_def)
qed

theorem Reconcile_requeues_witness:
  "\<exists>r es. Reconcile refusing_env sample_key () = (r, es, ()) \<and>
     ((\<exists>x e. r = Return x (Some e)) \<or> (\<exists>x. r = Return x None \<and> 0 < RequeueAfter x) \<or> (\<exists>p. r = Panic p))"
  using Reconcile_requeues [OF refusing_run, of "Obj_Jira sample_jira"] refusing_run by simp

text \<open>C5.
  A run in which every call is answered well (the instance is available and has an endpoint, the jobs
  have succeeded, the storage is ready, the template is the shipped one) gets to the end of the
  reconciliation loop, which asks to be run again in five minutes.\<close>

theorem Reconcile_completes:
  assumes "Intn_in_range env" and "parses_GiB env"
    and "Reconcile env req w = (r, es, w')" and "\<forall>ev \<in> set es. good_answer ev"
  shows "r = Return (after (5 * Minute)) None"
  using everyD [OF completes_Reconcile [OF assms(1,2), unfolded completes_def] assms(3)] assms(4)
  by blast

theorem Reconcile_completes_witness:
  "\<exists>es. Reconcile sample_env sample_key () = (Return (after (5 * Minute)) None, es, ())"
proof -
  obtain r es where run: "Reconcile sample_env sample_key () = (r, es, ())"
    by (metis prod_cases3 old.unit.exhaust)
  moreover have "\<forall>ev \<in> set es. good_answer ev"
    using logs_run [OF sample_Reconcile run] by blast
  ultimately have "r = Return (after (5 * Minute)) None"
    by (rule Reconcile_completes [OF sample_env_hypotheses(3,4)])
  with run show ?thesis by blast
qed

text \<open>C9.
  Where the random source stays in its range and the sizes parse, \<open>Reconcile\<close> panics only right after
  an answer that leaves nil a pointer it dereferences: the id of a file system, the state of a mount
  target, the CSI source of a volume.\<close>

theorem Reconcile_crashes:
  assumes "Intn_in_range env" and "parses_GiB env" and "Reconcile env req w = (Panic p, es, w')"
  shows "es \<noteq> [] \<and> nil_answer (last es)"
  using everyD [OF crash_Reconcile [OF assms(1,2)] assms(3)] by simp

theorem Reconcile_crashes_witness:
  "\<exists>p es. Reconcile fresh_efs_env sample_key () = (Panic p, es, ()) \<and> es \<noteq> [] \<and> nil_answer (last es)"
proof -
  obtain es where run: "Reconcile fresh_efs_env sample_key () = (Panic ''nil pointer dereference'', es, ())"
    by (rule fresh_efs_run)
  from Reconcile_crashes [OF fresh_efs_env_hypotheses run] run show ?thesis by blast
qed

text \<open>C27.
  Any error of the lookup of the resource, not only that it is gone, ends the run with no error and
  no delay: nothing is done, and nothing asks for another run.\<close>

theorem lookup_error_is_dropped:
  assumes "get_Jira env req w = (Inl e, w')"
  shows "Reconcile env req w = (Return empty_Result None, [Got Kind_Jira req (Inl e)], w')"
  using assms by (simp add: Reconcile_def r_Get_def bind_def act_def stop_def)

theorem lookup_error_is_dropped_witness:
  "Reconcile (sample_env\<lparr>get_Jira := \<lambda>key w. (Inl \<lparr>err_text = ''timeout'', IsAlreadyExists = False\<rparr>, w)\<rparr>)
     sample_key () = (Return empty_Result None,
       [Got Kind_Jira sample_key (Inl \<lparr>err_text = ''timeout'', IsAlreadyExists = False\<rparr>)], ())"
  by (rule lookup_error_is_dropped) simp

section \<open>Order\<close>

text \<open>C1.
  No command is run, so no application is applied, before the instance was seen available and with an
  endpoint, the password reset job of a restored instance was seen succeeded, the Liquibase job was
  seen succeeded, the claim of the shared home exists, and its storage is ready: the NFS server, the
  bound FSx claim, or every single mount target.\<close>

theorem kubectl_after_prerequisites:
  assumes "create_keeps_key env" and "status_update_keeps_request env"
    and "reconcile_jira env jira w = (r, ys @ ev # zs, w')" and "runs ev"
    and "A \<in> set (app_prerequisites jira)"
  shows "\<exists>x \<in> set ys. A x"
  using everyD [OF prerequisites_before_runs [OF assms(1,2,5)] assms(3)] assms(4)
  unfolding precedes_def by blast

theorem kubectl_after_prerequisites_witness:
  "\<exists>r ys ev zs. reconcile_jira sample_env sample_jira () = (r, ys @ ev # zs, ()) \<and> runs ev
    \<and> (\<exists>x \<in> set ys. observed Kind_Job (changeset_key sample_jira) (\<lambda>ob. 1 \<le> sint (job_succeeded ob)) x)"
proof -
  obtain r ys ev zs where run: "reconcile_jira sample_env sample_jira () = (r, ys @ ev # zs, ())"
    and ev: "runs ev"
    using sample_run [OF reaches_runs [OF sample_env_hypotheses(3,4)]] by blast
  have "observed Kind_Job (changeset_key sample_jira) (\<lambda>ob. 1 \<le> sint (job_succeeded ob))
      \<in> set (app_prerequisites sample_jira)"
    by (simp add: app_prerequisites_def)
  from kubectl_after_prerequisites [OF sample_env_hypotheses(1,2) run ev this] run ev
  show ?thesis by blast
qed

text \<open>C2.
  The creation of the Liquibase job is not even attempted before the instance was seen available and
  with an endpoint, and, for a restored instance, the password reset job was seen succeeded.\<close>

theorem changeset_after_database:
  assumes "create_keeps_key env" and "status_update_keeps_request env"
    and "reconcile_jira env jira w = (r, ys @ ev # zs, w')"
    and "attempts Kind_Job (changeset_key jira) ev" and "A \<in> set (db_ready jira)"
  shows "\<exists>x \<in> set ys. A x"
  using everyD [OF prerequisites_before_changeset [OF assms(1,2,5)] assms(3)] assms(4)
  unfolding precedes_def by blast

theorem changeset_after_database_witness:
  "\<exists>r ys ev zs. reconcile_jira sample_env sample_jira () = (r, ys @ ev # zs, ())
    \<and> attempts Kind_Job (changeset_key sample_jira) ev
    \<and> (\<exists>x \<in> set ys. observed Kind_Job (reset_key sample_jira) (\<lambda>ob. 1 \<le> sint (job_succeeded ob)) x)"
proof -
  obtain r ys ev zs where run: "reconcile_jira sample_env sample_jira () = (r, ys @ ev # zs, ())"
    and ev: "attempts Kind_Job (changeset_key sample_jira) ev"
    using sample_run [OF reaches_changeset [OF sample_env_hypotheses(1-3)]] by blast
  have "observed Kind_Job (reset_key sample_jira) (\<lambda>ob. 1 \<le> sint (job_succeeded ob))
      \<in> set (db_ready sample_jira)"
    by (simp add: db_ready_def sample_defs)
  from changeset_after_database [OF sample_env_hypotheses(1,2) run ev this] run ev
  show ?thesis by blast
qed

section \<open>What a run touches\<close>

text \<open>C6.
  Every event of a run is within the inventory of the resource, a list of kinds and keys computed
  from the request alone, in which no two entries collide: it creates only those objects, updates only
  the secret and the ConfigMap among them, reads only them (and the volume behind a claim), writes
  back the same request, and runs only its three commands.\<close>

theorem reconcile_stays_within:
  assumes "create_keeps_key env" and "status_update_keeps_request env"
    and "reconcile_jira env jira w = (r, es, w')"
  shows "distinct (managed jira) \<and> (\<forall>ev \<in> set es. within jira ev)"
  using managed_distinct logs_run [OF within_reconcile_jira [OF assms(1,2)] assms(3)] by blast

theorem reconcile_stays_within_witness:
  "\<exists>r es. reconcile_jira sample_env sample_jira () = (r, es, ()) \<and> (\<forall>ev \<in> set es. within sample_jira ev)"
proof -
  obtain r es where run: "reconcile_jira sample_env sample_jira () = (r, es, ())"
    by (metis prod_cases3 old.unit.exhaust)
  with reconcile_stays_within [OF sample_env_hypotheses(1,2) run] show ?thesis by blast
qed

text \<open>C7.
  Every object a run creates, but for the service account and the two jobs, has the resource as its
  one controlling owner.\<close>

theorem created_objects_owned:
  assumes "create_keeps_key env" and "status_update_keeps_request env"
    and "reconcile_jira env jira w = (r, es, w')" and "Created ob e \<in> set es"
    and "obj_kind ob \<notin> {Kind_ServiceAccount, Kind_Job}"
  shows "controlled_by jira ob"
  using logs_run [OF within_reconcile_jira [OF assms(1,2)] assms(3,4)] assms(5)
  by (simp add: owned_or_job_def)

theorem created_objects_owned_witness:
  "\<exists>r es ob e. reconcile_jira sample_env sample_jira () = (r, es, ()) \<and> Created ob e \<in> set es
    \<and> obj_kind ob = Kind_VolumeSnapshotContent \<and> controlled_by sample_jira ob"
proof -
  obtain r ys ev zs where run: "reconcile_jira sample_env sample_jira () = (r, ys @ ev # zs, ())"
    and ev: "\<exists>ob e. ev = Created ob e \<and> obj_kind ob = Kind_VolumeSnapshotContent"
    using sample_run [OF reaches_snapshot_content [OF sample_env_hypotheses sample_storage]] by blast
  then obtain ob e where ob: "Created ob e \<in> set (ys @ ev # zs)" "obj_kind ob = Kind_VolumeSnapshotContent"
    by auto
  from created_objects_owned [OF sample_env_hypotheses(1,2) run ob(1)] ob(2)
  have "controlled_by sample_jira ob" by simp
  with run ob show ?thesis by blast
qed

text \<open>C36.
  A run follows a plan computed from the request alone: an order of the inventory. At any exit the
  objects it asked to create are a prefix of the plan, each once and in order, and a run in which a
  command was run has asked for the whole of it.\<close>

theorem run_follows_plan:
  assumes "create_keeps_key env" and "status_update_keeps_request env"
    and "reconcile_jira env jira w = (r, es, w')"
  shows "prefix (created_keys es) (plan jira) \<and> distinct (plan jira)
    \<and> set (plan jira) = set (managed jira)
    \<and> ((\<exists>ev \<in> set es. runs ev) \<longrightarrow> created_keys es = plan jira)"
  using everyD [OF run_creates_plan [OF assms(1,2)] assms(3)] plan_managed by blast

theorem run_follows_plan_witness:
  "\<exists>r es. reconcile_jira sample_env sample_jira () = (r, es, ()) \<and> created_keys es = plan sample_jira"
proof -
  obtain r ys ev zs where run: "reconcile_jira sample_env sample_jira () = (r, ys @ ev # zs, ())"
    and ev: "runs ev"
    using sample_run [OF reaches_runs [OF sample_env_hypotheses(3,4)]] by blast
  from run_follows_plan [OF sample_env_hypotheses(1,2) run] ev
  have "created_keys (ys @ ev # zs) = plan sample_jira" by auto
  with run show ?thesis by blast
qed

definition backend_kinds :: "Jira \<Rightarrow> kind set" where
  "backend_kinds jira =
     (if ebs_SnapshotId (Ebs (spec_SharedFS (Spec jira))) \<noteq> ''''
      then {Kind_EbsVolume, Kind_Service, Kind_StatefulSet}
      else if fsx_SnapshotId (Fsx (spec_SharedFS (Spec jira))) \<noteq> ''''
      then {Kind_VolumeSnapshotContent, Kind_VolumeSnapshot}
      else {Kind_FileSystem, Kind_MountTarget})"

definition storage_kinds :: "kind set" where
  "storage_kinds = {Kind_EbsVolume, Kind_Service, Kind_StatefulSet, Kind_VolumeSnapshotContent,
     Kind_VolumeSnapshot, Kind_FileSystem, Kind_MountTarget}"

text \<open>C8.
  A run creates the storage of one backend only: that of the EBS snapshot if one is given, otherwise
  that of the FSx snapshot if one is given, otherwise a new EFS file system.\<close>

theorem one_storage_backend:
  assumes "create_keeps_key env" and "status_update_keeps_request env"
    and "reconcile_jira env jira w = (r, es, w')" and "Created ob e \<in> set es"
    and "obj_kind ob \<in> storage_kinds"
  shows "obj_kind ob \<in> backend_kinds jira"
proof -
  have "(obj_kind ob, obj_key ob) \<in> set (managed jira)"
    using logs_run [OF within_reconcile_jira [OF assms(1,2)] assms(3,4)] by simp
  with assms(5) show ?thesis
    by (auto simp: inventory_defs backend_kinds_def storage_kinds_def split: if_splits)
qed

theorem one_storage_backend_witness:
  "\<exists>r es ob e. reconcile_jira sample_env sample_jira () = (r, es, ()) \<and> Created ob e \<in> set es
    \<and> obj_kind ob = Kind_VolumeSnapshotContent \<and> obj_kind ob \<in> backend_kinds sample_jira"
proof -
  obtain r ys ev zs where run: "reconcile_jira sample_env sample_jira () = (r, ys @ ev # zs, ())"
    and ev: "\<exists>ob e. ev = Created ob e \<and> obj_kind ob = Kind_VolumeSnapshotContent"
    using sample_run [OF reaches_snapshot_content [OF sample_env_hypotheses sample_storage]] by blast
  then obtain ob e where ob: "Created ob e \<in> set (ys @ ev # zs)" "obj_kind ob = Kind_VolumeSnapshotContent"
    by auto
  from one_storage_backend [OF sample_env_hypotheses(1,2) run ob(1)] ob(2)
  have "obj_kind ob \<in> backend_kinds sample_jira" by (simp add: storage_kinds_def)
  with run ob show ?thesis by blast
qed

end
